(* ===== verification/Prelude.thy ===== *)
theory Prelude
  imports Main "HOL-Library.AList" "HOL-Library.Word"
begin

text \<open>
  Shared vocabulary of the development: the machine integer types of the Rust sources, the
  result type, and the generic lemmas on lists, association lists and words that more than
  one component uses.

  Arithmetic on \<open>u32\<close>, \<open>u64\<close> and \<open>usize\<close> is arithmetic on words, so it wraps: this is
  what the release profile of the workspace does (\<open>Cargo.toml\<close> sets no
  \<open>overflow-checks\<close>); a debug build panics instead at the same places.
\<close>

type_synonym u8 = "8 word"
type_synonym u32 = "32 word"
type_synonym u64 = "64 word"
type_synonym usize = "64 word"

text \<open>\<open>i32\<close> values are only compared, copied and printed by the code, never added.\<close>

type_synonym i32 = int

text \<open>\<open>Result<T, E>\<close> is a sum: \<open>Inl\<close> the error, \<open>Inr\<close> the value.\<close>

type_synonym ('e, 'a) result = "'e + 'a"

named_theorems rust_str \<open>equations of the string operations\<close>
named_theorems rust_map \<open>equations of the hash map and hash set operations\<close>

definition is_ok :: "('e, 'a) result \<Rightarrow> bool" where
  "is_ok r = (case r of Inl _ \<Rightarrow> False | Inr _ \<Rightarrow> True)"

definition map_err :: "('e \<Rightarrow> 'f) \<Rightarrow> ('e, 'a) result \<Rightarrow> ('f, 'a) result" where
  "map_err f r = (case r of Inl e \<Rightarrow> Inl (f e) | Inr a \<Rightarrow> Inr a)"

lemma is_ok_simps [simp]: "is_ok (Inr a)" "\<not> is_ok (Inl e)"
  by (simp_all add: is_ok_def)

lemma is_ok_iff: "is_ok r \<longleftrightarrow> (\<exists>a. r = Inr a)"
  by (cases r) simp_all

lemma map_err_simps [simp]: "map_err f (Inl e) = Inl (f e)" "map_err f (Inr a) = Inr a"
  by (simp_all add: map_err_def)

lemma map_err_Inr_iff [simp]: "map_err f r = Inr a \<longleftrightarrow> r = Inr a"
  by (cases r) simp_all

text \<open>\<open>unwrap\<close>, \<open>unwrap_err\<close> and \<open>Option::unwrap\<close> in an assertion: a panic is a failure.\<close>

definition unwraps :: "('e, 'a) result \<Rightarrow> ('a \<Rightarrow> bool) \<Rightarrow> bool" where
  "unwraps r p = (case r of Inl e \<Rightarrow> False | Inr a \<Rightarrow> p a)"

definition unwraps_err :: "('e, 'a) result \<Rightarrow> ('e \<Rightarrow> bool) \<Rightarrow> bool" where
  "unwraps_err r p = (case r of Inl e \<Rightarrow> p e | Inr a \<Rightarrow> False)"

definition unwraps_some :: "'a option \<Rightarrow> ('a \<Rightarrow> bool) \<Rightarrow> bool" where
  "unwraps_some x p = (case x of None \<Rightarrow> False | Some a \<Rightarrow> p a)"

lemma unwraps_simps [simp]:
  "unwraps (Inr a) p = p a" "\<not> unwraps (Inl e) p"
  "unwraps_err (Inl e) q = q e" "\<not> unwraps_err (Inr a) q"
  "unwraps_some (Some b) r = r b" "\<not> unwraps_some None r"
  by (simp_all add: unwraps_def unwraps_err_def unwraps_some_def)

text \<open>Lists with a length bound: a word counter that does not wrap counts the list.\<close>

lemma unat_of_nat_small:
  fixes n :: nat
  assumes "n < 2 ^ LENGTH('a::len)"
  shows "unat (word_of_nat n :: 'a word) = n"
  using assms by (simp add: unat_of_nat take_bit_nat_eq_self)

lemma unat_Suc_no_wrap:
  fixes w :: "'a::len word"
  assumes "unat w < 2 ^ LENGTH('a) - 1"
  shows "unat (w + 1) = Suc (unat w)"
proof -
  have "Suc (unat w) < 2 ^ LENGTH('a)"
    using assms by linarith
  then show ?thesis
    by (simp add: unat_word_ariths)
qed

lemma unat_add_cases:
  fixes a b :: "'a::len word"
  shows "unat (a + b) = (if unat a + unat b < 2 ^ LENGTH('a) then unat a + unat b
    else unat a + unat b - 2 ^ LENGTH('a))"
  by (rule unat_plus_if')

lemma word_add_eq_0_cases:
  fixes a b :: "'a::len word"
  shows "a + b = 0 \<longleftrightarrow> unat a + unat b = 0 \<or> unat a + unat b = 2 ^ LENGTH('a)"
proof -
  have "a + b = 0 \<longleftrightarrow> unat (a + b) = 0"
    by (simp only: unat_eq_0)
  then show ?thesis
    using unsigned_less[of a] unsigned_less[of b]
    by (simp only: unat_add_cases) (auto simp del: unsigned_less)
qed

lemma distinct_filter_neq: "distinct xs \<Longrightarrow> distinct (filter (\<lambda>x. x \<noteq> a) xs)"
  by simp

lemma filter_neq_id: "a \<notin> set xs \<Longrightarrow> filter (\<lambda>x. x \<noteq> a) xs = xs"
  by (induction xs) auto

lemma length_filter_neq_distinct:
  "distinct xs \<Longrightarrow> a \<in> set xs \<Longrightarrow> Suc (length (filter (\<lambda>x. x \<noteq> a) xs)) = length xs"
  by (induction xs) (auto simp: filter_neq_id)

lemma takeWhile_append_dropWhile_id: "takeWhile P xs @ dropWhile P xs = xs"
  by simp

lemma concat_snoc: "concat (xs @ [x]) = concat xs @ x"
  by simp

subsection \<open>Counts\<close>

lemma count_list_le_length: "count_list xs a \<le> length xs"
  by (induction xs) auto

lemma count_list_remove1:
  "count_list (remove1 a xs) b = (if a = b \<and> a \<in> set xs then count_list xs b - 1 else count_list xs b)"
proof (induction xs)
  case (Cons x xs)
  show ?case
  proof (cases "x = a")
    case True
    then show ?thesis by simp
  next
    case False
    then show ?thesis using Cons by auto
  qed
qed simp

lemma count_list_remove1_le: "count_list (remove1 a xs) b \<le> count_list xs b"
  by (simp add: count_list_remove1)

end
