(* ===== verification/Runs.thy ===== *)
theory Runs
  imports Prelude
begin

text \<open>
  Runs of a component: a list of operations folded over its state. Two contracts, with what follows
  from them for whole runs proved once: an invariant every operation keeps, and an abstraction
  under which every operation is one of a specification.
\<close>

locale preserving =
  fixes step :: "'op \<Rightarrow> 's \<Rightarrow> 's"
    and inv :: "'s \<Rightarrow> bool"
  assumes step_inv: "inv s \<Longrightarrow> inv (step op s)"
begin

lemma run_inv: "inv s \<Longrightarrow> inv (fold step ops s)"
  by (induction ops arbitrary: s) (simp_all add: step_inv)

text \<open>A fact about the state that steps satisfying a condition keep, under the invariant.\<close>

lemma run_keeps:
  assumes "inv s" "holds s" "list_all allowed ops"
    and keeps: "\<And>op s. inv s \<Longrightarrow> holds s \<Longrightarrow> allowed op \<Longrightarrow> holds (step op s)"
  shows "holds (fold step ops s)"
  using assms(1-3) by (induction ops arbitrary: s) (simp_all add: step_inv keeps)

lemma run_relates:
  assumes "inv s" and refl: "\<And>s. rel s s" and trans: "\<And>a b c. rel a b \<Longrightarrow> rel b c \<Longrightarrow> rel a c"
    and steps: "\<And>op s. inv s \<Longrightarrow> rel s (step op s)"
  shows "rel s (fold step ops s)"
  using assms(1)
proof (induction ops arbitrary: s)
  case (Cons op ops)
  then show ?case
    using trans[OF steps[OF Cons.prems, of op]] step_inv by simp
qed (simp add: refl)

end

text \<open>
  A specification on a state of its own, with the relation between the two: every operation keeps it
  and answers as the specification allows.
\<close>

locale simulating =
  fixes step :: "'op \<Rightarrow> 's \<Rightarrow> 's"
    and reply :: "'op \<Rightarrow> 's \<Rightarrow> 'r"
    and spec :: "'op \<Rightarrow> 'a \<Rightarrow> 'a"
    and allows :: "'op \<Rightarrow> 'a \<Rightarrow> 'r \<Rightarrow> bool"
    and rel :: "'s \<Rightarrow> 'a \<Rightarrow> bool"
  assumes step_rel: "rel s a \<Longrightarrow> rel (step op s) (spec op a)"
    and reply_allowed: "rel s a \<Longrightarrow> allows op a (reply op s)"
begin

lemma run_rel: "rel s a \<Longrightarrow> rel (fold step ops s) (fold spec ops a)"
  by (induction ops arbitrary: s a) (simp_all add: step_rel)

lemma run_reply: "rel s a \<Longrightarrow> allows op (fold spec ops a) (reply op (fold step ops s))"
  by (rule reply_allowed[OF run_rel])

end

end
