(* ===== verification/Rust_Str.thy ===== *)
theory Rust_Str
  imports Prelude
begin

text \<open>
  Rust's \<open>String\<close> and \<open>str\<close> as the source uses them. A string is the list of its UTF-8
  bytes (HOL's \<open>char\<close> is a byte), so \<open>length\<close> is \<open>str::len\<close>. Where the source works
  on \<open>char\<close>s, \<open>utf8_chars\<close> cuts the bytes into one block per scalar value.
\<close>

subsection \<open>Characters\<close>

definition is_cont :: "char \<Rightarrow> bool" where
  "is_cont c \<longleftrightarrow> 128 \<le> (of_char c :: nat) \<and> (of_char c :: nat) < 192"

text \<open>\<open>str::is_char_boundary\<close>.\<close>

definition is_char_boundary :: "string \<Rightarrow> nat \<Rightarrow> bool" where
  "is_char_boundary s i \<longleftrightarrow>
     i = 0 \<or> i = length s \<or> (i < length s \<and> \<not> is_cont (s ! i))"

function utf8_chars :: "string \<Rightarrow> string list" where
  "utf8_chars [] = []"
| "utf8_chars (c # cs) = (c # takeWhile is_cont cs) # utf8_chars (dropWhile is_cont cs)"
  by pat_completeness auto
termination
  by (relation "measure length") (auto simp: less_Suc_eq_le length_dropWhile_le)

lemma concat_utf8_chars [simp]: "concat (utf8_chars s) = s"
  by (induction s rule: utf8_chars.induct) simp_all

lemma utf8_chars_nonempty: "ch \<in> set (utf8_chars s) \<Longrightarrow> ch \<noteq> []"
  by (induction s rule: utf8_chars.induct) auto

lemma utf8_chars_eq_Nil_iff [simp]: "utf8_chars s = [] \<longleftrightarrow> s = []"
  by (cases s) simp_all

text \<open>A string of ASCII bytes has one block per byte.\<close>

definition is_ascii :: "char \<Rightarrow> bool" where
  "is_ascii c \<longleftrightarrow> (of_char c :: nat) < 128"

lemma ascii_not_cont: "is_ascii c \<Longrightarrow> \<not> is_cont c"
  by (simp add: is_ascii_def is_cont_def)

lemma utf8_chars_ascii: "list_all is_ascii s \<Longrightarrow> utf8_chars s = map (\<lambda>c. [c]) s"
proof (induction s)
  case Nil
  then show ?case by simp
next
  case (Cons c s)
  have "takeWhile is_cont s = [] \<and> dropWhile is_cont s = s"
    using Cons.prems by (cases s) (auto simp: ascii_not_cont)
  with Cons show ?case by simp
qed

lemma utf8_chars_ascii_append:
  "list_all is_ascii a \<Longrightarrow> (b = [] \<or> \<not> is_cont (hd b)) \<Longrightarrow>
     utf8_chars (a @ b) = map (\<lambda>c. [c]) a @ utf8_chars b"
proof (induction a)
  case (Cons c a)
  have "takeWhile is_cont (a @ b) = [] \<and> dropWhile is_cont (a @ b) = a @ b"
    using Cons.prems by (cases a; cases b) (auto simp: ascii_not_cont)
  with Cons show ?case by simp
qed simp

text \<open>\<open>char::is_whitespace\<close>: the Unicode property \<open>White_Space\<close>, as UTF-8 blocks.\<close>

definition white_space :: "string list" where
  "white_space =
     [[CHR 0x09], [CHR 0x0A], [CHR 0x0B], [CHR 0x0C], [CHR 0x0D], [CHR 0x20],
      [CHR 0xC2, CHR 0x85], [CHR 0xC2, CHR 0xA0], [CHR 0xE1, CHR 0x9A, CHR 0x80],
      [CHR 0xE2, CHR 0x80, CHR 0x80], [CHR 0xE2, CHR 0x80, CHR 0x81],
      [CHR 0xE2, CHR 0x80, CHR 0x82], [CHR 0xE2, CHR 0x80, CHR 0x83],
      [CHR 0xE2, CHR 0x80, CHR 0x84], [CHR 0xE2, CHR 0x80, CHR 0x85],
      [CHR 0xE2, CHR 0x80, CHR 0x86], [CHR 0xE2, CHR 0x80, CHR 0x87],
      [CHR 0xE2, CHR 0x80, CHR 0x88], [CHR 0xE2, CHR 0x80, CHR 0x89],
      [CHR 0xE2, CHR 0x80, CHR 0x8A], [CHR 0xE2, CHR 0x80, CHR 0xA8],
      [CHR 0xE2, CHR 0x80, CHR 0xA9], [CHR 0xE2, CHR 0x80, CHR 0xAF],
      [CHR 0xE2, CHR 0x81, CHR 0x9F], [CHR 0xE3, CHR 0x80, CHR 0x80]]"

definition is_ws :: "string \<Rightarrow> bool" where
  "is_ws ch \<longleftrightarrow> ch \<in> set white_space"

definition ascii_digit :: "char \<Rightarrow> bool" where
  "ascii_digit c \<longleftrightarrow> 48 \<le> (of_char c :: nat) \<and> (of_char c :: nat) \<le> 57"

definition ascii_alnum :: "char \<Rightarrow> bool" where
  "ascii_alnum c \<longleftrightarrow> ascii_digit c
     \<or> (65 \<le> (of_char c :: nat) \<and> (of_char c :: nat) \<le> 90)
     \<or> (97 \<le> (of_char c :: nat) \<and> (of_char c :: nat) \<le> 122)"

text \<open>
  \<open>char::is_alphanumeric\<close>: for one-byte blocks the ASCII test; for the others the tables of
  the Unicode database that the standard library carries, the parameter \<open>ua\<close>.
\<close>

definition is_alphanumeric :: "(string \<Rightarrow> bool) \<Rightarrow> string \<Rightarrow> bool" where
  "is_alphanumeric ua ch = (case ch of [c] \<Rightarrow> ascii_alnum c | _ \<Rightarrow> ua ch)"

subsection \<open>Trimming\<close>

definition trim_start :: "string \<Rightarrow> string" where
  "trim_start s = concat (dropWhile is_ws (utf8_chars s))"

definition trim_end :: "string \<Rightarrow> string" where
  "trim_end s = concat (rev (dropWhile is_ws (rev (utf8_chars s))))"

definition trim :: "string \<Rightarrow> string" where
  "trim s = trim_end (trim_start s)"

definition trim_end_matches :: "char \<Rightarrow> string \<Rightarrow> string" where
  "trim_end_matches c s = rev (dropWhile ((=) c) (rev s))"

definition trim_matches :: "char \<Rightarrow> string \<Rightarrow> string" where
  "trim_matches c s = trim_end_matches c (dropWhile ((=) c) s)"

lemma trim_empty [simp]: "trim [] = []"
  by (simp add: trim_def trim_start_def trim_end_def)

lemma trim_end_matches_prefix: "\<exists>k. s = trim_end_matches c s @ replicate k c"
proof (intro exI)
  let ?d = "length (takeWhile ((=) c) (rev s))"
  have "takeWhile ((=) c) (rev s) = replicate ?d c"
    by (rule replicate_eqI) (auto dest: set_takeWhileD)
  then have "rev s = replicate ?d c @ dropWhile ((=) c) (rev s)"
    by (metis takeWhile_append_dropWhile_id)
  then have "rev (rev s) = rev (replicate ?d c @ dropWhile ((=) c) (rev s))"
    by (rule arg_cong)
  then show "s = trim_end_matches c s @ replicate ?d c"
    by (simp add: trim_end_matches_def)
qed

lemma trim_end_matches_last:
  "trim_end_matches c s \<noteq> [] \<Longrightarrow> last (trim_end_matches c s) \<noteq> c"
  unfolding trim_end_matches_def
  by (metis hd_dropWhile last_rev rev_is_Nil_conv)

subsection \<open>Searching\<close>

definition starts_with :: "string \<Rightarrow> string \<Rightarrow> bool" where
  "starts_with p s \<longleftrightarrow> take (length p) s = p"

definition strip_prefix :: "string \<Rightarrow> string \<Rightarrow> string option" where
  "strip_prefix p s = (if starts_with p s then Some (drop (length p) s) else None)"

definition strip_suffix :: "string \<Rightarrow> string \<Rightarrow> string option" where
  "strip_suffix p s =
     (if length p \<le> length s \<and> drop (length s - length p) s = p
      then Some (take (length s - length p) s) else None)"

fun str_find :: "string \<Rightarrow> string \<Rightarrow> nat option" where
  "str_find p [] = (if p = [] then Some 0 else None)"
| "str_find p (c # s) =
     (if starts_with p (c # s) then Some 0 else map_option Suc (str_find p s))"

fun str_rfind :: "string \<Rightarrow> string \<Rightarrow> nat option" where
  "str_rfind p [] = (if p = [] then Some 0 else None)"
| "str_rfind p (c # s) =
     (case str_rfind p s of
        Some i \<Rightarrow> Some (Suc i)
      | None \<Rightarrow> (if starts_with p (c # s) then Some 0 else None))"

definition str_contains :: "string \<Rightarrow> string \<Rightarrow> bool" where
  "str_contains s p = (case str_find p s of None \<Rightarrow> False | Some _ \<Rightarrow> True)"

lemma starts_with_append [simp]: "starts_with p (p @ s)"
  by (simp add: starts_with_def)

lemma starts_with_iff: "starts_with p s \<longleftrightarrow> (\<exists>r. s = p @ r)"
  by (metis append_eq_conv_conj append_take_drop_id starts_with_def)

lemma starts_with_code [code]:
  "starts_with [] s = True" "starts_with (c # p) [] = False"
  "starts_with (c # p) (d # s) \<longleftrightarrow> c = d \<and> starts_with p s"
  by (auto simp: starts_with_def)

lemma strip_prefix_Some_iff: "strip_prefix p s = Some r \<longleftrightarrow> s = p @ r"
  by (auto simp: strip_prefix_def starts_with_iff)

lemma strip_suffix_append [simp]: "strip_suffix p (s @ p) = Some s"
  by (simp add: strip_suffix_def)

lemma strip_suffix_Some_iff: "strip_suffix p s = Some r \<longleftrightarrow> s = r @ p"
proof
  assume "strip_suffix p s = Some r"
  then show "s = r @ p"
    by (metis append_take_drop_id option.distinct(1) option.inject strip_suffix_def)
qed simp

lemma str_find_Some:
  "str_find p s = Some i \<Longrightarrow> i \<le> length s \<and> starts_with p (drop i s)"
proof (induction s arbitrary: i)
  case Nil
  then show ?case by (simp add: starts_with_def split: if_splits)
next
  case (Cons c s)
  then show ?case by (auto split: if_splits)
qed

lemma str_find_None: "str_find p s = None \<longleftrightarrow> (\<forall>a b. s \<noteq> a @ p @ b)"
proof (induction s)
  case Nil
  then show ?case by simp
next
  case (Cons c s)
  show ?case
  proof
    assume *: "str_find p (c # s) = None"
    then have n: "\<not> starts_with p (c # s)" and "str_find p s = None"
      by (auto split: if_splits)
    then have t: "\<forall>a b. s \<noteq> a @ p @ b" using Cons by simp
    show "\<forall>a b. c # s \<noteq> a @ p @ b"
    proof (intro allI notI)
      fix a b assume e: "c # s = a @ p @ b"
      then show False using n t by (cases a) (auto simp: starts_with_iff)
    qed
  next
    assume "\<forall>a b. c # s \<noteq> a @ p @ b"
    then have "\<not> starts_with p (c # s)" and "\<forall>a b. s \<noteq> a @ p @ b"
      by (metis append_Nil starts_with_iff, metis append_Cons)
    then show "str_find p (c # s) = None" using Cons by simp
  qed
qed

lemma str_contains_iff: "str_contains s p \<longleftrightarrow> (\<exists>a b. s = a @ p @ b)"
proof -
  have "str_contains s p \<longleftrightarrow> str_find p s \<noteq> None"
    by (simp add: str_contains_def split: option.splits)
  then show ?thesis by (simp add: str_find_None del: not_None_eq)
qed

lemma str_contains_infix [simp]: "str_contains (a @ p @ b) p"
  by (auto simp: str_contains_iff)

lemma str_rfind_Some:
  "str_rfind p s = Some i \<Longrightarrow> i \<le> length s \<and> starts_with p (drop i s)"
proof (induction s arbitrary: i)
  case Nil
  then show ?case by (simp add: starts_with_def split: if_splits)
next
  case (Cons c s)
  then show ?case by (auto split: option.splits if_splits)
qed

lemma str_rfind_last:
  "str_rfind p s = Some i \<Longrightarrow> i < j \<Longrightarrow> j < length s \<Longrightarrow> \<not> starts_with p (drop j s)"
proof (induction s arbitrary: i j)
  case Nil
  then show ?case by simp
next
  case (Cons c s)
  obtain j' where j': "j = Suc j'" using Cons.prems(2) by (cases j) auto
  show ?case
  proof (cases "str_rfind p s")
    case None
    then have "\<not> starts_with p (drop k s)" if "k < length s" for k
      using that
    proof (induction s arbitrary: k)
      case (Cons d s)
      then show ?case by (cases k) (auto split: option.splits if_splits)
    qed simp
    with j' Cons.prems(3) show ?thesis by simp
  next
    case (Some i')
    with Cons.prems have "i = Suc i'" by simp
    with Some Cons.IH [of i' j'] Cons.prems j' show ?thesis by simp
  qed
qed

lemma str_rfind_exists: "starts_with p (drop k s) \<Longrightarrow> k < length s \<Longrightarrow> \<exists>i. str_rfind p s = Some i"
proof (induction s arbitrary: k)
  case (Cons c s)
  show ?case
  proof (cases k)
    case 0
    with Cons.prems show ?thesis by (auto split: option.splits)
  next
    case (Suc k')
    with Cons.prems have "\<exists>i. str_rfind p s = Some i" by (intro Cons.IH [of k']) simp_all
    then show ?thesis by auto
  qed
qed simp

subsection \<open>Splitting\<close>

fun split_once :: "char \<Rightarrow> string \<Rightarrow> (string \<times> string) option" where
  "split_once d [] = None"
| "split_once d (c # cs) =
     (if c = d then Some ([], cs)
      else map_option (\<lambda>(a, b). (c # a, b)) (split_once d cs))"

fun split_on :: "char \<Rightarrow> string \<Rightarrow> string list" where
  "split_on d [] = [[]]"
| "split_on d (c # cs) =
     (if c = d then [] # split_on d cs
      else (case split_on d cs of [] \<Rightarrow> [[c]] | w # ws \<Rightarrow> (c # w) # ws))"

text \<open>\<open>str::lines\<close>: a \<open>\r\<close> is dropped only before a \<open>\n\<close>; no empty last line.\<close>

definition strip_cr :: "string \<Rightarrow> string" where
  "strip_cr s = (case strip_suffix [CHR 0x0D] s of Some r \<Rightarrow> r | None \<Rightarrow> s)"

definition str_lines :: "string \<Rightarrow> string list" where
  "str_lines s =
     (let ps = split_on (CHR 0x0A) s
      in map strip_cr (butlast ps) @ (if last ps = [] then [] else [last ps]))"

fun join :: "string \<Rightarrow> string list \<Rightarrow> string" where
  "join d [] = []"
| "join d [w] = w"
| "join d (w # v # ws) = w @ d @ join d (v # ws)"

lemma split_once_append [simp]: "d \<notin> set a \<Longrightarrow> split_once d (a @ d # b) = Some (a, b)"
  by (induction a) auto

lemma split_once_SomeD: "split_once d s = Some (a, b) \<Longrightarrow> s = a @ d # b \<and> d \<notin> set a"
  by (induction s arbitrary: a) (auto split: if_splits)

lemma split_once_Some_iff:
  "split_once d s = Some (a, b) \<longleftrightarrow> s = a @ d # b \<and> d \<notin> set a"
  by (metis split_once_SomeD split_once_append)

lemma split_once_None_iff: "split_once d s = None \<longleftrightarrow> d \<notin> set s"
  by (induction s) auto

lemma split_on_nonempty [simp]: "split_on d s \<noteq> []"
  by (induction s) (auto split: list.splits)

lemma split_on_no_sep: "d \<notin> set s \<Longrightarrow> split_on d s = [s]"
  by (induction s) auto

lemma split_on_append: "d \<notin> set a \<Longrightarrow> split_on d (a @ d # b) = a # split_on d b"
  by (induction a) auto

lemma split_on_pieces: "w \<in> set (split_on d s) \<Longrightarrow> d \<notin> set w"
  by (induction s arbitrary: w) (auto split: if_splits list.splits)

lemma join_split_on: "join [d] (split_on d s) = s"
proof (induction s)
  case (Cons c s)
  show ?case
  proof (cases "split_on d s")
    case pieces: (Cons w ws)
    then show ?thesis using Cons.IH by (cases ws) auto
  qed simp
qed simp

lemma split_on_join:
  "ws \<noteq> [] \<Longrightarrow> \<forall>w\<in>set ws. d \<notin> set w \<Longrightarrow> split_on d (join [d] ws) = ws"
proof (induction ws rule: induct_list012)
  case (2 w)
  then show ?case by (simp add: split_on_no_sep)
next
  case (3 w v ws)
  then show ?case using split_on_append [of d w "join [d] (v # ws)"] by simp
qed simp

text \<open>Lines written one after the other are read back, when none ends in a carriage return.\<close>

lemma split_on_rows:
  "list_all (\<lambda>l. d \<notin> set l) ls \<Longrightarrow> split_on d (concat (map (\<lambda>l. l @ [d]) ls)) = ls @ [[]]"
  by (induction ls) (simp_all add: split_on_append)

definition line_ok :: "string \<Rightarrow> bool" where
  "line_ok l \<longleftrightarrow> CHR 0x0A \<notin> set l \<and> CHR 0x0D \<notin> set l"

lemma strip_cr_line_ok: "line_ok l \<Longrightarrow> strip_cr l = l"
  by (auto simp: strip_cr_def line_ok_def strip_suffix_Some_iff split: option.splits)

lemma str_lines_rows:
  assumes "list_all line_ok ls"
  shows "str_lines (concat (map (\<lambda>l. l @ [CHR 0x0A]) ls)) = ls"
proof -
  have "split_on (CHR 0x0A) (concat (map (\<lambda>l. l @ [CHR 0x0A]) ls)) = ls @ [[]]"
    using assms by (intro split_on_rows) (auto simp: list_all_iff line_ok_def)
  moreover have "map strip_cr ls = ls"
    using assms by (intro map_idI) (auto simp: list_all_iff strip_cr_line_ok)
  ultimately show ?thesis by (simp add: str_lines_def)
qed

lemma ascii_digit_ascii: "ascii_digit c \<Longrightarrow> is_ascii c"
  by (simp add: ascii_digit_def is_ascii_def)

lemma ascii_alnum_ascii: "ascii_alnum c \<Longrightarrow> is_ascii c"
  by (auto simp: ascii_alnum_def ascii_digit_def is_ascii_def)

end
