(* ===== verification/Rust_Num.thy ===== *)
theory Rust_Num
  imports Rust_Str
begin

text \<open>
  Numbers as text: \<open>Display\<close> and \<open>LowerHex\<close> of the integer types, and \<open>FromStr\<close> with the
  errors it reports (empty, a sign alone, a foreign character, a value out of range).
\<close>

definition digit_char :: "nat \<Rightarrow> char" where
  "digit_char d = char_of (if d < 10 then 48 + d else 87 + d)"

fun show_radix :: "nat \<Rightarrow> nat \<Rightarrow> string" where
  "show_radix r n =
     (if r < 2 \<or> n < r then [digit_char n] else show_radix r (n div r) @ [digit_char (n mod r)])"

declare show_radix.simps [simp del]

definition show_nat :: "nat \<Rightarrow> string" where
  "show_nat n = show_radix 10 n"

definition show_hex :: "nat \<Rightarrow> string" where
  "show_hex n = show_radix 16 n"

definition show_u64 :: "u64 \<Rightarrow> string" where
  "show_u64 w = show_nat (unat w)"

definition show_u32 :: "u32 \<Rightarrow> string" where
  "show_u32 w = show_nat (unat w)"

definition show_i32 :: "i32 \<Rightarrow> string" where
  "show_i32 i = (if i < 0 then CHR ''-'' # show_nat (nat (- i)) else show_nat (nat i))"

fun digits_value :: "nat \<Rightarrow> string \<Rightarrow> nat" where
  "digits_value acc [] = acc"
| "digits_value acc (c # cs) = digits_value (10 * acc + (of_char c - 48)) cs"

definition parse_digits :: "string \<Rightarrow> nat option" where
  "parse_digits s = (if s \<noteq> [] \<and> list_all ascii_digit s then Some (digits_value 0 s) else None)"

definition strip_char :: "char \<Rightarrow> string \<Rightarrow> string option" where
  "strip_char c s = (case s of [] \<Rightarrow> None | x # r \<Rightarrow> (if x = c then Some r else None))"

text \<open>An unsigned \<open>from_str\<close> for values below \<open>bound\<close>: a leading \<open>+\<close> is allowed.\<close>

definition parse_unsigned :: "nat \<Rightarrow> string \<Rightarrow> nat option" where
  "parse_unsigned bound s =
     (case parse_digits (case strip_char (CHR ''+'') s of Some r \<Rightarrow> r | None \<Rightarrow> s) of
        None \<Rightarrow> None
      | Some n \<Rightarrow> (if n < bound then Some n else None))"

definition parse_u64 :: "string \<Rightarrow> u64 option" where
  "parse_u64 s = map_option word_of_nat (parse_unsigned (2 ^ 64) s)"

definition parse_i32 :: "string \<Rightarrow> i32 option" where
  "parse_i32 s =
     (case strip_char (CHR ''-'') s of
        Some r \<Rightarrow>
          (case parse_digits r of
             Some n \<Rightarrow> (if n \<le> 2 ^ 31 then Some (- int n) else None)
           | None \<Rightarrow> None)
      | None \<Rightarrow> map_option int (parse_unsigned (2 ^ 31) s))"

subsection \<open>Printing then parsing\<close>

lemma of_char_digit_char: "d < 10 \<Longrightarrow> (of_char (digit_char d) :: nat) = 48 + d"
  by (simp add: digit_char_def)

lemma ascii_digit_digit_char: "d < 10 \<Longrightarrow> ascii_digit (digit_char d)"
  by (simp add: ascii_digit_def of_char_digit_char)

lemma digits_value_append:
  "digits_value acc (xs @ [c]) = 10 * digits_value acc xs + (of_char c - 48)"
  by (induction xs arbitrary: acc) simp_all

lemma show_radix_10:
  "show_radix 10 n \<noteq> [] \<and> list_all ascii_digit (show_radix 10 n)
     \<and> digits_value 0 (show_radix 10 n) = n"
proof (induction n rule: less_induct)
  case (less n)
  show ?case
  proof (cases "n < 10")
    case True
    then show ?thesis
      by (simp add: show_radix.simps [of 10 n] ascii_digit_digit_char of_char_digit_char)
  next
    case False
    then have "n div 10 < n" by simp
    from less.IH [OF this] False show ?thesis
      by (simp add: show_radix.simps [of 10 n] ascii_digit_digit_char of_char_digit_char
          digits_value_append)
  qed
qed

lemma parse_digits_show_nat [simp]: "parse_digits (show_nat n) = Some n"
  using show_radix_10 [of n] by (simp add: parse_digits_def show_nat_def)

lemma show_nat_digits: "list_all ascii_digit (show_nat n)"
  using show_radix_10 [of n] by (simp add: show_nat_def)

lemma show_nat_ascii: "list_all is_ascii (show_nat n)"
  using show_nat_digits [of n] by (auto simp: list_all_iff ascii_digit_ascii)

lemma show_nat_nonempty [simp]: "show_nat n \<noteq> []"
  using show_radix_10 [of n] by (simp add: show_nat_def)

lemma show_nat_inject [simp]: "show_nat m = show_nat n \<longleftrightarrow> m = n"
  by (metis option.inject parse_digits_show_nat)

lemma show_nat_head: "hd (show_nat n) \<noteq> c" if "\<not> ascii_digit c"
  using show_nat_digits [of n] that by (cases "show_nat n") auto

lemma not_in_show_nat: "\<not> ascii_digit c \<Longrightarrow> c \<notin> set (show_nat n)"
  using show_nat_digits [of n] by (auto simp: list_all_iff)

lemma strip_char_digits:
  "list_all ascii_digit s \<Longrightarrow> \<not> ascii_digit c \<Longrightarrow> strip_char c s = None"
  by (cases s) (auto simp: strip_char_def)

lemma sign_not_digit [simp]: "\<not> ascii_digit (CHR ''+'')" "\<not> ascii_digit (CHR ''-'')"
  by (simp_all add: ascii_digit_def)

lemma strip_char_Some: "strip_char c s = Some r \<longleftrightarrow> s = c # r"
  by (cases s) (auto simp: strip_char_def)

lemma parse_unsigned_show_nat [simp]:
  "parse_unsigned b (show_nat n) = (if n < b then Some n else None)"
  by (simp add: parse_unsigned_def strip_char_digits show_nat_digits)

lemma parse_u64_show_u64 [simp]: "parse_u64 (show_u64 w) = Some w"
proof -
  have "unat w < 2 ^ 64" using unsigned_less [of w] by simp
  then show ?thesis by (simp add: parse_u64_def show_u64_def del: power_numeral)
qed

lemma parse_unsigned_bound: "parse_unsigned b s = Some n \<Longrightarrow> n < b"
  by (auto simp: parse_unsigned_def split: option.splits if_splits)

lemma parse_digits_SomeD: "parse_digits s = Some n \<Longrightarrow> s \<noteq> [] \<and> list_all ascii_digit s"
  by (simp add: parse_digits_def split: if_splits)

lemma parse_unsigned_SomeD:
  assumes "parse_unsigned b s = Some n"
  shows "s \<noteq> [] \<and> (\<forall>c\<in>set s. ascii_digit c \<or> c = CHR ''+'')"
  using assms
  by (auto simp: parse_unsigned_def strip_char_Some list_all_iff
      split: option.splits if_splits dest!: parse_digits_SomeD)

lemma parse_u64_digits:
  "parse_u64 s = Some w \<Longrightarrow> s \<noteq> [] \<and> (\<forall>c\<in>set s. ascii_digit c \<or> c = CHR ''+'')"
  by (auto simp: parse_u64_def dest: parse_unsigned_SomeD)

lemma parse_i32_show_nat: "n < 2 ^ 31 \<Longrightarrow> parse_i32 (show_nat n) = Some (int n)"
  by (simp add: parse_i32_def strip_char_digits show_nat_digits del: power_numeral)

lemma parse_i32_show_i32:
  assumes "- (2 ^ 31) \<le> i" and "i < 2 ^ 31"
  shows "parse_i32 (show_i32 i) = Some i"
proof (cases "i < 0")
  case True
  then have "nat (- i) \<le> 2 ^ 31" using assms by simp
  with True show ?thesis
    by (simp add: parse_i32_def show_i32_def strip_char_def del: power_numeral)
next
  case False
  then have "nat i < 2 ^ 31" using assms by simp
  with False show ?thesis
    by (simp add: show_i32_def parse_i32_show_nat del: power_numeral)
qed

subsection \<open>Bytes of a number\<close>

text \<open>A length of four bytes, the most significant first.\<close>

definition from_be :: "string \<Rightarrow> nat" where
  "from_be bs = foldl (\<lambda>n c. n * 256 + of_char c) 0 bs"

definition to_be32 :: "nat \<Rightarrow> string" where
  "to_be32 n = map char_of [n div 256 ^ 3 mod 256, n div 256 ^ 2 mod 256, n div 256 mod 256, n mod 256]"

lemma length_to_be32 [simp]: "length (to_be32 n) = 4"
  by (simp add: to_be32_def)

lemma from_be_to_be32:
  assumes "n < 2 ^ 32"
  shows "from_be (to_be32 n) = n"
proof -
  have div: "n div 65536 = n div 256 div 256" "n div 16777216 = n div 256 div 256 div 256"
    by (simp_all flip: div_mult2_eq)
  have "m = 256 * (m div 256) + m mod 256" for m :: nat
    by simp
  from this[of n] this[of "n div 256"] this[of "n div 256 div 256"]
  have "n = 16777216 * (n div 256 div 256 div 256) + 65536 * (n div 256 div 256 mod 256)
      + n div 256 mod 256 * 256 + n mod 256"
    by linarith
  moreover have "n div 256 div 256 div 256 mod 256 = n div 256 div 256 div 256"
    using assms by (simp flip: div)
  ultimately show ?thesis
    by (simp add: from_be_def to_be32_def div)
qed

end
