(* ===== verification/Rust_Map.thy ===== *)
theory Rust_Map
  imports Prelude
begin

text \<open>
  \<open>std::collections::HashMap\<close> and \<open>HashSet\<close>. A map is the association list of its entries in
  the order an iteration visits them; that order is unspecified in Rust, so a theorem about a
  map speaks of every list with distinct keys. A set is a list without repetition.

  The locale \<open>keyed_store\<close> is the interface the stateful components use (sessions, cached
  responses, WASM sandboxes, execution logs): what a lookup returns after an insertion, a
  removal or a sweep. Its laws are proved of the hash map model once, below.
\<close>

type_synonym ('k, 'v) hash_map = "('k \<times> 'v) list"
type_synonym 'a hash_set = "'a list"

definition hm_get :: "('k, 'v) hash_map \<Rightarrow> 'k \<Rightarrow> 'v option" where
  "hm_get m k = map_of m k"

definition hm_insert :: "'k \<Rightarrow> 'v \<Rightarrow> ('k, 'v) hash_map \<Rightarrow> ('k, 'v) hash_map" where
  "hm_insert k v m = AList.update k v m"

definition hm_remove :: "'k \<Rightarrow> ('k, 'v) hash_map \<Rightarrow> ('k, 'v) hash_map" where
  "hm_remove k m = filter (\<lambda>e. fst e \<noteq> k) m"

definition hm_retain :: "('k \<Rightarrow> 'v \<Rightarrow> bool) \<Rightarrow> ('k, 'v) hash_map \<Rightarrow> ('k, 'v) hash_map" where
  "hm_retain P m = filter (\<lambda>e. P (fst e) (snd e)) m"

definition hm_wf :: "('k, 'v) hash_map \<Rightarrow> bool" where
  "hm_wf m \<longleftrightarrow> distinct (map fst m)"

definition hs_insert :: "'a \<Rightarrow> 'a hash_set \<Rightarrow> 'a hash_set" where
  "hs_insert x xs = (if x \<in> set xs then xs else xs @ [x])"

definition hs_remove :: "'a \<Rightarrow> 'a hash_set \<Rightarrow> 'a hash_set" where
  "hs_remove x xs = filter (\<lambda>y. y \<noteq> x) xs"

subsection \<open>The laws of the model\<close>

lemma hm_get_empty [simp]: "hm_get [] k = None"
  by (simp add: hm_get_def)

lemma hm_get_insert [simp]: "hm_get (hm_insert k v m) k' = (if k' = k then Some v else hm_get m k')"
  by (simp add: hm_get_def hm_insert_def update_conv')

lemma hm_get_remove [simp]: "hm_get (hm_remove k m) k' = (if k' = k then None else hm_get m k')"
  unfolding hm_get_def hm_remove_def
  by (induction m) auto

lemma hm_get_retain:
  "hm_wf m \<Longrightarrow> hm_get (hm_retain P m) k =
     (case hm_get m k of Some v \<Rightarrow> (if P k v then Some v else None) | None \<Rightarrow> None)"
  unfolding hm_get_def hm_retain_def hm_wf_def
  by (induction m) (auto split: option.splits simp: map_of_eq_None_iff image_iff)

lemma hm_wf_empty [simp]: "hm_wf []"
  by (simp add: hm_wf_def)

lemma hm_wf_insert [simp]: "hm_wf m \<Longrightarrow> hm_wf (hm_insert k v m)"
  by (simp add: hm_wf_def hm_insert_def distinct_update)

lemma hm_wf_remove [simp]: "hm_wf m \<Longrightarrow> hm_wf (hm_remove k m)"
  by (simp add: hm_wf_def hm_remove_def distinct_map_filter)

lemma hm_wf_retain [simp]: "hm_wf m \<Longrightarrow> hm_wf (hm_retain P m)"
  by (simp add: hm_wf_def hm_retain_def distinct_map_filter)

lemma hm_get_Some_iff: "hm_wf m \<Longrightarrow> hm_get m k = Some v \<longleftrightarrow> (k, v) \<in> set m"
  by (simp add: hm_get_def hm_wf_def)

lemma hm_get_Some_in: "hm_get m k = Some v \<Longrightarrow> (k, v) \<in> set m"
  by (simp add: hm_get_def map_of_SomeD)

lemma hm_get_None_iff: "hm_get m k = None \<longleftrightarrow> k \<notin> fst ` set m"
  by (simp add: hm_get_def map_of_eq_None_iff)

lemma hm_insert_entries:
  "e \<in> set (hm_insert k v m) \<Longrightarrow> e = (k, v) \<or> e \<in> set m"
  unfolding hm_insert_def by (induction m) (auto split: if_splits)

lemma length_hm_insert:
  "length (hm_insert k v m) = (case hm_get m k of None \<Rightarrow> Suc (length m) | Some _ \<Rightarrow> length m)"
  unfolding hm_insert_def hm_get_def by (induction m) (auto split: option.splits)

lemma filter_other_keys: "k \<notin> fst ` set m \<Longrightarrow> filter (\<lambda>e. fst e \<noteq> k) m = m"
  by (induction m) auto

lemma length_hm_insert_others:
  "hm_wf m \<Longrightarrow> length (hm_insert k v m) = Suc (length (filter (\<lambda>e. fst e \<noteq> k) m))"
proof (induction m)
  case (Cons e m)
  then show ?case
    by (cases e) (auto simp: hm_insert_def hm_wf_def filter_other_keys)
qed (simp add: hm_insert_def)

lemma length_hm_retain: "length (hm_retain P m) \<le> length m"
  by (simp add: hm_retain_def)

lemma hm_get_cons [simp]: "hm_get ((k, v) # m) k' = (if k' = k then Some v else hm_get m k')"
  by (simp add: hm_get_def)

lemma hm_insert_nil [simp]: "hm_insert k v [] = [(k, v)]"
  by (simp add: hm_insert_def)

lemma hm_insert_cons [simp]:
  "hm_insert k v ((k', v') # m) = (if k' = k then (k, v) # m else (k', v') # hm_insert k v m)"
  by (simp add: hm_insert_def)

lemma set_hs_insert [simp]: "set (hs_insert x xs) = insert x (set xs)"
  by (auto simp: hs_insert_def)

lemma distinct_hs_insert [simp]: "distinct xs \<Longrightarrow> distinct (hs_insert x xs)"
  by (simp add: hs_insert_def)

lemma set_hs_remove [simp]: "set (hs_remove x xs) = set xs - {x}"
  by (auto simp: hs_remove_def)

lemma distinct_hs_remove [simp]: "distinct xs \<Longrightarrow> distinct (hs_remove x xs)"
  by (simp add: hs_remove_def)

lemma length_hs_insert: "length (hs_insert x xs) = (if x \<in> set xs then length xs else Suc (length xs))"
  by (simp add: hs_insert_def)

lemma length_hs_insert_le: "length (hs_insert x xs) \<le> Suc (length xs)"
  by (simp add: hs_insert_def)

lemma length_hs_remove_le: "length (hs_remove x xs) \<le> length xs"
  by (simp add: hs_remove_def)

lemmas hm_laws = hm_get_empty hm_get_insert hm_get_remove hm_wf_empty hm_wf_insert hm_wf_remove

subsection \<open>The interface of a keyed store\<close>

locale keyed_store =
  fixes empty :: "'m"
    and lookup :: "'m \<Rightarrow> 'k \<Rightarrow> 'v option"
    and put :: "'k \<Rightarrow> 'v \<Rightarrow> 'm \<Rightarrow> 'm"
    and del :: "'k \<Rightarrow> 'm \<Rightarrow> 'm"
    and ok :: "'m \<Rightarrow> bool"
  assumes lookup_empty: "lookup empty k = None"
    and lookup_put: "ok m \<Longrightarrow> lookup (put k v m) k' = (if k' = k then Some v else lookup m k')"
    and lookup_del: "ok m \<Longrightarrow> lookup (del k m) k' = (if k' = k then None else lookup m k')"
    and ok_empty: "ok empty"
    and ok_put: "ok m \<Longrightarrow> ok (put k v m)"
    and ok_del: "ok m \<Longrightarrow> ok (del k m)"
begin

lemma lookup_put_same: "ok m \<Longrightarrow> lookup (put k v m) k = Some v"
  by (simp add: lookup_put)

lemma lookup_put_other: "ok m \<Longrightarrow> k' \<noteq> k \<Longrightarrow> lookup (put k v m) k' = lookup m k'"
  by (simp add: lookup_put)

lemma put_put_other:
  "ok m \<Longrightarrow> k \<noteq> k' \<Longrightarrow> lookup (put k v (put k' v' m)) = lookup (put k' v' (put k v m))"
  by (rule ext) (simp add: lookup_put ok_put)

lemma put_overwrites: "ok m \<Longrightarrow> lookup (put k v (put k v' m)) = lookup (put k v m)"
  by (rule ext) (simp add: lookup_put ok_put)

lemma del_put: "ok m \<Longrightarrow> lookup m k = None \<Longrightarrow> lookup (del k (put k v m)) = lookup m"
  by (rule ext) (simp add: lookup_put lookup_del ok_put)

lemma del_all:
  "ok m \<Longrightarrow> lookup (fold del ks m) k = (if k \<in> set ks then None else lookup m k) \<and> ok (fold del ks m)"
  by (induction ks arbitrary: m) (auto simp: lookup_del ok_del)

end

text \<open>A store that can also be swept: entries that fail a test are dropped in one pass.\<close>

locale swept_store = keyed_store +
  fixes sweep :: "('b \<Rightarrow> 'c \<Rightarrow> bool) \<Rightarrow> 'a \<Rightarrow> 'a"
  assumes lookup_sweep: "ok m \<Longrightarrow> lookup (sweep P m) k =
      (case lookup m k of Some v \<Rightarrow> (if P k v then Some v else None) | None \<Rightarrow> None)"
    and ok_sweep: "ok m \<Longrightarrow> ok (sweep P m)"
begin

lemma sweep_keeps: "ok m \<Longrightarrow> lookup m k = Some v \<Longrightarrow> P k v \<Longrightarrow> lookup (sweep P m) k = Some v"
  by (simp add: lookup_sweep)

lemma sweep_drops: "ok m \<Longrightarrow> lookup m k = Some v \<Longrightarrow> \<not> P k v \<Longrightarrow> lookup (sweep P m) k = None"
  by (simp add: lookup_sweep)

lemma sweep_invents_nothing:
  "ok m \<Longrightarrow> lookup (sweep P m) k = Some v \<Longrightarrow> lookup m k = Some v \<and> P k v"
  by (simp add: lookup_sweep split: option.splits if_splits)

end

interpretation hm: swept_store "[]" hm_get hm_insert hm_remove hm_wf hm_retain
  by unfold_locales (simp_all add: hm_get_retain)

end
