(* ===== verification/Float64.thy ===== *)
theory Float64
  imports Rust_Num Complex_Main "HOL-Library.Log_Nat"
begin

text \<open>
  \<open>f64\<close>: IEEE 754 binary64 as the source uses it. A finite value is its exact rational; the two
  zeros are one value (no operation of the source tells them apart). An arithmetic result is
  the exact one rounded to the nearest representable value, ties to even.
\<close>

datatype f64 = F_nan | F_inf bool | F_fin rat

definition pow2 :: "int \<Rightarrow> rat" where
  "pow2 e = (if 0 \<le> e then 2 ^ nat e else 1 / 2 ^ nat (- e))"

text \<open>\<open>ilog2 q\<close> is the exponent \<open>e\<close> with \<open>2^e \<le> q < 2^(e+1)\<close>, for positive \<open>q\<close>.\<close>

definition ilog2 :: "rat \<Rightarrow> int" where
  "ilog2 q =
     (let (n, d) = quotient_of q; k = int (nat (bitlen n)) - int (nat (bitlen d))
      in if pow2 k * of_int d \<le> of_int n then k else k - 1)"

definition round_even :: "rat \<Rightarrow> int" where
  "round_even q =
     (let f = \<lfloor>q\<rfloor>; d = q - of_int f
      in if d < 1 / 2 then f else if 1 / 2 < d then f + 1 else if even f then f else f + 1)"

definition f64_round :: "rat \<Rightarrow> f64" where
  "f64_round q =
     (if q = 0 then F_fin 0
      else let e = max (ilog2 \<bar>q\<bar> - 52) (-1074);
               r = of_int (round_even (q / pow2 e)) * pow2 e
           in if 2 ^ 1024 \<le> \<bar>r\<bar> then F_inf (q < 0) else F_fin r)"

subsection \<open>The operations the source uses\<close>

definition f64_of_u64 :: "u64 \<Rightarrow> f64" where
  "f64_of_u64 w = f64_round (of_nat (unat w))"

fun f64_add :: "f64 \<Rightarrow> f64 \<Rightarrow> f64" where
  "f64_add (F_fin a) (F_fin b) = f64_round (a + b)"
| "f64_add (F_inf s) (F_inf t) = (if s = t then F_inf s else F_nan)"
| "f64_add (F_inf s) (F_fin b) = F_inf s"
| "f64_add (F_fin a) (F_inf t) = F_inf t"
| "f64_add F_nan y = F_nan"
| "f64_add x F_nan = F_nan"

fun f64_mul :: "f64 \<Rightarrow> f64 \<Rightarrow> f64" where
  "f64_mul (F_fin a) (F_fin b) = f64_round (a * b)"
| "f64_mul (F_inf s) (F_inf t) = F_inf (s \<noteq> t)"
| "f64_mul (F_inf s) (F_fin b) = (if b = 0 then F_nan else F_inf (s \<noteq> (b < 0)))"
| "f64_mul (F_fin a) (F_inf t) = (if a = 0 then F_nan else F_inf (t \<noteq> (a < 0)))"
| "f64_mul F_nan y = F_nan"
| "f64_mul x F_nan = F_nan"

text \<open>\<open>x >= y\<close>; every comparison with a NaN is false.\<close>

text \<open>Division; zero has no sign here and counts as positive.\<close>

fun f64_div :: "f64 \<Rightarrow> f64 \<Rightarrow> f64" where
  "f64_div (F_fin a) (F_fin b) =
     (if b \<noteq> 0 then f64_round (a / b) else if a = 0 then F_nan else F_inf (a < 0))"
| "f64_div (F_inf s) (F_inf t) = F_nan"
| "f64_div (F_inf s) (F_fin b) = F_inf (s \<noteq> (b < 0))"
| "f64_div (F_fin a) (F_inf t) = F_fin 0"
| "f64_div F_nan y = F_nan"
| "f64_div x F_nan = F_nan"

fun f64_ge :: "f64 \<Rightarrow> f64 \<Rightarrow> bool" where
  "f64_ge F_nan y = False"
| "f64_ge x F_nan = False"
| "f64_ge (F_fin a) (F_fin b) = (b \<le> a)"
| "f64_ge (F_inf s) (F_inf t) = (\<not> s \<or> t)"
| "f64_ge (F_inf s) (F_fin b) = (\<not> s)"
| "f64_ge (F_fin a) (F_inf t) = t"

fun f64_pos :: "f64 \<Rightarrow> bool" where
  "f64_pos F_nan = False"
| "f64_pos (F_inf s) = (\<not> s)"
| "f64_pos (F_fin a) = (0 < a)"

definition trunc_rat :: "rat \<Rightarrow> int" where
  "trunc_rat q = (if q < 0 then \<lceil>q\<rceil> else \<lfloor>q\<rfloor>)"

text \<open>\<open>x as uN\<close>: truncation, saturating at the bounds, 0 for a NaN.\<close>

fun f64_to_unsigned :: "nat \<Rightarrow> f64 \<Rightarrow> nat" where
  "f64_to_unsigned n F_nan = 0"
| "f64_to_unsigned n (F_inf s) = (if s then 0 else 2 ^ n - 1)"
| "f64_to_unsigned n (F_fin q) = nat (min (2 ^ n - 1) (trunc_rat q))"

definition f64_to_u64 :: "f64 \<Rightarrow> u64" where
  "f64_to_u64 x = word_of_nat (f64_to_unsigned 64 x)"

definition f64_to_u32 :: "f64 \<Rightarrow> u32" where
  "f64_to_u32 x = word_of_nat (f64_to_unsigned 32 x)"

definition f64_to_u8 :: "f64 \<Rightarrow> u8" where
  "f64_to_u8 x = word_of_nat (f64_to_unsigned 8 x)"

fun f64_ceil :: "f64 \<Rightarrow> f64" where
  "f64_ceil (F_fin q) = F_fin (of_int \<lceil>q\<rceil>)"
| "f64_ceil x = x"

subsection \<open>Reading a decimal number\<close>

text \<open>
  \<open>f64::from_str\<close>: an optional sign; \<open>inf\<close>, \<open>infinity\<close> or \<open>nan\<close> in any case; or digits with
  an optional point (at least one digit in all) and an optional exponent.
\<close>

definition ascii_lower :: "char \<Rightarrow> char" where
  "ascii_lower c =
     (if 65 \<le> (of_char c :: nat) \<and> (of_char c :: nat) \<le> 90 then char_of ((of_char c :: nat) + 32) else c)"

definition to_ascii_lower :: "string \<Rightarrow> string" where
  "to_ascii_lower s = map ascii_lower s"

definition parse_exponent :: "string \<Rightarrow> int option" where
  "parse_exponent s =
     (case strip_char (CHR ''-'') s of
        Some r \<Rightarrow> map_option (\<lambda>n. - int n) (parse_digits r)
      | None \<Rightarrow> map_option int
          (parse_digits (case strip_char (CHR ''+'') s of Some r \<Rightarrow> r | None \<Rightarrow> s)))"

definition pow10 :: "int \<Rightarrow> rat" where
  "pow10 e = (if 0 \<le> e then 10 ^ nat e else 1 / 10 ^ nat (- e))"

definition parse_decimal :: "string \<Rightarrow> rat option" where
  "parse_decimal s =
     (let whole = takeWhile ascii_digit s;
          r1 = dropWhile ascii_digit s;
          (frac, r2) = (case strip_char (CHR ''.'') r1 of
             Some t \<Rightarrow> (takeWhile ascii_digit t, dropWhile ascii_digit t)
           | None \<Rightarrow> ([], r1));
          m = of_nat (digits_value 0 (whole @ frac)) * pow10 (- int (length frac))
      in if whole = [] \<and> frac = [] then None
         else (case r2 of
             [] \<Rightarrow> Some m
           | c # t \<Rightarrow>
               (if c = CHR ''e'' \<or> c = CHR ''E''
                then map_option (\<lambda>e. m * pow10 e) (parse_exponent t) else None)))"

definition parse_f64_unsigned :: "string \<Rightarrow> f64 option" where
  "parse_f64_unsigned s =
     (let l = to_ascii_lower s
      in if l = ''inf'' \<or> l = ''infinity'' then Some (F_inf False)
         else if l = ''nan'' then Some F_nan
         else map_option f64_round (parse_decimal s))"

fun f64_neg :: "f64 \<Rightarrow> f64" where
  "f64_neg F_nan = F_nan"
| "f64_neg (F_inf s) = F_inf (\<not> s)"
| "f64_neg (F_fin q) = F_fin (- q)"

definition parse_f64 :: "string \<Rightarrow> f64 option" where
  "parse_f64 s =
     (case strip_char (CHR ''-'') s of
        Some r \<Rightarrow> map_option f64_neg (parse_f64_unsigned r)
      | None \<Rightarrow>
          parse_f64_unsigned (case strip_char (CHR ''+'') s of Some r \<Rightarrow> r | None \<Rightarrow> s))"

subsection \<open>Printing with a fixed number of decimals\<close>

text \<open>\<open>{:.0}\<close> and \<open>{:.1}\<close>: the exact value rounded to the last printed digit, ties to even.\<close>

definition fmt_sign :: "rat \<Rightarrow> string" where
  "fmt_sign q = (if q < 0 then ''-'' else [])"

fun fmt_0 :: "f64 \<Rightarrow> string" where
  "fmt_0 F_nan = ''NaN''"
| "fmt_0 (F_inf s) = (if s then ''-inf'' else ''inf'')"
| "fmt_0 (F_fin q) = fmt_sign q @ show_nat (nat (round_even \<bar>q\<bar>))"

fun fmt_1 :: "f64 \<Rightarrow> string" where
  "fmt_1 F_nan = ''NaN''"
| "fmt_1 (F_inf s) = (if s then ''-inf'' else ''inf'')"
| "fmt_1 (F_fin q) =
     (let n = nat (round_even (\<bar>q\<bar> * 10))
      in fmt_sign q @ show_nat (n div 10) @ ''.'' @ show_nat (n mod 10))"

subsection \<open>Exponents and rounding\<close>

lemma pow2_pos [simp]: "0 < pow2 e"
  by (simp add: pow2_def)

lemma pow2_neq_0 [simp]: "pow2 e \<noteq> 0"
  by (simp add: pow2_def)

lemma pow2_powi: "pow2 e = 2 powi e"
  by (simp add: pow2_def power_int_def power_inverse inverse_eq_divide power_divide)

lemma pow2_add: "pow2 (a + b) = pow2 a * pow2 b"
  by (simp add: pow2_powi power_int_add)

lemma pow2_mono: "a \<le> b \<Longrightarrow> pow2 a \<le> pow2 b"
  by (simp add: pow2_powi power_int_increasing)

lemma pow2_of_nat: "pow2 (int n) = 2 ^ n"
  by (simp add: pow2_def)

lemma bitlen_pow2:
  assumes "0 < n"
  shows "pow2 (bitlen n - 1) \<le> of_int n" "of_int n < pow2 (bitlen n)"
proof -
  have b: "0 < bitlen n"
    using bitlen_bounds[OF assms] assms by (cases "0 < bitlen n") auto
  have "2 ^ nat (bitlen n - 1) \<le> n" "n < 2 ^ nat (bitlen n)"
    using bitlen_bounds[OF assms] by simp_all
  then have "of_int (2 ^ nat (bitlen n - 1)) \<le> (of_int n :: rat)" "(of_int n :: rat) < of_int (2 ^ nat (bitlen n))"
    unfolding of_int_le_iff of_int_less_iff by simp_all
  then show "pow2 (bitlen n - 1) \<le> of_int n" "of_int n < pow2 (bitlen n)"
    using b by (simp_all add: pow2_def)
qed

text \<open>\<open>ilog2\<close> is the exponent it stands for.\<close>

lemma ilog2_bounds:
  assumes "0 < q"
  shows "pow2 (ilog2 q) \<le> q" "q < pow2 (ilog2 q + 1)"
proof -
  obtain n d where q: "quotient_of q = (n, d)" by fastforce
  have d: "0 < d" using quotient_of_denom_pos[OF q] .
  have eq: "q = of_int n / of_int d" using quotient_of_div[OF q] .
  have n: "0 < n" using assms d by (simp add: eq zero_less_divide_iff)
  define k where "k = bitlen n - bitlen d"
  have k: "int (nat (bitlen n)) - int (nat (bitlen d)) = k"
    by (simp add: k_def bitlen_nonneg)
  have "of_int n < pow2 (bitlen n)" "pow2 (bitlen d - 1) \<le> of_int d"
    using bitlen_pow2 n d by blast+
  then have "of_int n < pow2 (k + 1) * of_int d"
    by (smt (verit) k_def pow2_add mult_left_mono pow2_pos less_le_trans less_imp_le)
  then have upper: "q < pow2 (k + 1)"
    using d by (simp add: eq field_simps)
  have "pow2 (bitlen n - 1) \<le> of_int n" "of_int d < pow2 (bitlen d)"
    using bitlen_pow2 n d by blast+
  then have "pow2 (k - 1) * of_int d \<le> of_int n"
    by (smt (verit) k_def pow2_add mult_left_mono pow2_pos order_trans less_imp_le)
  then have lower: "pow2 (k - 1) \<le> q"
    using d by (simp add: eq field_simps)
  have split: "pow2 k * of_int d \<le> of_int n \<longleftrightarrow> pow2 k \<le> q"
    using d by (simp add: eq field_simps)
  have "ilog2 q = (if pow2 k \<le> q then k else k - 1)"
    by (simp only: ilog2_def q Let_def prod.case k split)
  then show "pow2 (ilog2 q) \<le> q" "q < pow2 (ilog2 q + 1)"
    using upper lower by auto
qed

lemma ilog2_unique:
  assumes "pow2 e \<le> q" "q < pow2 (e + 1)"
  shows "ilog2 q = e"
proof -
  have "0 < q" using pow2_pos[of e] assms(1) by linarith
  from ilog2_bounds[OF this] show ?thesis
    using assms pow2_mono[of "ilog2 q + 1" e] pow2_mono[of "e + 1" "ilog2 q"] by linarith
qed

lemma round_even_bounds:
  "q \<le> of_int m \<Longrightarrow> round_even q \<le> m" "of_int l \<le> q \<Longrightarrow> l \<le> round_even q"
proof -
  assume "q \<le> of_int m"
  then have "\<lfloor>q\<rfloor> < m \<or> q = of_int m"
    by (metis floor_less_iff order_le_less)
  then show "round_even q \<le> m"
    by (auto simp: round_even_def Let_def)
next
  assume "of_int l \<le> q"
  then have "l \<le> \<lfloor>q\<rfloor>" by (simp add: le_floor_iff)
  then show "l \<le> round_even q"
    by (simp add: round_even_def Let_def)
qed

text \<open>Rounding to 53 bits, given the exponent of the last one.\<close>

lemma f64_round_at:
  assumes "pow2 (e + 52) \<le> q" "q < pow2 (e + 53)" "- 1074 \<le> e" "e \<le> 970"
  shows "f64_round q = F_fin (of_int (round_even (q / pow2 e)) * pow2 e)"
proof -
  let ?m = "round_even (q / pow2 e)"
  have pos: "0 < q" using pow2_pos[of "e + 52"] assms(1) by linarith
  then have e: "max (ilog2 \<bar>q\<bar> - 52) (- 1074) = e"
    using ilog2_unique[of "e + 52" q] assms by (simp add: add.assoc)
  have "q / pow2 e \<le> of_int (2 ^ 53)"
    using assms(2) pow2_add[of e 53] pow2_of_nat[of 53] by (simp add: pos_divide_le_eq mult.commute)
  then have m: "?m \<le> 2 ^ 53" "0 \<le> ?m"
    using round_even_bounds(1)[of _ "2 ^ 53"] round_even_bounds(2)[of 0] pos by (blast, simp add: less_imp_le)
  have "of_int ?m * pow2 e \<le> of_int (2 ^ 53) * pow2 970"
    using m assms(4) by (intro mult_mono pow2_mono) (simp_all only: of_int_le_iff of_int_0_le_iff pow2_pos less_imp_le)
  also have "\<dots> = pow2 1023"
    using pow2_add[of 53 970] pow2_of_nat[of 53] by simp
  also have "\<dots> < 2 ^ 1024"
    by (simp add: pow2_def)
  finally have r: "\<not> 2 ^ 1024 \<le> \<bar>of_int ?m * pow2 e\<bar>"
    using m(2) by (simp only: abs_mult abs_of_nonneg of_int_0_le_iff less_imp_le[OF pow2_pos] not_le)
  have "q \<noteq> 0" using pos by simp
  then show ?thesis
    unfolding f64_round_def e by (simp only: Let_def r if_False)
qed

lemma round_even_nearest:
  assumes "\<bar>q - of_int m\<bar> < 1 / 2"
  shows "round_even q = m"
proof -
  have "\<lfloor>q\<rfloor> = m \<or> \<lfloor>q\<rfloor> = m - 1"
  proof (cases "of_int m \<le> q")
    case True
    then show ?thesis using assms by (intro disjI1 floor_unique) auto
  next
    case False
    then show ?thesis using assms by (intro disjI2 floor_unique) auto
  qed
  then show ?thesis
    using assms by (auto simp: round_even_def Let_def abs_less_iff field_simps)
qed

corollary f64_round_near:
  assumes "- 1074 \<le> e" "e \<le> 970" "pow2 (e + 52) \<le> q" "q < pow2 (e + 53)" "\<bar>q / pow2 e - of_int m\<bar> < 1 / 2"
  shows "f64_round q = F_fin (of_int m * pow2 e)"
  using f64_round_at[OF assms(3,4,1,2)] round_even_nearest[OF assms(5)] by simp

corollary f64_roundI:
  assumes "pow2 (e + 52) \<le> q" "q < pow2 (e + 53)" "\<bar>q / pow2 e - of_int m\<bar> < 1 / 2"
    and "- 1074 \<le> e" "e \<le> 970" "of_int m * pow2 e = x"
  shows "f64_round q = F_fin x"
  using f64_round_near[OF assms(4,5,1,2,3)] assms(6) by simp

lemma f64_to_u64_floor:
  assumes "of_nat n \<le> q" "q < of_nat n + 1" "n < 2 ^ 64"
  shows "f64_to_u64 (F_fin q) = word_of_nat n"
proof -
  have "trunc_rat q = int n"
    using assms(1,2) of_nat_0_le_iff[of n, where 'a = rat] by (auto simp: trunc_rat_def intro!: floor_unique)
  moreover have "int n \<le> 2 ^ 64 - 1"
    using assms(3) by simp
  ultimately show ?thesis
    by (simp add: f64_to_u64_def min_def)
qed

text \<open>The relative error of rounding, for the magnitudes that do not leave the range.\<close>

lemma round_even_error: "\<bar>of_int (round_even q) - q\<bar> \<le> 1 / 2"
proof -
  have "of_int \<lfloor>q\<rfloor> \<le> q" "q < of_int \<lfloor>q\<rfloor> + 1"
    by linarith+
  then show ?thesis
    by (auto simp: round_even_def Let_def abs_le_iff)
qed

lemma f64_round_rel:
  assumes "1 / 4 \<le> q" and "q \<le> 2 ^ 100"
  shows "\<exists>r. f64_round q = F_fin r \<and> \<bar>r - q\<bar> \<le> q / 2 ^ 53"
proof -
  define e where "e = ilog2 q - 52"
  have "0 < q" using assms(1) by (rule less_le_trans [rotated]) simp
  note b = ilog2_bounds[OF this]
  have "- 3 < ilog2 q"
  proof (rule ccontr)
    assume "\<not> - 3 < ilog2 q"
    then have "pow2 (ilog2 q + 1) \<le> pow2 (- 2)" by (intro pow2_mono) simp
    then show False using b(2) assms(1) by (simp add: pow2_def)
  qed
  moreover have "ilog2 q < 101"
  proof (rule ccontr)
    assume "\<not> ilog2 q < 101"
    then have "pow2 101 \<le> pow2 (ilog2 q)" by (intro pow2_mono) simp
    then show False using b(1) assms(2) by (simp add: pow2_def)
  qed
  ultimately have at: "f64_round q = F_fin (of_int (round_even (q / pow2 e)) * pow2 e)"
    using b by (intro f64_round_at) (simp_all add: e_def add.commute)
  let ?r = "of_int (round_even (q / pow2 e)) * pow2 e"
  have "?r - q = (of_int (round_even (q / pow2 e)) - q / pow2 e) * pow2 e"
    by (simp add: left_diff_distrib)
  then have "\<bar>?r - q\<bar> = \<bar>of_int (round_even (q / pow2 e)) - q / pow2 e\<bar> * pow2 e"
    by (simp only: abs_mult abs_of_nonneg[OF less_imp_le[OF pow2_pos]])
  also have "\<dots> \<le> 1 / 2 * pow2 e"
    by (intro mult_right_mono round_even_error less_imp_le pow2_pos)
  also have "\<dots> = pow2 (ilog2 q) / 2 ^ 53"
    using pow2_add[of e 52] pow2_of_nat[of 52] by (simp add: e_def)
  also have "\<dots> \<le> q / 2 ^ 53"
    using b(1) by (intro divide_right_mono) simp_all
  finally show ?thesis using at by blast
qed

subsection \<open>Integers below \<open>2^53\<close> are exact\<close>

lemma round_even_of_int [simp]: "round_even (of_int i) = i"
  by (simp add: round_even_def)

lemma ilog2_of_nat_less:
  assumes "0 < n" and "n < 2 ^ k"
  shows "ilog2 (of_nat n) < int k"
proof (rule ccontr)
  assume "\<not> ilog2 (of_nat n) < int k"
  then have "2 ^ k \<le> pow2 (ilog2 (of_nat n))"
    using pow2_mono[of "int k"] by (simp add: pow2_of_nat)
  moreover have "pow2 (ilog2 (of_nat n)) \<le> of_nat n"
    using ilog2_bounds(1)[of "of_nat n"] assms(1) by simp
  ultimately have "2 ^ k \<le> (of_nat n :: rat)" by (rule order_trans)
  then show False
    using assms(2) by (metis not_le of_nat_le_iff of_nat_numeral of_nat_power)
qed

lemma f64_round_of_nat_exact:
  assumes "n < 2 ^ 53"
  shows "f64_round (of_nat n) = F_fin (of_nat n)"
proof (cases "n = 0")
  case True
  then show ?thesis by (simp add: f64_round_def)
next
  case False
  define e where "e = max (ilog2 (of_nat n) - 52) (-1074)"
  have "ilog2 (of_nat n) < int 53"
    using False assms by (intro ilog2_of_nat_less) simp_all
  then have "e \<le> 0" by (simp add: e_def)
  then have p: "of_nat n / pow2 e = of_int (int n * 2 ^ nat (- e))"
    by (auto simp: pow2_def)
  have "of_int (round_even (of_nat n / pow2 e)) * pow2 e = (of_nat n :: rat)"
    unfolding p round_even_of_int by (subst p [symmetric]) simp
  moreover have "(of_nat n :: rat) < 2 ^ 1024"
  proof -
    have "n < 2 ^ 1024"
      using assms by (rule less_le_trans) simp
    then show ?thesis
      by (metis of_nat_less_iff of_nat_numeral of_nat_power)
  qed
  ultimately show ?thesis
    using False by (simp add: f64_round_def e_def Let_def)
qed

corollary f64_round_numeral: "numeral n < (2 ^ 53 :: nat) \<Longrightarrow> f64_round (numeral n) = F_fin (numeral n)"
  using f64_round_of_nat_exact[of "numeral n"] by simp

corollary f64_round_1 [simp]: "f64_round 1 = F_fin 1"
  using f64_round_of_nat_exact[of 1] by simp

corollary f64_of_u64_exact:
  assumes "n < 2 ^ 53"
  shows "f64_of_u64 (word_of_nat n) = F_fin (of_nat n)"
proof -
  have "unat (word_of_nat n :: u64) = n"
    using assms by (intro unat_of_nat_small) simp
  then show ?thesis
    using assms by (simp add: f64_of_u64_def f64_round_of_nat_exact)
qed

lemma f64_round_0 [simp]: "f64_round 0 = F_fin 0"
  by (simp add: f64_round_def)

end
