(* ===== verification/Rust_Text.thy ===== *)
theory Rust_Text
  imports Float64
begin

text \<open>
  Two conversions of the standard library that the providers apply to what they pass to and read
  from a process: \<open>String::from_utf8_lossy\<close> of its output, and \<open>Display\<close> of a \<open>f64\<close>.
\<close>

subsection \<open>\<open>String::from_utf8_lossy\<close>\<close>

definition byte_in :: "nat \<Rightarrow> nat \<Rightarrow> char \<Rightarrow> bool" where
  "byte_in a b c \<longleftrightarrow> a \<le> (of_char c :: nat) \<and> (of_char c :: nat) \<le> b"

definition replacement_char :: string where
  "replacement_char = [CHR 0xEF, CHR 0xBF, CHR 0xBD]"

text \<open>The byte ranges of the continuation bytes a first byte asks for; \<open>None\<close>: no first byte.\<close>

definition utf8_tail :: "char \<Rightarrow> (nat \<times> nat) list option" where
  "utf8_tail c =
     (if byte_in 0 0x7F c then Some []
      else if byte_in 0xC2 0xDF c then Some [(0x80, 0xBF)]
      else if byte_in 0xE0 0xE0 c then Some [(0xA0, 0xBF), (0x80, 0xBF)]
      else if byte_in 0xED 0xED c then Some [(0x80, 0x9F), (0x80, 0xBF)]
      else if byte_in 0xE1 0xEF c then Some [(0x80, 0xBF), (0x80, 0xBF)]
      else if byte_in 0xF0 0xF0 c then Some [(0x90, 0xBF), (0x80, 0xBF), (0x80, 0xBF)]
      else if byte_in 0xF1 0xF3 c then Some [(0x80, 0xBF), (0x80, 0xBF), (0x80, 0xBF)]
      else if byte_in 0xF4 0xF4 c then Some [(0x80, 0x8F), (0x80, 0xBF), (0x80, 0xBF)]
      else None)"

text \<open>How many of the ranges the following bytes match, in order.\<close>

fun utf8_match :: "(nat \<times> nat) list \<Rightarrow> string \<Rightarrow> nat" where
  "utf8_match [] s = 0"
| "utf8_match (r # rs) [] = 0"
| "utf8_match (r # rs) (c # s) = (if byte_in (fst r) (snd r) c then Suc (utf8_match rs s) else 0)"

function from_utf8_lossy :: "string \<Rightarrow> string" where
  "from_utf8_lossy [] = []"
| "from_utf8_lossy (c # s) =
     (case utf8_tail c of
        None \<Rightarrow> replacement_char @ from_utf8_lossy s
      | Some rs \<Rightarrow>
          (let n = utf8_match rs s
           in if n = length rs then c # take n s @ from_utf8_lossy (drop n s)
              else replacement_char @ from_utf8_lossy (drop n s)))"
  by pat_completeness auto
termination by (relation "measure length") auto

lemma from_utf8_lossy_ascii_cons:
  "is_ascii c \<Longrightarrow> from_utf8_lossy (c # s) = c # from_utf8_lossy s"
  by (simp add: utf8_tail_def byte_in_def is_ascii_def)

lemma from_utf8_lossy_ascii: "list_all is_ascii s \<Longrightarrow> from_utf8_lossy s = s"
  by (induction s) (simp_all add: from_utf8_lossy_ascii_cons del: from_utf8_lossy.simps(2))

subsection \<open>\<open>Display\<close> of a \<open>f64\<close>\<close>

text \<open>
  The shortest decimal that reads back as the value, the closest of them, written without an
  exponent. \<open>decimal_exp q\<close> is the exponent of the leading digit of a positive \<open>q\<close>.
\<close>

definition decimal_exp :: "rat \<Rightarrow> int" where
  "decimal_exp q =
     (if 1 \<le> q then int (length (show_nat (nat \<lfloor>q\<rfloor>))) - 1
      else - int (length (show_nat (nat (\<lceil>1 / q\<rceil> - 1)))))"

definition decimal_candidates :: "rat \<Rightarrow> nat \<Rightarrow> (int \<times> int) list" where
  "decimal_candidates q n =
     (let e = decimal_exp q - int n + 1; near = round_even (q / pow10 e)
      in [(near, e), (near - 1, e), (near + 1, e)])"

definition shortest_decimal :: "rat \<Rightarrow> (int \<times> int) option" where
  "shortest_decimal q =
     List.find (\<lambda>(m, e). f64_round (of_int m * pow10 e) = F_fin q)
       (concat (map (decimal_candidates q) [1..<18]))"

definition show_decimal :: "int \<times> int \<Rightarrow> string" where
  "show_decimal me =
     (case me of (m, e) \<Rightarrow>
        let ds = show_nat (nat m); k = nat (- e)
        in if 0 \<le> e then ds @ replicate (nat e) (CHR ''0'')
           else if length ds \<le> k then ''0.'' @ replicate (k - length ds) (CHR ''0'') @ ds
           else take (length ds - k) ds @ CHR ''.'' # drop (length ds - k) ds)"

fun f64_display :: "f64 \<Rightarrow> string" where
  "f64_display F_nan = ''NaN''"
| "f64_display (F_inf s) = (if s then ''-inf'' else ''inf'')"
| "f64_display (F_fin q) =
     (if q = 0 then ''0''
      else (if q < 0 then ''-'' else []) @
        (case shortest_decimal \<bar>q\<bar> of Some me \<Rightarrow> show_decimal me | None \<Rightarrow> []))"

end
