(* ===== verification/Rust_Path.thy ===== *)
theory Rust_Path
  imports Rust_Map Rust_Str
begin

text \<open>
  The parts of \<open>std::path\<close> and \<open>std::fs\<close> the program uses. A path is its text. A file system is
  a map of files and a list of directories; the failures the operating system may report at any
  call are part of its state: \<open>fs_fault n\<close> is the error of the \<open>n\<close>-th call, if it fails.
\<close>

subsection \<open>Paths\<close>

definition path_join :: "string \<Rightarrow> string \<Rightarrow> string" where
  "path_join a b =
     (if starts_with ''/'' b then b
      else if a = [] \<or> last a = CHR ''/'' then a @ b
      else a @ CHR ''/'' # b)"

definition blank_part :: "string \<Rightarrow> bool" where
  "blank_part c \<longleftrightarrow> c = [] \<or> c = ''.''"

text \<open>What precedes the components: the root, a leading dot or nothing.\<close>

definition path_start :: "string \<Rightarrow> string" where
  "path_start p = (if starts_with ''/'' p then ''/'' else if p = ''.'' \<or> starts_with ''./'' p then ''.'' else [])"

text \<open>The components from the last to the first, without those that are blank at the end.\<close>

definition path_parts_back :: "string \<Rightarrow> string list" where
  "path_parts_back p = dropWhile blank_part (rev (split_on (CHR ''/'') (drop (length (path_start p)) p)))"

definition path_file_name :: "string \<Rightarrow> string option" where
  "path_file_name p =
     (case path_parts_back p of
        [] \<Rightarrow> None
      | c # _ \<Rightarrow> (if c = ''..'' then None else Some c))"

definition path_parent :: "string \<Rightarrow> string option" where
  "path_parent p =
     (case path_parts_back p of
        [] \<Rightarrow> (if path_start p = ''.'' then Some [] else None)
      | _ # cs \<Rightarrow> Some (path_start p @ join ''/'' (rev (dropWhile blank_part cs))))"

lemma path_examples:
  "path_parent ''/app/x.txt'' = Some ''/app''" "path_file_name ''/app/x.txt'' = Some ''x.txt''"
  "path_parent ''x'' = Some []" "path_parent ''/'' = None" "path_parent ''a//b/./'' = Some ''a''"
  "path_file_name ''a/..'' = None" "path_parent ''./a'' = Some ''.''" "path_join ''/h'' ''x'' = ''/h/x''"
  by code_simp+

subsection \<open>Files and directories\<close>

record fs =
  fs_files :: "(string, string) hash_map"
  fs_dirs :: "string list"
  fs_fault :: "nat \<Rightarrow> string option"
  fs_calls :: nat

type_synonym 'a fs_io = "fs \<Rightarrow> (string, 'a) result \<times> fs"

text \<open>A call that may fail for a reason of its own.\<close>

definition fs_call :: "'a fs_io \<Rightarrow> 'a fs_io" where
  "fs_call f s =
     (case fs_fault s (fs_calls s) of
        Some e \<Rightarrow> (Inl e, s\<lparr>fs_calls := Suc (fs_calls s)\<rparr>)
      | None \<Rightarrow> f (s\<lparr>fs_calls := Suc (fs_calls s)\<rparr>))"

definition not_found_error :: string where
  "not_found_error = ''No such file or directory (os error 2)''"

definition fs_exists :: "string \<Rightarrow> fs \<Rightarrow> bool" where
  "fs_exists p s \<longleftrightarrow> hm_get (fs_files s) p \<noteq> None \<or> p \<in> set (fs_dirs s)"

text \<open>A path and the directories above it.\<close>

definition path_chain :: "string \<Rightarrow> string list" where
  "path_chain p =
     map (\<lambda>i. take i p) (filter (\<lambda>i. 0 < i \<and> p ! i = CHR ''/'') [0..<length p]) @ [p]"

definition create_dir_all :: "string \<Rightarrow> unit fs_io" where
  "create_dir_all p = fs_call (\<lambda>s.
     if list_ex (\<lambda>q. hm_get (fs_files s) q \<noteq> None) (path_chain p)
     then (Inl ''File exists (os error 17)'', s)
     else (Inr (), s\<lparr>fs_dirs := fold hs_insert (path_chain p) (fs_dirs s)\<rparr>))"

definition read_to_string :: "string \<Rightarrow> string fs_io" where
  "read_to_string p = fs_call (\<lambda>s.
     case hm_get (fs_files s) p of Some t \<Rightarrow> (Inr t, s) | None \<Rightarrow> (Inl not_found_error, s))"

definition write_file :: "string \<Rightarrow> string \<Rightarrow> unit fs_io" where
  "write_file p t = fs_call (\<lambda>s.
     if p \<in> set (fs_dirs s) then (Inl ''Is a directory (os error 21)'', s)
     else (Inr (), s\<lparr>fs_files := hm_insert p t (fs_files s)\<rparr>))"

definition copy_file :: "string \<Rightarrow> string \<Rightarrow> unit fs_io" where
  "copy_file src dest = fs_call (\<lambda>s.
     case hm_get (fs_files s) src of
       None \<Rightarrow> (Inl not_found_error, s)
     | Some t \<Rightarrow>
         (if dest \<in> set (fs_dirs s) then (Inl ''Is a directory (os error 21)'', s)
          else (Inr (), s\<lparr>fs_files := hm_insert dest t (fs_files s)\<rparr>)))"

definition remove_file :: "string \<Rightarrow> unit fs_io" where
  "remove_file p = fs_call (\<lambda>s.
     if hm_get (fs_files s) p = None then (Inl not_found_error, s)
     else (Inr (), s\<lparr>fs_files := hm_remove p (fs_files s)\<rparr>))"

text \<open>A path is below a directory when it is the directory or goes on after it with a slash.\<close>

definition below :: "string \<Rightarrow> string \<Rightarrow> bool" where
  "below d p \<longleftrightarrow> p = d \<or> starts_with (d @ ''/'') p"

definition remove_dir_all :: "string \<Rightarrow> unit fs_io" where
  "remove_dir_all d = fs_call (\<lambda>s.
     if d \<notin> set (fs_dirs s) then (Inl not_found_error, s)
     else (Inr (), s\<lparr>fs_dirs := filter (\<lambda>p. \<not> below d p) (fs_dirs s),
                    fs_files := hm_retain (\<lambda>p _. \<not> below d p) (fs_files s)\<rparr>))"

text \<open>The names of the directories right below a directory.\<close>

definition sub_dirs :: "string \<Rightarrow> fs \<Rightarrow> string list" where
  "sub_dirs d s =
     List.map_filter (\<lambda>p. case strip_prefix (d @ ''/'') p of
         Some n \<Rightarrow> (if n \<noteq> [] \<and> CHR ''/'' \<notin> set n then Some n else None)
       | None \<Rightarrow> None) (fs_dirs s)"

definition read_sub_dirs :: "string \<Rightarrow> string list fs_io" where
  "read_sub_dirs d = fs_call (\<lambda>s. (Inr (sub_dirs d s), s))"

lemma path_chain_self: "p \<in> set (path_chain p)"
  by (simp add: path_chain_def)

lemma path_chain_le: "q \<in> set (path_chain p) \<Longrightarrow> q = p \<or> length q < length p"
  by (auto simp: path_chain_def)

lemma set_fold_hs_insert [simp]: "set (fold hs_insert xs ys) = set xs \<union> set ys"
  by (induction xs arbitrary: ys) auto

lemma fs_call_ok: "fs_fault s = (\<lambda>_. None) \<Longrightarrow> fs_call f s = f (s\<lparr>fs_calls := Suc (fs_calls s)\<rparr>)"
  by (simp add: fs_call_def)

lemma fs_fault_kept [simp]:
  "fs_fault (snd (create_dir_all p s)) = fs_fault s" "fs_fault (snd (read_to_string p s)) = fs_fault s"
  "fs_fault (snd (write_file p t s)) = fs_fault s" "fs_fault (snd (copy_file p q s)) = fs_fault s"
  "fs_fault (snd (remove_dir_all p s)) = fs_fault s" "fs_fault (snd (remove_file p s)) = fs_fault s"
  "fs_fault (snd (read_sub_dirs p s)) = fs_fault s"
  by (simp_all add: create_dir_all_def read_to_string_def write_file_def copy_file_def remove_dir_all_def
      remove_file_def read_sub_dirs_def fs_call_def split: option.split)

lemma below_self [simp]: "below d d"
  by (simp add: below_def)

text \<open>A single component.\<close>

definition plain_name :: "string \<Rightarrow> bool" where
  "plain_name n \<longleftrightarrow> n \<noteq> [] \<and> CHR ''/'' \<notin> set n"

lemma plain_name_start: "plain_name n \<Longrightarrow> \<not> starts_with ''/'' n"
  by (auto simp: plain_name_def starts_with_iff)

lemma path_join_last:
  assumes "plain_name n"
  shows "path_join a n \<noteq> [] \<and> last (path_join a n) \<noteq> CHR ''/''"
proof -
  have "last n \<noteq> CHR ''/''"
    using assms last_in_set[of n] by (metis plain_name_def)
  then show ?thesis
    using assms by (auto simp: path_join_def plain_name_start plain_name_def)
qed

lemma path_join_join:
  "plain_name n \<Longrightarrow> plain_name k \<Longrightarrow> path_join (path_join a n) k = path_join a n @ ''/'' @ k"
  using path_join_last[of n a] by (simp add: path_join_def[of "path_join a n"] plain_name_start)

lemma below_join: "below d (d @ ''/'' @ k)"
  using starts_with_append[of "d @ ''/''" k] by (simp add: below_def)

lemma below_length: "below d p \<Longrightarrow> length d \<le> length p"
  by (auto simp: below_def starts_with_iff)

lemma hm_retain_insert_drop:
  "\<not> P k \<Longrightarrow> hm_retain (\<lambda>k _. P k) (hm_insert k v m) = hm_retain (\<lambda>k _. P k) m"
  unfolding hm_retain_def hm_insert_def by (induction m) auto

lemma hm_retain_all: "list_all (\<lambda>e. P (fst e)) m \<Longrightarrow> hm_retain (\<lambda>k _. P k) m = m"
  by (simp add: hm_retain_def list_all_iff)

end
