(* ===== verification/Types.thy ===== *)
theory Types
  imports Rust_Map Float64
begin

text \<open>
  The data model of \<open>roche-core\<close>: \<open>types.rs\<close>, the errors of \<open>provider/mod.rs\<close> and the trace
  types of \<open>sensor/types.rs\<close>. Field names carry a prefix for the struct they belong to. A
  \<open>HashMap<String, String>\<close> is a \<open>hash_map\<close>; a \<open>f32\<close> of the source is only copied, and is
  carried as a \<open>f64\<close> value.
\<close>

type_synonym sandbox_id = string
type_synonym f32 = f64

subsection \<open>\<open>types.rs\<close>\<close>

record mount_config =
  mc_host_path :: string
  mc_container_path :: string
  mc_readonly :: bool

record sandbox_config =
  sc_provider :: string
  sc_image :: string
  sc_memory :: "string option"
  sc_cpus :: "f64 option"
  sc_timeout_secs :: u64
  sc_network :: bool
  sc_writable :: bool
  sc_env :: "(string, string) hash_map"
  sc_mounts :: "mount_config list"
  sc_kernel :: "string option"
  sc_rootfs :: "string option"
  sc_trace_enabled :: bool
  sc_network_allowlist :: "string list"
  sc_fs_paths :: "string list"

definition default_image :: string where
  "default_image = ''python:3.12-slim''"

definition default_timeout :: u64 where
  "default_timeout = 300"

definition default_true :: bool where
  "default_true = True"

definition sandbox_config_default :: sandbox_config where
  "sandbox_config_default =
     \<lparr>sc_provider = ''docker'', sc_image = default_image, sc_memory = None, sc_cpus = None,
      sc_timeout_secs = default_timeout, sc_network = False, sc_writable = False, sc_env = [],
      sc_mounts = [], sc_kernel = None, sc_rootfs = None, sc_trace_enabled = True,
      sc_network_allowlist = [], sc_fs_paths = []\<rparr>"

datatype sandbox_status = Running | Paused | Stopped | Failed

record sandbox_info =
  si_id :: sandbox_id
  si_status :: sandbox_status
  si_provider :: string
  si_image :: string
  si_expires_at :: "u64 option"

record exec_request =
  er_command :: "string list"
  er_timeout_secs :: "u64 option"
  er_idempotency_key :: "string option"

subsection \<open>\<open>sensor/types.rs\<close>\<close>

datatype trace_level = Off | Summary | Standard | Full

primrec trace_level_code :: "trace_level \<Rightarrow> nat" where
  "trace_level_code Off = 0"
| "trace_level_code Summary = 1"
| "trace_level_code Standard = 2"
| "trace_level_code Full = 3"

lemma trace_level_code_inject [simp]: "trace_level_code a = trace_level_code b \<longleftrightarrow> a = b"
  by (cases a; cases b) simp_all

text \<open>The \<open>Ord\<close> instance of the source compares the discriminants.\<close>

instantiation trace_level :: linorder
begin

definition less_eq_trace_level :: "trace_level \<Rightarrow> trace_level \<Rightarrow> bool" where
  "less_eq_trace_level a b \<longleftrightarrow> trace_level_code a \<le> trace_level_code b"

definition less_trace_level :: "trace_level \<Rightarrow> trace_level \<Rightarrow> bool" where
  "less_trace_level a b \<longleftrightarrow> trace_level_code a < trace_level_code b"

instance
  by standard (auto simp: less_eq_trace_level_def less_trace_level_def)

end

definition trace_level_from_proto :: "i32 \<Rightarrow> trace_level" where
  "trace_level_from_proto v =
     (if v = 0 then Off else if v = 1 then Summary else if v = 2 then Standard
      else if v = 3 then Full else Standard)"

record resource_usage =
  ru_peak_memory_bytes :: u64
  ru_cpu_time_secs :: f64
  ru_network_rx_bytes :: u64
  ru_network_tx_bytes :: u64

definition resource_usage_default :: resource_usage where
  "resource_usage_default =
     \<lparr>ru_peak_memory_bytes = 0, ru_cpu_time_secs = F_fin 0,
      ru_network_rx_bytes = 0, ru_network_tx_bytes = 0\<rparr>"

datatype file_op = Read | Write | Create | Delete

record file_access =
  fa_path :: string
  fa_op :: file_op
  fa_size_bytes :: "u64 option"

record network_attempt =
  na_address :: string
  na_protocol :: string
  na_allowed :: bool

record blocked_operation =
  bo_op_type :: string
  bo_detail :: string

record syscall_event =
  sy_name :: string
  sy_args :: "string list"
  sy_result :: string
  sy_timestamp_ms :: u64

record resource_snapshot =
  rs_timestamp_ms :: u64
  rs_memory_bytes :: u64
  rs_cpu_percent :: f32

record execution_trace =
  et_duration_secs :: f64
  et_resource_usage :: resource_usage
  et_file_accesses :: "file_access list"
  et_network_attempts :: "network_attempt list"
  et_blocked_ops :: "blocked_operation list"
  et_syscalls :: "syscall_event list"
  et_resource_timeline :: "resource_snapshot list"

record exec_output =
  eo_exit_code :: i32
  eo_stdout :: string
  eo_stderr :: string
  eo_trace :: "execution_trace option"

subsection \<open>Streaming, retry policy and output limit, \<open>types.rs\<close>\<close>

datatype exec_event =
    Event_Output string "u8 list"
  | Event_Heartbeat u64 u64 f32
  | Event_Result i32 "execution_trace option"

record retry_policy =
  rp_max_attempts :: u32
  rp_backoff :: string
  rp_initial_delay_ms :: u64
  rp_retry_on :: "string list"

definition default_one :: u32 where
  "default_one = 1"

definition default_initial_delay :: u64 where
  "default_initial_delay = 1000"

record output_limit =
  ol_max_bytes :: u64
  ol_action :: string

subsection \<open>The errors of a provider, \<open>provider/mod.rs\<close>\<close>

datatype provider_error =
    NotFound sandbox_id
  | CreateFailed string
  | ExecFailed string
  | Unavailable string
  | Timeout u64
  | Unsupported string
  | FileFailed string
  | PausedErr sandbox_id

primrec provider_error_display :: "provider_error \<Rightarrow> string" where
  "provider_error_display (NotFound i) = ''sandbox not found: '' @ i"
| "provider_error_display (CreateFailed m) = ''sandbox creation failed: '' @ m"
| "provider_error_display (ExecFailed m) = ''command execution failed: '' @ m"
| "provider_error_display (Unavailable m) = ''provider unavailable: '' @ m"
| "provider_error_display (Timeout n) = ''timeout after '' @ show_u64 n @ ''s''"
| "provider_error_display (Unsupported m) = ''operation not supported by this provider: '' @ m"
| "provider_error_display (FileFailed m) = ''file operation failed: '' @ m"
| "provider_error_display (PausedErr i) = ''sandbox is paused: '' @ i"

lemma trace_level_from_proto_code [simp]:
  "trace_level_from_proto (int (trace_level_code l)) = l"
  by (cases l) (simp_all add: trace_level_from_proto_def)

lemma trace_level_not_Off_iff: "l \<noteq> Off \<longleftrightarrow> Summary \<le> l"
  by (cases l) (simp_all add: less_eq_trace_level_def)

end
