(* ===== verification/Capabilities.thy ===== *)
theory Capabilities
  imports Types
begin

text \<open>
  \<open>provider/capabilities.rs\<close> and the \<open>capabilities()\<close> method of the five providers: what each
  declares, and the check of a configuration against a declaration.
\<close>

datatype field_support = Supported | NotApplicable | Required | UnsupportedField

record provider_capabilities =
  pc_name :: string
  pc_writable_true :: field_support
  pc_writable_false :: field_support
  pc_network :: field_support
  pc_mounts :: field_support
  pc_memory :: field_support
  pc_cpus :: field_support
  pc_kernel :: field_support
  pc_rootfs :: field_support
  pc_network_allowlist :: field_support
  pc_fs_paths :: field_support
  pc_pause :: bool
  pc_unpause :: bool
  pc_copy_to :: bool
  pc_copy_from :: bool

text \<open>
  \<open>config_violations\<close> is the vector the function fills, in the order of the source;
  \<open>validate_config\<close> reports all of it at once.
\<close>

definition config_violations :: "sandbox_config \<Rightarrow> provider_capabilities \<Rightarrow> string list" where
  "config_violations config caps =
     (if sc_writable config then
        (if pc_writable_true caps = UnsupportedField
         then [pc_name caps @ '' does not support writable filesystem''] else [])
      else (if pc_writable_false caps = UnsupportedField
         then [pc_name caps @ '' does not support read-only filesystem (set writable=true)'']
         else []))
     @ (if sc_mounts config \<noteq> [] \<and> pc_mounts caps = UnsupportedField
        then [pc_name caps @ '' does not support volume mounts''] else [])
     @ (if sc_memory config \<noteq> None \<and> pc_memory caps = UnsupportedField
        then [pc_name caps @ '' does not support custom memory limits''] else [])
     @ (if sc_cpus config \<noteq> None \<and> pc_cpus caps = UnsupportedField
        then [pc_name caps @ '' does not support custom CPU limits''] else [])
     @ (if pc_kernel caps = Required \<and> sc_kernel config = None
        then [pc_name caps @ '' requires --kernel path''] else [])
     @ (if pc_rootfs caps = Required \<and> sc_rootfs config = None
        then [pc_name caps @ '' requires --rootfs path''] else [])
     @ (if sc_network_allowlist config \<noteq> [] \<and> pc_network_allowlist caps = UnsupportedField
        then [pc_name caps @ '' does not support network allowlist''] else [])
     @ (if sc_fs_paths config \<noteq> [] \<and> pc_fs_paths caps = UnsupportedField
        then [pc_name caps @ '' does not support filesystem path whitelist''] else [])"

definition validate_config ::
    "sandbox_config \<Rightarrow> provider_capabilities \<Rightarrow> (provider_error, unit) result" where
  "validate_config config caps =
     (let violations = config_violations config caps
      in if violations = [] then Inr () else Inl (Unsupported (join ''; '' violations)))"

subsection \<open>What each provider declares\<close>

definition docker_capabilities :: provider_capabilities where
  "docker_capabilities =
     \<lparr>pc_name = ''docker'', pc_writable_true = Supported, pc_writable_false = Supported,
      pc_network = Supported, pc_mounts = Supported, pc_memory = Supported,
      pc_cpus = Supported, pc_kernel = NotApplicable, pc_rootfs = NotApplicable,
      pc_network_allowlist = Supported, pc_fs_paths = Supported,
      pc_pause = False, pc_unpause = False, pc_copy_to = True, pc_copy_from = True\<rparr>"

definition firecracker_capabilities :: provider_capabilities where
  "firecracker_capabilities =
     \<lparr>pc_name = ''firecracker'', pc_writable_true = Supported, pc_writable_false = Supported,
      pc_network = Supported, pc_mounts = NotApplicable, pc_memory = Supported,
      pc_cpus = Supported, pc_kernel = Required, pc_rootfs = Required,
      pc_network_allowlist = NotApplicable, pc_fs_paths = NotApplicable,
      pc_pause = True, pc_unpause = True, pc_copy_to = False, pc_copy_from = False\<rparr>"

definition wasm_capabilities :: provider_capabilities where
  "wasm_capabilities =
     \<lparr>pc_name = ''wasm'', pc_writable_true = Supported, pc_writable_false = Supported,
      pc_network = NotApplicable, pc_mounts = Supported, pc_memory = NotApplicable,
      pc_cpus = NotApplicable, pc_kernel = NotApplicable, pc_rootfs = NotApplicable,
      pc_network_allowlist = NotApplicable, pc_fs_paths = NotApplicable,
      pc_pause = False, pc_unpause = False, pc_copy_to = False, pc_copy_from = False\<rparr>"

definition e2b_capabilities :: provider_capabilities where
  "e2b_capabilities =
     \<lparr>pc_name = ''e2b'', pc_writable_true = Supported, pc_writable_false = UnsupportedField,
      pc_network = Supported, pc_mounts = UnsupportedField, pc_memory = UnsupportedField,
      pc_cpus = UnsupportedField, pc_kernel = NotApplicable, pc_rootfs = NotApplicable,
      pc_network_allowlist = UnsupportedField, pc_fs_paths = UnsupportedField,
      pc_pause = True, pc_unpause = True, pc_copy_to = True, pc_copy_from = True\<rparr>"

definition k8s_capabilities :: provider_capabilities where
  "k8s_capabilities =
     \<lparr>pc_name = ''k8s'', pc_writable_true = Supported, pc_writable_false = Supported,
      pc_network = Supported, pc_mounts = UnsupportedField, pc_memory = Supported,
      pc_cpus = Supported, pc_kernel = NotApplicable, pc_rootfs = NotApplicable,
      pc_network_allowlist = NotApplicable, pc_fs_paths = NotApplicable,
      pc_pause = False, pc_unpause = False, pc_copy_to = True, pc_copy_from = True\<rparr>"

subsection \<open>The contract: what a declaration means\<close>

text \<open>
  The specification is the documentation of \<open>FieldSupport\<close>, the same for every field of a
  declaration: a configuration violates it when it sets a field that is not supported, or does not
  set one that is required. The two fields on writing are set by the two values of \<open>writable\<close>.
\<close>

datatype config_field =
    On_Writable | On_Readonly | On_Network | On_Mounts | On_Memory | On_Cpus | On_Kernel | On_Rootfs
  | On_Allowlist | On_Paths

primrec sets :: "sandbox_config \<Rightarrow> config_field \<Rightarrow> bool" where
  "sets c On_Writable \<longleftrightarrow> sc_writable c"
| "sets c On_Readonly \<longleftrightarrow> \<not> sc_writable c"
| "sets c On_Network \<longleftrightarrow> sc_network c"
| "sets c On_Mounts \<longleftrightarrow> sc_mounts c \<noteq> []"
| "sets c On_Memory \<longleftrightarrow> sc_memory c \<noteq> None"
| "sets c On_Cpus \<longleftrightarrow> sc_cpus c \<noteq> None"
| "sets c On_Kernel \<longleftrightarrow> sc_kernel c \<noteq> None"
| "sets c On_Rootfs \<longleftrightarrow> sc_rootfs c \<noteq> None"
| "sets c On_Allowlist \<longleftrightarrow> sc_network_allowlist c \<noteq> []"
| "sets c On_Paths \<longleftrightarrow> sc_fs_paths c \<noteq> []"

primrec declared :: "provider_capabilities \<Rightarrow> config_field \<Rightarrow> field_support" where
  "declared k On_Writable = pc_writable_true k"
| "declared k On_Readonly = pc_writable_false k"
| "declared k On_Network = pc_network k"
| "declared k On_Mounts = pc_mounts k"
| "declared k On_Memory = pc_memory k"
| "declared k On_Cpus = pc_cpus k"
| "declared k On_Kernel = pc_kernel k"
| "declared k On_Rootfs = pc_rootfs k"
| "declared k On_Allowlist = pc_network_allowlist k"
| "declared k On_Paths = pc_fs_paths k"

fun violates :: "field_support \<Rightarrow> bool \<Rightarrow> bool" where
  "violates UnsupportedField is_set = is_set"
| "violates Required is_set = (\<not> is_set)"
| "violates _ is_set = False"

text \<open>The checks that the function does not make.\<close>

definition overlooked :: "config_field \<Rightarrow> field_support \<Rightarrow> bool" where
  "overlooked f s \<longleftrightarrow> f = On_Network \<or> (if f \<in> {On_Kernel, On_Rootfs} then s = UnsupportedField else s = Required)"

primrec complaint :: "config_field \<Rightarrow> string" where
  "complaint On_Writable = '' does not support writable filesystem''"
| "complaint On_Readonly = '' does not support read-only filesystem (set writable=true)''"
| "complaint On_Network = []"
| "complaint On_Mounts = '' does not support volume mounts''"
| "complaint On_Memory = '' does not support custom memory limits''"
| "complaint On_Cpus = '' does not support custom CPU limits''"
| "complaint On_Kernel = '' requires --kernel path''"
| "complaint On_Rootfs = '' requires --rootfs path''"
| "complaint On_Allowlist = '' does not support network allowlist''"
| "complaint On_Paths = '' does not support filesystem path whitelist''"

lemma all_fields: "(\<forall>f. P f) \<longleftrightarrow>
    P On_Writable \<and> P On_Readonly \<and> P On_Network \<and> P On_Mounts \<and> P On_Memory \<and> P On_Cpus \<and>
    P On_Kernel \<and> P On_Rootfs \<and> P On_Allowlist \<and> P On_Paths"
  by (auto intro: config_field.induct)

lemma not_all_not_ex: "(\<not> (\<forall>x. \<not> P x)) = (\<exists>x. P x)"
  by simp

lemma violates_iff: "violates s b \<longleftrightarrow> s = UnsupportedField \<and> b \<or> s = Required \<and> \<not> b"
  by (cases s) auto

abbreviation complains :: "sandbox_config \<Rightarrow> provider_capabilities \<Rightarrow> config_field \<Rightarrow> bool" where
  "complains c k f \<equiv> violates (declared k f) (sets c f) \<and> \<not> overlooked f (declared k f)"

lemma complains_simps:
  "complains c k On_Writable \<longleftrightarrow> sc_writable c \<and> pc_writable_true k = UnsupportedField"
  "complains c k On_Readonly \<longleftrightarrow> \<not> sc_writable c \<and> pc_writable_false k = UnsupportedField"
  "\<not> complains c k On_Network"
  "complains c k On_Mounts \<longleftrightarrow> sc_mounts c \<noteq> [] \<and> pc_mounts k = UnsupportedField"
  "complains c k On_Memory \<longleftrightarrow> sc_memory c \<noteq> None \<and> pc_memory k = UnsupportedField"
  "complains c k On_Cpus \<longleftrightarrow> sc_cpus c \<noteq> None \<and> pc_cpus k = UnsupportedField"
  "complains c k On_Kernel \<longleftrightarrow> pc_kernel k = Required \<and> sc_kernel c = None"
  "complains c k On_Rootfs \<longleftrightarrow> pc_rootfs k = Required \<and> sc_rootfs c = None"
  "complains c k On_Allowlist \<longleftrightarrow> sc_network_allowlist c \<noteq> [] \<and> pc_network_allowlist k = UnsupportedField"
  "complains c k On_Paths \<longleftrightarrow> sc_fs_paths c \<noteq> [] \<and> pc_fs_paths k = UnsupportedField"
  by (auto simp: violates_iff overlooked_def)

text \<open>The order in which the function looks at the fields.\<close>

definition fields :: "config_field list" where
  "fields = [On_Writable, On_Readonly, On_Mounts, On_Memory, On_Cpus, On_Kernel, On_Rootfs, On_Allowlist, On_Paths]"

lemma map_filter_Cons: "map h (filter P (x # xs)) = (if P x then [h x] else []) @ map h (filter P xs)"
  by simp

lemma config_violations_fields:
  "config_violations c k = map (\<lambda>f. pc_name k @ complaint f) (filter (complains c k) fields)"
  unfolding fields_def map_filter_Cons complains_simps config_violations_def complaint.simps
  by (cases "sc_writable c") simp_all

lemma set_config_violations:
  "set (config_violations c k) = {pc_name k @ complaint f | f. complains c k f}"
proof -
  have "f \<in> set fields \<longleftrightarrow> f \<noteq> On_Network" for f
    by (cases f) (simp_all add: fields_def)
  then show ?thesis
    using complains_simps(3)[of k c] by (auto simp: config_violations_fields)
qed

lemma config_violations_eq_Nil_iff:
  "config_violations c k = [] \<longleftrightarrow> (\<forall>f. \<not> complains c k f)"
  using set_config_violations [of c k] by (auto simp flip: set_empty)

lemma join_infix: "w \<in> set ws \<Longrightarrow> \<exists>a b. join d ws = a @ w @ b"
proof (induction ws rule: induct_list012)
  case (2 v)
  then show ?case by (intro exI [of _ "[]"]) simp
next
  case (3 v u ws)
  then show ?case
  proof (cases "w = v")
    case True
    then show ?thesis by (intro exI [of _ "[]"] exI [of _ "d @ join d (u # ws)"]) simp
  next
    case False
    with 3 obtain a b where "join d (u # ws) = a @ w @ b" by auto
    then show ?thesis by (intro exI [of _ "v @ d @ a"] exI [of _ b]) simp
  qed
qed auto

lemma validate_config_complains: "is_ok (validate_config config caps) \<longleftrightarrow> \<not> (\<exists>f. complains config caps f)"
  by (simp add: validate_config_def Let_def config_violations_eq_Nil_iff)

definition all_providers :: "provider_capabilities list" where
  "all_providers =
     [docker_capabilities, firecracker_capabilities, wasm_capabilities, e2b_capabilities, k8s_capabilities]"

lemma none_overlooked: "k \<in> set all_providers \<Longrightarrow> \<not> (\<exists>f. overlooked f (declared k f) \<and> violates (declared k f) b)"
  unfolding not_ex
  by (subst all_fields)
    (auto simp: all_providers_def overlooked_def docker_capabilities_def firecracker_capabilities_def
      wasm_capabilities_def e2b_capabilities_def k8s_capabilities_def)

text \<open>
  (C9) For each of the five providers a configuration passes the check exactly when it violates nothing
  that the provider declares, in the sense of the documentation of \<open>FieldSupport\<close>: it sets no field
  that is not supported and every field that is required. For other declarations the check is weaker
  than the documentation, in exactly these cases: it never looks at the network, not at a kernel or root
  file system that is set but not supported, and not at another field that is required. So
  it accepts a request for the network where the declaration does not support one.
\<close>

theorem validate_config_ok_iff:
  "(is_ok (validate_config config caps)
      \<longleftrightarrow> \<not> (\<exists>f. violates (declared caps f) (sets config f) \<and> \<not> overlooked f (declared caps f)))
   \<and> list_all (\<lambda>k. is_ok (validate_config config k) \<longleftrightarrow> \<not> (\<exists>f. violates (declared k f) (sets config f))) all_providers
   \<and> is_ok (validate_config (sandbox_config_default\<lparr>sc_network := True\<rparr>)
       (docker_capabilities\<lparr>pc_network := UnsupportedField\<rparr>))"
proof (intro conjI)
  show "list_all (\<lambda>k. is_ok (validate_config config k) \<longleftrightarrow> \<not> (\<exists>f. violates (declared k f) (sets config f))) all_providers"
    unfolding list_all_iff using none_overlooked by (fastforce simp: validate_config_complains)
  show "is_ok (validate_config (sandbox_config_default\<lparr>sc_network := True\<rparr>)
      (docker_capabilities\<lparr>pc_network := UnsupportedField\<rparr>))"
    by (simp add: validate_config_def config_violations_def sandbox_config_default_def docker_capabilities_def)
qed (rule validate_config_complains)

text \<open>
  A refusal names every field it looks at and that is violated, not only the first one.\<close>

theorem validate_config_reports_all:
  assumes "violates (declared caps f) (sets config f)" and "\<not> overlooked f (declared caps f)"
  shows "\<exists>msg. validate_config config caps = Inl (Unsupported msg)
               \<and> str_contains msg (pc_name caps @ complaint f)"
proof -
  have "pc_name caps @ complaint f \<in> set (config_violations config caps)"
    using assms by (auto simp: set_config_violations)
  then obtain a b where
    "join ''; '' (config_violations config caps) = a @ (pc_name caps @ complaint f) @ b"
    and "config_violations config caps \<noteq> []"
    using join_infix by force
  then show ?thesis
    by (auto simp: validate_config_def str_contains_iff)
qed

theorem validate_config_reports_all_witness:
  "\<exists>msg. validate_config (sandbox_config_default\<lparr>sc_memory := Some ''512m''\<rparr>) e2b_capabilities
           = Inl (Unsupported msg)
         \<and> str_contains msg (''e2b'' @ complaint On_Memory)"
  using validate_config_reports_all
    [of e2b_capabilities On_Memory "sandbox_config_default\<lparr>sc_memory := Some ''512m''\<rparr>"]
  by (simp add: e2b_capabilities_def overlooked_def)

text \<open>
  The default configuration is accepted by Docker, Kubernetes and WASM, and refused by
  E2B (which has no read-only filesystem) and by Firecracker (which needs a kernel and a
  root filesystem).
\<close>

theorem default_config_acceptance:
  "is_ok (validate_config sandbox_config_default docker_capabilities)
   \<and> is_ok (validate_config sandbox_config_default k8s_capabilities)
   \<and> is_ok (validate_config sandbox_config_default wasm_capabilities)
   \<and> validate_config sandbox_config_default e2b_capabilities =
       Inl (Unsupported ''e2b does not support read-only filesystem (set writable=true)'')
   \<and> validate_config sandbox_config_default firecracker_capabilities =
       Inl (Unsupported ''firecracker requires --kernel path; firecracker requires --rootfs path'')"
  by (simp add: validate_config_def config_violations_def sandbox_config_default_def
      docker_capabilities_def k8s_capabilities_def wasm_capabilities_def e2b_capabilities_def
      firecracker_capabilities_def)

end
