(* ===== verification/Intent.thy ===== *)
theory Intent
  imports Types
begin

text \<open>
  The intent engine, \<open>intent.rs\<close>: what a piece of code needs (network, packages, writable
  paths, memory), read off its text, and the provider that follows from it. The analyzers
  update one \<open>code_intent\<close> in turn, as the source threads \<open>&mut CodeIntent\<close>. The parameter
  \<open>ua\<close> is the Unicode table behind \<open>char::is_alphanumeric\<close>.
\<close>

subsection \<open>The intent and the indicator tables\<close>

datatype provider_hint = Hint_Wasm | Hint_Docker | Hint_Firecracker

record code_intent =
  ci_provider :: provider_hint
  ci_needs_network :: bool
  ci_network_hosts :: "string list"
  ci_needs_writable :: bool
  ci_writable_paths :: "string list"
  ci_needs_packages :: bool
  ci_package_manager :: "string option"
  ci_memory_hint :: "string option"
  ci_language :: string
  ci_confidence :: f64
  ci_reasoning :: "string list"

text \<open>\<open>quote s\<close> is \<open>s\<close> between single quotes.\<close>

definition quote :: "string \<Rightarrow> string" where
  "quote s = CHR 0x27 # s @ [CHR 0x27]"

definition network_indicators :: "(string \<times> string list) list" where
  "network_indicators =
     [(''python'',
       [''import requests'', ''import urllib'', ''import httpx'', ''import aiohttp'',
        ''from requests'', ''from urllib'', ''from httpx'', ''from aiohttp'',
        ''import socket'', ''import http.client'', ''import http.server'',
        ''import urllib3'', ''import ftplib'', ''import smtplib'', ''import xmlrpc'',
        ''import grpc'', ''from urllib3'', ''from grpc'']),
      (''node'',
       [''require('' @ quote ''http'' @ '')'', ''require('' @ quote ''https'' @ '')'',
        ''require('' @ quote ''axios'' @ '')'', ''require('' @ quote ''node-fetch'' @ '')'',
        ''import fetch'', ''import axios'']),
      (''bash'', [''curl '', ''wget '', ''nc '', ''ssh ''])]"

definition package_indicators :: "(string \<times> string \<times> string list) list" where
  "package_indicators =
     [(''python'', ''pip'', [''pip install'', ''pip3 install'', ''import subprocess'']),
      (''python'', ''pip'',
       [''import pandas'', ''import numpy'', ''import scipy'', ''import sklearn'',
        ''import tensorflow'', ''import torch'', ''import matplotlib'', ''import seaborn'',
        ''import polars'', ''import xgboost'', ''import lightgbm'', ''import transformers'',
        ''import langchain'', ''import openai'', ''import anthropic'']),
      (''node'', ''npm'', [''npm install'', ''npx '', ''require('' @ [CHR 0x27]]),
      (''bash'', ''apt'', [''apt-get install'', ''apt install'', ''yum install'', ''apk add''])]"

definition write_indicators :: "(string \<times> string list) list" where
  "write_indicators =
     [(''python'',
       [''open('', ''with open'', ''.to_csv('', ''.to_json('', ''.to_parquet('',
        ''.to_excel('', ''.to_pickle('', ''.savefig('', ''os.makedirs('', ''os.mkdir('',
        ''os.rename('', ''os.remove('', ''shutil.copy('', ''shutil.move('',
        ''shutil.rmtree('', ''pathlib'']),
      (''node'', [''fs.writeFile'', ''fs.writeSync'', ''fs.mkdir'', ''createWriteStream'']),
      (''bash'', ['' > '', '' >> '', ''mkdir '', ''touch '', ''tee ''])]"

definition heavy_libs :: "string list" where
  "heavy_libs =
     [''pandas'', ''numpy'', ''scipy'', ''tensorflow'', ''torch'', ''polars'', ''xgboost'',
      ''lightgbm'', ''transformers'']"

definition common_paths :: "string list" where
  "common_paths = [''/tmp'', ''/output'', ''/data'', ''/workspace'', ''/home'', ''/app'']"

definition host_patterns :: "string list" where
  "host_patterns = [''https://'', ''http://'', ''api.'', ''www.'']"

subsection \<open>Hosts\<close>

definition host_char :: "(string \<Rightarrow> bool) \<Rightarrow> string \<Rightarrow> bool" where
  "host_char ua ch \<longleftrightarrow>
     is_alphanumeric ua ch \<or> ch = ''.'' \<or> ch = ''-'' \<or> ch = '':''"

definition extract_host_from_url :: "(string \<Rightarrow> bool) \<Rightarrow> string \<Rightarrow> string option" where
  "extract_host_from_url ua s =
     (let s = (case strip_prefix ''https://'' s of
                 Some r \<Rightarrow> r
               | None \<Rightarrow> (case strip_prefix ''http://'' s of Some r \<Rightarrow> r | None \<Rightarrow> s));
          host = concat (takeWhile (host_char ua) (utf8_chars s));
          host = hd (split_on (CHR '':'') host)
      in if CHR ''.'' \<in> set host \<and> 3 < length host \<and> length host < 256
         then Some host else None)"

definition add_host :: "string \<Rightarrow> code_intent \<Rightarrow> code_intent" where
  "add_host host i =
     (if host \<in> set (ci_network_hosts i) then i
      else i\<lparr>ci_network_hosts := ci_network_hosts i @ [host],
             ci_needs_network := True,
             ci_reasoning := ci_reasoning i @ [''Detected host: '' @ host]\<rparr>)"

definition extract_hosts_step :: "(string \<Rightarrow> bool) \<Rightarrow> string \<Rightarrow> string \<Rightarrow> code_intent \<Rightarrow> code_intent" where
  "extract_hosts_step ua line pattern i =
     (case str_find pattern line of
        None \<Rightarrow> i
      | Some pos \<Rightarrow>
          (case extract_host_from_url ua (drop pos line) of
             None \<Rightarrow> i
           | Some host \<Rightarrow> add_host host i))"

definition extract_hosts :: "(string \<Rightarrow> bool) \<Rightarrow> string \<Rightarrow> code_intent \<Rightarrow> code_intent" where
  "extract_hosts ua code =
     fold (\<lambda>line. fold (extract_hosts_step ua line) host_patterns) (str_lines code)"

subsection \<open>The analyzers\<close>

definition lang_matches :: "string \<Rightarrow> string \<Rightarrow> bool" where
  "lang_matches lang language \<longleftrightarrow> lang = language \<or> language = ''auto''"

definition network_row :: "string \<Rightarrow> string \<Rightarrow> string \<times> string list \<Rightarrow> code_intent \<Rightarrow> code_intent" where
  "network_row code language row i =
     (case row of (lang, indicators) \<Rightarrow>
        if lang_matches lang language
        then (case List.find (str_contains code) indicators of
                None \<Rightarrow> i
              | Some indicator \<Rightarrow>
                  i\<lparr>ci_needs_network := True,
                    ci_reasoning := ci_reasoning i @
                      [''Network access needed: found `'' @ indicator @ ''`'']\<rparr>)
        else i)"

definition analyze_network ::
    "(string \<Rightarrow> bool) \<Rightarrow> string \<Rightarrow> string \<Rightarrow> code_intent \<Rightarrow> code_intent" where
  "analyze_network ua code language i =
     extract_hosts ua code (fold (network_row code language) network_indicators i)"

definition registry_of :: "string \<Rightarrow> string" where
  "registry_of pm =
     (if pm = ''pip'' then ''pypi.org'' else if pm = ''npm'' then ''registry.npmjs.org'' else [])"

definition package_row ::
    "string \<Rightarrow> string \<Rightarrow> string \<times> string \<times> string list \<Rightarrow> code_intent \<Rightarrow> code_intent" where
  "package_row code language row i =
     (case row of (lang, pm, indicators) \<Rightarrow>
        if lang_matches lang language
        then (case List.find (str_contains code) indicators of
                None \<Rightarrow> i
              | Some indicator \<Rightarrow>
                  (let i = i\<lparr>ci_needs_packages := True,
                             ci_needs_network := True,
                             ci_package_manager := Some pm,
                             ci_reasoning := ci_reasoning i @
                               [''Package install needed: found `'' @ indicator @ ''`'']\<rparr>;
                       registry = registry_of pm
                   in if registry \<noteq> [] \<and> registry \<notin> set (ci_network_hosts i)
                      then i\<lparr>ci_network_hosts := ci_network_hosts i @ [registry]\<rparr> else i))
        else i)"

definition analyze_packages :: "string \<Rightarrow> string \<Rightarrow> code_intent \<Rightarrow> code_intent" where
  "analyze_packages code language i = fold (package_row code language) package_indicators i"

definition write_row :: "string \<Rightarrow> string \<Rightarrow> string \<times> string list \<Rightarrow> code_intent \<Rightarrow> code_intent" where
  "write_row code language row i =
     (case row of (lang, indicators) \<Rightarrow>
        if lang_matches lang language
        then (case List.find (str_contains code) indicators of
                None \<Rightarrow> i
              | Some indicator \<Rightarrow>
                  i\<lparr>ci_needs_writable := True,
                    ci_reasoning := ci_reasoning i @
                      [''Filesystem write needed: found `'' @ indicator @ ''`'']\<rparr>)
        else i)"

definition add_path :: "string \<Rightarrow> string \<Rightarrow> code_intent \<Rightarrow> code_intent" where
  "add_path code path i =
     (if str_contains code path \<and> ci_needs_writable i \<and> path \<notin> set (ci_writable_paths i)
      then i\<lparr>ci_writable_paths := ci_writable_paths i @ [path]\<rparr> else i)"

definition extract_writable_paths :: "string \<Rightarrow> code_intent \<Rightarrow> code_intent" where
  "extract_writable_paths code i =
     (let i = fold (add_path code) common_paths i
      in if ci_needs_writable i \<and> ci_writable_paths i = []
         then i\<lparr>ci_writable_paths := ci_writable_paths i @ [''/tmp'']\<rparr> else i)"

definition analyze_filesystem :: "string \<Rightarrow> string \<Rightarrow> code_intent \<Rightarrow> code_intent" where
  "analyze_filesystem code language i =
     extract_writable_paths code (fold (write_row code language) write_indicators i)"

definition analyze_resources :: "string \<Rightarrow> code_intent \<Rightarrow> code_intent" where
  "analyze_resources code i =
     (case List.find (str_contains code) heavy_libs of
        None \<Rightarrow> i
      | Some lib \<Rightarrow>
          i\<lparr>ci_memory_hint := Some ''512m'',
            ci_reasoning := ci_reasoning i @
              [''Memory hint 512m: data library `'' @ lib @ ''` detected'']\<rparr>)"

primrec hint_debug :: "provider_hint \<Rightarrow> string" where
  "hint_debug Hint_Wasm = ''Wasm''"
| "hint_debug Hint_Docker = ''Docker''"
| "hint_debug Hint_Firecracker = ''Firecracker''"

definition determine_provider :: "code_intent \<Rightarrow> code_intent" where
  "determine_provider i =
     (let i = (if ci_needs_network i \<or> ci_needs_packages i \<or> ci_needs_writable i
               then i\<lparr>ci_provider := Hint_Docker, ci_confidence := f64_round (8 / 10)\<rparr>
               else i\<lparr>ci_provider := Hint_Wasm, ci_confidence := f64_round (7 / 10)\<rparr>)
      in i\<lparr>ci_reasoning := ci_reasoning i @
             [''Provider: '' @ hint_debug (ci_provider i) @ '' (confidence: '' @
              fmt_0 (f64_mul (ci_confidence i) (F_fin 100)) @ ''%)'']\<rparr>)"

definition initial_intent :: "string \<Rightarrow> code_intent" where
  "initial_intent language =
     \<lparr>ci_provider = Hint_Wasm, ci_needs_network = False, ci_network_hosts = [],
      ci_needs_writable = False, ci_writable_paths = [], ci_needs_packages = False,
      ci_package_manager = None, ci_memory_hint = None, ci_language = language,
      ci_confidence = f64_round (1 / 2), ci_reasoning = []\<rparr>"

definition analyze :: "(string \<Rightarrow> bool) \<Rightarrow> string \<Rightarrow> string \<Rightarrow> code_intent" where
  "analyze ua code language =
     determine_provider
       (analyze_resources code
         (analyze_filesystem code language
           (analyze_packages code language
             (analyze_network ua code language (initial_intent language)))))"

subsection \<open>What the analyzers keep\<close>

definition valid_host :: "string \<Rightarrow> bool" where
  "valid_host h \<longleftrightarrow>
     CHR ''.'' \<in> set h \<and> CHR '':'' \<notin> set h \<and> 3 < length h \<and> length h < 256"

text \<open>
  The invariant of the analysis: a host is only listed once and looks like a host; hosts or
  packages imply the network flag; packages come with their manager.
\<close>

definition intent_inv :: "code_intent \<Rightarrow> bool" where
  "intent_inv i \<longleftrightarrow>
     (ci_network_hosts i \<noteq> [] \<longrightarrow> ci_needs_network i)
     \<and> distinct (ci_network_hosts i)
     \<and> list_all valid_host (ci_network_hosts i)
     \<and> (ci_needs_packages i \<longrightarrow> ci_needs_network i \<and> ci_package_manager i \<noteq> None)"

definition row_hit :: "string \<Rightarrow> string \<Rightarrow> string \<Rightarrow> string list \<Rightarrow> bool" where
  "row_hit code language lang indicators \<longleftrightarrow>
     lang_matches lang language \<and> list_ex (str_contains code) indicators"

definition mentions_network :: "string \<Rightarrow> string \<Rightarrow> bool" where
  "mentions_network code language \<longleftrightarrow>
     list_ex (\<lambda>(lang, inds). row_hit code language lang inds) network_indicators"

definition mentions_packages :: "string \<Rightarrow> string \<Rightarrow> bool" where
  "mentions_packages code language \<longleftrightarrow>
     list_ex (\<lambda>(lang, pm, inds). row_hit code language lang inds) package_indicators"

definition mentions_write :: "string \<Rightarrow> string \<Rightarrow> bool" where
  "mentions_write code language \<longleftrightarrow>
     list_ex (\<lambda>(lang, inds). row_hit code language lang inds) write_indicators"

definition line_host :: "(string \<Rightarrow> bool) \<Rightarrow> string \<Rightarrow> string \<Rightarrow> string option" where
  "line_host ua line pattern =
     (case str_find pattern line of
        None \<Rightarrow> None | Some pos \<Rightarrow> extract_host_from_url ua (drop pos line))"

definition mentions_host :: "(string \<Rightarrow> bool) \<Rightarrow> string \<Rightarrow> bool" where
  "mentions_host ua code \<longleftrightarrow>
     list_ex (\<lambda>line. list_ex (\<lambda>pattern. line_host ua line pattern \<noteq> None) host_patterns)
       (str_lines code)"

lemma list_ex_find: "list_ex P xs \<longleftrightarrow> List.find P xs \<noteq> None"
  by (auto simp: find_None_iff list_ex_iff)

lemma extract_host_valid: "extract_host_from_url ua s = Some h \<Longrightarrow> valid_host h"
  using split_on_pieces [OF list.set_sel(1) [OF split_on_nonempty]]
  by (auto simp: extract_host_from_url_def valid_host_def Let_def split: if_splits)

lemma extract_hosts_step_eq:
  "extract_hosts_step ua line p i =
     (case line_host ua line p of None \<Rightarrow> i | Some h \<Rightarrow> add_host h i)"
  by (simp add: extract_hosts_step_def line_host_def split: option.splits)

lemma line_host_valid: "line_host ua line p = Some h \<Longrightarrow> valid_host h"
  by (auto simp: line_host_def split: option.splits dest: extract_host_valid)

lemma inv_extract_hosts_step: "intent_inv i \<Longrightarrow> intent_inv (extract_hosts_step ua line p i)"
  by (auto simp: extract_hosts_step_eq add_host_def intent_inv_def
      split: option.splits dest: line_host_valid)

lemma inv_network_row: "intent_inv i \<Longrightarrow> intent_inv (network_row code language row i)"
  by (auto simp: network_row_def intent_inv_def split: prod.splits option.splits)

lemma valid_registries: "registry_of pm \<noteq> [] \<Longrightarrow> valid_host (registry_of pm)"
  by (auto simp: registry_of_def valid_host_def split: if_splits)

lemma inv_package_row: "intent_inv i \<Longrightarrow> intent_inv (package_row code language row i)"
  using valid_registries [of "fst (snd row)"]
  by (auto simp: package_row_def intent_inv_def Let_def split: prod.splits option.splits)

lemma inv_fold: "(\<And>x i. P i \<Longrightarrow> P (f x i)) \<Longrightarrow> P i \<Longrightarrow> P (fold f xs i)"
  by (induction xs arbitrary: i) simp_all

lemmas intent_inv_fold = inv_fold [where P = intent_inv]

lemma inv_extract_hosts_line:
  "intent_inv i \<Longrightarrow> intent_inv (fold (extract_hosts_step ua line) ps i)"
  by (rule intent_inv_fold) (rule inv_extract_hosts_step)

lemma inv_extract_hosts: "intent_inv i \<Longrightarrow> intent_inv (extract_hosts ua code i)"
  unfolding extract_hosts_def by (rule intent_inv_fold) (rule inv_extract_hosts_line)

lemma inv_network_rows: "intent_inv i \<Longrightarrow> intent_inv (fold (network_row code language) rows i)"
  by (rule intent_inv_fold) (rule inv_network_row)

lemma inv_analyze_network: "intent_inv i \<Longrightarrow> intent_inv (analyze_network ua code language i)"
  unfolding analyze_network_def by (rule inv_extract_hosts) (rule inv_network_rows)

lemma inv_analyze_packages: "intent_inv i \<Longrightarrow> intent_inv (analyze_packages code language i)"
  unfolding analyze_packages_def by (rule intent_inv_fold) (rule inv_package_row)

lemma inv_initial [simp]: "intent_inv (initial_intent language)"
  by (simp add: initial_intent_def intent_inv_def)

subsection \<open>What each flag means\<close>

lemma fold_flag:
  assumes "\<And>x i. Q i \<Longrightarrow> Q (f x i)" and "\<And>x i. Q i \<Longrightarrow> g (f x i) \<longleftrightarrow> g i \<or> P x" and "Q i"
  shows "g (fold f xs i) \<longleftrightarrow> g i \<or> list_ex P xs"
  using assms(3) by (induction xs arbitrary: i) (auto simp: assms(1,2))

lemma network_row_flag:
  "ci_needs_network (network_row code language row i) \<longleftrightarrow>
     ci_needs_network i \<or> (case row of (lang, inds) \<Rightarrow> row_hit code language lang inds)"
  by (cases row) (auto simp: network_row_def row_hit_def list_ex_find split: option.splits)

lemma network_rows_flag:
  "ci_needs_network (fold (network_row code language) rows i) \<longleftrightarrow>
     ci_needs_network i \<or> list_ex (\<lambda>(lang, inds). row_hit code language lang inds) rows"
  by (rule fold_flag [where Q = "\<lambda>_. True" and g = ci_needs_network])
    (simp_all add: network_row_flag)

lemma step_network_flag:
  "intent_inv i \<Longrightarrow> ci_needs_network (extract_hosts_step ua line p i) \<longleftrightarrow>
     ci_needs_network i \<or> line_host ua line p \<noteq> None"
  by (auto simp: extract_hosts_step_eq add_host_def intent_inv_def split: option.splits)

lemma extract_hosts_flag:
  assumes "intent_inv i"
  shows "ci_needs_network (extract_hosts ua code i) \<longleftrightarrow> ci_needs_network i \<or> mentions_host ua code"
  unfolding extract_hosts_def mentions_host_def
proof (rule fold_flag [where Q = intent_inv])
  show "intent_inv (fold (extract_hosts_step ua line) host_patterns j)" if "intent_inv j" for line j
    using that by (rule inv_extract_hosts_line)
  show "ci_needs_network (fold (extract_hosts_step ua line) host_patterns j) \<longleftrightarrow>
      ci_needs_network j \<or> list_ex (\<lambda>pattern. line_host ua line pattern \<noteq> None) host_patterns"
    if "intent_inv j" for line j
    by (rule fold_flag [where Q = intent_inv])
      (rule inv_extract_hosts_step step_network_flag that | assumption)+
qed (rule assms)

lemma analyze_network_flag:
  "ci_needs_network (analyze_network ua code language (initial_intent language)) \<longleftrightarrow>
     mentions_network code language \<or> mentions_host ua code"
proof -
  have "ci_needs_network (fold (network_row code language) network_indicators (initial_intent language))
      \<longleftrightarrow> mentions_network code language"
    by (simp add: network_rows_flag mentions_network_def initial_intent_def)
  moreover have "intent_inv (fold (network_row code language) network_indicators (initial_intent language))"
    by (rule inv_network_rows) simp
  ultimately show ?thesis
    by (simp add: analyze_network_def extract_hosts_flag)
qed

lemma package_row_flags:
  "ci_needs_network (package_row code language row i) \<longleftrightarrow>
     ci_needs_network i \<or> (case row of (lang, pm, inds) \<Rightarrow> row_hit code language lang inds)"
  "ci_needs_packages (package_row code language row i) \<longleftrightarrow>
     ci_needs_packages i \<or> (case row of (lang, pm, inds) \<Rightarrow> row_hit code language lang inds)"
  by (cases row; auto simp: package_row_def row_hit_def Let_def list_ex_find split: option.splits)+

lemma analyze_packages_flags:
  "ci_needs_network (analyze_packages code language i) \<longleftrightarrow>
     ci_needs_network i \<or> mentions_packages code language"
  "ci_needs_packages (analyze_packages code language i) \<longleftrightarrow>
     ci_needs_packages i \<or> mentions_packages code language"
  unfolding analyze_packages_def mentions_packages_def
  by (rule fold_flag [where Q = "\<lambda>_. True" and g = ci_needs_network], simp_all add: package_row_flags)
    (rule fold_flag [where Q = "\<lambda>_. True" and g = ci_needs_packages], simp_all add: package_row_flags)

lemma write_row_flag:
  "ci_needs_writable (write_row code language row i) \<longleftrightarrow>
     ci_needs_writable i \<or> (case row of (lang, inds) \<Rightarrow> row_hit code language lang inds)"
  by (cases row) (auto simp: write_row_def row_hit_def list_ex_find split: option.splits)

lemma write_rows_flag:
  "ci_needs_writable (fold (write_row code language) rows i) \<longleftrightarrow>
     ci_needs_writable i \<or> list_ex (\<lambda>(lang, inds). row_hit code language lang inds) rows"
  by (rule fold_flag [where Q = "\<lambda>_. True" and g = ci_needs_writable])
    (simp_all add: write_row_flag)

text \<open>What a later analyzer leaves alone.\<close>

lemma network_frame:
  "ci_needs_writable (analyze_network ua code language i) = ci_needs_writable i
   \<and> ci_writable_paths (analyze_network ua code language i) = ci_writable_paths i
   \<and> ci_needs_packages (analyze_network ua code language i) = ci_needs_packages i"
  unfolding analyze_network_def extract_hosts_def
  by (rule inv_fold, rule inv_fold, simp add: extract_hosts_step_eq add_host_def split: option.splits,
      simp, rule inv_fold) (auto simp: network_row_def split: prod.splits option.splits)

lemma packages_frame:
  "ci_needs_writable (analyze_packages code language i) = ci_needs_writable i
   \<and> ci_writable_paths (analyze_packages code language i) = ci_writable_paths i"
  unfolding analyze_packages_def
  by (rule inv_fold) (auto simp: package_row_def Let_def split: prod.splits option.splits)

definition same_network :: "code_intent \<Rightarrow> code_intent \<Rightarrow> bool" where
  "same_network i j \<longleftrightarrow>
     ci_needs_network i = ci_needs_network j \<and> ci_network_hosts i = ci_network_hosts j
     \<and> ci_needs_packages i = ci_needs_packages j \<and> ci_package_manager i = ci_package_manager j"

lemma filesystem_frame: "same_network (analyze_filesystem code language i) i"
proof -
  have "same_network (fold (add_path code) common_paths j) i" if "same_network j i" for j
    using that by (rule inv_fold [rotated]) (auto simp: add_path_def same_network_def)
  moreover have "same_network (fold (write_row code language) write_indicators i) i"
    by (rule inv_fold) (auto simp: write_row_def same_network_def split: prod.splits option.splits)
  ultimately show ?thesis
    by (simp add: analyze_filesystem_def extract_writable_paths_def Let_def same_network_def)
qed

lemma resources_frame: "analyze_resources code i =
   i\<lparr>ci_memory_hint := ci_memory_hint (analyze_resources code i),
     ci_reasoning := ci_reasoning (analyze_resources code i)\<rparr>"
  by (simp add: analyze_resources_def split: option.splits)

lemma determine_frame: "determine_provider i =
   i\<lparr>ci_provider := ci_provider (determine_provider i),
     ci_confidence := ci_confidence (determine_provider i),
     ci_reasoning := ci_reasoning (determine_provider i)\<rparr>"
  by (simp add: determine_provider_def Let_def)

lemma add_path_keeps:
  "ci_needs_writable (fold (add_path code) ps i) = ci_needs_writable i
   \<and> (\<not> ci_needs_writable i \<longrightarrow> fold (add_path code) ps i = i)
   \<and> (distinct (ci_writable_paths i) \<longrightarrow> distinct (ci_writable_paths (fold (add_path code) ps i)))"
  by (induction ps arbitrary: i) (auto simp: add_path_def)

lemma filesystem_flag:
  assumes "\<not> ci_needs_writable i" and "ci_writable_paths i = []"
  shows "ci_needs_writable (analyze_filesystem code language i) \<longleftrightarrow> mentions_write code language"
    and "ci_writable_paths (analyze_filesystem code language i) \<noteq> [] \<longleftrightarrow> mentions_write code language"
    and "distinct (ci_writable_paths (analyze_filesystem code language i))"
proof -
  let ?j = "fold (write_row code language) write_indicators i"
  have w: "ci_needs_writable ?j \<longleftrightarrow> mentions_write code language"
    by (simp add: write_rows_flag mentions_write_def assms)
  have e: "ci_writable_paths ?j = []"
    by (rule inv_fold) (auto simp: write_row_def assms split: prod.splits option.splits)
  note k = add_path_keeps [of code common_paths ?j]
  show "ci_needs_writable (analyze_filesystem code language i) \<longleftrightarrow> mentions_write code language"
    and "ci_writable_paths (analyze_filesystem code language i) \<noteq> [] \<longleftrightarrow> mentions_write code language"
    and "distinct (ci_writable_paths (analyze_filesystem code language i))"
    using w e k by (auto simp: analyze_filesystem_def extract_writable_paths_def Let_def)
qed

text \<open>The intent just before the provider is chosen.\<close>

definition analyzed :: "(string \<Rightarrow> bool) \<Rightarrow> string \<Rightarrow> string \<Rightarrow> code_intent" where
  "analyzed ua code language =
     analyze_filesystem code language
       (analyze_packages code language
         (analyze_network ua code language (initial_intent language)))"

lemma analyze_fields:
  "ci_needs_network (analyze ua code language) = ci_needs_network (analyzed ua code language)"
  "ci_network_hosts (analyze ua code language) = ci_network_hosts (analyzed ua code language)"
  "ci_needs_packages (analyze ua code language) = ci_needs_packages (analyzed ua code language)"
  "ci_package_manager (analyze ua code language) = ci_package_manager (analyzed ua code language)"
  "ci_needs_writable (analyze ua code language) = ci_needs_writable (analyzed ua code language)"
  "ci_writable_paths (analyze ua code language) = ci_writable_paths (analyzed ua code language)"
  unfolding analyze_def analyzed_def
  by (subst determine_frame, subst resources_frame, simp)+

lemma analyzed_flags:
  "ci_needs_network (analyzed ua code language) \<longleftrightarrow>
     mentions_network code language \<or> mentions_host ua code \<or> mentions_packages code language"
  "ci_needs_packages (analyzed ua code language) \<longleftrightarrow> mentions_packages code language"
  "ci_needs_writable (analyzed ua code language) \<longleftrightarrow> mentions_write code language"
  "ci_writable_paths (analyzed ua code language) \<noteq> [] \<longleftrightarrow> mentions_write code language"
proof -
  let ?n = "analyze_network ua code language (initial_intent language)"
  let ?p = "analyze_packages code language ?n"
  have w: "\<not> ci_needs_writable ?p" "ci_writable_paths ?p = []"
    and p: "ci_needs_packages ?n = False"
    using network_frame [of ua code language "initial_intent language"]
      packages_frame [of code language ?n]
    by (simp_all add: initial_intent_def [of language])
  show "ci_needs_network (analyzed ua code language) \<longleftrightarrow>
     mentions_network code language \<or> mentions_host ua code \<or> mentions_packages code language"
    and "ci_needs_packages (analyzed ua code language) \<longleftrightarrow> mentions_packages code language"
    using filesystem_frame [of code language ?p] p
    by (simp_all add: analyzed_def same_network_def analyze_packages_flags analyze_network_flag)
  show "ci_needs_writable (analyzed ua code language) \<longleftrightarrow> mentions_write code language"
    and "ci_writable_paths (analyzed ua code language) \<noteq> [] \<longleftrightarrow> mentions_write code language"
    using filesystem_flag [OF w] by (simp_all add: analyzed_def)
qed

lemma analyzed_inv: "intent_inv (analyzed ua code language)"
proof -
  have "intent_inv (analyze_packages code language
      (analyze_network ua code language (initial_intent language)))"
    by (rule inv_analyze_packages) (rule inv_analyze_network, simp)
  then show ?thesis
    using filesystem_frame [of code language "analyze_packages code language
      (analyze_network ua code language (initial_intent language))"]
    by (simp add: analyzed_def same_network_def intent_inv_def)
qed

lemma analyze_provider:
  "ci_provider (analyze ua code language) =
     (if ci_needs_network (analyzed ua code language) \<or> ci_needs_packages (analyzed ua code language)
         \<or> ci_needs_writable (analyzed ua code language) then Hint_Docker else Hint_Wasm)"
  unfolding analyze_def analyzed_def
  by (subst resources_frame) (simp add: determine_provider_def Let_def)

text \<open>
  (C17) The provider choice, completely: code goes to WASM exactly when it contains no network,
  package or write indicator of its language and no line of it mentions a host; otherwise it
  goes to Docker. Firecracker is never chosen.
\<close>

theorem analyze_provider_iff:
  "ci_provider (analyze ua code language) =
     (if mentions_network code language \<or> mentions_packages code language
         \<or> mentions_write code language \<or> mentions_host ua code
      then Hint_Docker else Hint_Wasm)"
  by (simp add: analyze_provider analyzed_flags)

text \<open>
  The permissions an analysis asks for are consistent: every listed host is listed once, has
  a dot, no port and a plausible length; hosts or packages imply the network flag; packages come
  with a manager; there are writable paths exactly when writing is needed.
\<close>

theorem analyze_consistent:
  "intent_inv (analyze ua code language)
   \<and> (ci_writable_paths (analyze ua code language) \<noteq> [] \<longleftrightarrow>
        ci_needs_writable (analyze ua code language))"
  using analyzed_inv [of ua code language]
  by (simp add: intent_inv_def analyze_fields analyzed_flags)

subsection \<open>Hosts are found, and only grow\<close>

definition hosts_of :: "code_intent \<Rightarrow> string set" where
  "hosts_of i = set (ci_network_hosts i)"

lemma fold_grows:
  assumes "\<And>x i. S i \<subseteq> S (f x i)"
  shows "S i \<subseteq> S (fold f xs i)"
proof (induction xs arbitrary: i)
  case (Cons x xs)
  show ?case using assms [of i x] Cons [of "f x i"] by simp
qed simp

lemma fold_reaches:
  assumes "\<And>x i. S i \<subseteq> S (f x i)" and "x \<in> set xs" and "\<And>i. h \<in> S (f x i)"
  shows "h \<in> S (fold f xs i)"
  using assms(2)
proof (induction xs arbitrary: i)
  case (Cons y ys)
  show ?case
  proof (cases "y = x")
    case True
    then show ?thesis
      using assms(3) [of i] fold_grows [of S f "f x i" ys, OF assms(1)] by auto
  next
    case False
    with Cons show ?thesis by simp
  qed
qed simp

lemma step_grows: "hosts_of i \<subseteq> hosts_of (extract_hosts_step ua line p i)"
  by (auto simp: hosts_of_def extract_hosts_step_eq add_host_def split: option.splits)

lemma step_reaches: "line_host ua line p = Some h \<Longrightarrow> h \<in> hosts_of (extract_hosts_step ua line p i)"
  by (simp add: hosts_of_def extract_hosts_step_eq add_host_def)

lemma extract_hosts_reaches:
  assumes "line \<in> set (str_lines code)" and "p \<in> set host_patterns"
    and "line_host ua line p = Some h"
  shows "h \<in> hosts_of (extract_hosts ua code i)"
  unfolding extract_hosts_def
proof (rule fold_reaches [OF _ assms(1)])
  show "hosts_of j \<subseteq> hosts_of (fold (extract_hosts_step ua l) host_patterns j)" for l j
    by (rule fold_grows) (rule step_grows)
  show "h \<in> hosts_of (fold (extract_hosts_step ua line) host_patterns j)" for j
    by (rule fold_reaches [where S = hosts_of and f = "extract_hosts_step ua line" and x = p])
      (rule step_grows assms(2) step_reaches [OF assms(3)])+
qed

lemma package_row_grows: "hosts_of i \<subseteq> hosts_of (package_row code language row i)"
  by (auto simp: hosts_of_def package_row_def Let_def split: prod.splits option.splits)

lemma analyze_reaches:
  assumes "line \<in> set (str_lines code)" and "p \<in> set host_patterns"
    and "line_host ua line p = Some h"
  shows "h \<in> set (ci_network_hosts (analyze ua code language))"
proof -
  let ?n = "analyze_network ua code language (initial_intent language)"
  have "h \<in> hosts_of ?n"
    unfolding analyze_network_def by (rule extract_hosts_reaches [OF assms])
  moreover have "hosts_of ?n \<subseteq> hosts_of (analyze_packages code language ?n)"
    unfolding analyze_packages_def by (rule fold_grows) (rule package_row_grows)
  ultimately show ?thesis
    using filesystem_frame [of code language "analyze_packages code language ?n"]
    by (auto simp: analyze_fields analyzed_def same_network_def hosts_of_def)
qed

lemma takeWhile_blocks:
  assumes "list_all is_ascii a" and "list_all (\<lambda>c. host_char ua [c]) a"
    and "t = [] \<or> \<not> is_cont (hd t) \<and> \<not> host_char ua (hd (utf8_chars t))"
  shows "concat (takeWhile (host_char ua) (utf8_chars (a @ t))) = a"
proof -
  have "takeWhile (host_char ua) (utf8_chars t) = []"
    using assms(3) by (cases "utf8_chars t") auto
  moreover have "concat (map (\<lambda>c. [c]) a) = a" by (induction a) simp_all
  moreover have "takeWhile (host_char ua) (map (\<lambda>c. [c]) a @ ys)
      = map (\<lambda>c. [c]) a @ takeWhile (host_char ua) ys" for ys
    using assms(2) by (induction a) auto
  ultimately show ?thesis
    using assms(1,3) by (subst utf8_chars_ascii_append) auto
qed

definition host_text :: "string \<Rightarrow> bool" where
  "host_text h \<longleftrightarrow> list_all (\<lambda>c. ascii_alnum c \<or> c = CHR ''.'' \<or> c = CHR ''-'') h"

definition port_text :: "string \<Rightarrow> bool" where
  "port_text p = (case p of [] \<Rightarrow> True | c # ds \<Rightarrow> c = CHR '':'' \<and> list_all ascii_digit ds)"

definition ends_host :: "(string \<Rightarrow> bool) \<Rightarrow> string \<Rightarrow> bool" where
  "ends_host ua t = (case t of [] \<Rightarrow> True
     | c # _ \<Rightarrow> \<not> is_cont c \<and> \<not> host_char ua (hd (utf8_chars t)))"

lemma host_char_single:
  "host_char ua [c] \<longleftrightarrow> ascii_alnum c \<or> c = CHR ''.'' \<or> c = CHR ''-'' \<or> c = CHR '':''"
  by (simp add: host_char_def is_alphanumeric_def)

lemma ascii_digit_alnum: "ascii_digit c \<Longrightarrow> ascii_alnum c"
  by (simp add: ascii_alnum_def)

lemma ascii_punct [simp]: "is_ascii (CHR ''.'')" "is_ascii (CHR ''-'')" "is_ascii (CHR '':'')"
  by (simp_all add: is_ascii_def)

lemma extract_host_from_https:
  assumes "valid_host h" and "host_text h" and "port_text port" and "ends_host ua t"
  shows "extract_host_from_url ua (''https://'' @ h @ port @ t) = Some h"
proof -
  have colon: "CHR '':'' \<notin> set h" using assms(1) by (simp add: valid_host_def)
  have ascii: "list_all is_ascii (h @ port)" and hc: "list_all (\<lambda>c. host_char ua [c]) (h @ port)"
    using assms(2,3)
    by (auto simp: host_text_def port_text_def list_all_iff host_char_single
        split: list.splits dest: ascii_digit_alnum ascii_alnum_ascii)
  have "t = [] \<or> \<not> is_cont (hd t) \<and> \<not> host_char ua (hd (utf8_chars t))"
    using assms(4) by (simp add: ends_host_def split: list.splits)
  then have tw: "concat (takeWhile (host_char ua) (utf8_chars ((h @ port) @ t))) = h @ port"
    by (rule takeWhile_blocks [OF ascii hc])
  have "hd (split_on (CHR '':'') (h @ port)) = h"
    using assms(3) colon
    by (cases port) (auto simp: port_text_def split_on_no_sep split_on_append)
  moreover have "strip_prefix ''https://'' (''https://'' @ h @ port @ t) = Some (h @ port @ t)"
    by (simp only: strip_prefix_Some_iff)
  ultimately show ?thesis
    using tw assms(1) by (simp add: extract_host_from_url_def Let_def valid_host_def)
qed

text \<open>
  The first \<open>https://\<close> URL of a line is found: whatever follows the host (a port, a path, a
  quote), the host itself is listed and the network is requested.
\<close>

theorem analyze_finds_url_host:
  assumes "line \<in> set (str_lines code)"
    and "str_find ''https://'' line = Some pos"
    and "drop pos line = ''https://'' @ h @ port @ t"
    and "valid_host h" and "host_text h" and "port_text port" and "ends_host ua t"
  shows "h \<in> set (ci_network_hosts (analyze ua code language))
         \<and> ci_needs_network (analyze ua code language)
         \<and> ci_provider (analyze ua code language) = Hint_Docker"
proof -
  have "line_host ua line ''https://'' = Some h"
    using assms(2-7) extract_host_from_https [OF assms(4-7)] by (simp add: line_host_def)
  then have "h \<in> set (ci_network_hosts (analyze ua code language))"
    by (intro analyze_reaches [OF assms(1)]) (simp_all add: host_patterns_def)
  moreover have "intent_inv (analyze ua code language)"
    using analyzed_inv [of ua code language] by (simp add: intent_inv_def analyze_fields)
  ultimately show ?thesis
    by (auto simp: intent_inv_def analyze_provider analyze_fields)
qed

theorem analyze_finds_url_host_witness:
  "''pypi.org'' \<in> set (ci_network_hosts
      (analyze (\<lambda>_. False) ''x = get(https://pypi.org:443/simple)'' ''python''))"
  using analyze_finds_url_host
    [of "''x = get(https://pypi.org:443/simple)''" "''x = get(https://pypi.org:443/simple)''" 8
      "''pypi.org''" "'':443''" "''/simple)''" "\<lambda>_. False" "''python''"]
  by (simp add: str_lines_def starts_with_def valid_host_def host_text_def port_text_def
      ends_host_def host_char_def is_alphanumeric_def ascii_alnum_def ascii_digit_def is_cont_def)

text \<open>
  A host that the code never names can be listed: the patterns \<open>api.\<close> and \<open>www.\<close> are
  searched anywhere in a line, so the tail of a longer host name counts as a host of its own.
\<close>

theorem analyze_lists_host_tail:
  "{''myapi.example.com'', ''api.example.com''}
     \<subseteq> set (ci_network_hosts (analyze ua ''get(https://myapi.example.com)'' language))"
proof -
  let ?l = "''get(https://myapi.example.com)''"
  have line: "?l \<in> set (str_lines ?l)" by (simp add: str_lines_def)
  have h: "line_host ua ?l ''https://'' = Some ''myapi.example.com''"
    and a: "line_host ua ?l ''api.'' = Some ''api.example.com''"
    by (simp_all add: line_host_def starts_with_def extract_host_from_url_def strip_prefix_def
        Let_def is_cont_def host_char_def is_alphanumeric_def ascii_alnum_def ascii_digit_def)
  show ?thesis
    using analyze_reaches [OF line _ h, of language] analyze_reaches [OF line _ a, of language]
    by (simp add: host_patterns_def)
qed

end
