(* ===== verification/Session.thy ===== *)
theory Session
  imports Runs Types
begin

text \<open>
  Execution sessions, \<open>session.rs\<close>. The \<open>SessionManager\<close> is its map; each method locks it for
  its whole body, so a method is one atomic function of the map. The clock readings of
  \<open>create\<close> are arguments: nanoseconds for the identifier, milliseconds for the time stamp.
\<close>

subsection \<open>State\<close>

record budget =
  bu_max_execs :: u32
  bu_max_total_secs :: u64
  bu_max_output_bytes :: u64

definition budget_default :: budget where
  "budget_default = \<lparr>bu_max_execs = 0, bu_max_total_secs = 0, bu_max_output_bytes = 0\<rparr>"

record budget_usage =
  us_exec_count :: u32
  us_total_secs :: f64
  us_output_bytes :: u64

definition budget_usage_default :: budget_usage where
  "budget_usage_default = \<lparr>us_exec_count = 0, us_total_secs = F_fin 0, us_output_bytes = 0\<rparr>"

record dynamic_permissions =
  dp_network :: bool
  dp_network_allowlist :: "string list"
  dp_writable :: bool
  dp_fs_paths :: "string list"

definition dynamic_permissions_default :: dynamic_permissions where
  "dynamic_permissions_default =
     \<lparr>dp_network = False, dp_network_allowlist = [], dp_writable = False, dp_fs_paths = []\<rparr>"

datatype permission_change =
    AllowHost string | DenyHost string | AllowPath string | DenyPath string
  | EnableNetwork | DisableNetwork

record session_state =
  ss_id :: string
  ss_sandbox_id :: string
  ss_provider :: string
  ss_permissions :: dynamic_permissions
  ss_budget :: budget
  ss_usage :: budget_usage
  ss_created_at_ms :: u64
  ss_agent_pids :: "string list"

datatype session_error = SessionNotFound string | BudgetExceeded string | PermissionDenied string

primrec session_error_display :: "session_error \<Rightarrow> string" where
  "session_error_display (SessionNotFound m) = ''session not found: '' @ m"
| "session_error_display (BudgetExceeded m) = ''budget exceeded: '' @ m"
| "session_error_display (PermissionDenied m) = ''permission denied: '' @ m"

type_synonym session_manager = "(string, session_state) hash_map"

definition session_manager_new :: session_manager where
  "session_manager_new = []"

subsection \<open>Operations\<close>

definition uuid_v4_short :: "nat \<Rightarrow> string" where
  "uuid_v4_short t = show_hex t"

definition session_create ::
    "nat \<Rightarrow> nat \<Rightarrow> string \<Rightarrow> string \<Rightarrow> dynamic_permissions \<Rightarrow> budget \<Rightarrow> session_manager
     \<Rightarrow> string \<times> session_manager" where
  "session_create now_ns now_ms sandbox_id provider permissions budget sm =
     (let sid = ''ses_'' @ uuid_v4_short now_ns;
          state = \<lparr>ss_id = sid, ss_sandbox_id = sandbox_id, ss_provider = provider,
                   ss_permissions = permissions, ss_budget = budget,
                   ss_usage = budget_usage_default, ss_created_at_ms = word_of_nat now_ms,
                   ss_agent_pids = []\<rparr>
      in (sid, hm_insert sid state sm))"

definition session_get :: "string \<Rightarrow> session_manager \<Rightarrow> (session_error, session_state) result" where
  "session_get sid sm =
     (case hm_get sm sid of None \<Rightarrow> Inl (SessionNotFound sid) | Some s \<Rightarrow> Inr s)"

definition check_budget :: "string \<Rightarrow> session_manager \<Rightarrow> (session_error, unit) result" where
  "check_budget sid sm =
     (case hm_get sm sid of
        None \<Rightarrow> Inl (SessionNotFound sid)
      | Some session \<Rightarrow>
          (let b = ss_budget session; u = ss_usage session
           in if 0 < bu_max_execs b \<and> bu_max_execs b \<le> us_exec_count u
              then Inl (BudgetExceeded (''exec limit reached: '' @
                     show_u32 (us_exec_count u) @ ''/'' @ show_u32 (bu_max_execs b)))
              else if 0 < bu_max_total_secs b
                      \<and> f64_ge (us_total_secs u) (f64_of_u64 (bu_max_total_secs b))
              then Inl (BudgetExceeded (''time limit reached: '' @
                     fmt_1 (us_total_secs u) @ ''s/'' @ show_u64 (bu_max_total_secs b) @ ''s''))
              else if 0 < bu_max_output_bytes b \<and> bu_max_output_bytes b \<le> us_output_bytes u
              then Inl (BudgetExceeded (''output limit reached: '' @
                     show_u64 (us_output_bytes u) @ ''/'' @ show_u64 (bu_max_output_bytes b)))
              else Inr ()))"

definition add_usage :: "f64 \<Rightarrow> u64 \<Rightarrow> budget_usage \<Rightarrow> budget_usage" where
  "add_usage duration_secs output_bytes u =
     \<lparr>us_exec_count = us_exec_count u + 1,
      us_total_secs = f64_add (us_total_secs u) duration_secs,
      us_output_bytes = us_output_bytes u + output_bytes\<rparr>"

definition record_usage ::
    "string \<Rightarrow> f64 \<Rightarrow> u64 \<Rightarrow> session_manager \<Rightarrow> (session_error, unit) result \<times> session_manager" where
  "record_usage sid duration_secs output_bytes sm =
     (case hm_get sm sid of
        None \<Rightarrow> (Inl (SessionNotFound sid), sm)
      | Some s \<Rightarrow>
          (Inr (), hm_insert sid (s\<lparr>ss_usage := add_usage duration_secs output_bytes (ss_usage s)\<rparr>) sm))"

fun apply_change :: "permission_change \<Rightarrow> dynamic_permissions \<Rightarrow> dynamic_permissions" where
  "apply_change (AllowHost host) p =
     (if host \<in> set (dp_network_allowlist p) then p
      else p\<lparr>dp_network_allowlist := dp_network_allowlist p @ [host]\<rparr>)\<lparr>dp_network := True\<rparr>"
| "apply_change (DenyHost host) p =
     p\<lparr>dp_network_allowlist := filter (\<lambda>h. h \<noteq> host) (dp_network_allowlist p)\<rparr>"
| "apply_change (AllowPath path) p =
     (if path \<in> set (dp_fs_paths p) then p
      else p\<lparr>dp_fs_paths := dp_fs_paths p @ [path]\<rparr>)\<lparr>dp_writable := True\<rparr>"
| "apply_change (DenyPath path) p =
     p\<lparr>dp_fs_paths := filter (\<lambda>h. h \<noteq> path) (dp_fs_paths p)\<rparr>"
| "apply_change EnableNetwork p = p\<lparr>dp_network := True\<rparr>"
| "apply_change DisableNetwork p = p\<lparr>dp_network := False, dp_network_allowlist := []\<rparr>"

definition change_permissions ::
    "string \<Rightarrow> permission_change \<Rightarrow> session_manager
     \<Rightarrow> (session_error, dynamic_permissions) result \<times> session_manager" where
  "change_permissions sid change sm =
     (case hm_get sm sid of
        None \<Rightarrow> (Inl (SessionNotFound sid), sm)
      | Some s \<Rightarrow>
          (let p = apply_change change (ss_permissions s)
           in (Inr p, hm_insert sid (s\<lparr>ss_permissions := p\<rparr>) sm)))"

definition join_session ::
    "string \<Rightarrow> string \<Rightarrow> session_manager \<Rightarrow> (session_error, unit) result \<times> session_manager" where
  "join_session sid agent_pid sm =
     (case hm_get sm sid of
        None \<Rightarrow> (Inl (SessionNotFound sid), sm)
      | Some s \<Rightarrow>
          (Inr (),
           if agent_pid \<in> set (ss_agent_pids s) then sm
           else hm_insert sid (s\<lparr>ss_agent_pids := ss_agent_pids s @ [agent_pid]\<rparr>) sm))"

definition leave_session ::
    "string \<Rightarrow> string \<Rightarrow> session_manager \<Rightarrow> (session_error, unit) result \<times> session_manager" where
  "leave_session sid agent_pid sm =
     (case hm_get sm sid of
        None \<Rightarrow> (Inl (SessionNotFound sid), sm)
      | Some s \<Rightarrow>
          (Inr (), hm_insert sid
             (s\<lparr>ss_agent_pids := filter (\<lambda>p. p \<noteq> agent_pid) (ss_agent_pids s)\<rparr>) sm))"

definition session_destroy ::
    "string \<Rightarrow> session_manager \<Rightarrow> (session_error, session_state) result \<times> session_manager" where
  "session_destroy sid sm =
     (case hm_get sm sid of
        None \<Rightarrow> (Inl (SessionNotFound sid), sm)
      | Some s \<Rightarrow> (Inr s, hm_remove sid sm))"

definition session_list :: "session_manager \<Rightarrow> session_state list" where
  "session_list sm = map snd sm"

subsection \<open>The invariant of the manager\<close>

text \<open>Keys are distinct and name their session; no agent is listed twice in a session.\<close>

definition session_ok :: "string \<Rightarrow> session_state \<Rightarrow> bool" where
  "session_ok sid s \<longleftrightarrow> ss_id s = sid \<and> distinct (ss_agent_pids s)"

definition sessions_inv :: "session_manager \<Rightarrow> bool" where
  "sessions_inv sm \<longleftrightarrow> hm_wf sm \<and> list_all (\<lambda>(sid, s). session_ok sid s) sm"

lemma sessions_inv_wf: "sessions_inv sm \<Longrightarrow> hm_wf sm"
  by (simp add: sessions_inv_def)

lemma sessions_inv_get: "sessions_inv sm \<Longrightarrow> hm_get sm sid = Some s \<Longrightarrow> session_ok sid s"
  by (auto simp: sessions_inv_def list_all_iff dest!: hm_get_Some_in)

lemma sessions_inv_insert:
  "sessions_inv sm \<Longrightarrow> session_ok sid s \<Longrightarrow> sessions_inv (hm_insert sid s sm)"
  by (auto simp: sessions_inv_def list_all_iff dest!: hm_insert_entries)

lemma sessions_inv_remove: "sessions_inv sm \<Longrightarrow> sessions_inv (hm_remove sid sm)"
  by (auto simp: sessions_inv_def list_all_iff hm_remove_def hm_wf_def distinct_map_filter)

datatype session_op =
    Op_Create nat nat string string dynamic_permissions budget
  | Op_Record string f64 u64
  | Op_Change string permission_change
  | Op_Join string string
  | Op_Leave string string
  | Op_Destroy string

primrec session_step :: "session_op \<Rightarrow> session_manager \<Rightarrow> session_manager" where
  "session_step (Op_Create t ms sb p perms b) sm = snd (session_create t ms sb p perms b sm)"
| "session_step (Op_Record sid d n) sm = snd (record_usage sid d n sm)"
| "session_step (Op_Change sid c) sm = snd (change_permissions sid c sm)"
| "session_step (Op_Join sid pid) sm = snd (join_session sid pid sm)"
| "session_step (Op_Leave sid pid) sm = snd (leave_session sid pid sm)"
| "session_step (Op_Destroy sid) sm = snd (session_destroy sid sm)"

lemma session_step_inv: "sessions_inv sm \<Longrightarrow> sessions_inv (session_step op sm)"
  by (cases op)
    (auto simp: session_create_def record_usage_def change_permissions_def join_session_def
      leave_session_def session_destroy_def Let_def session_ok_def
      intro!: sessions_inv_insert sessions_inv_remove split: option.splits
      dest: sessions_inv_get)

interpretation session_runs: preserving session_step sessions_inv
  by unfold_locales (rule session_step_inv)

text \<open>
  Whatever sequence of operations a fresh manager runs, its keys stay distinct, every entry
  is stored under its own identifier, and no agent is listed twice.
\<close>

theorem sessions_inv_reachable: "sessions_inv (fold session_step ops session_manager_new)"
  by (rule session_runs.run_inv) (simp add: session_manager_new_def sessions_inv_def)

subsection \<open>Budgets\<close>

definition within_budget :: "budget \<Rightarrow> budget_usage \<Rightarrow> bool" where
  "within_budget b u \<longleftrightarrow>
     (bu_max_execs b = 0 \<or> unat (us_exec_count u) < unat (bu_max_execs b))
     \<and> (bu_max_total_secs b = 0 \<or> \<not> f64_ge (us_total_secs u) (f64_of_u64 (bu_max_total_secs b)))
     \<and> (bu_max_output_bytes b = 0 \<or> unat (us_output_bytes u) < unat (bu_max_output_bytes b))"

lemma word_pos_iff: "0 < (w :: 'a::len word) \<longleftrightarrow> w \<noteq> 0"
  by (simp add: word_neq_0_conv)

lemma check_budget_Inr_iff:
  "check_budget sid sm = Inr () \<longleftrightarrow>
     (\<exists>s. hm_get sm sid = Some s \<and> within_budget (ss_budget s) (ss_usage s))"
  by (auto simp: check_budget_def within_budget_def Let_def word_pos_iff word_le_nat_alt
      not_le split: option.splits if_splits)

lemma check_budget_NotFound_iff:
  "check_budget sid sm = Inl (SessionNotFound x) \<longleftrightarrow> hm_get sm sid = None \<and> x = sid"
  by (auto simp: check_budget_def Let_def split: option.splits if_splits)

text \<open>
  (C1) The budget check passes exactly when the session exists and none of its limits is used up,
  a limit of 0 being no limit; it fails with \<open>NotFound\<close> exactly when there is no session.
\<close>

theorem check_budget_spec:
  "(check_budget sid sm = Inr () \<longleftrightarrow>
     (\<exists>s. hm_get sm sid = Some s \<and> within_budget (ss_budget s) (ss_usage s)))
   \<and> (check_budget sid sm = Inl (SessionNotFound sid) \<longleftrightarrow> hm_get sm sid = None)"
  by (simp add: check_budget_Inr_iff check_budget_NotFound_iff)

subsection \<open>Budgets under concurrent executions\<close>

text \<open>
  An execution inside a session is two critical sections with the provider call between them:
  \<open>check_budget\<close> before it, \<open>record_usage\<close> after it, and only when it succeeded (the handler
  \<open>exec\<close> of \<open>server.rs\<close>). The world is the manager with the list of the sessions of
  the executions in flight; \<open>k\<close> bounds how many requests the server has open at once.
\<close>

type_synonym exec_world = "session_manager \<times> string list"

inductive exec_step :: "nat \<Rightarrow> exec_world \<Rightarrow> exec_world \<Rightarrow> bool" for k where
  exec_begin: "check_budget sid sm = Inr () \<Longrightarrow> length fl < k \<Longrightarrow> exec_step k (sm, fl) (sm, sid # fl)"
| exec_finish: "sid \<in> set fl \<Longrightarrow>
    exec_step k (sm, fl) (snd (record_usage sid d n sm), remove1 sid fl)"
| exec_failed: "sid \<in> set fl \<Longrightarrow> exec_step k (sm, fl) (sm, remove1 sid fl)"
| exec_create: "exec_step k (sm, fl) (snd (session_create t ms sb p perms b sm), fl)"
| exec_change: "exec_step k (sm, fl) (snd (change_permissions sid c sm), fl)"
| exec_join: "exec_step k (sm, fl) (snd (join_session sid pid sm), fl)"
| exec_leave: "exec_step k (sm, fl) (snd (leave_session sid pid sm), fl)"
| exec_destroy: "exec_step k (sm, fl) (snd (session_destroy sid sm), fl)"

inductive exec_reach :: "nat \<Rightarrow> exec_world \<Rightarrow> bool" for k where
  reach_init: "exec_reach k (session_manager_new, [])"
| reach_step: "exec_reach k w \<Longrightarrow> exec_step k w w' \<Longrightarrow> exec_reach k w'"

inductive_cases exec_stepE: "exec_step k (sm, fl) w"

text \<open>The executions counted and in flight exceed the limit by at most \<open>k - 1\<close>.\<close>

definition exec_bound :: "nat \<Rightarrow> exec_world \<Rightarrow> bool" where
  "exec_bound k w \<longleftrightarrow> length (snd w) \<le> k \<and>
     (\<forall>sid s. hm_get (fst w) sid = Some s \<longrightarrow> 0 < unat (bu_max_execs (ss_budget s)) \<longrightarrow>
        unat (us_exec_count (ss_usage s)) + count_list (snd w) sid
          < unat (bu_max_execs (ss_budget s)) + k)"

lemma exec_boundI:
  assumes "length fl \<le> k"
    and "\<And>sid s. hm_get sm sid = Some s \<Longrightarrow> 0 < unat (bu_max_execs (ss_budget s)) \<Longrightarrow>
        unat (us_exec_count (ss_usage s)) + count_list fl sid < unat (bu_max_execs (ss_budget s)) + k"
  shows "exec_bound k (sm, fl)"
  using assms by (simp add: exec_bound_def)

lemma exec_boundD:
  assumes "exec_bound k (sm, fl)" "hm_get sm sid = Some s" "0 < unat (bu_max_execs (ss_budget s))"
  shows "unat (us_exec_count (ss_usage s)) + count_list fl sid < unat (bu_max_execs (ss_budget s)) + k"
  using assms by (simp add: exec_bound_def)

lemma unat_add_one_le: "unat (w + 1) \<le> unat (w :: 'a::len word) + 1"
proof -
  have "unat (w + 1) = (unat w + 1) mod 2 ^ LENGTH('a)"
    by (simp add: unat_word_ariths)
  then show ?thesis
    by (metis mod_less_eq_dividend)
qed


lemma exec_bound_put:
  assumes "exec_bound k (sm, fl)" "length fl' \<le> length fl"
    and "\<And>x. x \<noteq> sid \<Longrightarrow> count_list fl' x \<le> count_list fl x"
    and "0 < unat (bu_max_execs (ss_budget s')) \<Longrightarrow>
      unat (us_exec_count (ss_usage s')) + count_list fl' sid < unat (bu_max_execs (ss_budget s')) + k"
  shows "exec_bound k (hm_insert sid s' sm, fl')"
proof (rule exec_boundI)
  show "length fl' \<le> k" using assms(1,2) by (simp add: exec_bound_def)
next
  fix x s
  assume "hm_get (hm_insert sid s' sm) x = Some s" and pos: "0 < unat (bu_max_execs (ss_budget s))"
  then consider "x = sid" "s = s'" | "x \<noteq> sid" "hm_get sm x = Some s"
    by (auto split: if_splits)
  then show "unat (us_exec_count (ss_usage s)) + count_list fl' x < unat (bu_max_execs (ss_budget s)) + k"
  proof cases
    case 1
    then show ?thesis using assms(4) pos by simp
  next
    case 2
    then show ?thesis using exec_boundD[OF assms(1) 2(2) pos] assms(3)[OF 2(1)] by linarith
  qed
qed

lemma exec_bound_same_usage:
  assumes "exec_bound k (sm, fl)" "hm_get sm sid = Some s"
    and "ss_usage s' = ss_usage s" "ss_budget s' = ss_budget s"
  shows "exec_bound k (hm_insert sid s' sm, fl)"
  using assms by (intro exec_bound_put) (auto dest: exec_boundD)

lemma exec_bound_fewer:
  assumes "exec_bound k (sm, fl)"
  shows "exec_bound k (sm, remove1 sid fl)"
proof (rule exec_boundI)
  show "length (remove1 sid fl) \<le> k"
    using assms by (auto simp: exec_bound_def length_remove1)
next
  fix x s
  assume "hm_get sm x = Some s" "0 < unat (bu_max_execs (ss_budget s))"
  from exec_boundD[OF assms this] show
    "unat (us_exec_count (ss_usage s)) + count_list (remove1 sid fl) x
      < unat (bu_max_execs (ss_budget s)) + k"
    using count_list_remove1_le[of sid fl x] by linarith
qed

lemma exec_bound_begin:
  assumes "exec_bound k (sm, fl)" "check_budget sid sm = Inr ()" "length fl < k"
  shows "exec_bound k (sm, sid # fl)"
proof (rule exec_boundI)
  show "length (sid # fl) \<le> k" using assms(3) by simp
next
  fix x s
  assume get: "hm_get sm x = Some s" and pos: "0 < unat (bu_max_execs (ss_budget s))"
  show "unat (us_exec_count (ss_usage s)) + count_list (sid # fl) x
      < unat (bu_max_execs (ss_budget s)) + k"
  proof (cases "x = sid")
    case True
    then have "unat (us_exec_count (ss_usage s)) < unat (bu_max_execs (ss_budget s))"
      using assms(2) get pos by (auto simp: check_budget_Inr_iff within_budget_def)
    moreover have "count_list fl x < k"
      using count_list_le_length[of fl x] assms(3) by linarith
    ultimately show ?thesis using True by simp
  next
    case False
    then show ?thesis using exec_boundD[OF assms(1) get pos] by simp
  qed
qed

lemma exec_bound_finish:
  assumes b: "exec_bound k (sm, fl)" and sid: "sid \<in> set fl"
  shows "exec_bound k (snd (record_usage sid d n sm), remove1 sid fl)"
proof (cases "hm_get sm sid")
  case None
  then show ?thesis using exec_bound_fewer[OF b] by (simp add: record_usage_def)
next
  case (Some s)
  have pos: "0 < count_list fl sid"
    using sid by (metis count_list_0_iff gr0I)
  have "exec_bound k (hm_insert sid (s\<lparr>ss_usage := add_usage d n (ss_usage s)\<rparr>) sm, remove1 sid fl)"
  proof (rule exec_bound_put[OF b])
    show "length (remove1 sid fl) \<le> length fl" by (simp add: length_remove1)
  next
    assume "0 < unat (bu_max_execs (ss_budget (s\<lparr>ss_usage := add_usage d n (ss_usage s)\<rparr>)))"
    with exec_boundD[OF b Some]
    have "unat (us_exec_count (ss_usage s)) + count_list fl sid < unat (bu_max_execs (ss_budget s)) + k"
      by simp
    then show "unat (us_exec_count (ss_usage (s\<lparr>ss_usage := add_usage d n (ss_usage s)\<rparr>)))
        + count_list (remove1 sid fl) sid
        < unat (bu_max_execs (ss_budget (s\<lparr>ss_usage := add_usage d n (ss_usage s)\<rparr>))) + k"
      using unat_add_one_le[of "us_exec_count (ss_usage s)"] pos sid
      by (simp add: add_usage_def count_list_remove1)
  qed (simp add: count_list_remove1)
  then show ?thesis using Some by (simp add: record_usage_def)
qed

lemma exec_bound_step:
  assumes "0 < k" "exec_bound k (sm, fl)" "exec_step k (sm, fl) w"
  shows "exec_bound k w"
  using assms(3)
proof (cases rule: exec_step.cases)
  case (exec_begin sid)
  then show ?thesis using exec_bound_begin assms(2) by simp
next
  case (exec_finish sid d n)
  then show ?thesis using exec_bound_finish assms(2) by simp
next
  case (exec_failed sid)
  then show ?thesis using exec_bound_fewer assms(2) by simp
next
  case (exec_create t ms sb p perms b)
  have "count_list fl x < m + k" if "0 < m" for x m
    using assms(2) count_list_le_length[of fl x] that by (auto simp: exec_bound_def)
  then show ?thesis
    using exec_create assms(2)
    by (auto simp: session_create_def Let_def budget_usage_default_def intro!: exec_bound_put)
next
  case (exec_change sid c)
  then show ?thesis using assms(2)
    by (auto simp: change_permissions_def Let_def split: option.splits intro: exec_bound_same_usage)
next
  case (exec_join sid pid)
  then show ?thesis using assms(2)
    by (auto simp: join_session_def split: option.splits intro: exec_bound_same_usage)
next
  case (exec_leave sid pid)
  then show ?thesis using assms(2)
    by (auto simp: leave_session_def split: option.splits intro: exec_bound_same_usage)
next
  case (exec_destroy sid)
  then show ?thesis using assms(2)
    by (auto simp: session_destroy_def exec_bound_def split: option.splits)
qed

lemma exec_reach_bound: "exec_reach k w \<Longrightarrow> 0 < k \<Longrightarrow> exec_bound k w"
proof (induction rule: exec_reach.induct)
  case reach_init
  then show ?case by (simp add: exec_bound_def session_manager_new_def)
next
  case (reach_step w w')
  then show ?case by (cases w) (auto intro: exec_bound_step)
qed

text \<open>
  (C18) With at most \<open>k\<close> executions in flight, whatever order their checks, their recordings and
  the other operations take, a session with a positive \<open>max_execs\<close> never counts more than
  \<open>max_execs + k - 1\<close> of them: exactly \<open>max_execs\<close> when executions come one at a time.
\<close>

theorem exec_count_bounded:
  assumes "exec_reach k (sm, fl)" "0 < k"
    and "hm_get sm sid = Some s" "0 < unat (bu_max_execs (ss_budget s))"
  shows "unat (us_exec_count (ss_usage s)) \<le> unat (bu_max_execs (ss_budget s)) + (k - 1)"
  using exec_boundD[OF exec_reach_bound[OF assms(1,2)] assms(3,4)] assms(2) by linarith

definition one_exec :: budget where
  "one_exec = budget_default\<lparr>bu_max_execs := 1\<rparr>"

definition one_exec_session :: session_manager where
  "one_exec_session = snd (session_create 0 0 ''sb'' ''docker'' dynamic_permissions_default one_exec [])"

lemma uuid_v4_short_0: "uuid_v4_short 0 = ''0''"
  by code_simp

lemma one_exec_session_get:
  "\<exists>s. hm_get one_exec_session ''ses_0'' = Some s \<and> ss_budget s = one_exec \<and> ss_usage s = budget_usage_default"
  by (simp add: one_exec_session_def session_create_def Let_def uuid_v4_short_0)

lemma one_exec_session_check: "check_budget ''ses_0'' one_exec_session = Inr ()"
  using one_exec_session_get
  by (auto simp: check_budget_Inr_iff within_budget_def one_exec_def budget_default_def
      budget_usage_default_def)

lemma one_exec_reach: "exec_reach k (one_exec_session, [])"
  unfolding one_exec_session_def
  by (rule reach_step[OF reach_init[unfolded session_manager_new_def] exec_create])

lemma one_exec_reach_begin:
  assumes "length fl < k" "exec_reach k (one_exec_session, fl)"
  shows "exec_reach k (one_exec_session, ''ses_0'' # fl)"
  by (rule reach_step[OF assms(2) exec_begin[OF one_exec_session_check assms(1)]])

text \<open>The witness of the bound: one execution at a time, in a session with room for one.\<close>

theorem exec_count_bounded_witness:
  "\<exists>s. hm_get one_exec_session ''ses_0'' = Some s \<and> unat (us_exec_count (ss_usage s)) \<le> 1"
proof -
  from one_exec_session_get obtain s where s: "hm_get one_exec_session ''ses_0'' = Some s"
    and b: "ss_budget s = one_exec" by auto
  have "unat (us_exec_count (ss_usage s)) \<le> unat (bu_max_execs (ss_budget s)) + (1 - 1)"
    by (rule exec_count_bounded[OF one_exec_reach _ s]) (simp_all add: b one_exec_def)
  then show ?thesis using s b by (simp add: one_exec_def)
qed

text \<open>
  The bound is tight: two executions whose checks both come before either recording leave a
  session that allows one execution with two counted.
\<close>

theorem exec_budget_overrun:
  "\<exists>sm s. exec_reach 2 (sm, []) \<and> hm_get sm ''ses_0'' = Some s
     \<and> bu_max_execs (ss_budget s) = 1 \<and> us_exec_count (ss_usage s) = 2"
proof -
  define sm1 where "sm1 = snd (record_usage ''ses_0'' (F_fin 0) 0 one_exec_session)"
  define sm2 where "sm2 = snd (record_usage ''ses_0'' (F_fin 0) 0 sm1)"
  have "exec_reach 2 (one_exec_session, [''ses_0'', ''ses_0''])"
    by (intro one_exec_reach_begin one_exec_reach) simp_all
  then have "exec_reach 2 (sm1, remove1 ''ses_0'' [''ses_0'', ''ses_0''])"
    unfolding sm1_def by (rule reach_step) (rule exec_finish, simp)
  then have "exec_reach 2 (sm2, remove1 ''ses_0'' [''ses_0''])"
    unfolding sm2_def by (intro reach_step[OF _ exec_finish]) simp_all
  moreover from one_exec_session_get obtain s where
    "hm_get one_exec_session ''ses_0'' = Some s" "ss_budget s = one_exec" "ss_usage s = budget_usage_default"
    by auto
  then have "\<exists>s. hm_get sm2 ''ses_0'' = Some s \<and> bu_max_execs (ss_budget s) = 1
      \<and> us_exec_count (ss_usage s) = 2"
    by (simp add: sm2_def sm1_def record_usage_def add_usage_def one_exec_def budget_usage_default_def)
  ultimately show ?thesis by auto
qed

subsection \<open>What the permissions allow\<close>

text \<open>
  The reading of a permission set the code documents: with the network on, an empty allowlist
  is no restriction (\<open>types.rs:58-60\<close>, \<open>capability.rs:92\<close>), a non-empty one lists what may be
  reached.
\<close>

definition net_allows :: "dynamic_permissions \<Rightarrow> string \<Rightarrow> bool" where
  "net_allows p h \<longleftrightarrow> dp_network p \<and> (dp_network_allowlist p = [] \<or> h \<in> set (dp_network_allowlist p))"

definition write_allows :: "dynamic_permissions \<Rightarrow> string \<Rightarrow> bool" where
  "write_allows p d \<longleftrightarrow> dp_writable p \<and> (dp_fs_paths p = [] \<or> d \<in> set (dp_fs_paths p))"

lemma filter_neq_Nil_iff: "filter (\<lambda>y. y \<noteq> x) xs = [] \<longleftrightarrow> set xs \<subseteq> {x}"
  by (auto simp: filter_empty_conv)


subsection \<open>The life of a session\<close>

text \<open>
  The life of a session: right after \<open>create\<close> the session is found under the returned
  identifier with no usage; \<open>destroy\<close> returns it, after which it is not found and the other
  sessions are what they were. A second \<open>create\<close> that reads the same clock returns the same
  identifier and the first session is lost.
\<close>

theorem session_lifecycle:
  "(case session_create t ms sb pv perms b sm of (sid, sm') \<Rightarrow>
      (\<exists>s. session_get sid sm' = Inr s \<and> ss_sandbox_id s = sb \<and> ss_provider s = pv
         \<and> ss_budget s = b \<and> ss_permissions s = perms \<and> ss_usage s = budget_usage_default
         \<and> fst (session_destroy sid sm') = Inr s)
    \<and> session_get sid (snd (session_destroy sid sm')) = Inl (SessionNotFound sid)
    \<and> map_option ss_sandbox_id (hm_get (snd (session_create t ms sb2 pv2 perms2 b2 sm')) sid) = Some sb2
    \<and> hm_get (snd (session_destroy sid sm')) = (hm_get sm)(sid := None))"
  by (auto simp: session_create_def session_get_def session_destroy_def Let_def)

text \<open>Joining and then leaving gives back the agents of the session, when the agent was not in it.\<close>

lemma join_leave:
  "hm_wf sm \<Longrightarrow> hm_get sm sid = Some s \<Longrightarrow> pid \<notin> set (ss_agent_pids s) \<Longrightarrow>
    hm_get (snd (leave_session sid pid (snd (join_session sid pid sm)))) sid = Some s"
  by (auto simp: join_session_def leave_session_def filter_neq_id)

end
