(* ===== verification/Session_Spec.thy ===== *)
theory Session_Spec
  imports Session
begin

text \<open>
  What the session manager promises, told by what happened and not by how it is stored: the
  specification keeps, for each session that is alive, the operation that opened it and those on it
  since, in order. What a session is charged, who is in it and what it may do are read off that
  history. The manager of \<open>Session\<close> implements it, answers included.
\<close>

subsection \<open>The history of the sessions\<close>

primrec op_session :: "session_op \<Rightarrow> string" where
  "op_session (Op_Create t ms sb pv perms b) = ''ses_'' @ show_hex t"
| "op_session (Op_Record sid d n) = sid"
| "op_session (Op_Change sid c) = sid"
| "op_session (Op_Join sid pid) = sid"
| "op_session (Op_Leave sid pid) = sid"
| "op_session (Op_Destroy sid) = sid"

primrec opens :: "session_op \<Rightarrow> bool" where
  "opens (Op_Create t ms sb pv perms b) = True"
| "opens (Op_Record sid d n) = False"
| "opens (Op_Change sid c) = False"
| "opens (Op_Join sid pid) = False"
| "opens (Op_Leave sid pid) = False"
| "opens (Op_Destroy sid) = False"

primrec ends :: "session_op \<Rightarrow> bool" where
  "ends (Op_Create t ms sb pv perms b) = False"
| "ends (Op_Record sid d n) = False"
| "ends (Op_Change sid c) = False"
| "ends (Op_Join sid pid) = False"
| "ends (Op_Leave sid pid) = False"
| "ends (Op_Destroy sid) = True"

type_synonym diary = "string \<rightharpoonup> session_op \<times> session_op list"

definition noted :: "session_op \<Rightarrow> diary \<Rightarrow> diary" where
  "noted op d = d(op_session op :=
     (case op of
        Op_Create _ _ _ _ _ _ \<Rightarrow> Some (op, [])
      | Op_Destroy _ \<Rightarrow> None
      | _ \<Rightarrow> map_option (\<lambda>(opening, es). (opening, es @ [op])) (d (op_session op))))"

definition latest :: "('a \<Rightarrow> bool) \<Rightarrow> 'a list \<Rightarrow> 'a option" where
  "latest P xs = find P (rev xs)"

lemma latest_simps [simp]:
  "latest P [] = None" "latest P (xs @ [x]) = (if P x then Some x else latest P xs)"
  by (simp_all add: latest_def)

definition charges :: "session_op list \<Rightarrow> (f64 \<times> u64) list" where
  "charges es = concat (map (\<lambda>e. case e of Op_Record _ d n \<Rightarrow> [(d, n)] | _ \<Rightarrow> []) es)"

definition changes :: "session_op list \<Rightarrow> permission_change list" where
  "changes es = concat (map (\<lambda>e. case e of Op_Change _ c \<Rightarrow> [c] | _ \<Rightarrow> []) es)"

lemma charges_simps [simp]:
  "charges [] = []" "charges (es @ [e]) = charges es @ (case e of Op_Record _ d n \<Rightarrow> [(d, n)] | _ \<Rightarrow> [])"
  by (simp_all add: charges_def)

lemma changes_simps [simp]:
  "changes [] = []" "changes (es @ [e]) = changes es @ (case e of Op_Change _ c \<Rightarrow> [c] | _ \<Rightarrow> [])"
  by (simp_all add: changes_def)

subsection \<open>What a history says of a session\<close>

text \<open>
  The usage is the number of charges and their sums. An agent is in the session when it joined
  after it last left.
\<close>

definition usage_told :: "session_op list \<Rightarrow> budget_usage \<Rightarrow> bool" where
  "usage_told es u \<longleftrightarrow>
     us_exec_count u = word_of_nat (length (charges es))
     \<and> us_total_secs u = foldl f64_add (F_fin 0) (map fst (charges es))
     \<and> us_output_bytes u = sum_list (map snd (charges es))"

definition agents_told :: "string \<Rightarrow> session_op list \<Rightarrow> string list \<Rightarrow> bool" where
  "agents_told sid es pids \<longleftrightarrow>
     distinct pids
     \<and> (\<forall>pid. pid \<in> set pids \<longleftrightarrow>
          latest (\<lambda>e. e = Op_Join sid pid \<or> e = Op_Leave sid pid) es = Some (Op_Join sid pid))"

text \<open>
  The network is as the last change that is about it says; a host is on the list when it was allowed
  after it was last denied and the network last disabled, a path when it was allowed after it was
  last denied; and writing is on from the first path that is allowed. What no change is about is as
  at the opening.
\<close>

definition last_says :: "('a \<Rightarrow> bool) \<Rightarrow> ('a \<Rightarrow> bool) \<Rightarrow> bool \<Rightarrow> 'a list \<Rightarrow> bool" where
  "last_says about yes start xs = (case latest about xs of None \<Rightarrow> start | Some x \<Rightarrow> yes x)"

lemma last_says_simps [simp]:
  "last_says about yes start [] = start"
  "last_says about yes start (xs @ [x]) = (if about x then yes x else last_says about yes start xs)"
  by (simp_all add: last_says_def)

definition permissions_told :: "dynamic_permissions \<Rightarrow> permission_change list \<Rightarrow> dynamic_permissions \<Rightarrow> bool" where
  "permissions_told start cs p \<longleftrightarrow>
     dp_network p = last_says (\<lambda>c. c = EnableNetwork \<or> c = DisableNetwork \<or> (\<exists>h. c = AllowHost h))
       (\<lambda>c. c \<noteq> DisableNetwork) (dp_network start) cs
     \<and> (\<forall>h. h \<in> set (dp_network_allowlist p) \<longleftrightarrow>
          last_says (\<lambda>c. c = AllowHost h \<or> c = DenyHost h \<or> c = DisableNetwork) (\<lambda>c. c = AllowHost h)
            (h \<in> set (dp_network_allowlist start)) cs)
     \<and> (\<forall>path. path \<in> set (dp_fs_paths p) \<longleftrightarrow>
          last_says (\<lambda>c. c = AllowPath path \<or> c = DenyPath path) (\<lambda>c. c = AllowPath path)
            (path \<in> set (dp_fs_paths start)) cs)
     \<and> (dp_writable p \<longleftrightarrow> dp_writable start \<or> (\<exists>path. AllowPath path \<in> set cs))"

definition told :: "string \<Rightarrow> session_op \<times> session_op list \<Rightarrow> session_state \<Rightarrow> bool" where
  "told sid h s \<longleftrightarrow>
     (case h of
        (Op_Create t ms sb pv perms b, es) \<Rightarrow>
          ss_id s = sid \<and> ss_sandbox_id s = sb \<and> ss_provider s = pv \<and> ss_budget s = b
          \<and> ss_created_at_ms s = word_of_nat ms \<and> usage_told es (ss_usage s)
          \<and> agents_told sid es (ss_agent_pids s) \<and> permissions_told perms (changes es) (ss_permissions s)
      | _ \<Rightarrow> False)"

subsection \<open>What the operations answer\<close>

datatype session_reply = Rp_Id string | Rp_Done | Rp_Permissions dynamic_permissions | Rp_Session session_state

primrec session_answer :: "session_op \<Rightarrow> session_manager \<Rightarrow> (session_error, session_reply) result" where
  "session_answer (Op_Create t ms sb p perms b) sm = Inr (Rp_Id (fst (session_create t ms sb p perms b sm)))"
| "session_answer (Op_Record sid d n) sm = map_sum id (\<lambda>_. Rp_Done) (fst (record_usage sid d n sm))"
| "session_answer (Op_Change sid c) sm = map_sum id Rp_Permissions (fst (change_permissions sid c sm))"
| "session_answer (Op_Join sid pid) sm = map_sum id (\<lambda>_. Rp_Done) (fst (join_session sid pid sm))"
| "session_answer (Op_Leave sid pid) sm = map_sum id (\<lambda>_. Rp_Done) (fst (leave_session sid pid sm))"
| "session_answer (Op_Destroy sid) sm = map_sum id Rp_Session (fst (session_destroy sid sm))"

text \<open>
  On a session that is not alive every operation but the opening fails with its identifier; a change
  answers the permissions after it, and the end of a session what it was.
\<close>

definition answer_told :: "session_op \<Rightarrow> diary \<Rightarrow> (session_error, session_reply) result \<Rightarrow> bool" where
  "answer_told op d r \<longleftrightarrow>
     (case (op, d (op_session op)) of
        (Op_Create _ _ _ _ _ _, _) \<Rightarrow> r = Inr (Rp_Id (op_session op))
      | (_, None) \<Rightarrow> r = Inl (SessionNotFound (op_session op))
      | (Op_Change sid c, Some (Op_Create _ _ _ _ start _, es)) \<Rightarrow>
          (\<exists>p. r = Inr (Rp_Permissions p) \<and> permissions_told start (changes es @ [c]) p)
      | (Op_Destroy sid, Some h) \<Rightarrow> (\<exists>s. r = Inr (Rp_Session s) \<and> told sid h s)
      | (_, Some _) \<Rightarrow> r = Inr Rp_Done)"

subsection \<open>The manager follows the history\<close>

lemma usage_told_add: "usage_told es u \<Longrightarrow> usage_told (es @ [Op_Record sid d n]) (add_usage d n u)"
  by (simp add: usage_told_def add_usage_def)

lemma usage_told_other:
  "charges (es @ [e]) = charges es \<Longrightarrow> usage_told es u \<Longrightarrow> usage_told (es @ [e]) u"
  by (simp add: usage_told_def del: charges_simps)

lemma agents_told_join:
  "agents_told sid es pids \<Longrightarrow>
    agents_told sid (es @ [Op_Join sid pid]) (if pid \<in> set pids then pids else pids @ [pid])"
  by (auto simp: agents_told_def)

lemma agents_told_leave:
  "agents_told sid es pids \<Longrightarrow> agents_told sid (es @ [Op_Leave sid pid]) (filter (\<lambda>p. p \<noteq> pid) pids)"
  by (auto simp: agents_told_def)

lemma agents_told_other:
  "(\<And>pid. e \<noteq> Op_Join sid pid \<and> e \<noteq> Op_Leave sid pid) \<Longrightarrow> agents_told sid es pids \<Longrightarrow> agents_told sid (es @ [e]) pids"
  by (simp add: agents_told_def)

lemma permissions_told_change: "permissions_told start cs p \<Longrightarrow> permissions_told start (cs @ [c]) (apply_change c p)"
  by (cases c) (auto simp: permissions_told_def)

lemma told_cases:
  assumes "told sid h s"
  obtains t ms sb pv perms b es where "h = (Op_Create t ms sb pv perms b, es)"
  using assms by (cases h; cases "fst h") (auto simp: told_def)

lemma told_opened:
  "op_session (Op_Create t ms sb pv perms b) = sid \<Longrightarrow> hm_get (snd (session_create t ms sb pv perms b sm)) sid = Some s \<Longrightarrow>
    told sid (Op_Create t ms sb pv perms b, []) s"
  by (auto simp: told_def session_create_def uuid_v4_short_def Let_def usage_told_def agents_told_def permissions_told_def
      budget_usage_default_def)

definition follows :: "session_manager \<Rightarrow> diary \<Rightarrow> bool" where
  "follows sm d \<longleftrightarrow> sessions_inv sm \<and> (\<forall>sid. rel_option (\<lambda>s h. told sid h s) (hm_get sm sid) (d sid))"

lemma follows_at: "follows sm d \<Longrightarrow> rel_option (\<lambda>s h. told sid h s) (hm_get sm sid) (d sid)"
  by (simp add: follows_def)

lemma follows_upd:
  assumes "follows sm d" "sessions_inv sm'"
    and "\<And>j. j \<noteq> sid \<Longrightarrow> hm_get sm' j = hm_get sm j"
    and "rel_option (\<lambda>s h. told sid h s) (hm_get sm' sid) h"
  shows "follows sm' (d(sid := h))"
  using assms by (auto simp: follows_def)

lemma session_step_frame: "j \<noteq> op_session op \<Longrightarrow> hm_get (session_step op sm) j = hm_get sm j"
  by (cases op)
    (auto simp: session_create_def uuid_v4_short_def record_usage_def change_permissions_def join_session_def
      leave_session_def session_destroy_def Let_def split: option.split)

lemma session_step_missing:
  "hm_get sm (op_session op) = None \<Longrightarrow> \<not> opens op \<Longrightarrow> session_step op sm = sm"
  by (cases op)
    (auto simp: record_usage_def change_permissions_def join_session_def leave_session_def session_destroy_def)

lemma session_step_told:
  assumes "hm_get sm (op_session op) = Some s" "told (op_session op) (opening, es) s"
    and "\<not> opens op" "\<not> ends op"
  shows "\<exists>s'. hm_get (session_step op sm) (op_session op) = Some s' \<and> told (op_session op) (opening, es @ [op]) s'"
proof -
  obtain t ms sb pv perms b where op: "opening = Op_Create t ms sb pv perms b"
    using assms(2) by (auto elim: told_cases)
  show ?thesis
    using assms unfolding op
    by (cases op)
      (auto simp: told_def record_usage_def change_permissions_def join_session_def leave_session_def Let_def
        usage_told_add usage_told_other agents_told_join[simplified] agents_told_leave agents_told_other
        permissions_told_change dest: agents_told_join split: if_splits)
qed

lemma session_step_follows:
  assumes "follows sm d"
  shows "follows (session_step op sm) (noted op d)"
proof -
  have "sessions_inv (session_step op sm)"
    using assms by (simp add: follows_def session_step_inv)
  note upd = follows_upd[OF assms this, of "op_session op", OF session_step_frame]
  note at = follows_at[OF assms, of "op_session op"]
  consider (create) t ms sb pv perms b where "op = Op_Create t ms sb pv perms b" | (destroy) sid where "op = Op_Destroy sid"
    | (other) "\<not> opens op" "\<not> ends op"
    by (cases op) auto
  then show ?thesis
  proof cases
    case create
    obtain s where "hm_get (session_step op sm) (op_session op) = Some s"
      by (simp add: create session_create_def uuid_v4_short_def Let_def)
    then show ?thesis
      using upd[of "Some (op, [])"] told_opened[of t ms sb pv perms b "op_session op" sm s]
      by (simp add: noted_def create)
  next
    case destroy
    then show ?thesis
      using upd[of None] by (simp add: noted_def session_destroy_def split: option.splits)
  next
    case other
    then have noted: "noted op d = d(op_session op := map_option (\<lambda>(opening, es). (opening, es @ [op])) (d (op_session op)))"
      by (cases op) (simp_all add: noted_def)
    show ?thesis
      unfolding noted
    proof (rule upd)
      show "rel_option (\<lambda>s h. told (op_session op) h s) (hm_get (session_step op sm) (op_session op))
        (map_option (\<lambda>(opening, es). (opening, es @ [op])) (d (op_session op)))"
        using at session_step_told[of sm op] session_step_missing[of sm op] other
        by (cases "hm_get sm (op_session op)"; cases "d (op_session op)") fastforce+
    qed
  qed
qed

lemma session_answer_told:
  assumes "follows sm d"
  shows "answer_told op d (session_answer op sm)"
  using follows_at[OF assms, of "op_session op"]
  by (cases op; cases "hm_get sm (op_session op)"; cases "d (op_session op)")
    (auto simp: answer_told_def session_create_def uuid_v4_short_def record_usage_def change_permissions_def
      join_session_def leave_session_def session_destroy_def Let_def told_def
      intro!: permissions_told_change split: session_op.splits)

interpretation session_diary: simulating session_step session_answer noted answer_told follows
  by unfold_locales (rule session_step_follows session_answer_told, assumption)+

lemma follows_new: "follows session_manager_new Map.empty"
  by (simp add: follows_def session_manager_new_def sessions_inv_def)

lemma session_list_ids:
  assumes "sessions_inv sm"
  shows "map ss_id (session_list sm) = map fst sm"
  using assms by (auto simp: session_list_def sessions_inv_def session_ok_def list_all_iff)

text \<open>
  (C13) The manager implements its specification by the history: after any sequence of operations a
  session is there exactly when it was opened and not ended since; its sandbox, provider, budget and
  time are those of its opening, its usage the number and the sums of the charges since, its agents
  those that joined after they last left, and its network, hosts, paths and writing what the last
  change about each says. The next operation, whichever it is, answers by the history too, with
  \<open>NotFound\<close> exactly when the session is not there. The listing has every session exactly once.
\<close>

theorem session_manager_refines:
  fixes ops :: "session_op list"
  defines "sm \<equiv> fold session_step ops session_manager_new" and "d \<equiv> fold noted ops Map.empty"
  shows "(\<forall>sid. case d sid of
        None \<Rightarrow> session_get sid sm = Inl (SessionNotFound sid)
      | Some h \<Rightarrow> \<exists>s. session_get sid sm = Inr s \<and> told sid h s)
    \<and> (\<forall>op. answer_told op d (session_answer op sm))
    \<and> distinct (map ss_id (session_list sm)) \<and> set (map ss_id (session_list sm)) = dom d"
proof (intro conjI allI)
  have run: "follows sm d"
    unfolding sm_def d_def by (rule session_diary.run_rel[OF follows_new])
  then have inv: "sessions_inv sm" "hm_wf sm"
    by (simp_all add: follows_def sessions_inv_def)
  fix sid
  show "case d sid of
      None \<Rightarrow> session_get sid sm = Inl (SessionNotFound sid)
    | Some h \<Rightarrow> \<exists>s. session_get sid sm = Inr s \<and> told sid h s"
    using follows_at[OF run, of sid] by (cases "hm_get sm sid"; cases "d sid") (auto simp: session_get_def)
  show "answer_told op d (session_answer op sm)" for op
    by (rule session_answer_told[OF run])
  show "distinct (map ss_id (session_list sm))"
    using inv by (simp only: session_list_ids[OF inv(1)]) (simp add: hm_wf_def)
  have "hm_get sm j = None \<longleftrightarrow> d j = None" for j
    using follows_at[OF run, of j] by (cases "hm_get sm j"; cases "d j") auto
  then have "dom (hm_get sm) = dom d" by (auto simp: dom_def)
  moreover have "dom (hm_get sm) = fst ` set sm"
    by (simp add: hm_get_def[abs_def] dom_map_of_conv_image_fst)
  ultimately show "set (map ss_id (session_list sm)) = dom d"
    by (simp only: session_list_ids[OF inv(1)]) simp
qed

end
