(* ===== verification/Wallet.thy ===== *)
theory Wallet
  imports Session Capabilities
begin

text \<open>
  The capability wallet, \<open>capability.rs\<close>: what an agent is granted, and its translation to a
  sandbox configuration and a session budget. The environment of the host process is an
  argument, the function \<open>std::env::var\<close> reads.
\<close>

subsection \<open>Data\<close>

record network_capability =
  nc_enabled :: bool
  nc_allowed_hosts :: "string list"
  nc_max_egress_bytes :: u64

record filesystem_capability =
  fc_writable :: bool
  fc_writable_paths :: "string list"
  fc_max_write_bytes :: u64

record compute_capability =
  cc_max_exec_count :: u32
  cc_max_duration_secs :: u64
  cc_max_memory_bytes :: u64
  cc_max_cpus :: f64

record secrets_capability =
  sec_allowed_env_keys :: "string list"

record output_capability =
  oc_max_stdout_bytes :: u64
  oc_max_stderr_bytes :: u64

record sandbox_grant =
  sg_network :: network_capability
  sg_filesystem :: filesystem_capability
  sg_compute :: compute_capability
  sg_secrets :: secrets_capability
  sg_output :: output_capability
  sg_provider :: string
  sg_image :: string
  sg_metadata :: "(string, string) hash_map"

record usage_report =
  ur_exec_count :: u32
  ur_duration_secs :: f64
  ur_stdout_bytes :: u64
  ur_stderr_bytes :: u64
  ur_network_hosts_contacted :: "string list"
  ur_network_egress_bytes :: u64
  ur_fs_write_bytes :: u64
  ur_fs_paths_written :: "string list"
  ur_peak_memory_bytes :: u64
  ur_violations :: "string list"

definition sandbox_grant_default :: sandbox_grant where
  "sandbox_grant_default =
     \<lparr>sg_network = \<lparr>nc_enabled = False, nc_allowed_hosts = [], nc_max_egress_bytes = 0\<rparr>,
      sg_filesystem = \<lparr>fc_writable = False, fc_writable_paths = [], fc_max_write_bytes = 0\<rparr>,
      sg_compute = \<lparr>cc_max_exec_count = 0, cc_max_duration_secs = 0, cc_max_memory_bytes = 0,
                    cc_max_cpus = F_fin 0\<rparr>,
      sg_secrets = \<lparr>sec_allowed_env_keys = []\<rparr>,
      sg_output = \<lparr>oc_max_stdout_bytes = 0, oc_max_stderr_bytes = 0\<rparr>,
      sg_provider = [], sg_image = [], sg_metadata = []\<rparr>"

subsection \<open>The translations\<close>

definition grant_memory :: "compute_capability \<Rightarrow> string option" where
  "grant_memory c =
     (if 0 < cc_max_memory_bytes c
      then Some (show_u64 (cc_max_memory_bytes c div (1024 * 1024)) @ ''m'') else None)"

definition grant_env :: "(string \<Rightarrow> string option) \<Rightarrow> string list \<Rightarrow> (string, string) hash_map" where
  "grant_env env_var keys =
     fold (\<lambda>key m. case env_var key of Some v \<Rightarrow> hm_insert key v m | None \<Rightarrow> m) keys []"

definition to_sandbox_config :: "(string \<Rightarrow> string option) \<Rightarrow> sandbox_grant \<Rightarrow> sandbox_config" where
  "to_sandbox_config env_var g =
     \<lparr>sc_provider = (if sg_provider g = [] then ''docker'' else sg_provider g),
      sc_image = (if sg_image g = [] then ''python:3.12-slim'' else sg_image g),
      sc_memory = grant_memory (sg_compute g),
      sc_cpus = (if f64_pos (cc_max_cpus (sg_compute g)) then Some (cc_max_cpus (sg_compute g)) else None),
      sc_timeout_secs = (if 0 < cc_max_duration_secs (sg_compute g)
        then cc_max_duration_secs (sg_compute g) else 300),
      sc_network = nc_enabled (sg_network g),
      sc_writable = fc_writable (sg_filesystem g),
      sc_env = grant_env env_var (sec_allowed_env_keys (sg_secrets g)),
      sc_mounts = [], sc_kernel = None, sc_rootfs = None, sc_trace_enabled = True,
      sc_network_allowlist = nc_allowed_hosts (sg_network g),
      sc_fs_paths = fc_writable_paths (sg_filesystem g)\<rparr>"

definition to_session_budget :: "sandbox_grant \<Rightarrow> budget" where
  "to_session_budget g =
     \<lparr>bu_max_execs = cc_max_exec_count (sg_compute g),
      bu_max_total_secs = cc_max_duration_secs (sg_compute g),
      bu_max_output_bytes = oc_max_stdout_bytes (sg_output g) + oc_max_stderr_bytes (sg_output g)\<rparr>"

subsection \<open>Least privilege\<close>

lemma grant_env_get:
  "hm_get (grant_env env_var keys) k = (if k \<in> set keys then env_var k else None)"
proof -
  have "hm_get (fold (\<lambda>key m. case env_var key of Some v \<Rightarrow> hm_insert key v m | None \<Rightarrow> m) keys m) k
      = (if k \<in> set keys \<and> env_var k \<noteq> None then env_var k else hm_get m k)" for m
    by (induction keys arbitrary: m) (auto split: option.splits)
  then show ?thesis
    by (auto simp: grant_env_def)
qed

text \<open>
  The sandbox sees an environment variable of the host exactly when the wallet lists its
  key, whatever the environment; and the wallet that grants nothing gives the default
  configuration, with no network, no writes and no variable.
\<close>

theorem grant_least_privilege:
  "hm_get (sc_env (to_sandbox_config env_var g)) k =
     (if k \<in> set (sec_allowed_env_keys (sg_secrets g)) then env_var k else None)
   \<and> to_sandbox_config env_var sandbox_grant_default = sandbox_config_default"
proof -
  have "grant_env env_var [] = []"
    by (simp add: grant_env_def)
  then show ?thesis
    by (simp add: to_sandbox_config_def grant_env_get sandbox_grant_default_def grant_memory_def
        sandbox_config_default_def default_image_def default_timeout_def)
qed

subsection \<open>Limits\<close>


text \<open>
  A wallet that grants less than one MiB of memory asks for \<open>0m\<close>, which the container runtime
  reads as no limit at all.
\<close>

lemma grant_memory_zero:
  "0 < unat (cc_max_memory_bytes c) \<Longrightarrow> unat (cc_max_memory_bytes c) < 1048576 \<Longrightarrow>
    grant_memory c = Some ''0m''"
proof -
  assume a: "0 < unat (cc_max_memory_bytes c)" "unat (cc_max_memory_bytes c) < 1048576"
  then have "cc_max_memory_bytes c div (1024 * 1024) = 0"
    by (simp add: div_word_less word_less_nat_alt)
  moreover have "show_u64 0 = ''0''" by code_simp
  ultimately show ?thesis
    using a(1) by (simp add: grant_memory_def word_less_nat_alt)
qed

end
