(* ===== verification/Retry.thy ===== *)
theory Retry
  imports Types
begin

text \<open>
  Retry policies, \<open>retry.rs\<close>: the reading of a policy from a request, the delay before a
  retry, and the decision to retry.
\<close>

datatype backoff_strategy = Backoff_None | Backoff_Linear | Backoff_Exponential

datatype retry_condition = On_Timeout | On_Oom | On_NonzeroExit

record retry_config =
  rc_max_attempts :: u32
  rc_backoff :: backoff_strategy
  rc_initial_delay_ms :: u64
  rc_retry_on :: "retry_condition list"

definition no_retry :: retry_config where
  "no_retry = \<lparr>rc_max_attempts = 1, rc_backoff = Backoff_None, rc_initial_delay_ms = 1000, rc_retry_on = []\<rparr>"

definition parse_backoff :: "string \<Rightarrow> backoff_strategy" where
  "parse_backoff s =
     (if s = ''linear'' then Backoff_Linear
      else if s = ''exponential'' then Backoff_Exponential else Backoff_None)"

definition parse_condition :: "string \<Rightarrow> retry_condition option" where
  "parse_condition s =
     (if s = ''timeout'' then Some On_Timeout
      else if s = ''oom'' then Some On_Oom
      else if s = ''nonzero_exit'' then Some On_NonzeroExit else None)"

definition retry_from_proto :: "retry_policy option \<Rightarrow> retry_config" where
  "retry_from_proto policy =
     (case policy of
        None \<Rightarrow> no_retry
      | Some p \<Rightarrow>
          (if 1 < rp_max_attempts p then
             \<lparr>rc_max_attempts = rp_max_attempts p,
              rc_backoff = parse_backoff (rp_backoff p),
              rc_initial_delay_ms = (if 0 < rp_initial_delay_ms p then rp_initial_delay_ms p else 1000),
              rc_retry_on = List.map_filter parse_condition (rp_retry_on p)\<rparr>
           else no_retry))"

definition delay_ms :: "retry_config \<Rightarrow> u32 \<Rightarrow> u64" where
  "delay_ms c attempt =
     (case rc_backoff c of
        Backoff_None \<Rightarrow> rc_initial_delay_ms c
      | Backoff_Linear \<Rightarrow> rc_initial_delay_ms c * (ucast attempt + 1)
      | Backoff_Exponential \<Rightarrow> rc_initial_delay_ms c * 2 ^ unat attempt)"

definition should_retry_error :: "retry_config \<Rightarrow> provider_error \<Rightarrow> bool" where
  "should_retry_error c err =
     (if rc_retry_on c = [] then True
      else (case err of Timeout _ \<Rightarrow> On_Timeout \<in> set (rc_retry_on c) | _ \<Rightarrow> False))"

definition should_retry_exit :: "retry_config \<Rightarrow> i32 \<Rightarrow> bool" where
  "should_retry_exit c exit_code =
     (if exit_code = 0 then False
      else if rc_retry_on c = [] then True
      else On_NonzeroExit \<in> set (rc_retry_on c))"

subsection \<open>The conditions of a policy\<close>

definition known_condition :: "string \<Rightarrow> bool" where
  "known_condition s \<longleftrightarrow> s \<in> {''timeout'', ''oom'', ''nonzero_exit''}"

lemma parse_condition_None_iff: "parse_condition s = None \<longleftrightarrow> \<not> known_condition s"
  by (simp add: parse_condition_def known_condition_def)

lemma parse_condition_Some_iff:
  "parse_condition s = Some c \<longleftrightarrow>
     (c = On_Timeout \<and> s = ''timeout'') \<or> (c = On_Oom \<and> s = ''oom'')
     \<or> (c = On_NonzeroExit \<and> s = ''nonzero_exit'')"
  by (auto simp: parse_condition_def)

lemma set_map_filter_iff: "x \<in> set (List.map_filter f ys) \<longleftrightarrow> (\<exists>y\<in>set ys. f y = Some x)"
  by (induction ys) (auto simp: List.map_filter_def)

lemma map_filter_Nil_iff: "List.map_filter f ys = [] \<longleftrightarrow> list_all (\<lambda>y. f y = None) ys"
  by (induction ys) (auto simp: List.map_filter_def)

lemma retry_conditions_Nil_iff:
  "List.map_filter parse_condition ss = [] \<longleftrightarrow> list_all (\<lambda>s. \<not> known_condition s) ss"
  by (simp add: map_filter_Nil_iff parse_condition_None_iff)

lemma retry_conditions_mem_iff:
  "On_Timeout \<in> set (List.map_filter parse_condition ss) \<longleftrightarrow> ''timeout'' \<in> set ss"
  "On_NonzeroExit \<in> set (List.map_filter parse_condition ss) \<longleftrightarrow> ''nonzero_exit'' \<in> set ss"
  by (auto simp: set_map_filter_iff parse_condition_Some_iff)

text \<open>
  When a failure is retried under the policy of a request: a provider error when the policy
  asks for no retry at all, when it names no condition the server knows (an unknown name is
  dropped, so a list of unknown names retries on any error), or when it names \<open>timeout\<close> and
  the error is one. The condition \<open>oom\<close> enables no retry. An exit code of 0 is never retried.
\<close>

theorem should_retry_spec:
  "(should_retry_error (retry_from_proto (Some p)) err \<longleftrightarrow>
      unat (rp_max_attempts p) \<le> 1 \<or> list_all (\<lambda>s. \<not> known_condition s) (rp_retry_on p)
      \<or> (''timeout'' \<in> set (rp_retry_on p) \<and> (\<exists>t. err = Timeout t)))
   \<and> (should_retry_exit (retry_from_proto (Some p)) code \<longleftrightarrow>
      code \<noteq> 0 \<and> (unat (rp_max_attempts p) \<le> 1 \<or> list_all (\<lambda>s. \<not> known_condition s) (rp_retry_on p)
      \<or> ''nonzero_exit'' \<in> set (rp_retry_on p)))"
  by (auto simp: should_retry_error_def should_retry_exit_def retry_from_proto_def no_retry_def
      retry_conditions_mem_iff retry_conditions_Nil_iff word_less_nat_alt split: provider_error.splits)

subsection \<open>The delays\<close>

lemma retry_from_proto_positive:
  "0 < unat (rc_max_attempts (retry_from_proto p)) \<and> 0 < unat (rc_initial_delay_ms (retry_from_proto p))"
  by (auto simp: retry_from_proto_def no_retry_def word_less_nat_alt split: option.splits)

definition nominal_delay :: "retry_config \<Rightarrow> nat \<Rightarrow> nat" where
  "nominal_delay c n =
     (case rc_backoff c of
        Backoff_None \<Rightarrow> unat (rc_initial_delay_ms c)
      | Backoff_Linear \<Rightarrow> unat (rc_initial_delay_ms c) * (n + 1)
      | Backoff_Exponential \<Rightarrow> unat (rc_initial_delay_ms c) * 2 ^ n)"

lemma delay_ms_nominal: "delay_ms c a = word_of_nat (nominal_delay c (unat a))"
  by (cases "rc_backoff c") (simp_all add: delay_ms_def nominal_delay_def distrib_left)

lemma nominal_delay_mono: "m \<le> n \<Longrightarrow> nominal_delay c m \<le> nominal_delay c n"
  by (cases "rc_backoff c") (simp_all add: nominal_delay_def)

text \<open>
  (C39) The delay is the nominal one of the strategy, reduced modulo \<open>2^64\<close>: it is the nominal
  one as long as that fits, and then grows with the attempt; with exponential backoff it is 0
  from attempt 64 on, so the retries come back to back.
\<close>

theorem delay_ms_spec:
  assumes "unat a \<le> unat b"
  shows "unat (delay_ms c b) = nominal_delay c (unat b) mod 2 ^ 64
    \<and> (nominal_delay c (unat b) < 2 ^ 64 \<longrightarrow> unat (delay_ms c a) \<le> unat (delay_ms c b))
    \<and> (rc_backoff c = Backoff_Exponential \<longrightarrow> 64 \<le> unat b \<longrightarrow> delay_ms c b = 0)"
proof (intro conjI impI)
  show nom: "unat (delay_ms c b) = nominal_delay c (unat b) mod 2 ^ 64"
    by (simp add: delay_ms_nominal unsigned_of_nat take_bit_eq_mod)
  show "unat (delay_ms c a) \<le> unat (delay_ms c b)" if "nominal_delay c (unat b) < 2 ^ 64"
    using that nominal_delay_mono[OF assms, of c]
    by (simp add: delay_ms_nominal unsigned_of_nat take_bit_eq_mod del: power_numeral)
  show "delay_ms c b = 0" if e: "rc_backoff c = Backoff_Exponential" "64 \<le> unat b"
  proof -
    have z: "(2 :: u64) ^ unat b = 0"
      using e(2) by (subst exp_eq_zero_iff) simp
    then show ?thesis
      by (simp only: delay_ms_def e(1) backoff_strategy.case z mult_zero_right)
  qed
qed

theorem delay_ms_spec_witness:
  "delay_ms \<lparr>rc_max_attempts = 100, rc_backoff = Backoff_Exponential, rc_initial_delay_ms = 1000,
     rc_retry_on = []\<rparr> 64 = 0"
  using delay_ms_spec[of 2 64 "\<lparr>rc_max_attempts = 100, rc_backoff = Backoff_Exponential,
     rc_initial_delay_ms = 1000, rc_retry_on = []\<rparr>"] by simp

end
