(* ===== verification/Idempotency.thy ===== *)
theory Idempotency
  imports Runs Rust_Map
begin

text \<open>
  The cache of responses to idempotent requests, \<open>idempotency.rs\<close>. An \<open>Instant\<close> is a number of
  nanoseconds of the monotonic clock; the elapsed time saturates at 0, as natural number
  subtraction does. The clock readings are arguments; both methods hold the lock throughout.
\<close>

definition default_ttl :: nat where
  "default_ttl = 600 * 1000000000"

definition max_entries :: nat where
  "max_entries = 10000"

record 'r cache_entry =
  ce_response :: 'r
  ce_inserted_at :: nat

record 'r idempotency_cache =
  ic_entries :: "(string, 'r cache_entry) hash_map"
  ic_ttl :: nat

definition idempotency_cache_new :: "'r idempotency_cache" where
  "idempotency_cache_new = \<lparr>ic_entries = [], ic_ttl = default_ttl\<rparr>"

definition idem_get :: "nat \<Rightarrow> string \<Rightarrow> 'r idempotency_cache \<Rightarrow> 'r option \<times> 'r idempotency_cache" where
  "idem_get now key c =
     (case hm_get (ic_entries c) key of
        Some e \<Rightarrow>
          (if now - ce_inserted_at e < ic_ttl c then (Some (ce_response e), c)
           else (None, c\<lparr>ic_entries := hm_remove key (ic_entries c)\<rparr>))
      | None \<Rightarrow> (None, c))"

definition idem_put :: "nat \<Rightarrow> nat \<Rightarrow> string \<Rightarrow> 'r \<Rightarrow> 'r idempotency_cache \<Rightarrow> 'r idempotency_cache" where
  "idem_put now_evict now key response c =
     (let es = (if max_entries \<le> length (ic_entries c)
                then hm_retain (\<lambda>_ e. now_evict - ce_inserted_at e < ic_ttl c) (ic_entries c)
                else ic_entries c)
      in c\<lparr>ic_entries := hm_insert key \<lparr>ce_response = response, ce_inserted_at = now\<rparr> es\<rparr>)"

subsection \<open>The contract of a replay cache\<close>

text \<open>
  What the handlers rely on. \<open>holds c k r t\<close>: until the time \<open>t\<close>, a look-up of \<open>k\<close> answers \<open>r\<close>.
  Look-ups up to that time keep it, and so does storing under another key with an eviction
  that reads the clock by that time.
\<close>

locale replay_cache =
  fixes get :: "nat \<Rightarrow> string \<Rightarrow> 'c \<Rightarrow> 'r option \<times> 'c"
    and put :: "nat \<Rightarrow> nat \<Rightarrow> string \<Rightarrow> 'r \<Rightarrow> 'c \<Rightarrow> 'c"
    and holds :: "'c \<Rightarrow> string \<Rightarrow> 'r \<Rightarrow> nat \<Rightarrow> bool"
    and ok :: "'c \<Rightarrow> bool"
  assumes get_ok: "ok c \<Longrightarrow> ok (snd (get now k c))"
    and put_ok: "ok c \<Longrightarrow> ok (put te tp k r c)"
    and get_answers: "ok c \<Longrightarrow> holds c k r t \<Longrightarrow> now \<le> t \<Longrightarrow> get now k c = (Some r, c)"
    and get_keeps: "ok c \<Longrightarrow> holds c k r t \<Longrightarrow> now \<le> t \<Longrightarrow> holds (snd (get now j c)) k r t"
    and put_keeps: "ok c \<Longrightarrow> holds c k r t \<Longrightarrow> te \<le> t \<Longrightarrow> j \<noteq> k \<Longrightarrow> holds (put te tp j x c) k r t"
begin

text \<open>A request with a key: a look-up and, when it misses and the work succeeds, a store.\<close>

definition visit :: "nat \<Rightarrow> nat \<Rightarrow> nat \<Rightarrow> string \<Rightarrow> 'r option \<Rightarrow> 'c \<Rightarrow> 'c" where
  "visit now te tp key outcome c =
     (case get now key c of
        (Some _, c') \<Rightarrow> c'
      | (None, c') \<Rightarrow> (case outcome of None \<Rightarrow> c' | Some x \<Rightarrow> put te tp key x c'))"

lemma visit_ok: "ok c \<Longrightarrow> ok (visit now te tp key outcome c)"
  using get_ok[of c now key] by (auto simp: visit_def put_ok split: prod.split option.split)

text \<open>A request under the same key, too, leaves the answer in place: it hits and stores nothing.\<close>

lemma visit_keeps:
  assumes "ok c" "holds c k r t" "now \<le> t" "te \<le> t"
  shows "holds (visit now te tp key outcome c) k r t"
proof (cases "key = k")
  case True
  then show ?thesis
    using get_answers[OF assms(1-3)] assms(2) by (simp add: visit_def)
next
  case False
  then show ?thesis
    using get_keeps[OF assms(1-3), of key] get_ok[OF assms(1), of now key] assms(4)
    by (auto simp: visit_def put_keeps split: prod.split option.split)
qed

end

subsection \<open>Runs of the cache\<close>

datatype 'r cache_op = Cache_Get nat string | Cache_Put nat nat string 'r

primrec cache_step :: "'r cache_op \<Rightarrow> 'r idempotency_cache \<Rightarrow> 'r idempotency_cache" where
  "cache_step (Cache_Get now key) c = snd (idem_get now key c)"
| "cache_step (Cache_Put te t key r) c = idem_put te t key r c"

text \<open>The operations that happen by time \<open>t\<close> and do not store a response for \<open>k\<close>.\<close>

primrec leaves_alone :: "string \<Rightarrow> nat \<Rightarrow> 'r cache_op \<Rightarrow> bool" where
  "leaves_alone k t (Cache_Get now key) \<longleftrightarrow> now \<le> t"
| "leaves_alone k t (Cache_Put te now key r) \<longleftrightarrow> te \<le> t \<and> key \<noteq> k"

definition cache_ok :: "'r idempotency_cache \<Rightarrow> bool" where
  "cache_ok c \<longleftrightarrow> hm_wf (ic_entries c)"

lemma cache_step_ok: "cache_ok c \<Longrightarrow> cache_ok (cache_step op c)"
  by (cases op) (auto simp: cache_ok_def idem_get_def idem_put_def Let_def split: option.splits)

interpretation cache_runs: preserving cache_step cache_ok
  by unfold_locales (rule cache_step_ok)

lemma cache_step_ttl [simp]: "ic_ttl (cache_step op c) = ic_ttl c"
  by (cases op) (auto simp: idem_get_def idem_put_def Let_def split: option.splits)

lemma cache_step_keeps:
  assumes "cache_ok c" "hm_get (ic_entries c) k = Some e" "t - ce_inserted_at e < ic_ttl c"
    and "leaves_alone k t op"
  shows "hm_get (ic_entries (cache_step op c)) k = Some e"
  using assms
  by (cases op)
    (auto simp: cache_ok_def idem_get_def idem_put_def Let_def hm_get_retain split: option.splits)

lemma cache_run_keeps:
  assumes "cache_ok c" "hm_get (ic_entries c) k = Some e" "t - ce_inserted_at e < ic_ttl c"
    and "list_all (leaves_alone k t) ops"
  shows "hm_get (ic_entries (fold cache_step ops c)) k = Some e \<and> ic_ttl (fold cache_step ops c) = ic_ttl c"
  by (rule cache_runs.run_keeps[OF assms(1) _ assms(4)])
    (use assms(2,3) in \<open>auto intro: cache_step_keeps\<close>)

lemma idem_put_get: "hm_get (ic_entries (idem_put te t k r c)) k = Some \<lparr>ce_response = r, ce_inserted_at = t\<rparr>"
  by (simp add: idem_put_def Let_def)

lemma idem_put_ok: "cache_ok c \<Longrightarrow> cache_ok (idem_put te t k r c)"
  using cache_step_ok[of c "Cache_Put te t k r"] by simp

lemma idem_put_ttl [simp]: "ic_ttl (idem_put te t k r c) = ic_ttl c"
  by (simp add: idem_put_def Let_def)

lemma idem_get_Some_iff:
  "fst (idem_get now k c) = Some r \<longleftrightarrow>
     (\<exists>e. hm_get (ic_entries c) k = Some e \<and> now - ce_inserted_at e < ic_ttl c \<and> ce_response e = r)"
  by (auto simp: idem_get_def split: option.splits)

definition idem_holds :: "'r idempotency_cache \<Rightarrow> string \<Rightarrow> 'r \<Rightarrow> nat \<Rightarrow> bool" where
  "idem_holds c k r t \<longleftrightarrow>
     (\<exists>e. hm_get (ic_entries c) k = Some e \<and> ce_response e = r \<and> t - ce_inserted_at e < ic_ttl c)"

lemma idem_put_holds: "t - tp < ic_ttl c \<Longrightarrow> idem_holds (idem_put te tp k r c) k r t"
  by (simp add: idem_holds_def idem_put_get)

interpretation idem: replay_cache idem_get idem_put idem_holds cache_ok
proof (unfold_locales, goal_cases)
  case (1 c now k)
  then show ?case using cache_step_ok[of c "Cache_Get now k"] by simp
next
  case (2 c te tp k r)
  then show ?case by (rule idem_put_ok)
next
  case (3 c k r t now)
  then show ?case by (auto simp: idem_holds_def idem_get_def)
next
  case (4 c k r t now j)
  then show ?case
    using cache_step_keeps[of c k _ t "Cache_Get now j"] cache_step_ttl[of "Cache_Get now j" c]
    by (auto simp: idem_holds_def)
next
  case (5 c k r t te j tp x)
  then show ?case
    using cache_step_keeps[of c k _ t "Cache_Put te tp j x"] by (auto simp: idem_holds_def)
qed

text \<open>
  Replay: a response stored under a key is what a lookup returns as long as its age is
  below the time to live, whatever lookups and insertions under other keys come in between,
  also those that evict. A lookup at the time to live or later returns nothing and drops it.
\<close>

theorem idem_replay:
  assumes "cache_ok c" "list_all (leaves_alone k now) ops" "now - t < ic_ttl c"
  shows "fst (idem_get now k (fold cache_step ops (idem_put te t k r c))) = Some r
    \<and> (t + ic_ttl c \<le> later \<longrightarrow>
         fst (idem_get later k (fold cache_step ops (idem_put te t k r c))) = None
         \<and> hm_get (ic_entries (snd (idem_get later k (fold cache_step ops (idem_put te t k r c))))) k = None)"
proof -
  let ?c = "fold cache_step ops (idem_put te t k r c)"
  have "hm_get (ic_entries ?c) k = Some \<lparr>ce_response = r, ce_inserted_at = t\<rparr> \<and> ic_ttl ?c = ic_ttl c"
    using cache_run_keeps[OF idem_put_ok[OF assms(1)] idem_put_get _ assms(2)] assms(3) by simp
  then show ?thesis
    using assms(3) by (auto simp: idem_get_def)
qed

theorem idem_replay_witness:
  "fst (idem_get 599000000000 ''k'' (fold cache_step [Cache_Get 5 ''other'', Cache_Put 7 8 ''x'' (2 :: nat)]
     (idem_put 0 0 ''k'' 1 idempotency_cache_new))) = Some 1"
  using idem_replay[of idempotency_cache_new "''k''" 599000000000
      "[Cache_Get 5 ''other'', Cache_Put 7 8 ''x'' (2 :: nat)]" 0 0 1 0]
  by (simp add: idempotency_cache_new_def cache_ok_def default_ttl_def)

subsection \<open>The size of the cache\<close>

definition fresh_entry :: "nat \<Rightarrow> 'r idempotency_cache \<Rightarrow> string \<times> 'r cache_entry \<Rightarrow> bool" where
  "fresh_entry now c e \<longleftrightarrow> now - ce_inserted_at (snd e) < ic_ttl c"

text \<open>
  The size after an insertion: all entries of other keys stay while there are fewer than
  \<open>max_entries\<close>, and from there on those not expired, plus the new one. The bound is soft: it
  only starts the eviction, and a cache of unexpired entries grows past it.
\<close>

theorem idem_put_size:
  assumes "cache_ok c"
  shows "length (ic_entries (idem_put te t k r c)) =
    Suc (length (filter (\<lambda>e. fst e \<noteq> k
      \<and> (length (ic_entries c) < max_entries \<or> fresh_entry te c e)) (ic_entries c)))"
proof -
  have keep: "hm_retain (\<lambda>_ e. te - ce_inserted_at e < ic_ttl c) (ic_entries c)
      = filter (fresh_entry te c) (ic_entries c)"
    unfolding hm_retain_def by (rule filter_cong) (simp_all add: fresh_entry_def)
  have wf: "hm_wf (ic_entries c)" "hm_wf (filter (fresh_entry te c) (ic_entries c))"
    using assms by (simp_all add: cache_ok_def hm_wf_def distinct_map_filter)
  show ?thesis
    using wf by (auto simp: idem_put_def Let_def keep length_hm_insert_others not_le conj_commute
        split: if_splits)
qed

theorem idem_put_size_witness:
  "length (ic_entries (idem_put 0 0 ''k'' (1 :: nat) idempotency_cache_new)) = 1"
  using idem_put_size[of "idempotency_cache_new :: nat idempotency_cache" 0 0 "''k''" 1]
  by (simp add: idempotency_cache_new_def cache_ok_def)

end
