(* ===== verification/Idem_Race.thy ===== *)
theory Idem_Race
  imports Idempotency
begin

text \<open>
  Requests under an idempotency key that overlap. The handler \<open>exec\<close> of \<open>server.rs\<close> looks its key
  up, runs the command and stores the response, taking the lock of the cache only for the first
  and the last: between the two, other requests take their steps.
\<close>

subsection \<open>The interleavings\<close>

text \<open>
  The cache, the keys of the commands that run now and those of the commands that succeeded. All
  readings of the clock are by \<open>t\<close>, and a response is stored less than the time to live before \<open>t\<close>.
\<close>

record 'r idem_world =
  iw_cache :: "'r idempotency_cache"
  iw_flying :: "string list"
  iw_done :: "string list"

inductive idem_step :: "nat \<Rightarrow> 'r idem_world \<Rightarrow> 'r idem_world \<Rightarrow> bool" for t where
  idem_hit: "idem_get now k (iw_cache w) = (Some r, c) \<Longrightarrow> now \<le> t \<Longrightarrow> idem_step t w (w\<lparr>iw_cache := c\<rparr>)"
| idem_miss: "idem_get now k (iw_cache w) = (None, c) \<Longrightarrow> now \<le> t \<Longrightarrow>
    idem_step t w (w\<lparr>iw_cache := c, iw_flying := k # iw_flying w\<rparr>)"
| idem_finish: "k \<in> set (iw_flying w) \<Longrightarrow> te \<le> t \<Longrightarrow> t - tp < ic_ttl (iw_cache w) \<Longrightarrow>
    idem_step t w (w\<lparr>iw_cache := idem_put te tp k r (iw_cache w), iw_flying := remove1 k (iw_flying w),
      iw_done := k # iw_done w\<rparr>)"
| idem_fail: "k \<in> set (iw_flying w) \<Longrightarrow> idem_step t w (w\<lparr>iw_flying := remove1 k (iw_flying w)\<rparr>)"

inductive_cases idem_stepE: "idem_step t w w'"

text \<open>Runs from a daemon without requests in which at most \<open>m\<close> under the key \<open>key\<close> overlap.\<close>

inductive idem_reach :: "nat \<Rightarrow> string \<Rightarrow> nat \<Rightarrow> 'r idem_world \<Rightarrow> bool" for t key m where
  idem_init: "cache_ok c \<Longrightarrow> idem_reach t key m \<lparr>iw_cache = c, iw_flying = [], iw_done = []\<rparr>"
| idem_next: "idem_reach t key m w \<Longrightarrow> idem_step t w w' \<Longrightarrow> count_list (iw_flying w') key \<le> m \<Longrightarrow> idem_reach t key m w'"

subsection \<open>How often a command runs\<close>

text \<open>Once a command under the key has succeeded, only those in flight can.\<close>

definition once_inv :: "nat \<Rightarrow> string \<Rightarrow> nat \<Rightarrow> 'r idem_world \<Rightarrow> bool" where
  "once_inv t key m w \<longleftrightarrow> cache_ok (iw_cache w) \<and> count_list (iw_flying w) key \<le> m
     \<and> (key \<in> set (iw_done w) \<longrightarrow> (\<exists>r. idem_holds (iw_cache w) key r t)
          \<and> count_list (iw_done w) key + count_list (iw_flying w) key \<le> m)"

lemma once_invI:
  assumes "cache_ok (iw_cache w)" "count_list (iw_flying w) key \<le> m"
    and "key \<in> set (iw_done w) \<Longrightarrow> \<exists>r. idem_holds (iw_cache w) key r t"
    and "key \<in> set (iw_done w) \<Longrightarrow> count_list (iw_done w) key + count_list (iw_flying w) key \<le> m"
  shows "once_inv t key m w"
  using assms by (simp add: once_inv_def)

lemma once_invD:
  assumes "once_inv t key m w"
  shows "cache_ok (iw_cache w)" "count_list (iw_flying w) key \<le> m"
    and "key \<in> set (iw_done w) \<Longrightarrow> \<exists>r. idem_holds (iw_cache w) key r t"
    and "key \<in> set (iw_done w) \<Longrightarrow> count_list (iw_done w) key + count_list (iw_flying w) key \<le> m"
  using assms by (auto simp: once_inv_def)

lemma idem_miss_once:
  assumes w: "once_inv t key m w" and miss: "idem_get now k (iw_cache w) = (None, c)" "now \<le> t"
    and cap: "count_list (k # iw_flying w) key \<le> m"
  shows "once_inv t key m (w\<lparr>iw_cache := c, iw_flying := k # iw_flying w\<rparr>)" (is "once_inv t key m ?w")
proof -
  note inv = once_invD[OF w]
  have fresh: "k \<noteq> key" if ran: "key \<in> set (iw_done w)"
  proof
    assume "k = key"
    obtain r where "idem_holds (iw_cache w) key r t" using inv(3)[OF ran] by blast
    then show False using idem.get_answers[OF inv(1) _ miss(2)] miss(1) \<open>k = key\<close> by simp
  qed
  have c: "c = snd (idem_get now k (iw_cache w))" using miss(1) by simp
  show ?thesis
  proof (rule once_invI)
    show "cache_ok (iw_cache ?w)" using idem.get_ok[OF inv(1)] c by simp
    show "count_list (iw_flying ?w) key \<le> m" using cap by simp
  next
    assume "key \<in> set (iw_done ?w)"
    then obtain r where "idem_holds (iw_cache w) key r t" using inv(3) by auto
    then show "\<exists>r. idem_holds (iw_cache ?w) key r t"
      using idem.get_keeps[OF inv(1) _ miss(2)] c by auto
  next
    assume "key \<in> set (iw_done ?w)"
    then show "count_list (iw_done ?w) key + count_list (iw_flying ?w) key \<le> m"
      using inv(4) fresh by simp
  qed
qed

lemma idem_finish_once:
  assumes w: "once_inv t key m w" and fly: "k \<in> set (iw_flying w)"
    and "te \<le> t" "t - tp < ic_ttl (iw_cache w)"
  shows "once_inv t key m (w\<lparr>iw_cache := idem_put te tp k r (iw_cache w), iw_flying := remove1 k (iw_flying w),
    iw_done := k # iw_done w\<rparr>)" (is "once_inv t key m ?w")
proof -
  note inv = once_invD[OF w]
  have fly': "0 < count_list (iw_flying w) k"
    using fly by (simp add: count_list_0_iff neq0_conv[symmetric] del: neq0_conv)
  show ?thesis
  proof (rule once_invI)
    show "cache_ok (iw_cache ?w)" using idem_put_ok[OF inv(1)] by simp
    show "count_list (iw_flying ?w) key \<le> m"
      using le_trans[OF count_list_remove1_le inv(2)] by simp
  next
    assume j: "key \<in> set (iw_done ?w)"
    show "\<exists>r. idem_holds (iw_cache ?w) key r t"
    proof (cases "key = k")
      case True
      have "idem_holds (iw_cache ?w) k r t" using idem_put_holds[OF assms(4)] by simp
      then show ?thesis using True by blast
    next
      case False
      then obtain x where "idem_holds (iw_cache w) key x t" using j inv(3) by auto
      then have "idem_holds (iw_cache ?w) key x t"
        using idem.put_keeps[OF inv(1) _ assms(3)] False by simp
      then show ?thesis by blast
    qed
  next
    assume j: "key \<in> set (iw_done ?w)"
    show "count_list (iw_done ?w) key + count_list (iw_flying ?w) key \<le> m"
    proof (cases "key \<in> set (iw_done w)")
      case True
      then show ?thesis using inv(4) fly fly' by (auto simp: count_list_remove1)
    next
      case False
      then have "count_list (iw_done w) key = 0" by (simp add: count_list_0_iff)
      then show ?thesis using inv(2) j False fly fly' by (auto simp: count_list_remove1)
    qed
  qed
qed

lemma idem_step_once:
  assumes "idem_step t w w'" "once_inv t key m w" "count_list (iw_flying w') key \<le> m"
  shows "once_inv t key m w'"
  using assms(1)
proof (cases rule: idem_step.cases)
  case (idem_hit now k r c)
  then have "c = iw_cache w"
    by (auto simp: idem_get_def split: option.splits if_splits)
  then show ?thesis using idem_hit assms(2) by simp
next
  case (idem_miss now k c)
  then show ?thesis using idem_miss_once[OF assms(2)] assms(3) by simp
next
  case (idem_finish k te tp r)
  then show ?thesis using idem_finish_once[OF assms(2)] by simp
next
  case (idem_fail k)
  note inv = once_invD[OF assms(2)]
  have "count_list (iw_done w) key + count_list (remove1 k (iw_flying w)) key
      \<le> count_list (iw_done w) key + count_list (iw_flying w) key"
    by (simp add: count_list_remove1_le)
  note le_trans[OF this inv(4)]
  then show ?thesis
    using idem_fail inv le_trans[OF count_list_remove1_le inv(2)] by (auto intro!: once_invI)
qed

lemma idem_reach_once: "idem_reach t key m w \<Longrightarrow> once_inv t key m w"
proof (induction rule: idem_reach.induct)
  case (idem_init c)
  then show ?case by (simp add: once_inv_def)
next
  case (idem_next w w')
  then show ?case using idem_step_once by blast
qed

text \<open>
  (C31) However the requests interleave, and whatever happens under other keys, the commands under a key
  that have succeeded, with those that are still to end once one has, are at most as many as the
  requests under that key that ever overlap, as long as no stored response expires. So where they come
  one at a time the command succeeds at most once, and after a success it does not run again; a command
  that fails stores nothing and runs again with the next request. The lock of the cache is free while
  the command runs, so two requests that overlap both miss, and both run it.
\<close>

theorem idem_executions_bounded:
  assumes "idem_reach t key m w"
  shows "count_list (iw_done w) key + (if key \<in> set (iw_done w) then count_list (iw_flying w) key else 0) \<le> m"
proof (cases "key \<in> set (iw_done w)")
  case True
  then show ?thesis using once_invD(4)[OF idem_reach_once[OF assms]] by simp
next
  case False
  then show ?thesis by (simp add: count_list_0_iff)
qed

text \<open>Two requests that overlap: both miss, both run.\<close>

definition two_requests :: "nat idem_world" where
  "two_requests = \<lparr>iw_cache = idem_put 0 0 ''k'' 2 (idem_put 0 0 ''k'' 1 idempotency_cache_new),
     iw_flying = [], iw_done = [''k'', ''k'']\<rparr>"

lemma two_requests_reach: "idem_reach 0 ''k'' 2 two_requests"
proof -
  let ?c = "idempotency_cache_new :: nat idempotency_cache"
  have "idem_reach 0 ''k'' 2 \<lparr>iw_cache = ?c, iw_flying = [], iw_done = []\<rparr>"
    by (rule idem_init) (simp add: cache_ok_def idempotency_cache_new_def)
  then have "idem_reach 0 ''k'' 2 \<lparr>iw_cache = ?c, iw_flying = [''k''], iw_done = []\<rparr>"
    by (rule idem_next)
      (use idem_miss[of 0 "''k''" "\<lparr>iw_cache = ?c, iw_flying = [], iw_done = []\<rparr>" ?c 0]
        in \<open>auto simp: idem_get_def idempotency_cache_new_def\<close>)
  then have "idem_reach 0 ''k'' 2 \<lparr>iw_cache = ?c, iw_flying = [''k'', ''k''], iw_done = []\<rparr>"
    by (rule idem_next)
      (use idem_miss[of 0 "''k''" "\<lparr>iw_cache = ?c, iw_flying = [''k''], iw_done = []\<rparr>" ?c 0]
        in \<open>auto simp: idem_get_def idempotency_cache_new_def\<close>)
  then have "idem_reach 0 ''k'' 2 \<lparr>iw_cache = idem_put 0 0 ''k'' 1 ?c, iw_flying = [''k''], iw_done = [''k'']\<rparr>"
    by (rule idem_next)
      (use idem_finish[of "''k''" "\<lparr>iw_cache = ?c, iw_flying = [''k'', ''k''], iw_done = []\<rparr>" 0 0 0 1]
        in \<open>auto simp: idempotency_cache_new_def default_ttl_def\<close>)
  then show ?thesis
    by (rule idem_next)
      (use idem_finish[of "''k''" "\<lparr>iw_cache = idem_put 0 0 ''k'' 1 ?c, iw_flying = [''k''], iw_done = [''k'']\<rparr>" 0 0 0 2]
        in \<open>auto simp: idempotency_cache_new_def default_ttl_def two_requests_def\<close>)
qed

theorem idem_overlap_runs_twice: "idem_reach 0 ''k'' 2 two_requests \<and> count_list (iw_done two_requests) ''k'' = 2"
  using two_requests_reach by (simp add: two_requests_def)

theorem idem_executions_bounded_witness: "count_list (iw_done two_requests) ''k'' \<le> 2"
  using idem_executions_bounded[OF two_requests_reach] by simp

end
