(* ===== verification/Pool_Config.thy ===== *)
theory Pool_Config
  imports Rust_Num
begin

text \<open>
  The configuration of a pool, \<open>pool/config.rs\<close>: the record and the command line argument
  \<open>provider/image?min=..&max=..&total=..&idle_timeout=..\<close>. The file \<open>pool.toml\<close> is read by
  library code and is not modelled.
\<close>

record pool_config =
  pc_provider :: string
  pc_image :: string
  pc_min_idle :: usize
  pc_max_idle :: usize
  pc_max_total :: usize
  pc_idle_timeout_secs :: u64

definition default_max_idle :: usize where
  "default_max_idle = 5"

definition default_max_total :: usize where
  "default_max_total = 20"

definition default_idle_timeout_secs :: u64 where
  "default_idle_timeout_secs = 600"

definition quoted :: "string \<Rightarrow> string" where
  "quoted s = CHR 0x27 # s @ [CHR 0x27]"

definition parse_or :: "string \<Rightarrow> string \<Rightarrow> (string, u64) result" where
  "parse_or what v =
     (case parse_u64 v of Some n \<Rightarrow> Inr n | None \<Rightarrow> Inl (''invalid '' @ what @ '': '' @ v))"

text \<open>One round of the loop over the query: the parameter \<open>pair\<close> updates the configuration.\<close>

definition pool_param :: "string \<Rightarrow> pool_config \<Rightarrow> (string, pool_config) result" where
  "pool_param pair c =
     (case split_once (CHR ''='') pair of
        None \<Rightarrow> Inl (''invalid pool param: '' @ quoted pair)
      | Some (k, v) \<Rightarrow>
          (if k = ''min'' then map_sum id (\<lambda>n. c\<lparr>pc_min_idle := n\<rparr>) (parse_or ''min'' v)
           else if k = ''max'' then map_sum id (\<lambda>n. c\<lparr>pc_max_idle := n\<rparr>) (parse_or ''max'' v)
           else if k = ''total'' then map_sum id (\<lambda>n. c\<lparr>pc_max_total := n\<rparr>) (parse_or ''total'' v)
           else if k = ''idle_timeout''
             then map_sum id (\<lambda>n. c\<lparr>pc_idle_timeout_secs := n\<rparr>) (parse_or ''idle_timeout'' v)
           else Inl (''unknown pool param: '' @ quoted k)))"

fun pool_params :: "string list \<Rightarrow> pool_config \<Rightarrow> (string, pool_config) result" where
  "pool_params [] c = Inr c"
| "pool_params (pair # ps) c =
     (case pool_param pair c of Inl e \<Rightarrow> Inl e | Inr c' \<Rightarrow> pool_params ps c')"

definition pool_config_new :: "string \<Rightarrow> string \<Rightarrow> pool_config" where
  "pool_config_new pv img =
     \<lparr>pc_provider = pv, pc_image = img, pc_min_idle = 0, pc_max_idle = default_max_idle,
      pc_max_total = default_max_total, pc_idle_timeout_secs = default_idle_timeout_secs\<rparr>"

definition parse_pool_arg :: "string \<Rightarrow> (string, pool_config) result" where
  "parse_pool_arg arg =
     (let (prefix, query) = (case split_once (CHR ''?'') arg of Some pq \<Rightarrow> pq | None \<Rightarrow> (arg, []))
      in case split_once (CHR ''/'') prefix of
           None \<Rightarrow> Inl (''invalid pool arg: expected provider/image, got '' @ quoted prefix)
         | Some (pv, img) \<Rightarrow>
             (if query \<noteq> [] then pool_params (split_on (CHR ''&'') query) (pool_config_new pv img)
              else Inr (pool_config_new pv img)))"

subsection \<open>The rendering of a configuration\<close>

definition render_params :: "pool_config \<Rightarrow> string list" where
  "render_params c =
     [''min='' @ show_u64 (pc_min_idle c), ''max='' @ show_u64 (pc_max_idle c),
      ''total='' @ show_u64 (pc_max_total c), ''idle_timeout='' @ show_u64 (pc_idle_timeout_secs c)]"

definition render_pool_arg :: "pool_config \<Rightarrow> string" where
  "render_pool_arg c =
     pc_provider c @ CHR ''/'' # pc_image c @ CHR ''?'' # join ''&'' (render_params c)"

lemma show_u64_digits: "\<not> ascii_digit c \<Longrightarrow> c \<notin> set (show_u64 w)"
  by (simp add: show_u64_def not_in_show_nat)

lemma separators_not_digits [simp]:
  "\<not> ascii_digit (CHR ''&'')" "\<not> ascii_digit (CHR ''='')" "\<not> ascii_digit (CHR ''?'')"
  by (simp_all add: ascii_digit_def)

lemma parse_or_show [simp]: "parse_or what (show_u64 w) = Inr w"
  by (simp add: parse_or_def)

lemma pool_param_known:
  "pool_param (''min='' @ v) c = map_sum id (\<lambda>n. c\<lparr>pc_min_idle := n\<rparr>) (parse_or ''min'' v)"
  "pool_param (''max='' @ v) c = map_sum id (\<lambda>n. c\<lparr>pc_max_idle := n\<rparr>) (parse_or ''max'' v)"
  "pool_param (''total='' @ v) c = map_sum id (\<lambda>n. c\<lparr>pc_max_total := n\<rparr>) (parse_or ''total'' v)"
  "pool_param (''idle_timeout='' @ v) c =
     map_sum id (\<lambda>n. c\<lparr>pc_idle_timeout_secs := n\<rparr>) (parse_or ''idle_timeout'' v)"
  by (simp_all add: pool_param_def)

lemma render_params_split: "split_on (CHR ''&'') (join ''&'' (render_params c)) = render_params c"
  by (rule split_on_join) (auto simp: render_params_def show_u64_digits)

lemma pool_params_render:
  "pool_params (render_params c) (pool_config_new (pc_provider c) (pc_image c)) = Inr c"
  unfolding render_params_def pool_params.simps pool_param_known
  by (simp add: pool_config_new_def)

text \<open>
  Round trip: the argument written for a configuration is read back as that configuration,
  when the provider holds neither of the separators \<open>/\<close> and \<open>?\<close> and the image no \<open>?\<close>.
\<close>

theorem parse_pool_arg_roundtrip:
  assumes "CHR ''/'' \<notin> set (pc_provider c)" "CHR ''?'' \<notin> set (pc_provider c)"
    and "CHR ''?'' \<notin> set (pc_image c)"
  shows "parse_pool_arg (render_pool_arg c) = Inr c"
proof -
  have "split_once (CHR ''?'') (render_pool_arg c) =
      Some (pc_provider c @ CHR ''/'' # pc_image c, join ''&'' (render_params c))"
    using assms by (simp add: split_once_Some_iff render_pool_arg_def)
  moreover have "join ''&'' (render_params c) \<noteq> []"
    by (simp add: render_params_def)
  ultimately show ?thesis
    using assms(1)
    by (simp add: parse_pool_arg_def Let_def render_params_split pool_params_render)
qed

definition sample_pool_config :: pool_config where
  "sample_pool_config = (pool_config_new ''docker'' ''ghcr.io/a/b:1'')\<lparr>pc_min_idle := 3\<rparr>"

theorem parse_pool_arg_roundtrip_witness:
  "parse_pool_arg (render_pool_arg sample_pool_config) = Inr sample_pool_config"
  by (rule parse_pool_arg_roundtrip) (simp_all add: sample_pool_config_def pool_config_new_def)

end
