(* ===== verification/Provider.thy ===== *)
theory Provider
  imports Types Capabilities
begin

text \<open>
  The traits \<open>SandboxProvider\<close>, \<open>SandboxFileOps\<close> and \<open>SandboxLifecycle\<close> of
  \<open>provider/mod.rs\<close> as one record of operations on a world \<open>'w\<close>, what lies behind the provider
  (the Docker engine, an API, a registry in memory). The components that call a provider take
  such a record as an argument.
\<close>

type_synonym ('w, 'a) io = "'w \<Rightarrow> (provider_error, 'a) result \<times> 'w"

record 'w provider =
  pv_capabilities :: provider_capabilities
  pv_create :: "sandbox_config \<Rightarrow> ('w, sandbox_id) io"
  pv_exec :: "sandbox_id \<Rightarrow> exec_request \<Rightarrow> ('w, exec_output) io"
  pv_destroy :: "sandbox_id \<Rightarrow> ('w, unit) io"
  pv_list :: "('w, sandbox_info list) io"
  pv_copy_to :: "sandbox_id \<Rightarrow> string \<Rightarrow> string \<Rightarrow> ('w, unit) io"
  pv_copy_from :: "sandbox_id \<Rightarrow> string \<Rightarrow> string \<Rightarrow> ('w, unit) io"
  pv_pause :: "sandbox_id \<Rightarrow> ('w, unit) io"
  pv_unpause :: "sandbox_id \<Rightarrow> ('w, unit) io"
  pv_gc :: "('w, sandbox_id list) io"

text \<open>Destroying a list of sandboxes one after the other, results ignored.\<close>

fun destroy_each :: "(sandbox_id \<Rightarrow> ('w, unit) io) \<Rightarrow> sandbox_id list \<Rightarrow> 'w \<Rightarrow> 'w" where
  "destroy_each d [] w = w"
| "destroy_each d (i # is) w = destroy_each d is (snd (d i w))"

lemma destroy_each_append: "destroy_each d (xs @ ys) w = destroy_each d ys (destroy_each d xs w)"
  by (induction xs arbitrary: w) simp_all

subsection \<open>The contract of a provider\<close>

text \<open>
  What the daemon relies on: the sandboxes a world holds, and how the operations change that set.
  \<open>live w\<close> is the list of their identifiers; an operation that fails leaves it alone.
\<close>

locale sandbox_provider =
  fixes create :: "sandbox_config \<Rightarrow> ('w, sandbox_id) io"
    and destroy :: "sandbox_id \<Rightarrow> ('w, unit) io"
    and live :: "'w \<Rightarrow> sandbox_id set"
    and ok :: "'w \<Rightarrow> bool"
  assumes create_ok: "ok w \<Longrightarrow> ok (snd (create c w))"
    and create_live: "ok w \<Longrightarrow> create c w = (Inr i, w') \<Longrightarrow> live w' = insert i (live w)"
    and create_err: "ok w \<Longrightarrow> create c w = (Inl e, w') \<Longrightarrow> live w' = live w"
    and destroy_ok: "ok w \<Longrightarrow> ok (snd (destroy i w))"
    and destroy_live: "ok w \<Longrightarrow> destroy i w = (Inr (), w') \<Longrightarrow> live w' = live w - {i}"
    and destroy_err: "ok w \<Longrightarrow> destroy i w = (Inl e, w') \<Longrightarrow> live w' = live w"
    and destroy_hit: "ok w \<Longrightarrow> i \<in> live w \<Longrightarrow> is_ok (fst (destroy i w))"
begin

lemma destroy_live_hit: "ok w \<Longrightarrow> i \<in> live w \<Longrightarrow> live (snd (destroy i w)) = live w - {i}"
  using destroy_hit[of w i] destroy_live[of w i] by (cases "destroy i w") (auto simp: is_ok_iff)

lemma destroy_removes: "ok w \<Longrightarrow> live (snd (destroy i w)) \<subseteq> live w \<and> live w - {i} \<subseteq> live (snd (destroy i w))"
proof (cases "destroy i w")
  case (Pair r w')
  assume "ok w"
  then show ?thesis
    using Pair destroy_live[of w i w'] destroy_err[of w i _ w'] by (cases r) auto
qed

lemma destroy_each_ok: "ok w \<Longrightarrow> ok (destroy_each destroy is w)"
  by (induction "is" arbitrary: w) (simp_all add: destroy_ok)

lemma destroy_each_live: "ok w \<Longrightarrow> live (destroy_each destroy is w) = live w - set is"
proof (induction "is" arbitrary: w)
  case (Cons i "is")
  have "live (snd (destroy i w)) - set is = live w - insert i (set is)" if "i \<in> live w"
    using destroy_live_hit[OF Cons.prems that] by auto
  moreover have "live (snd (destroy i w)) - set is = live w - insert i (set is)" if "i \<notin> live w"
    using destroy_removes[OF Cons.prems, of i] that by auto
  ultimately show ?case
    using Cons by (cases "i \<in> live w") (simp_all add: destroy_ok)
qed simp

lemma create_destroy: "ok w \<Longrightarrow> create c w = (Inr i, w') \<Longrightarrow> i \<notin> live w \<Longrightarrow>
    live (snd (destroy i w')) = live w"
  using create_ok[of w c] create_live[of w c i w'] destroy_live_hit[of w' i] by auto

end

end
