(* ===== verification/Pool.thy ===== *)
theory Pool
  imports Runs Provider Pool_Config "HOL-Library.Multiset"
begin

text \<open>
  The warm sandbox pools of the daemon: \<open>pool/mod.rs\<close>, the reaper (\<open>pool/reaper.rs\<close>) and the
  replenisher (\<open>pool/replenish.rs\<close>). The state behind the lock is a record; a method that holds
  the lock throughout is one function of it and of the provider's world \<open>'w\<close>. The replenisher
  releases the lock between its steps, so its interleavings with the other operations are a
  step relation. An \<open>Instant\<close> is a number of nanoseconds.
\<close>

subsection \<open>State\<close>

record pool_key =
  pk_provider :: string
  pk_image :: string

definition pool_key_display :: "pool_key \<Rightarrow> string" where
  "pool_key_display k = pk_provider k @ CHR ''/'' # pk_image k"

record idle_sandbox =
  is_id :: sandbox_id
  is_created_at :: nat

record sandbox_pool =
  sp_config :: pool_config
  sp_idle :: "idle_sandbox list"
  sp_active :: "sandbox_id hash_set"

text \<open>\<open>pm_notified\<close> is the permit \<open>Notify\<close> keeps for the replenisher.\<close>

record pool_manager =
  pm_pools :: "(pool_key, sandbox_pool) hash_map"
  pm_pending :: "pool_key hash_set"
  pm_notified :: bool

record 'w backends =
  be_docker :: "'w provider"
  be_firecracker :: "'w provider option"

record pool_status =
  ps_provider :: string
  ps_image :: string
  ps_idle_count :: u32
  ps_active_count :: u32
  ps_max_idle :: u32
  ps_max_total :: u32

subsection \<open>Operations\<close>

definition pool_accepts :: "pool_config \<Rightarrow> bool" where
  "pool_accepts cfg \<longleftrightarrow>
     \<not> (pc_provider cfg = ''wasm'') \<and>
     \<not> (pc_provider cfg \<noteq> ''docker'' \<and> pc_provider cfg \<noteq> ''firecracker'')"

text \<open>One round of the loop over the configurations.\<close>

definition add_pool :: "pool_config \<Rightarrow> (pool_key, sandbox_pool) hash_map \<Rightarrow> (pool_key, sandbox_pool) hash_map" where
  "add_pool cfg pools =
     (if pool_accepts cfg
      then hm_insert \<lparr>pk_provider = pc_provider cfg, pk_image = pc_image cfg\<rparr>
             \<lparr>sp_config = cfg, sp_idle = [], sp_active = []\<rparr> pools
      else pools)"

definition pool_manager_new :: "pool_config list \<Rightarrow> pool_manager" where
  "pool_manager_new configs =
     \<lparr>pm_pools = fold add_pool configs [], pm_pending = [], pm_notified = False\<rparr>"

text \<open>\<open>pending_replenish.insert(key)\<close> and \<open>notify_one()\<close>.\<close>

definition request_replenish :: "pool_key \<Rightarrow> pool_manager \<Rightarrow> pool_manager" where
  "request_replenish key pm = pm\<lparr>pm_pending := hs_insert key (pm_pending pm), pm_notified := True\<rparr>"

definition pool_sandbox_config :: "string \<Rightarrow> string \<Rightarrow> u64 \<Rightarrow> sandbox_config" where
  "pool_sandbox_config pv img timeout =
     \<lparr>sc_provider = pv, sc_image = img, sc_memory = None, sc_cpus = None, sc_timeout_secs = timeout,
      sc_network = False, sc_writable = False, sc_env = [], sc_mounts = [], sc_kernel = None,
      sc_rootfs = None, sc_trace_enabled = True, sc_network_allowlist = [], sc_fs_paths = []\<rparr>"

text \<open>\<open>match provider\<close> of the sources: \<open>None\<close> where the arm returns without a call.\<close>

definition backend_create :: "'w backends \<Rightarrow> string \<Rightarrow> sandbox_config \<Rightarrow> ('w, sandbox_id) io option" where
  "backend_create be pv c =
     (if pv = ''docker'' then Some (pv_create (be_docker be) c)
      else if pv = ''firecracker'' then map_option (\<lambda>fc. pv_create fc c) (be_firecracker be)
      else None)"

definition backend_destroy :: "'w backends \<Rightarrow> string \<Rightarrow> sandbox_id \<Rightarrow> ('w, unit) io" where
  "backend_destroy be pv i =
     (if pv = ''docker'' then pv_destroy (be_docker be) i
      else if pv = ''firecracker'' then
        (case be_firecracker be of Some fc \<Rightarrow> pv_destroy fc i | None \<Rightarrow> (\<lambda>w. (Inr (), w)))
      else (\<lambda>w. (Inr (), w)))"

definition non_default_config :: "sandbox_config \<Rightarrow> bool" where
  "non_default_config c \<longleftrightarrow>
     sc_network c \<or> sc_writable c \<or> sc_env c \<noteq> [] \<or> sc_mounts c \<noteq> []
     \<or> sc_memory c \<noteq> None \<or> sc_cpus c \<noteq> None"

definition acquire_provider :: "sandbox_config \<Rightarrow> string" where
  "acquire_provider c = (if sc_provider c = [] then ''docker'' else sc_provider c)"

definition pool_total :: "sandbox_pool \<Rightarrow> nat" where
  "pool_total p = length (sp_idle p) + length (sp_active p)"

definition try_acquire ::
    "'w backends \<Rightarrow> sandbox_config \<Rightarrow> pool_manager \<Rightarrow> 'w \<Rightarrow> sandbox_id option \<times> pool_manager \<times> 'w" where
  "try_acquire be c pm w =
     (let pv = acquire_provider c
      in if pv = ''wasm'' then (None, pm, w)
         else if non_default_config c then (None, pm, w)
         else
           let key = \<lparr>pk_provider = pv, pk_image = sc_image c\<rparr>
           in case hm_get (pm_pools pm) key of
                None \<Rightarrow> (None, pm, w)
              | Some pool \<Rightarrow>
                  (if unat (pc_max_total (sp_config pool)) \<le> pool_total pool then (None, pm, w)
                   else case sp_idle pool of
                     sb # rest \<Rightarrow>
                       (Some (is_id sb),
                        request_replenish key (pm\<lparr>pm_pools := hm_insert key
                          (pool\<lparr>sp_idle := rest, sp_active := hs_insert (is_id sb) (sp_active pool)\<rparr>)
                          (pm_pools pm)\<rparr>), w)
                   | [] \<Rightarrow>
                       (case backend_create be pv
                               (pool_sandbox_config pv (sc_image c) (sc_timeout_secs c)) of
                          None \<Rightarrow> (None, pm, w)
                        | Some create \<Rightarrow>
                            (case create w of
                               (Inl e, w') \<Rightarrow> (None, pm, w')
                             | (Inr i, w') \<Rightarrow>
                                 (Some i,
                                  request_replenish key (pm\<lparr>pm_pools := hm_insert key
                                    (pool\<lparr>sp_active := hs_insert i (sp_active pool)\<rparr>) (pm_pools pm)\<rparr>),
                                  w')))))"

text \<open>The first pool, in the order of the map, whose active set holds the sandbox.\<close>

fun remove_active ::
    "sandbox_id \<Rightarrow> (pool_key, sandbox_pool) hash_map \<Rightarrow> pool_key option \<times> (pool_key, sandbox_pool) hash_map" where
  "remove_active i [] = (None, [])"
| "remove_active i ((key, pool) # ps) =
     (if i \<in> set (sp_active pool)
      then (Some key, (key, pool\<lparr>sp_active := hs_remove i (sp_active pool)\<rparr>) # ps)
      else (case remove_active i ps of (found, ps') \<Rightarrow> (found, (key, pool) # ps')))"

definition on_destroy :: "sandbox_id \<Rightarrow> pool_manager \<Rightarrow> pool_manager" where
  "on_destroy i pm =
     (case remove_active i (pm_pools pm) of
        (None, _) \<Rightarrow> pm
      | (Some key, pools) \<Rightarrow> request_replenish key (pm\<lparr>pm_pools := pools\<rparr>))"

definition map_pools ::
    "(pool_key \<Rightarrow> sandbox_pool \<Rightarrow> sandbox_pool) \<Rightarrow> pool_manager \<Rightarrow> pool_manager" where
  "map_pools f pm = pm\<lparr>pm_pools := map (\<lambda>(k, p). (k, f k p)) (pm_pools pm)\<rparr>"

fun destroy_keyed :: "'w backends \<Rightarrow> (string \<times> sandbox_id) list \<Rightarrow> 'w \<Rightarrow> 'w" where
  "destroy_keyed be [] w = w"
| "destroy_keyed be ((pv, i) # ds) w = destroy_keyed be ds (snd (backend_destroy be pv i w))"

definition all_idle :: "pool_manager \<Rightarrow> (string \<times> sandbox_id) list" where
  "all_idle pm = concat (map (\<lambda>(k, p). map (\<lambda>sb. (pk_provider k, is_id sb)) (sp_idle p)) (pm_pools pm))"

definition pool_drain :: "'w backends \<Rightarrow> pool_manager \<Rightarrow> 'w \<Rightarrow> u32 \<times> pool_manager \<times> 'w" where
  "pool_drain be pm w =
     (let to_destroy = all_idle pm
      in (word_of_nat (length to_destroy), map_pools (\<lambda>_ p. p\<lparr>sp_idle := []\<rparr>) pm,
          destroy_keyed be to_destroy w))"

definition pool_shutdown :: "'w backends \<Rightarrow> pool_manager \<Rightarrow> 'w \<Rightarrow> pool_manager \<times> 'w" where
  "pool_shutdown be pm w =
     (let to_destroy = all_idle pm; pm' = map_pools (\<lambda>_ p. p\<lparr>sp_idle := []\<rparr>) pm
      in if length to_destroy = 0 then (pm', w) else (pm', destroy_keyed be to_destroy w))"

definition pool_status_of :: "pool_key \<times> sandbox_pool \<Rightarrow> pool_status" where
  "pool_status_of kp =
     (case kp of (key, pool) \<Rightarrow>
        \<lparr>ps_provider = pk_provider key, ps_image = pk_image key,
         ps_idle_count = word_of_nat (length (sp_idle pool)),
         ps_active_count = word_of_nat (length (sp_active pool)),
         ps_max_idle = ucast (pc_max_idle (sp_config pool)),
         ps_max_total = ucast (pc_max_total (sp_config pool))\<rparr>)"

definition pool_statuses :: "pool_manager \<Rightarrow> pool_status list" where
  "pool_statuses pm = map pool_status_of (pm_pools pm)"

definition pool_warmup :: "pool_manager \<Rightarrow> pool_manager" where
  "pool_warmup pm =
     pm\<lparr>pm_pending := fold hs_insert (map fst (pm_pools pm)) (pm_pending pm), pm_notified := True\<rparr>"

definition initial_warmup :: "pool_manager \<Rightarrow> pool_manager" where
  "initial_warmup pm =
     (let keys = map fst (filter (\<lambda>(_, p). 0 < pc_min_idle (sp_config p)) (pm_pools pm))
      in if keys = [] then pm
         else pm\<lparr>pm_pending := fold hs_insert keys (pm_pending pm), pm_notified := True\<rparr>)"

subsection \<open>The reaper\<close>

definition nanos :: "u64 \<Rightarrow> nat" where
  "nanos secs = unat secs * 1000000000"

definition idle_expired :: "nat \<Rightarrow> pool_config \<Rightarrow> idle_sandbox \<Rightarrow> bool" where
  "idle_expired now cfg sb \<longleftrightarrow> nanos (pc_idle_timeout_secs cfg) < now - is_created_at sb"

text \<open>The scan by index that removes the expired sandboxes: those removed, those left.\<close>

fun reap_expired :: "nat \<Rightarrow> pool_config \<Rightarrow> idle_sandbox list \<Rightarrow> idle_sandbox list \<times> idle_sandbox list" where
  "reap_expired now cfg [] = ([], [])"
| "reap_expired now cfg (sb # rest) =
     (case reap_expired now cfg rest of (removed, left) \<Rightarrow>
        if idle_expired now cfg sb then (sb # removed, left) else (removed, sb # left))"

text \<open>The loop that pops the front while more than \<open>max_idle\<close> are left.\<close>

fun reap_excess :: "nat \<Rightarrow> idle_sandbox list \<Rightarrow> idle_sandbox list \<times> idle_sandbox list" where
  "reap_excess n [] = ([], [])"
| "reap_excess n (sb # rest) =
     (if n < length (sb # rest) then apfst ((#) sb) (reap_excess n rest) else ([], sb # rest))"

definition reap_pool :: "nat \<Rightarrow> sandbox_pool \<Rightarrow> idle_sandbox list \<times> sandbox_pool" where
  "reap_pool now p =
     (let (expired, live) = reap_expired now (sp_config p) (sp_idle p);
          (excess, left) = reap_excess (unat (pc_max_idle (sp_config p))) live
      in (expired @ excess, p\<lparr>sp_idle := left\<rparr>))"

definition reap_collect :: "nat \<Rightarrow> pool_manager \<Rightarrow> (string \<times> sandbox_id) list \<times> pool_manager" where
  "reap_collect now pm =
     (concat (map (\<lambda>(k, p). map (\<lambda>sb. (pk_provider k, is_id sb)) (fst (reap_pool now p))) (pm_pools pm)),
      map_pools (\<lambda>_ p. snd (reap_pool now p)) pm)"

definition reaper_pass :: "'w backends \<Rightarrow> nat \<Rightarrow> pool_manager \<Rightarrow> 'w \<Rightarrow> pool_manager \<times> 'w" where
  "reaper_pass be now pm w =
     (case reap_collect now pm of (to_destroy, pm') \<Rightarrow> (pm', destroy_keyed be to_destroy w))"

subsection \<open>The replenisher\<close>

definition drain_pending :: "pool_manager \<Rightarrow> pool_key list \<times> pool_manager" where
  "drain_pending pm = (pm_pending pm, pm\<lparr>pm_pending := [], pm_notified := False\<rparr>)"

definition replenish_deficit :: "sandbox_pool \<Rightarrow> nat" where
  "replenish_deficit p =
     (let current_idle = length (sp_idle p); current_total = current_idle + length (sp_active p);
          min_idle = unat (pc_min_idle (sp_config p)); max_total = unat (pc_max_total (sp_config p))
      in if min_idle \<le> current_idle then 0
         else min (min_idle - current_idle) (max_total - current_total))"

definition push_idle :: "pool_key \<Rightarrow> sandbox_id \<Rightarrow> nat \<Rightarrow> pool_manager \<Rightarrow> pool_manager" where
  "push_idle key i now pm =
     (case hm_get (pm_pools pm) key of
        None \<Rightarrow> pm
      | Some p \<Rightarrow> pm\<lparr>pm_pools := hm_insert key
          (p\<lparr>sp_idle := sp_idle p @ [\<lparr>is_id = i, is_created_at = now\<rparr>]\<rparr>) (pm_pools pm)\<rparr>)"

text \<open>One of the spawned tasks: create a sandbox that does not expire, then store it.\<close>

definition replenish_task ::
    "'w backends \<Rightarrow> pool_key \<Rightarrow> nat \<Rightarrow> pool_manager \<Rightarrow> 'w \<Rightarrow> pool_manager \<times> 'w" where
  "replenish_task be key now pm w =
     (case backend_create be (pk_provider key)
             (pool_sandbox_config (pk_provider key) (pk_image key) 0) of
        None \<Rightarrow> (pm, w)
      | Some create \<Rightarrow>
          (case create w of
             (Inl e, w') \<Rightarrow> (pm, w')
           | (Inr i, w') \<Rightarrow> (push_idle key i now pm, w')))"


text \<open>The batch of one key, as the loop runs it when nothing else takes the lock in between.\<close>

fun replenish_tasks ::
    "'w backends \<Rightarrow> pool_key \<Rightarrow> (nat \<Rightarrow> nat) \<Rightarrow> nat \<Rightarrow> pool_manager \<Rightarrow> 'w \<Rightarrow> pool_manager \<times> 'w" where
  "replenish_tasks be key clock 0 pm w = (pm, w)"
| "replenish_tasks be key clock (Suc n) pm w =
     (case replenish_task be key (clock n) pm w of (pm', w') \<Rightarrow> replenish_tasks be key clock n pm' w')"

definition key_deficit :: "pool_key \<Rightarrow> pool_manager \<Rightarrow> nat" where
  "key_deficit key pm = (case hm_get (pm_pools pm) key of None \<Rightarrow> 0 | Some p \<Rightarrow> replenish_deficit p)"

fun replenish_keys ::
    "'w backends \<Rightarrow> (nat \<Rightarrow> nat) \<Rightarrow> pool_key list \<Rightarrow> pool_manager \<Rightarrow> 'w \<Rightarrow> pool_manager \<times> 'w" where
  "replenish_keys be clock [] pm w = (pm, w)"
| "replenish_keys be clock (key # keys) pm w =
     (case replenish_tasks be key clock (key_deficit key pm) pm w of
        (pm', w') \<Rightarrow> replenish_keys be clock keys pm' w')"

definition replenish_pass :: "'w backends \<Rightarrow> (nat \<Rightarrow> nat) \<Rightarrow> pool_manager \<Rightarrow> 'w \<Rightarrow> pool_manager \<times> 'w" where
  "replenish_pass be clock pm w =
     (case drain_pending pm of (keys, pm') \<Rightarrow> replenish_keys be clock keys pm' w)"

subsection \<open>Acquisition\<close>

abbreviation pool_of :: "pool_manager \<Rightarrow> pool_key \<Rightarrow> sandbox_pool option" where
  "pool_of pm key \<equiv> hm_get (pm_pools pm) key"

definition acquire_key :: "sandbox_config \<Rightarrow> pool_key" where
  "acquire_key c = \<lparr>pk_provider = acquire_provider c, pk_image = sc_image c\<rparr>"

lemma request_replenish_pools [simp]: "pm_pools (request_replenish key pm) = pm_pools pm"
  by (simp add: request_replenish_def)

lemmas try_acquire_unfold = try_acquire_def acquire_key_def[symmetric] Let_def

text \<open>
  A pool hit: when the pool of the request has room and an idle sandbox, the request gets
  the one idle for longest, that sandbox moves from the idle queue to the active set and the
  total of the pool stays, no other pool changes, the provider is not called, and the
  replenisher is woken for the pool.
\<close>

theorem try_acquire_hit:
  assumes "acquire_provider c \<noteq> ''wasm''" "\<not> non_default_config c"
    and "pool_of pm (acquire_key c) = Some p" "sp_idle p = sb # rest"
    and "pool_total p < unat (pc_max_total (sp_config p))" "is_id sb \<notin> set (sp_active p)"
  shows "\<exists>pm' p'. try_acquire be c pm w = (Some (is_id sb), pm', w)
    \<and> pool_of pm' = (pool_of pm)(acquire_key c \<mapsto> p')
    \<and> sp_idle p' = rest \<and> set (sp_active p') = insert (is_id sb) (set (sp_active p))
    \<and> pool_total p' = pool_total p \<and> sp_config p' = sp_config p
    \<and> acquire_key c \<in> set (pm_pending pm') \<and> pm_notified pm'"
  using assms
  by (auto simp: try_acquire_unfold pool_total_def request_replenish_def length_hs_insert fun_eq_iff)

text \<open>
  What the pool does not look at: two requests that differ only in the network allowlist,
  the writable paths, the kernel, the root filesystem and the tracing get the same sandbox, one
  without any of them. With an idle sandbox the timeout of the request is not looked at either.
\<close>

theorem try_acquire_ignores:
  "try_acquire be (c\<lparr>sc_network_allowlist := hosts, sc_fs_paths := paths, sc_kernel := k,
       sc_rootfs := r, sc_trace_enabled := tr\<rparr>) pm w = try_acquire be c pm w"
proof -
  let ?c = "c\<lparr>sc_network_allowlist := hosts, sc_fs_paths := paths, sc_kernel := k,
    sc_rootfs := r, sc_trace_enabled := tr\<rparr>"
  have "acquire_provider ?c = acquire_provider c" "non_default_config ?c = non_default_config c"
    by (simp_all add: acquire_provider_def non_default_config_def)
  moreover have "sc_image ?c = sc_image c" "sc_timeout_secs ?c = sc_timeout_secs c"
    by simp_all
  ultimately show ?thesis
    unfolding try_acquire_def by (simp only:)
qed

text \<open>
  A pool at capacity serves nothing, its idle sandboxes included: the capacity test counts
  them, so a pool filled up with idle sandboxes never has a hit.
\<close>

theorem try_acquire_at_capacity:
  assumes "pool_of pm (acquire_key c) = Some p"
    and "unat (pc_max_total (sp_config p)) \<le> length (sp_idle p)"
  shows "try_acquire be c pm w = (None, pm, w)"
  using assms by (auto simp: try_acquire_unfold pool_total_def)

text \<open>Concrete pools for the witnesses.\<close>

definition demo_config :: pool_config where
  "demo_config = (pool_config_new ''docker'' ''img'')\<lparr>pc_min_idle := 1, pc_max_total := 1\<rparr>"

definition demo_key :: pool_key where
  "demo_key = \<lparr>pk_provider = ''docker'', pk_image = ''img''\<rparr>"

definition demo_pool :: "usize \<Rightarrow> string list \<Rightarrow> sandbox_pool" where
  "demo_pool cap ids =
     \<lparr>sp_config = demo_config\<lparr>pc_max_total := cap\<rparr>,
      sp_idle = map (\<lambda>i. \<lparr>is_id = i, is_created_at = 0\<rparr>) ids, sp_active = []\<rparr>"

definition demo_manager :: "usize \<Rightarrow> string list \<Rightarrow> pool_manager" where
  "demo_manager cap ids =
     \<lparr>pm_pools = [(demo_key, demo_pool cap ids)], pm_pending = [], pm_notified = False\<rparr>"

definition demo_request :: sandbox_config where
  "demo_request = sandbox_config_default\<lparr>sc_image := ''img''\<rparr>"

lemma demo_request_simps [simp]:
  "acquire_provider demo_request = ''docker''" "acquire_key demo_request = demo_key"
  "\<not> non_default_config demo_request"
  by (simp_all add: demo_request_def acquire_provider_def acquire_key_def demo_key_def
      non_default_config_def sandbox_config_default_def)

lemma demo_manager_pool [simp]:
  "pool_of (demo_manager cap ids) k = (if k = demo_key then Some (demo_pool cap ids) else None)"
  by (simp add: demo_manager_def)

text \<open>A Docker engine that always succeeds, for the witnesses: it numbers its sandboxes.\<close>

definition counting_provider :: "nat provider" where
  "counting_provider =
     \<lparr>pv_capabilities = docker_capabilities,
      pv_create = (\<lambda>_ n. (Inr (show_nat n), Suc n)),
      pv_exec = (\<lambda>i _ n. (Inl (NotFound i), n)),
      pv_destroy = (\<lambda>_ n. (Inr (), n)), pv_list = (\<lambda>n. (Inr [], n)),
      pv_copy_to = (\<lambda>_ _ _ n. (Inr (), n)), pv_copy_from = (\<lambda>_ _ _ n. (Inr (), n)),
      pv_pause = (\<lambda>_ n. (Inr (), n)), pv_unpause = (\<lambda>_ n. (Inr (), n)), pv_gc = (\<lambda>n. (Inr [], n))\<rparr>"

definition counting_backends :: "nat backends" where
  "counting_backends = \<lparr>be_docker = counting_provider, be_firecracker = None\<rparr>"

theorem try_acquire_hit_witness:
  "fst (try_acquire counting_backends demo_request (demo_manager 3 [''a'', ''b'']) 0) = Some ''a''"
proof -
  let ?p = "demo_pool 3 [''a'', ''b'']"
  have "\<exists>pm' p'. try_acquire counting_backends demo_request (demo_manager 3 [''a'', ''b'']) 0 = (Some ''a'', pm', 0)
    \<and> pool_of pm' = (pool_of (demo_manager 3 [''a'', ''b'']))(acquire_key demo_request \<mapsto> p')
    \<and> sp_idle p' = [\<lparr>is_id = ''b'', is_created_at = 0\<rparr>]
    \<and> set (sp_active p') = insert ''a'' (set (sp_active ?p))
    \<and> pool_total p' = pool_total ?p \<and> sp_config p' = sp_config ?p
    \<and> acquire_key demo_request \<in> set (pm_pending pm') \<and> pm_notified pm'"
    using try_acquire_hit[of demo_request "demo_manager 3 [''a'', ''b'']" ?p
        "\<lparr>is_id = ''a'', is_created_at = 0\<rparr>" "[\<lparr>is_id = ''b'', is_created_at = 0\<rparr>]" counting_backends 0]
    by (simp add: demo_pool_def pool_total_def)
  then show ?thesis by auto
qed

theorem try_acquire_at_capacity_witness:
  "try_acquire counting_backends demo_request (demo_manager 2 [''a'', ''b'']) 0 = (None, demo_manager 2 [''a'', ''b''], 0)"
  by (rule try_acquire_at_capacity[where p = "demo_pool 2 [''a'', ''b'']"])
    (simp_all add: demo_pool_def)

subsection \<open>The capacity of a pool\<close>

text \<open>
  \<open>shrinks pm pm'\<close>: every pool of \<open>pm'\<close> is a pool of \<open>pm\<close> with the same configuration and a
  total that is not larger. Every operation but the creation of a sandbox shrinks.
\<close>

definition shrinks :: "pool_manager \<Rightarrow> pool_manager \<Rightarrow> bool" where
  "shrinks pm pm' \<longleftrightarrow> (\<forall>key p'. pool_of pm' key = Some p' \<longrightarrow>
     (\<exists>p. pool_of pm key = Some p \<and> sp_config p' = sp_config p \<and> pool_total p' \<le> pool_total p))"

lemma shrinksI:
  "(\<And>key p'. pool_of pm' key = Some p' \<Longrightarrow>
     \<exists>p. pool_of pm key = Some p \<and> sp_config p' = sp_config p \<and> pool_total p' \<le> pool_total p) \<Longrightarrow> shrinks pm pm'"
  by (simp add: shrinks_def)

lemma shrinksD:
  "shrinks pm pm' \<Longrightarrow> pool_of pm' key = Some p' \<Longrightarrow>
    \<exists>p. pool_of pm key = Some p \<and> sp_config p' = sp_config p \<and> pool_total p' \<le> pool_total p"
  by (simp add: shrinks_def)

lemma shrinks_refl [simp]: "pm_pools pm' = pm_pools pm \<Longrightarrow> shrinks pm pm'"
  by (simp add: shrinks_def)

lemma hm_get_map_values: "hm_get (map (\<lambda>(k, v). (k, f k v)) m) key = map_option (f key) (hm_get m key)"
  unfolding hm_get_def by (induction m) auto

lemma map_pools_get [simp]: "pool_of (map_pools f pm) key = map_option (f key) (pool_of pm key)"
  by (simp add: map_pools_def hm_get_map_values)

lemma map_pools_shrinks:
  "(\<And>k p. sp_config (f k p) = sp_config p \<and> pool_total (f k p) \<le> pool_total p) \<Longrightarrow>
    shrinks pm (map_pools f pm)"
  by (auto intro!: shrinksI)

lemma pool_drain_shrinks: "shrinks pm (fst (snd (pool_drain be pm w)))"
  by (simp add: pool_drain_def Let_def) (rule map_pools_shrinks, simp add: pool_total_def)

lemma pool_shutdown_shrinks: "shrinks pm (fst (pool_shutdown be pm w))"
proof -
  have "fst (pool_shutdown be pm w) = map_pools (\<lambda>_ p. p\<lparr>sp_idle := []\<rparr>) pm"
    by (simp add: pool_shutdown_def Let_def)
  moreover have "shrinks pm (map_pools (\<lambda>_ p. p\<lparr>sp_idle := []\<rparr>) pm)"
    by (rule map_pools_shrinks) (simp add: pool_total_def)
  ultimately show ?thesis by simp
qed

lemma remove_active_get:
  "remove_active i ps = (found, ps') \<Longrightarrow> hm_get ps' key = Some p' \<Longrightarrow>
    \<exists>p. hm_get ps key = Some p \<and> sp_config p' = sp_config p \<and> sp_idle p' = sp_idle p
      \<and> (sp_active p' = sp_active p \<or> (found = Some key \<and> sp_active p' = hs_remove i (sp_active p)))"
  by (induction i ps arbitrary: found ps' rule: remove_active.induct)
    (auto split: if_splits prod.splits)

lemma on_destroy_shrinks: "shrinks pm (on_destroy i pm)"
proof (cases "remove_active i (pm_pools pm)")
  case (Pair found ps')
  show ?thesis
  proof (cases found)
    case None
    then show ?thesis using Pair by (simp add: on_destroy_def)
  next
    case (Some key)
    then have "pm_pools (on_destroy i pm) = ps'"
      using Pair by (simp add: on_destroy_def)
    then show ?thesis
      using remove_active_get[OF Pair] length_hs_remove_le[of i]
      by (fastforce intro!: shrinksI simp: pool_total_def)
  qed
qed

lemma reap_expired_filter:
  "reap_expired now cfg xs = (filter (idle_expired now cfg) xs, filter (\<lambda>sb. \<not> idle_expired now cfg sb) xs)"
  by (induction xs) simp_all

lemma reap_excess_take_drop: "reap_excess n xs = (take (length xs - n) xs, drop (length xs - n) xs)"
proof (induction xs)
  case (Cons x xs)
  show ?case
  proof (cases "n < length (x # xs)")
    case True
    then have "length (x # xs) - n = Suc (length xs - n)" by simp
    then show ?thesis using True Cons by simp
  qed simp
qed simp

definition unexpired :: "nat \<Rightarrow> sandbox_pool \<Rightarrow> idle_sandbox list" where
  "unexpired now p = filter (\<lambda>sb. \<not> idle_expired now (sp_config p) sb) (sp_idle p)"

lemma reap_pool_eq:
  "reap_pool now p =
     (let excess = length (unexpired now p) - unat (pc_max_idle (sp_config p))
      in (filter (idle_expired now (sp_config p)) (sp_idle p) @ take excess (unexpired now p),
          p\<lparr>sp_idle := drop excess (unexpired now p)\<rparr>))"
  by (simp add: reap_pool_def reap_expired_filter reap_excess_take_drop unexpired_def Let_def)

lemma reaper_pass_pools: "pm_pools (fst (reaper_pass be now pm w)) =
    pm_pools (map_pools (\<lambda>_ p. snd (reap_pool now p)) pm)"
  by (simp add: reaper_pass_def reap_collect_def)

lemma reap_pool_total: "pool_total (snd (reap_pool now p)) \<le> pool_total p"
proof -
  have "length (unexpired now p) \<le> length (sp_idle p)"
    by (simp add: unexpired_def)
  then show ?thesis
    by (simp add: reap_pool_eq Let_def pool_total_def)
qed

lemma reaper_pass_shrinks: "shrinks pm (fst (reaper_pass be now pm w))"
proof -
  have "shrinks pm (map_pools (\<lambda>_ p. snd (reap_pool now p)) pm)"
    by (rule map_pools_shrinks) (simp add: reap_pool_total, simp add: reap_pool_eq Let_def)
  then show ?thesis by (simp add: shrinks_def reaper_pass_pools)
qed

text \<open>A creation through \<open>try_acquire\<close> happens only below the capacity.\<close>

lemma try_acquire_total:
  assumes "try_acquire be c pm w = (r, pm', w')" "pool_of pm' key = Some p'"
  shows "\<exists>p. pool_of pm key = Some p \<and> sp_config p' = sp_config p
    \<and> (pool_total p' \<le> pool_total p
       \<or> (pool_total p < unat (pc_max_total (sp_config p)) \<and> pool_total p' = Suc (pool_total p)))"
  using assms
  by (auto simp: try_acquire_unfold pool_total_def length_hs_insert
      split: if_splits option.splits list.splits prod.splits sum.splits)

lemma push_idle_get:
  "pool_of (push_idle key i now pm) k =
     (if k = key then map_option (\<lambda>p. p\<lparr>sp_idle := sp_idle p @ [\<lparr>is_id = i, is_created_at = now\<rparr>]\<rparr>) (pool_of pm k)
      else pool_of pm k)"
  by (auto simp: push_idle_def split: option.splits)

lemma push_idle_total:
  "pool_of (push_idle key i now pm) k = Some p' \<Longrightarrow>
    \<exists>p. pool_of pm k = Some p \<and> sp_config p' = sp_config p
      \<and> pool_total p' = pool_total p + (if k = key then 1 else 0)"
  by (auto simp: push_idle_get pool_total_def split: if_splits)

lemma replenish_task_total:
  "pool_of (fst (replenish_task be key now pm w)) k = Some p' \<Longrightarrow>
    \<exists>p. pool_of pm k = Some p \<and> sp_config p' = sp_config p
      \<and> pool_total p' \<le> pool_total p + (if k = key then 1 else 0)"
  by (auto simp: replenish_task_def dest!: push_idle_total split: option.splits prod.splits sum.splits if_splits)

lemma replenish_tasks_total:
  "pool_of (fst (replenish_tasks be key clock n pm w)) k = Some p' \<Longrightarrow>
    \<exists>p. pool_of pm k = Some p \<and> sp_config p' = sp_config p
      \<and> pool_total p' \<le> pool_total p + (if k = key then n else 0)"
proof (induction be key clock n pm w rule: replenish_tasks.induct)
  case (2 be key clock n pm w)
  obtain pm1 w1 where t: "replenish_task be key (clock n) pm w = (pm1, w1)"
    by (cases "replenish_task be key (clock n) pm w")
  with 2 obtain q where q: "pool_of pm1 k = Some q" "sp_config p' = sp_config q"
    "pool_total p' \<le> pool_total q + (if k = key then n else 0)"
    by auto
  then obtain p where "pool_of pm k = Some p" "sp_config q = sp_config p"
    "pool_total q \<le> pool_total p + (if k = key then 1 else 0)"
    using replenish_task_total[of be key "clock n" pm w k q] t by auto
  then show ?case using q by auto
qed simp

definition pools_within :: "pool_manager \<Rightarrow> bool" where
  "pools_within pm \<longleftrightarrow> (\<forall>key p. pool_of pm key = Some p \<longrightarrow>
     pool_total p \<le> unat (pc_max_total (sp_config p)))"

lemma pools_withinI:
  "(\<And>key p. pool_of pm key = Some p \<Longrightarrow> pool_total p \<le> unat (pc_max_total (sp_config p))) \<Longrightarrow> pools_within pm"
  by (simp add: pools_within_def)

lemma pools_withinD:
  "pools_within pm \<Longrightarrow> pool_of pm key = Some p \<Longrightarrow> pool_total p \<le> unat (pc_max_total (sp_config p))"
  by (simp add: pools_within_def)

lemma pools_within_shrinks: "shrinks pm pm' \<Longrightarrow> pools_within pm \<Longrightarrow> pools_within pm'"
  by (fastforce intro!: pools_withinI dest: shrinksD pools_withinD)

lemma pools_within_same: "pm_pools pm' = pm_pools pm \<Longrightarrow> pools_within pm' = pools_within pm"
  by (simp add: pools_within_def)

lemma pools_within_acquire:
  "try_acquire be c pm w = (r, pm', w') \<Longrightarrow> pools_within pm \<Longrightarrow> pools_within pm'"
  by (fastforce intro!: pools_withinI dest: try_acquire_total pools_withinD)

lemma replenish_deficit_bound:
  "replenish_deficit p \<le> unat (pc_min_idle (sp_config p))
   \<and> (replenish_deficit p = 0 \<or> pool_total p + replenish_deficit p \<le> unat (pc_max_total (sp_config p)))"
  by (auto simp: replenish_deficit_def Let_def pool_total_def)

lemma pools_within_batch:
  assumes "pools_within pm"
  shows "pools_within (fst (replenish_tasks be key clock (key_deficit key pm) pm w))"
proof (rule pools_withinI)
  fix k p'
  assume "pool_of (fst (replenish_tasks be key clock (key_deficit key pm) pm w)) k = Some p'"
  then obtain p where p: "pool_of pm k = Some p" "sp_config p' = sp_config p"
    "pool_total p' \<le> pool_total p + (if k = key then key_deficit key pm else 0)"
    by (auto dest!: replenish_tasks_total)
  moreover have "pool_total p \<le> unat (pc_max_total (sp_config p))"
    using assms p(1) by (rule pools_withinD)
  ultimately show "pool_total p' \<le> unat (pc_max_total (sp_config p'))"
    using replenish_deficit_bound[of p] by (auto simp: key_deficit_def split: if_splits)
qed

lemma pools_within_keys:
  "pools_within pm \<Longrightarrow> pools_within (fst (replenish_keys be clock keys pm w))"
proof (induction keys arbitrary: pm w)
  case (Cons key keys)
  then show ?case
    using pools_within_batch[OF Cons.prems, of be key clock w] by (auto split: prod.splits)
qed simp

datatype pool_op =
    Acquire sandbox_config | Destroyed sandbox_id | Drain | Shutdown | Reap nat | Warmup
  | Replenish "nat \<Rightarrow> nat"

fun pool_step :: "'w backends \<Rightarrow> pool_op \<Rightarrow> pool_manager \<times> 'w \<Rightarrow> pool_manager \<times> 'w" where
  "pool_step be (Acquire c) (pm, w) = snd (try_acquire be c pm w)"
| "pool_step be (Destroyed i) (pm, w) = (on_destroy i pm, w)"
| "pool_step be Drain (pm, w) = snd (pool_drain be pm w)"
| "pool_step be Shutdown (pm, w) = pool_shutdown be pm w"
| "pool_step be (Reap now) (pm, w) = reaper_pass be now pm w"
| "pool_step be Warmup (pm, w) = (pool_warmup pm, w)"
| "pool_step be (Replenish clock) (pm, w) = replenish_pass be clock pm w"

lemma pool_step_within: "pools_within (fst s) \<Longrightarrow> pools_within (fst (pool_step be op s))"
proof -
  assume a: "pools_within (fst s)"
  obtain pm w where s: "s = (pm, w)" by (cases s)
  note shrink = pools_within_shrinks[OF _ a[unfolded s fst_conv]]
  show ?thesis
  proof (cases op)
    case (Acquire c)
    obtain r pm' w' where "try_acquire be c pm w = (r, pm', w')"
      by (cases "try_acquire be c pm w") auto
    then show ?thesis using a Acquire s pools_within_acquire by fastforce
  next
    case Shutdown
    then show ?thesis using s shrink[OF pool_shutdown_shrinks, of be w] by simp
  next
    case (Reap now)
    then show ?thesis using s shrink[OF reaper_pass_shrinks] by simp
  next
    case Drain
    then show ?thesis using s shrink[OF pool_drain_shrinks] by simp
  next
    case Warmup
    then show ?thesis using a s pools_within_same[of "pool_warmup pm" pm] by (simp add: pool_warmup_def)
  next
    case (Replenish clock)
    have "pools_within (pm\<lparr>pm_pending := [], pm_notified := False\<rparr>)"
      using a s pools_within_same[of "pm\<lparr>pm_pending := [], pm_notified := False\<rparr>" pm] by simp
    then show ?thesis
      using s Replenish by (simp add: replenish_pass_def drain_pending_def pools_within_keys)
  qed (use s shrink[OF on_destroy_shrinks] in simp)
qed

interpretation pool_runs: preserving "pool_step be" "\<lambda>s. pools_within (fst s)" for be
  by unfold_locales (rule pool_step_within)

lemma add_pools_empty:
  "hm_get (fold add_pool configs ps) key = Some p \<Longrightarrow>
    list_all (\<lambda>(k, q). pool_total q = 0) ps \<Longrightarrow> pool_total p = 0"
proof (induction configs arbitrary: ps)
  case Nil
  then show ?case by (auto simp: list_all_iff dest!: hm_get_Some_in)
next
  case (Cons cfg configs)
  have "list_all (\<lambda>(k, q). pool_total q = 0) (add_pool cfg ps)"
    using Cons.prems(2) by (auto simp: add_pool_def list_all_iff pool_total_def dest!: hm_insert_entries)
  then show ?case using Cons by simp
qed

lemma pool_manager_new_empty: "pool_of (pool_manager_new configs) key = Some p \<Longrightarrow> pool_total p = 0"
  by (auto simp: pool_manager_new_def dest: add_pools_empty)

lemma pools_within_new: "pools_within (pool_manager_new configs)"
  by (auto intro!: pools_withinI dest: pool_manager_new_empty)

text \<open>
  Capacity, when the background tasks run to completion between the requests: whatever
  the operations, no pool ever holds more than \<open>max_total\<close> sandboxes, idle and active together.
\<close>

theorem pool_capacity_sequential:
  "pools_within (fst (fold (pool_step be) ops (pool_manager_new configs, w)))"
  using pool_runs.run_inv[of "(pool_manager_new configs, w)" be ops] pools_within_new by simp

subsection \<open>What the reaper and the drain leave\<close>

text \<open>
  (C33) The reaper leaves a pool with no expired sandbox and at most \<open>max_idle\<close> of them, the
  newest ones in their order; what it takes out and what it leaves are together what was there,
  and a pool of at most \<open>max_idle\<close> unexpired sandboxes loses nothing.
\<close>

theorem reap_pool_spec:
  "list_all (\<lambda>sb. \<not> idle_expired now (sp_config p) sb) (sp_idle (snd (reap_pool now p)))
   \<and> length (sp_idle (snd (reap_pool now p))) = min (unat (pc_max_idle (sp_config p))) (length (unexpired now p))
   \<and> (\<exists>older. unexpired now p = older @ sp_idle (snd (reap_pool now p)))
   \<and> mset (fst (reap_pool now p)) + mset (sp_idle (snd (reap_pool now p))) = mset (sp_idle p)
   \<and> sp_active (snd (reap_pool now p)) = sp_active p"
proof -
  let ?e = "length (unexpired now p) - unat (pc_max_idle (sp_config p))"
  have all: "list_all (\<lambda>sb. \<not> idle_expired now (sp_config p) sb) (unexpired now p)"
    by (simp add: unexpired_def list_all_iff)
  have parts: "mset (take ?e (unexpired now p)) + mset (drop ?e (unexpired now p)) = mset (unexpired now p)"
    by (simp flip: mset_append)
  have "mset (filter (idle_expired now (sp_config p)) (sp_idle p)) + mset (unexpired now p) = mset (sp_idle p)"
    by (simp add: unexpired_def mset_filter)
  then have "mset (fst (reap_pool now p)) + mset (sp_idle (snd (reap_pool now p))) = mset (sp_idle p)"
    using parts by (simp add: reap_pool_eq Let_def add.assoc)
  moreover have "\<exists>older. unexpired now p = older @ drop ?e (unexpired now p)"
    by (metis append_take_drop_id)
  ultimately show ?thesis
    using all by (auto simp: reap_pool_eq Let_def list_all_iff dest: in_set_dropD)
qed

subsection \<open>Giving a sandbox back\<close>

lemma remove_active_unique:
  assumes "hm_wf ps" "hm_get ps key = Some p" "i \<in> set (sp_active p)"
    and "\<And>k q. hm_get ps k = Some q \<Longrightarrow> i \<in> set (sp_active q) \<Longrightarrow> k = key"
  shows "\<exists>ps'. remove_active i ps = (Some key, ps')
    \<and> hm_get ps' = (hm_get ps)(key \<mapsto> p\<lparr>sp_active := hs_remove i (sp_active p)\<rparr>)"
  using assms
proof (induction i ps rule: remove_active.induct)
  case (2 i k q ps)
  show ?case
  proof (cases "i \<in> set (sp_active q)")
    case True
    then have "k = key" using 2(5)[of k q] by simp
    then show ?thesis using True 2(3) by (auto simp: fun_eq_iff)
  next
    case False
    then have neq: "k \<noteq> key" using 2(3,4) by auto
    have "hm_wf ps" using 2(2) by (simp add: hm_wf_def)
    moreover have "hm_get ps key = Some p" using 2(3) neq by simp
    moreover have "a = key" if "hm_get ps a = Some b" "i \<in> set (sp_active b)" for a b
    proof -
      have "a \<noteq> k"
        using that(1) 2(2) hm_get_Some_in[OF that(1)] by (force simp: hm_wf_def)
      then show ?thesis using 2(5)[of a b] that by simp
    qed
    ultimately obtain ps' where r: "remove_active i ps = (Some key, ps')"
      and g: "hm_get ps' = (hm_get ps)(key \<mapsto> p\<lparr>sp_active := hs_remove i (sp_active p)\<rparr>)"
      using 2(1)[OF False] 2(4) by blast
    have "hm_get ((k, q) # ps') x =
        ((hm_get ((k, q) # ps))(key \<mapsto> p\<lparr>sp_active := hs_remove i (sp_active p)\<rparr>)) x" for x
      using neq by (simp add: g)
    then have "hm_get ((k, q) # ps') =
        (hm_get ((k, q) # ps))(key \<mapsto> p\<lparr>sp_active := hs_remove i (sp_active p)\<rparr>)"
      by (rule ext)
    moreover have "remove_active i ((k, q) # ps) = (Some key, (k, q) # ps')"
      using False r by simp
    ultimately show ?thesis by blast
  qed
qed simp

text \<open>
  Giving back: when the sandbox a hit returned is destroyed and the daemon tells the pool,
  the pool has one sandbox less than before the request and no trace of that one, and every
  other pool is what it was.
\<close>

theorem acquire_then_destroyed:
  assumes "acquire_provider c \<noteq> ''wasm''" "\<not> non_default_config c" "hm_wf (pm_pools pm)"
    and "pool_of pm (acquire_key c) = Some p" "sp_idle p = sb # rest"
    and "pool_total p < unat (pc_max_total (sp_config p))"
    and "\<And>k q. pool_of pm k = Some q \<Longrightarrow> is_id sb \<notin> set (sp_active q)"
  shows "\<exists>p'. pool_of (on_destroy (is_id sb) (fst (snd (try_acquire be c pm w)))) = (pool_of pm)(acquire_key c \<mapsto> p')
    \<and> sp_idle p' = rest \<and> set (sp_active p') = set (sp_active p)"
proof -
  let ?p = "p\<lparr>sp_idle := rest, sp_active := hs_insert (is_id sb) (sp_active p)\<rparr>"
  let ?ps = "hm_insert (acquire_key c) ?p (pm_pools pm)"
  have pools: "pm_pools (fst (snd (try_acquire be c pm w))) = ?ps"
    using assms by (auto simp: try_acquire_unfold)
  have "\<exists>ps'. remove_active (is_id sb) ?ps = (Some (acquire_key c), ps')
    \<and> hm_get ps' = (hm_get ?ps)(acquire_key c \<mapsto> ?p\<lparr>sp_active := hs_remove (is_id sb) (sp_active ?p)\<rparr>)"
    by (rule remove_active_unique) (use assms in \<open>auto split: if_splits\<close>)
  then show ?thesis
    using assms(4,7) pools by (fastforce simp: on_destroy_def fun_eq_iff)
qed

theorem acquire_then_destroyed_witness:
  "\<exists>p'. pool_of (on_destroy ''a'' (fst (snd (try_acquire counting_backends demo_request (demo_manager 3 [''a'', ''b'']) 0)))) demo_key
     = Some p' \<and> sp_active p' = []"
proof -
  have "\<exists>p'. pool_of (on_destroy (is_id \<lparr>is_id = ''a'', is_created_at = 0\<rparr>)
        (fst (snd (try_acquire counting_backends demo_request (demo_manager 3 [''a'', ''b'']) 0))))
      = (pool_of (demo_manager 3 [''a'', ''b'']))(acquire_key demo_request \<mapsto> p')
    \<and> sp_idle p' = [\<lparr>is_id = ''b'', is_created_at = 0\<rparr>] \<and> set (sp_active p') = set (sp_active (demo_pool 3 [''a'', ''b'']))"
  proof (rule acquire_then_destroyed[where p = "demo_pool 3 [''a'', ''b'']"])
    show "hm_wf (pm_pools (demo_manager 3 [''a'', ''b'']))"
      by (simp add: demo_manager_def hm_wf_def)
    show "is_id \<lparr>is_id = ''a'', is_created_at = 0\<rparr> \<notin> set (sp_active q)"
      if "pool_of (demo_manager 3 [''a'', ''b'']) k = Some q" for k q
      using that by (auto simp: demo_pool_def split: if_splits)
  qed (simp_all add: demo_pool_def pool_total_def)
  then show ?thesis by (auto simp: demo_pool_def)
qed

end
