(* ===== verification/Pool_Race.thy ===== *)
theory Pool_Race
  imports Pool
begin

text \<open>
  The pools under concurrency: a step relation in which the critical sections of the reaper and of
  the replenisher interleave with requests and destructions, and how far the capacity of a pool
  holds under it.
\<close>

text \<open>
  The manager, the world and the progress of the background tasks: the keys the replenisher has
  drained, the spawned tasks of its current batch that have not created yet (\<open>waiting\<close>), those
  that have created a sandbox and not stored it yet (\<open>created\<close>, at most three: the semaphore),
  and the sandboxes the reaper has taken out and not destroyed yet. The loop awaits a batch
  before it takes the next key.
\<close>

record 'w race =
  ra_pm :: pool_manager
  ra_world :: 'w
  ra_todo :: "pool_key list"
  ra_waiting :: "pool_key list"
  ra_created :: "(pool_key \<times> sandbox_id) list"
  ra_doomed :: "(string \<times> sandbox_id) list"

inductive race_step :: "'w backends \<Rightarrow> 'w race \<Rightarrow> 'w race \<Rightarrow> bool" for be where
  race_acquire: "try_acquire be c (ra_pm s) (ra_world s) = (r, pm', w') \<Longrightarrow>
    race_step be s (s\<lparr>ra_pm := pm', ra_world := w'\<rparr>)"
| race_destroyed: "race_step be s (s\<lparr>ra_pm := on_destroy i (ra_pm s)\<rparr>)"
| race_drain: "pool_drain be (ra_pm s) (ra_world s) = (n, pm', w') \<Longrightarrow>
    race_step be s (s\<lparr>ra_pm := pm', ra_world := w'\<rparr>)"
| race_warmup: "race_step be s (s\<lparr>ra_pm := pool_warmup (ra_pm s)\<rparr>)"
| race_reap: "ra_doomed s = [] \<Longrightarrow> reap_collect now (ra_pm s) = (ds, pm') \<Longrightarrow>
    race_step be s (s\<lparr>ra_pm := pm', ra_doomed := ds\<rparr>)"
| race_doom: "race_step be s (s\<lparr>ra_world := destroy_keyed be (ra_doomed s) (ra_world s), ra_doomed := []\<rparr>)"
| race_wake: "pm_notified (ra_pm s) \<Longrightarrow> ra_todo s = [] \<Longrightarrow> ra_waiting s = [] \<Longrightarrow> ra_created s = [] \<Longrightarrow>
    drain_pending (ra_pm s) = (keys, pm') \<Longrightarrow> race_step be s (s\<lparr>ra_pm := pm', ra_todo := keys\<rparr>)"
| race_batch: "ra_todo s = key # keys \<Longrightarrow> ra_waiting s = [] \<Longrightarrow> ra_created s = [] \<Longrightarrow>
    race_step be s (s\<lparr>ra_todo := keys, ra_waiting := replicate (key_deficit key (ra_pm s)) key\<rparr>)"
| race_create: "ra_waiting s = key # keys \<Longrightarrow> length (ra_created s) < 3 \<Longrightarrow>
    backend_create be (pk_provider key) (pool_sandbox_config (pk_provider key) (pk_image key) 0) = Some create \<Longrightarrow>
    create (ra_world s) = (Inr i, w') \<Longrightarrow>
    race_step be s (s\<lparr>ra_world := w', ra_waiting := keys, ra_created := (key, i) # ra_created s\<rparr>)"
| race_create_failed: "ra_waiting s = key # keys \<Longrightarrow> length (ra_created s) < 3 \<Longrightarrow>
    backend_create be (pk_provider key) (pool_sandbox_config (pk_provider key) (pk_image key) 0) = Some create \<Longrightarrow>
    create (ra_world s) = (Inl e, w') \<Longrightarrow>
    race_step be s (s\<lparr>ra_world := w', ra_waiting := keys\<rparr>)"
| race_no_backend: "ra_waiting s = key # keys \<Longrightarrow>
    backend_create be (pk_provider key) (pool_sandbox_config (pk_provider key) (pk_image key) 0) = None \<Longrightarrow>
    race_step be s (s\<lparr>ra_waiting := keys\<rparr>)"
| race_store: "ra_created s = cs @ (key, i) # ds \<Longrightarrow>
    race_step be s (s\<lparr>ra_pm := push_idle key i now (ra_pm s), ra_created := cs @ ds\<rparr>)"

definition race_init :: "pool_config list \<Rightarrow> 'w \<Rightarrow> 'w race" where
  "race_init configs w =
     \<lparr>ra_pm = initial_warmup (pool_manager_new configs), ra_world = w, ra_todo = [], ra_waiting = [],
      ra_created = [], ra_doomed = []\<rparr>"

inductive race_reach :: "'w backends \<Rightarrow> pool_config list \<Rightarrow> 'w \<Rightarrow> 'w race \<Rightarrow> bool" for be configs w where
  race_start: "race_reach be configs w (race_init configs w)"
| race_next: "race_reach be configs w s \<Longrightarrow> race_step be s s' \<Longrightarrow> race_reach be configs w s'"

text \<open>The sandboxes of a pool that are on their way.\<close>

definition inflight :: "pool_key \<Rightarrow> 'w race \<Rightarrow> nat" where
  "inflight key s = count_list (ra_waiting s) key + count_list (map fst (ra_created s)) key"

definition race_bound :: "nat \<Rightarrow> sandbox_pool \<Rightarrow> bool" where
  "race_bound n p \<longleftrightarrow> n \<le> unat (pc_min_idle (sp_config p))
     \<and> pool_total p + n \<le> unat (pc_max_total (sp_config p)) + unat (pc_min_idle (sp_config p))"

definition race_inv :: "'w race \<Rightarrow> bool" where
  "race_inv s \<longleftrightarrow> (\<forall>key p. pool_of (ra_pm s) key = Some p \<longrightarrow> race_bound (inflight key s) p)"

lemma race_invI:
  "(\<And>key p. pool_of (ra_pm s) key = Some p \<Longrightarrow> race_bound (inflight key s) p) \<Longrightarrow> race_inv s"
  by (simp add: race_inv_def)

lemma race_invD: "race_inv s \<Longrightarrow> pool_of (ra_pm s) key = Some p \<Longrightarrow> race_bound (inflight key s) p"
  by (simp add: race_inv_def)

lemma race_inv_shrinks:
  assumes "race_inv s" "shrinks (ra_pm s) (ra_pm s')" "\<And>key. inflight key s' \<le> inflight key s"
  shows "race_inv s'"
proof (rule race_invI)
  fix key p'
  assume "pool_of (ra_pm s') key = Some p'"
  then obtain p where "pool_of (ra_pm s) key = Some p" "sp_config p' = sp_config p"
    "pool_total p' \<le> pool_total p"
    using shrinksD[OF assms(2)] by blast
  then show "race_bound (inflight key s') p'"
    using race_invD[OF assms(1)] assms(3)[of key] by (fastforce simp: race_bound_def)
qed

lemma race_inv_acquire:
  assumes "race_inv s" "try_acquire be c (ra_pm s) w = (r, pm', w')"
    and "ra_pm s' = pm'" "\<And>key. inflight key s' = inflight key s"
  shows "race_inv s'"
proof (rule race_invI)
  fix key p'
  assume "pool_of (ra_pm s') key = Some p'"
  then obtain p where "pool_of (ra_pm s) key = Some p" "sp_config p' = sp_config p"
    "pool_total p' \<le> pool_total p
       \<or> (pool_total p < unat (pc_max_total (sp_config p)) \<and> pool_total p' = Suc (pool_total p))"
    using try_acquire_total[OF assms(2)] assms(3) by blast
  then show "race_bound (inflight key s') p'"
    using race_invD[OF assms(1), of key p] assms(4)[of key] by (auto simp: race_bound_def)
qed

lemma race_inv_batch:
  assumes "race_inv s" "ra_waiting s = []" "ra_created s = []"
    and "ra_pm s' = ra_pm s" "ra_created s' = []"
    and "ra_waiting s' = replicate (key_deficit key (ra_pm s)) key"
  shows "race_inv s'"
proof (rule race_invI)
  fix k p
  assume p: "pool_of (ra_pm s') k = Some p"
  then have b: "race_bound 0 p"
    using race_invD[OF assms(1), of k p] assms(2,3,4) by (simp add: inflight_def)
  have n: "inflight k s' = (if k = key then replenish_deficit p else 0)"
  proof -
    have "count_list (replicate n key) k = (if k = key then n else 0)" for n
      by (induction n) auto
    then show ?thesis
      using p assms(4,5,6) by (auto simp: inflight_def key_deficit_def)
  qed
  show "race_bound (inflight k s') p"
    using b replenish_deficit_bound[of p] by (auto simp: n race_bound_def)
qed

lemma race_inv_store:
  assumes "race_inv s" "ra_created s = cs @ (key, i) # ds"
    and "ra_pm s' = push_idle key i now (ra_pm s)" "ra_created s' = cs @ ds" "ra_waiting s' = ra_waiting s"
  shows "race_inv s'"
proof (rule race_invI)
  fix k p'
  assume "pool_of (ra_pm s') k = Some p'"
  then obtain p where "pool_of (ra_pm s) k = Some p" "sp_config p' = sp_config p"
    "pool_total p' = pool_total p + (if k = key then 1 else 0)"
    using push_idle_total assms(3) by metis
  moreover have "inflight k s = inflight k s' + (if k = key then 1 else 0)"
    using assms(2,4,5) by (auto simp: inflight_def)
  ultimately show "race_bound (inflight k s') p'"
    using race_invD[OF assms(1), of k p] by (auto simp: race_bound_def)
qed

lemma race_step_inv: "race_step be s s' \<Longrightarrow> race_inv s \<Longrightarrow> race_inv s'"
proof (induction rule: race_step.induct)
  case (race_acquire c s r pm' w')
  show ?case
    by (rule race_inv_acquire[OF race_acquire(2,1)]) (simp_all add: inflight_def)
next
  case (race_destroyed s i)
  show ?case
    by (rule race_inv_shrinks[OF race_destroyed]) (simp_all add: inflight_def on_destroy_shrinks)
next
  case (race_drain s n pm' w')
  then have "shrinks (ra_pm s) pm'"
    using pool_drain_shrinks[of "ra_pm s" be "ra_world s"] by simp
  then show ?case
    by (intro race_inv_shrinks[OF race_drain(2)]) (simp_all add: inflight_def)
next
  case (race_warmup s)
  show ?case
    by (rule race_inv_shrinks[OF race_warmup]) (simp_all add: inflight_def pool_warmup_def)
next
  case (race_reap s now ds pm')
  then have "shrinks (ra_pm s) pm'"
    using reaper_pass_shrinks[of "ra_pm s" be now "ra_world s"] by (simp add: reaper_pass_def)
  then show ?case
    by (intro race_inv_shrinks[OF race_reap(3)]) (simp_all add: inflight_def)
next
  case (race_doom s)
  show ?case
    by (rule race_inv_shrinks[OF race_doom]) (simp_all add: inflight_def)
next
  case (race_wake s keys pm')
  show ?case
    by (rule race_inv_shrinks[OF race_wake(6)])
      (use race_wake(5) in \<open>auto simp: inflight_def drain_pending_def\<close>)
next
  case (race_batch s key keys)
  show ?case
    by (rule race_inv_batch[OF race_batch(4,2,3), where key = key]) (simp_all add: race_batch(3))
next
  case (race_create s key keys create i w')
  show ?case
    by (rule race_inv_shrinks[OF race_create(5)]) (simp_all add: inflight_def race_create(1))
next
  case (race_create_failed s key keys create e w')
  show ?case
    by (rule race_inv_shrinks[OF race_create_failed(5)]) (simp_all add: inflight_def race_create_failed(1))
next
  case (race_no_backend s key keys)
  show ?case
    by (rule race_inv_shrinks[OF race_no_backend(3)]) (simp_all add: inflight_def race_no_backend(1))
next
  case (race_store s cs key i ds now)
  show ?case
    by (rule race_inv_store[OF race_store(2,1), of _ now]) simp_all
qed

lemma initial_warmup_pools [simp]: "pm_pools (initial_warmup pm) = pm_pools pm"
  by (simp add: initial_warmup_def Let_def)

lemma race_reach_inv: "race_reach be configs w s \<Longrightarrow> race_inv s"
proof (induction rule: race_reach.induct)
  case race_start
  show ?case
    by (rule race_invI) (simp add: race_init_def inflight_def race_bound_def pool_manager_new_empty)
qed (rule race_step_inv)

text \<open>
  (C4) Capacity under every interleaving of requests, destructions, drains, the reaper and the
  replenisher: a pool with \<open>n\<close> sandboxes on their way never holds more than
  \<open>max_total + min_idle - n\<close>.
\<close>

theorem pool_capacity_interleaved:
  assumes "race_reach be configs w s" "pool_of (ra_pm s) key = Some p"
  shows "pool_total p + inflight key s
    \<le> unat (pc_max_total (sp_config p)) + unat (pc_min_idle (sp_config p))"
  using race_invD[OF race_reach_inv[OF assms(1)] assms(2)] by (simp add: race_bound_def)

definition empty_demo_pool :: sandbox_pool where
  "empty_demo_pool = \<lparr>sp_config = demo_config, sp_idle = [], sp_active = []\<rparr>"

lemma empty_demo_pool_simps [simp]:
  "sp_config empty_demo_pool = demo_config" "sp_idle empty_demo_pool = []" "sp_active empty_demo_pool = []"
  "unat (pc_max_total demo_config) = 1" "unat (pc_min_idle demo_config) = 1" "pool_total empty_demo_pool = 0"
  by (simp_all add: empty_demo_pool_def demo_config_def pool_total_def)

lemma demo_race_init:
  "race_init [demo_config] w =
     \<lparr>ra_pm = \<lparr>pm_pools = [(demo_key, empty_demo_pool)], pm_pending = [demo_key], pm_notified = True\<rparr>,
      ra_world = w, ra_todo = [], ra_waiting = [], ra_created = [], ra_doomed = []\<rparr>"
proof -
  have "pool_manager_new [demo_config] =
      \<lparr>pm_pools = [(demo_key, empty_demo_pool)], pm_pending = [], pm_notified = False\<rparr>"
    by (simp add: pool_manager_new_def add_pool_def pool_accepts_def demo_config_def pool_config_new_def
        demo_key_def empty_demo_pool_def)
  then show ?thesis
    by (simp add: race_init_def initial_warmup_def hs_insert_def word_less_nat_alt)
qed

text \<open>The replenisher has counted the deficit; then a request creates a sandbox.\<close>

lemma demo_race_batch:
  "race_reach be [demo_config] w
     \<lparr>ra_pm = \<lparr>pm_pools = [(demo_key, empty_demo_pool)], pm_pending = [], pm_notified = False\<rparr>,
      ra_world = w, ra_todo = [], ra_waiting = [demo_key], ra_created = [], ra_doomed = []\<rparr>"
proof -
  let ?pm = "\<lparr>pm_pools = [(demo_key, empty_demo_pool)], pm_pending = [], pm_notified = False\<rparr>"
  have 0: "race_reach be [demo_config] w (race_init [demo_config] w)"
    by (rule race_start)
  have 1: "race_reach be [demo_config] w ((race_init [demo_config] w)\<lparr>ra_pm := ?pm, ra_todo := [demo_key]\<rparr>)"
    by (rule race_next[OF 0 race_wake]) (simp_all add: demo_race_init drain_pending_def)
  have "key_deficit demo_key ?pm = 1"
    by (simp add: key_deficit_def replenish_deficit_def)
  with race_next[OF 1 race_batch[where key = demo_key and keys = "[]"]] show ?thesis
    by (simp add: demo_race_init)
qed

lemma demo_key_alt: "\<lparr>pk_provider = ''docker'', pk_image = sc_image demo_request\<rparr> = demo_key"
  by (simp add: demo_key_def demo_request_def)

definition lent_demo_pool :: sandbox_pool where
  "lent_demo_pool = empty_demo_pool\<lparr>sp_active := [show_nat 0]\<rparr>"

definition lent_demo_race :: "nat race" where
  "lent_demo_race =
     \<lparr>ra_pm = \<lparr>pm_pools = [(demo_key, lent_demo_pool)], pm_pending = [demo_key], pm_notified = True\<rparr>,
      ra_world = 1, ra_todo = [], ra_waiting = [demo_key], ra_created = [], ra_doomed = []\<rparr>"

lemma demo_race_lent: "race_reach counting_backends [demo_config] 0 lent_demo_race"
proof -
  let ?pm = "\<lparr>pm_pools = [(demo_key, lent_demo_pool)], pm_pending = [demo_key], pm_notified = True\<rparr>"
  have "try_acquire counting_backends demo_request
      \<lparr>pm_pools = [(demo_key, empty_demo_pool)], pm_pending = [], pm_notified = False\<rparr> 0
      = (Some (show_nat 0), ?pm, 1)"
    by (simp add: try_acquire_unfold backend_create_def counting_backends_def counting_provider_def
        request_replenish_def hs_insert_def demo_key_alt lent_demo_pool_def)
  then show ?thesis
    using race_next[OF demo_race_batch race_acquire] by (fastforce simp: lent_demo_race_def)
qed

lemma demo_race_overrun:
  "\<exists>s p. race_reach counting_backends [demo_config] 0 s \<and> pool_of (ra_pm s) demo_key = Some p
     \<and> sp_config p = demo_config \<and> pool_total p = 2"
proof -
  let ?pm = "\<lparr>pm_pools = [(demo_key, lent_demo_pool)], pm_pending = [demo_key], pm_notified = True\<rparr>"
  have key: "pk_provider demo_key = ''docker''" by (simp add: demo_key_def)
  note 1 = demo_race_lent[unfolded lent_demo_race_def]
  have 2: "race_reach counting_backends [demo_config] 0
     \<lparr>ra_pm = ?pm, ra_world = 2, ra_todo = [], ra_waiting = [],
      ra_created = [(demo_key, show_nat 1)], ra_doomed = []\<rparr>"
    using race_next[OF 1 race_create[where create = "\<lambda>n. (Inr (show_nat n), Suc n)"
          and i = "show_nat 1" and w' = 2 and keys = "[]" and key = demo_key]]
    by (simp add: backend_create_def key counting_backends_def counting_provider_def)
  have 3: "race_reach counting_backends [demo_config] 0
     \<lparr>ra_pm = push_idle demo_key (show_nat 1) 0 ?pm, ra_world = 2, ra_todo = [], ra_waiting = [],
      ra_created = [], ra_doomed = []\<rparr>"
    using race_next[OF 2 race_store[where cs = "[]" and ds = "[]" and key = demo_key
          and i = "show_nat 1" and now = 0]] by simp
  let ?p = "lent_demo_pool\<lparr>sp_idle := [\<lparr>is_id = show_nat 1, is_created_at = 0\<rparr>]\<rparr>"
  have "pool_of (push_idle demo_key (show_nat 1) 0 ?pm) demo_key = Some ?p"
    by (simp add: push_idle_def lent_demo_pool_def)
  moreover have "pool_total ?p = 2" by (simp add: pool_total_def lent_demo_pool_def)
  moreover have "sp_config ?p = demo_config" by (simp add: lent_demo_pool_def)
  ultimately show ?thesis using 3 by fastforce
qed

theorem pool_capacity_interleaved_witness:
  "\<exists>s p. race_reach counting_backends [demo_config] 0 s \<and> pool_of (ra_pm s) demo_key = Some p
     \<and> pool_total p = 2 \<and> inflight demo_key s = 0"
proof -
  obtain s p where s: "race_reach counting_backends [demo_config] 0 s"
    "pool_of (ra_pm s) demo_key = Some p" "sp_config p = demo_config" "pool_total p = 2"
    using demo_race_overrun by blast
  have "inflight demo_key s = 0"
    using pool_capacity_interleaved[OF s(1,2)] s(3,4) by simp
  with s show ?thesis by blast
qed

text \<open>
  The bound is reached, so \<open>max_total\<close> is not a limit: with \<open>min_idle = max_total = 1\<close>, a
  request served between the replenisher's count and its insertion leaves the pool with two
  sandboxes.
\<close>

theorem pool_capacity_overrun:
  "\<exists>s p. race_reach counting_backends [demo_config] 0 s \<and> pool_of (ra_pm s) demo_key = Some p
     \<and> unat (pc_max_total (sp_config p)) = 1 \<and> pool_total p = 2"
  using demo_race_overrun by fastforce

end
