(* ===== verification/Docker.thy ===== *)
theory Docker
  imports Provider Rust_Text
begin

text \<open>
  The Docker provider, \<open>provider/docker.rs\<close>. Everything it does goes through the \<open>docker\<close>
  command, which is an argument of the model: \<open>dk_run\<close> runs it with an argument list in a world
  \<open>'w\<close> and gives the process output or the error of the spawn; \<open>dk_run_timeout\<close> may also run out
  of time. The system clock and the seccomp profile of the home directory are read from the world.
\<close>

subsection \<open>The command\<close>

record cmd_output =
  co_success :: bool
  co_code :: "i32 option"
  co_stdout :: string
  co_stderr :: string

type_synonym cmd_result = "(string, cmd_output) result"

record 'w docker_cli =
  dk_run :: "string list \<Rightarrow> 'w \<Rightarrow> cmd_result \<times> 'w"
  dk_run_timeout :: "u64 \<Rightarrow> string list \<Rightarrow> 'w \<Rightarrow> cmd_result option \<times> 'w"
  dk_now :: "'w \<Rightarrow> u64"
  dk_seccomp :: "'w \<Rightarrow> string option"

definition stderr_text :: "cmd_output \<Rightarrow> string" where
  "stderr_text out = from_utf8_lossy (co_stderr out)"

definition stdout_text :: "cmd_output \<Rightarrow> string" where
  "stdout_text out = from_utf8_lossy (co_stdout out)"

subsection \<open>Argument lists\<close>

definition fs_path_args :: "string \<Rightarrow> string list" where
  "fs_path_args path =
     (let clean = trim_end_matches (CHR ''/'') (trim_end_matches (CHR ''*'') path)
      in if clean \<noteq> [] then [''--tmpfs'', clean @ '':rw''] else [])"

definition mount_value :: "mount_config \<Rightarrow> string" where
  "mount_value m =
     mc_host_path m @ '':'' @ mc_container_path m @ '':'' @ (if mc_readonly m then ''ro'' else ''rw'')"

definition mount_args :: "mount_config \<Rightarrow> string list" where
  "mount_args m = [''-v'', mount_value m]"

definition env_args :: "string \<times> string \<Rightarrow> string list" where
  "env_args kv = [''-e'', fst kv @ ''='' @ snd kv]"

definition build_create_args :: "u64 \<Rightarrow> string option \<Rightarrow> sandbox_config \<Rightarrow> string list" where
  "build_create_args now seccomp c =
     [''create'']
     @ (if \<not> sc_network c then [''--network'', ''none''] else [])
     @ (if sc_fs_paths c \<noteq> [] then ''--read-only'' # concat (map fs_path_args (sc_fs_paths c))
        else if \<not> sc_writable c then [''--read-only''] else [])
     @ (case sc_memory c of Some m \<Rightarrow> [''--memory'', m] | None \<Rightarrow> [])
     @ (case sc_cpus c of Some x \<Rightarrow> [''--cpus'', f64_display x] | None \<Rightarrow> [])
     @ [''--pids-limit'', ''256'', ''--security-opt'', ''no-new-privileges'']
     @ [''--label'', ''roche.managed=true'']
     @ (if 0 < sc_timeout_secs c
        then [''--label'', ''roche.expires='' @ show_u64 (now + sc_timeout_secs c)] else [])
     @ concat (map env_args (sc_env c))
     @ concat (map mount_args (sc_mounts c))
     @ (if sc_trace_enabled c then
          (case seccomp of Some p \<Rightarrow> [''--security-opt'', ''seccomp='' @ p] | None \<Rightarrow> []) else [])
     @ [sc_image c] @ [''sleep'', ''infinity'']"

definition build_exec_args :: "sandbox_id \<Rightarrow> exec_request \<Rightarrow> string list" where
  "build_exec_args i request = [''exec'', i] @ er_command request"

definition parse_status :: "string \<Rightarrow> sandbox_status" where
  "parse_status state =
     (if state = ''running'' then Running
      else if state = ''paused'' then Paused
      else if state = ''exited'' \<or> state = ''created'' then Stopped
      else Failed)"

subsection \<open>Operations\<close>

definition check_available :: "'w docker_cli \<Rightarrow> ('w, unit) io" where
  "check_available cli w =
     (case dk_run cli [''info''] w of
        (Inl _, w') \<Rightarrow> (Inl (Unavailable ''Docker is not installed or not in PATH''), w')
      | (Inr out, w') \<Rightarrow>
          (if \<not> co_success out then (Inl (Unavailable ''Docker daemon is not running''), w')
           else (Inr (), w')))"

definition allowlist_script :: "string list \<Rightarrow> string" where
  "allowlist_script hosts =
     join '' && ''
       ([''iptables -P OUTPUT DROP'', ''iptables -A OUTPUT -o lo -j ACCEPT'',
         ''iptables -A OUTPUT -p udp --dport 53 -j ACCEPT'',
         ''iptables -A OUTPUT -m state --state ESTABLISHED,RELATED -j ACCEPT'']
        @ map (\<lambda>host. ''iptables -A OUTPUT -d '' @ host @ '' -j ACCEPT'') hosts)"

definition docker_create :: "'w docker_cli \<Rightarrow> sandbox_config \<Rightarrow> ('w, sandbox_id) io" where
  "docker_create cli c w =
     (case validate_config c docker_capabilities of
        Inl e \<Rightarrow> (Inl e, w)
      | Inr _ \<Rightarrow>
     (case check_available cli w of
        (Inl e, w1) \<Rightarrow> (Inl e, w1)
      | (Inr _, w1) \<Rightarrow>
     (case dk_run cli (build_create_args (dk_now cli w1) (dk_seccomp cli w1) c) w1 of
        (Inl e, w2) \<Rightarrow> (Inl (CreateFailed e), w2)
      | (Inr out, w2) \<Rightarrow>
          (if \<not> co_success out then (Inl (CreateFailed (trim (stderr_text out))), w2)
           else
             let cid = concat (take 12 (utf8_chars (trim (stdout_text out))))
             in case dk_run cli [''start'', cid] w2 of
                  (Inl e, w3) \<Rightarrow> (Inl (CreateFailed e), w3)
                | (Inr start, w3) \<Rightarrow>
                    (if \<not> co_success start then (Inl (CreateFailed (trim (stderr_text start))), w3)
                     else if sc_network c \<and> sc_network_allowlist c \<noteq> [] then
                       (Inr cid, snd (dk_run cli
                          [''exec'', cid, ''sh'', ''-c'', allowlist_script (sc_network_allowlist c)] w3))
                     else (Inr cid, w3))))))"

definition docker_exec :: "'w docker_cli \<Rightarrow> sandbox_id \<Rightarrow> exec_request \<Rightarrow> ('w, exec_output) io" where
  "docker_exec cli i request w =
     (let timeout = (case er_timeout_secs request of Some t \<Rightarrow> t | None \<Rightarrow> 300)
      in case dk_run_timeout cli timeout (build_exec_args i request) w of
           (None, w') \<Rightarrow> (Inl (Timeout timeout), w')
         | (Some (Inl e), w') \<Rightarrow> (Inl (ExecFailed e), w')
         | (Some (Inr out), w') \<Rightarrow>
             (let code = (case co_code out of Some x \<Rightarrow> x | None \<Rightarrow> -1)
              in if code \<noteq> 0 \<and> str_contains (stderr_text out) ''is paused''
                 then (Inl (PausedErr i), w')
                 else (Inr \<lparr>eo_exit_code = code, eo_stdout = stdout_text out,
                            eo_stderr = stderr_text out, eo_trace = None\<rparr>, w')))"

text \<open>A command whose failure is reported by what its standard error says.\<close>

definition run_or_missing ::
    "(string \<Rightarrow> provider_error) \<Rightarrow> 'w docker_cli \<Rightarrow> sandbox_id \<Rightarrow> string list \<Rightarrow> ('w, unit) io" where
  "run_or_missing err cli i args w =
     (case dk_run cli args w of
        (Inl e, w') \<Rightarrow> (Inl (err e), w')
      | (Inr out, w') \<Rightarrow>
          (if \<not> co_success out then
             (if str_contains (stderr_text out) ''No such container'' then (Inl (NotFound i), w')
              else (Inl (err (trim (stderr_text out))), w'))
           else (Inr (), w')))"

definition docker_destroy :: "'w docker_cli \<Rightarrow> sandbox_id \<Rightarrow> ('w, unit) io" where
  "docker_destroy cli i w =
     run_or_missing ExecFailed cli i [''rm'', ''-f'', i] (snd (dk_run cli [''stop'', ''-t'', ''5'', i] w))"

definition docker_pause :: "'w docker_cli \<Rightarrow> sandbox_id \<Rightarrow> ('w, unit) io" where
  "docker_pause cli i = run_or_missing ExecFailed cli i [''pause'', i]"

definition docker_unpause :: "'w docker_cli \<Rightarrow> sandbox_id \<Rightarrow> ('w, unit) io" where
  "docker_unpause cli i = run_or_missing ExecFailed cli i [''unpause'', i]"

definition docker_copy_to :: "'w docker_cli \<Rightarrow> sandbox_id \<Rightarrow> string \<Rightarrow> string \<Rightarrow> ('w, unit) io" where
  "docker_copy_to cli i src dest = run_or_missing FileFailed cli i [''cp'', src, i @ '':'' @ dest]"

definition docker_copy_from :: "'w docker_cli \<Rightarrow> sandbox_id \<Rightarrow> string \<Rightarrow> string \<Rightarrow> ('w, unit) io" where
  "docker_copy_from cli i src dest = run_or_missing FileFailed cli i [''cp'', i @ '':'' @ src, dest]"

definition expires_format :: string where
  "expires_format = ''{{index .Labels '' @ [CHR 0x22] @ ''roche.expires'' @ [CHR 0x22] @ ''}}''"

definition list_args :: "string list" where
  "list_args = [''ps'', ''-a'', ''--filter'', ''label=roche.managed=true'', ''--format'',
     ''{{.ID}}'' @ [CHR 0x09] @ ''{{.State}}'' @ [CHR 0x09] @ ''{{.Image}}'' @ [CHR 0x09] @ expires_format]"

definition gc_args :: "string list" where
  "gc_args = [''ps'', ''-a'', ''--filter'', ''label=roche.managed=true'', ''--format'',
     ''{{.ID}}'' @ [CHR 0x09] @ expires_format]"

definition part :: "nat \<Rightarrow> string list \<Rightarrow> string option" where
  "part n ps = (if n < length ps then Some (ps ! n) else None)"

definition part_or :: "string \<Rightarrow> nat \<Rightarrow> string list \<Rightarrow> string" where
  "part_or d n ps = (case part n ps of Some x \<Rightarrow> x | None \<Rightarrow> d)"

definition part_u64 :: "nat \<Rightarrow> string list \<Rightarrow> u64 option" where
  "part_u64 n ps = (case part n ps of Some x \<Rightarrow> parse_u64 x | None \<Rightarrow> None)"

definition parse_list_line :: "string \<Rightarrow> sandbox_info" where
  "parse_list_line line =
     (let parts = split_on (CHR 0x09) line
      in \<lparr>si_id = part_or [] 0 parts, si_status = parse_status (part_or ''unknown'' 1 parts),
          si_provider = ''docker'', si_image = part_or [] 2 parts, si_expires_at = part_u64 3 parts\<rparr>)"

definition nonempty_lines :: "string \<Rightarrow> string list" where
  "nonempty_lines s = filter (\<lambda>l. l \<noteq> []) (str_lines s)"

definition docker_list :: "'w docker_cli \<Rightarrow> ('w, sandbox_info list) io" where
  "docker_list cli w =
     (case dk_run cli list_args w of
        (Inl e, w') \<Rightarrow> (Inl (Unavailable e), w')
      | (Inr out, w') \<Rightarrow>
          (if \<not> co_success out then (Inl (Unavailable (trim (stderr_text out))), w')
           else (Inr (map parse_list_line (nonempty_lines (stdout_text out))), w')))"

text \<open>The loop of \<open>gc\<close> over the lines; \<open>now\<close> was read before it.\<close>

fun gc_lines :: "'w docker_cli \<Rightarrow> u64 \<Rightarrow> string list \<Rightarrow> 'w \<Rightarrow> sandbox_id list \<times> 'w" where
  "gc_lines cli now [] w = ([], w)"
| "gc_lines cli now (line # ls) w =
     (let parts = split_on (CHR 0x09) line; i = part_or [] 0 parts
      in case part_u64 1 parts of
           None \<Rightarrow> gc_lines cli now ls w
         | Some expires \<Rightarrow>
             (if expires \<le> now then
                (case docker_destroy cli i w of
                   (Inl _, w') \<Rightarrow> gc_lines cli now ls w'
                 | (Inr _, w') \<Rightarrow> apfst ((#) i) (gc_lines cli now ls w'))
              else gc_lines cli now ls w))"

definition docker_gc :: "'w docker_cli \<Rightarrow> ('w, sandbox_id list) io" where
  "docker_gc cli w =
     (case dk_run cli gc_args w of
        (Inl e, w') \<Rightarrow> (Inl (Unavailable e), w')
      | (Inr out, w') \<Rightarrow>
          (if \<not> co_success out then (Inl (Unavailable (trim (stderr_text out))), w')
           else (case gc_lines cli (dk_now cli w') (nonempty_lines (stdout_text out)) w' of
                   (ids, w'') \<Rightarrow> (Inr ids, w''))))"

definition docker_provider :: "'w docker_cli \<Rightarrow> 'w provider" where
  "docker_provider cli =
     \<lparr>pv_capabilities = docker_capabilities, pv_create = docker_create cli, pv_exec = docker_exec cli,
      pv_destroy = docker_destroy cli, pv_list = docker_list cli, pv_copy_to = docker_copy_to cli,
      pv_copy_from = docker_copy_from cli, pv_pause = docker_pause cli,
      pv_unpause = docker_unpause cli, pv_gc = docker_gc cli\<rparr>"

subsection \<open>What the argument list asks for\<close>

text \<open>
  The reading of an argument list by the command line: options up to the first argument that does
  not start with a dash, each with the value that follows it, except the flag \<open>--read-only\<close>.
\<close>

fun read_opts :: "string list \<Rightarrow> (string \<times> string) list \<times> string list" where
  "read_opts [] = ([], [])"
| "read_opts (f # rest) =
     (if f = ''--read-only'' then apfst ((#) (f, [])) (read_opts rest)
      else if starts_with ''-'' f then
        (case rest of [] \<Rightarrow> ([(f, [])], []) | v # rest' \<Rightarrow> apfst ((#) (f, v)) (read_opts rest'))
      else ([], f # rest))"

definition opt_args :: "string \<times> string \<Rightarrow> string list" where
  "opt_args opt = (if fst opt = ''--read-only'' then [fst opt] else [fst opt, snd opt])"

definition opt_ok :: "string \<times> string \<Rightarrow> bool" where
  "opt_ok opt \<longleftrightarrow> (if fst opt = ''--read-only'' then snd opt = [] else starts_with ''-'' (fst opt))"

lemma read_opts_args:
  "list_all opt_ok os \<Longrightarrow> (rest = [] \<or> \<not> starts_with ''-'' (hd rest)) \<Longrightarrow>
    read_opts (concat (map opt_args os) @ rest) = (os, rest)"
proof (induction os)
  case Nil
  then show ?case
    by (cases rest) (auto simp: starts_with_def)
next
  case (Cons opt os)
  then show ?case
    by (cases opt) (auto simp: opt_args_def opt_ok_def split: if_splits)
qed

definition fs_opts :: "string list \<Rightarrow> (string \<times> string) list" where
  "fs_opts paths =
     map (\<lambda>path. (''--tmpfs'', trim_end_matches (CHR ''/'') (trim_end_matches (CHR ''*'') path) @ '':rw''))
       (filter (\<lambda>path. trim_end_matches (CHR ''/'') (trim_end_matches (CHR ''*'') path) \<noteq> []) paths)"

definition isolation_opts :: "sandbox_config \<Rightarrow> (string \<times> string) list" where
  "isolation_opts c =
     (if \<not> sc_network c then [(''--network'', ''none'')] else [])
     @ (if sc_fs_paths c \<noteq> [] \<or> \<not> sc_writable c then [(''--read-only'', [])] else [])"

definition limit_opts :: "u64 \<Rightarrow> sandbox_config \<Rightarrow> (string \<times> string) list" where
  "limit_opts now c =
     (case sc_memory c of Some m \<Rightarrow> [(''--memory'', m)] | None \<Rightarrow> [])
     @ (case sc_cpus c of Some x \<Rightarrow> [(''--cpus'', f64_display x)] | None \<Rightarrow> [])
     @ [(''--pids-limit'', ''256''), (''--security-opt'', ''no-new-privileges'')]
     @ [(''--label'', ''roche.managed=true'')]
     @ (if 0 < sc_timeout_secs c
        then [(''--label'', ''roche.expires='' @ show_u64 (now + sc_timeout_secs c))] else [])"

definition trace_opts :: "string option \<Rightarrow> sandbox_config \<Rightarrow> (string \<times> string) list" where
  "trace_opts seccomp c =
     (if sc_trace_enabled c then
        (case seccomp of Some p \<Rightarrow> [(''--security-opt'', ''seccomp='' @ p)] | None \<Rightarrow> []) else [])"

definition create_opts :: "u64 \<Rightarrow> string option \<Rightarrow> sandbox_config \<Rightarrow> (string \<times> string) list" where
  "create_opts now seccomp c =
     isolation_opts c @ fs_opts (sc_fs_paths c) @ limit_opts now c
     @ map (\<lambda>kv. (''-e'', fst kv @ ''='' @ snd kv)) (sc_env c)
     @ map (\<lambda>m. (''-v'', mount_value m)) (sc_mounts c)
     @ trace_opts seccomp c"

lemma fs_opts_args: "concat (map opt_args (fs_opts paths)) = concat (map fs_path_args paths)"
  by (induction paths) (simp_all add: fs_opts_def fs_path_args_def opt_args_def Let_def)

lemma env_opts_args:
  "concat (map opt_args (map (\<lambda>kv. (''-e'', fst kv @ ''='' @ snd kv)) env)) = concat (map env_args env)"
  by (induction env) (simp_all add: opt_args_def env_args_def)

lemma mount_opts_args:
  "concat (map opt_args (map (\<lambda>m. (''-v'', mount_value m)) ms)) = concat (map mount_args ms)"
  by (induction ms) (simp_all add: opt_args_def mount_args_def)

lemma isolation_opts_args:
  "concat (map opt_args (isolation_opts c @ fs_opts (sc_fs_paths c))) =
     (if \<not> sc_network c then [''--network'', ''none''] else [])
     @ (if sc_fs_paths c \<noteq> [] then ''--read-only'' # concat (map fs_path_args (sc_fs_paths c))
        else if \<not> sc_writable c then [''--read-only''] else [])"
  unfolding map_append concat_append fs_opts_args by (simp add: isolation_opts_def opt_args_def)

lemma limit_opts_args:
  "concat (map opt_args (limit_opts now c)) =
     (case sc_memory c of Some m \<Rightarrow> [''--memory'', m] | None \<Rightarrow> [])
     @ (case sc_cpus c of Some x \<Rightarrow> [''--cpus'', f64_display x] | None \<Rightarrow> [])
     @ [''--pids-limit'', ''256'', ''--security-opt'', ''no-new-privileges'']
     @ [''--label'', ''roche.managed=true'']
     @ (if 0 < sc_timeout_secs c
        then [''--label'', ''roche.expires='' @ show_u64 (now + sc_timeout_secs c)] else [])"
  by (simp add: limit_opts_def opt_args_def split: option.split)

lemma trace_opts_args:
  "concat (map opt_args (trace_opts seccomp c)) =
     (if sc_trace_enabled c then
          (case seccomp of Some p \<Rightarrow> [''--security-opt'', ''seccomp='' @ p] | None \<Rightarrow> []) else [])"
  by (simp add: trace_opts_def opt_args_def split: option.split)

lemma build_create_args_opts:
  "build_create_args now seccomp c =
     ''create'' # concat (map opt_args (create_opts now seccomp c)) @ [sc_image c, ''sleep'', ''infinity'']"
proof -
  have "concat (map opt_args (create_opts now seccomp c)) =
      concat (map opt_args (isolation_opts c @ fs_opts (sc_fs_paths c)))
      @ concat (map opt_args (limit_opts now c)) @ concat (map env_args (sc_env c))
      @ concat (map mount_args (sc_mounts c)) @ concat (map opt_args (trace_opts seccomp c))"
    unfolding create_opts_def map_append concat_append env_opts_args mount_opts_args
    by (simp only: append_assoc)
  then show ?thesis
    unfolding isolation_opts_args limit_opts_args trace_opts_args
    by (simp only: build_create_args_def append_assoc append_Cons append_Nil)
qed

text \<open>The flags of each group.\<close>

lemma group_flags:
  "list_all (\<lambda>opt. fst opt \<in> {''--network'', ''--read-only''}) (isolation_opts c)"
  "list_all (\<lambda>opt. fst opt = ''--tmpfs'') (fs_opts paths)"
  "list_all (\<lambda>opt. fst opt \<in> {''--memory'', ''--cpus'', ''--pids-limit'', ''--security-opt'', ''--label''}) (limit_opts now c)"
  "list_all (\<lambda>opt. fst opt = ''--security-opt'') (trace_opts seccomp c)"
  by (simp_all add: isolation_opts_def fs_opts_def limit_opts_def trace_opts_def list.pred_map o_def
      list.pred_True split: option.split)

lemma flags_filter: "list_all (\<lambda>opt. fst opt \<in> F) opts \<Longrightarrow> f \<notin> F \<Longrightarrow> filter (\<lambda>opt. fst opt = f) opts = []"
  by (induction opts) auto

lemma flags_weaken: "list_all (\<lambda>opt. fst opt = g) opts \<Longrightarrow> list_all (\<lambda>opt. fst opt \<in> {g}) opts"
  by (simp add: list_all_iff)

lemma flags_not_in: "list_all (\<lambda>opt. fst opt \<in> F) opts \<Longrightarrow> f \<notin> F \<Longrightarrow> (f, v) \<notin> set opts"
  by (force simp: list_all_iff)

lemmas group_no_flag = flags_not_in[OF group_flags(1)] flags_not_in[OF flags_weaken[OF group_flags(2)]]
  flags_not_in[OF group_flags(3)] flags_not_in[OF flags_weaken[OF group_flags(4)]]

lemmas group_filter = flags_filter[OF group_flags(1)] flags_filter[OF flags_weaken[OF group_flags(2)]]
  flags_filter[OF group_flags(3)] flags_filter[OF flags_weaken[OF group_flags(4)]]

lemma create_opts_ok: "list_all opt_ok (create_opts now seccomp c)"
  by (simp add: create_opts_def isolation_opts_def fs_opts_def limit_opts_def trace_opts_def
      opt_ok_def starts_with_def list.pred_map o_def list.pred_True split: option.split)

lemma opt_maps:
  "(f, x) \<notin> (\<lambda>kv. (''-e'', g kv)) ` A" if "f \<noteq> ''-e''" for f x :: string and g :: "string \<times> string \<Rightarrow> string" and A
  using that by auto

lemma mount_maps:
  "(f, x) \<notin> (\<lambda>m. (''-v'', h m)) ` B" if "f \<noteq> ''-v''" for f x :: string and h :: "mount_config \<Rightarrow> string" and B
  using that by auto

lemma create_opts_read:
  "\<not> starts_with ''-'' (sc_image c) \<Longrightarrow> read_opts (tl (build_create_args now seccomp c))
    = (create_opts now seccomp c, [sc_image c, ''sleep'', ''infinity''])"
  using read_opts_args[OF create_opts_ok, of "[sc_image c, ''sleep'', ''infinity'']"]
  by (simp add: build_create_args_opts)

lemma create_opts_network: "(''--network'', ''none'') \<in> set (create_opts now seccomp c) \<longleftrightarrow> \<not> sc_network c"
  by (simp add: create_opts_def group_no_flag(2-4) opt_maps mount_maps isolation_opts_def)

lemma create_opts_read_only:
  "(''--read-only'', []) \<in> set (create_opts now seccomp c) \<longleftrightarrow> sc_fs_paths c \<noteq> [] \<or> \<not> sc_writable c"
  by (simp add: create_opts_def group_no_flag(2-4) opt_maps mount_maps isolation_opts_def)

lemma create_opts_tmpfs: "(''--tmpfs'', v) \<in> set (create_opts now seccomp c) \<longleftrightarrow> (''--tmpfs'', v) \<in> set (fs_opts (sc_fs_paths c))"
  by (simp add: create_opts_def group_no_flag(1,3,4) opt_maps mount_maps)

lemma create_opts_env:
  "filter (\<lambda>opt. fst opt = ''-e'') (create_opts now seccomp c) = map (\<lambda>kv. (''-e'', fst kv @ ''='' @ snd kv)) (sc_env c)"
  by (simp add: create_opts_def group_filter filter_map o_def)

lemma create_opts_mounts:
  "filter (\<lambda>opt. fst opt = ''-v'') (create_opts now seccomp c) = map (\<lambda>m. (''-v'', mount_value m)) (sc_mounts c)"
  by (simp add: create_opts_def group_filter filter_map o_def)

definition known_flags :: "string list" where
  "known_flags = [''--network'', ''--read-only'', ''--tmpfs'', ''--memory'', ''--cpus'', ''--pids-limit'',
     ''--security-opt'', ''--label'', ''-e'', ''-v'']"

text \<open>The values an option is given, in order.\<close>

definition option_values :: "string \<Rightarrow> (string \<times> string) list \<Rightarrow> string list" where
  "option_values f opts = map snd (filter (\<lambda>opt. fst opt = f) opts)"

lemma option_values_append [simp]: "option_values f (xs @ ys) = option_values f xs @ option_values f ys"
  by (simp add: option_values_def)

lemma option_values_maps [simp]:
  "option_values f (map (\<lambda>kv. (''-e'', g kv)) env) = (if f = ''-e'' then map g env else [])"
  "option_values f (map (\<lambda>m. (''-v'', h m)) ms) = (if f = ''-v'' then map h ms else [])"
  by (simp_all add: option_values_def filter_map o_def)

lemma option_values_fs:
  "option_values f (fs_opts paths) =
    (if f = ''--tmpfs'' then map (\<lambda>path. path @ '':rw'') (filter (\<lambda>path. path \<noteq> [])
       (map (\<lambda>path. trim_end_matches (CHR ''/'') (trim_end_matches (CHR ''*'') path)) paths)) else [])"
  by (simp add: option_values_def fs_opts_def filter_map o_def)

lemma option_values_other:
  "list_all (\<lambda>opt. fst opt \<in> F) opts \<Longrightarrow> f \<notin> F \<Longrightarrow> option_values f opts = []"
  by (simp add: option_values_def flags_filter)

lemmas option_values_groups = option_values_other[OF group_flags(1)] option_values_fs
  option_values_other[OF group_flags(3)] option_values_other[OF flags_weaken[OF group_flags(4)]]

lemma option_values_limits:
  "option_values ''--memory'' (limit_opts now c) = (case sc_memory c of Some m \<Rightarrow> [m] | None \<Rightarrow> [])"
  "option_values ''--cpus'' (limit_opts now c) = (case sc_cpus c of Some x \<Rightarrow> [f64_display x] | None \<Rightarrow> [])"
  "option_values ''--pids-limit'' (limit_opts now c) = [''256'']"
  by (simp_all add: option_values_def limit_opts_def split: option.split)

lemma option_values_isolation:
  "option_values ''--network'' (isolation_opts c) = (if sc_network c then [] else [''none''])"
  "option_values ''--read-only'' (isolation_opts c) = (if sc_fs_paths c \<noteq> [] \<or> \<not> sc_writable c then [[]] else [])"
  by (simp_all add: option_values_def isolation_opts_def)

lemma create_opts_known: "list_all (\<lambda>opt. fst opt \<in> set known_flags) (create_opts now seccomp c)"
proof -
  have "list_all (\<lambda>opt. fst opt \<in> set known_flags) opts" if "list_all (\<lambda>opt. fst opt \<in> F) opts" "F \<subseteq> set known_flags"
    for F and opts :: "(string \<times> string) list"
    using that by (auto simp: list_all_iff)
  note known = this[OF group_flags(1)] this[OF flags_weaken[OF group_flags(2)]] this[OF group_flags(3)]
    this[OF flags_weaken[OF group_flags(4)]]
  show ?thesis
    using known by (simp add: create_opts_def known_flags_def list.pred_map o_def list.pred_True)
qed

text \<open>
  (C2) Isolation: read as a command line, the arguments of \<open>docker create\<close> name the image of the
  configuration and the keep-alive command, provided the image does not start with a dash: it is
  the only field that is not behind an option, and with a dash it is read as one (see below). The
  network is off exactly when the configuration does not ask for it; the root is read-only exactly
  when it is not writable or restricted to paths, and then exactly the paths, cleaned and not
  empty, are writable temporary file systems; the limits are those given; each environment entry
  is one value, in order, and so is each mount, with its two paths and its mode, read-only exactly
  when the configuration says so; the number of processes is limited and privilege escalation is off
  always; no field but the image can bring in another flag.
\<close>

theorem create_args_isolation:
  assumes "\<not> starts_with ''-'' (sc_image c)"
  shows "\<exists>opts. read_opts (tl (build_create_args now seccomp c)) = (opts, [sc_image c, ''sleep'', ''infinity''])
    \<and> option_values ''--network'' opts = (if sc_network c then [] else [''none''])
    \<and> option_values ''--read-only'' opts = (if sc_fs_paths c \<noteq> [] \<or> \<not> sc_writable c then [[]] else [])
    \<and> option_values ''--tmpfs'' opts = map (\<lambda>path. path @ '':rw'') (filter (\<lambda>path. path \<noteq> [])
        (map (\<lambda>path. trim_end_matches (CHR ''/'') (trim_end_matches (CHR ''*'') path)) (sc_fs_paths c)))
    \<and> option_values ''--memory'' opts = (case sc_memory c of Some m \<Rightarrow> [m] | None \<Rightarrow> [])
    \<and> option_values ''--cpus'' opts = (case sc_cpus c of Some x \<Rightarrow> [f64_display x] | None \<Rightarrow> [])
    \<and> option_values ''--pids-limit'' opts = [''256'']
    \<and> ''no-new-privileges'' \<in> set (option_values ''--security-opt'' opts)
    \<and> option_values ''-e'' opts = map (\<lambda>(k, v). k @ ''='' @ v) (sc_env c)
    \<and> option_values ''-v'' opts = map (\<lambda>m. mc_host_path m @ '':'' @ mc_container_path m
        @ (if mc_readonly m then '':ro'' else '':rw'')) (sc_mounts c)
    \<and> list_all (\<lambda>opt. fst opt \<in> set known_flags) opts"
proof (intro exI[of _ "create_opts now seccomp c"] conjI)
  show "''no-new-privileges'' \<in> set (option_values ''--security-opt'' (create_opts now seccomp c))"
    by (simp add: create_opts_def limit_opts_def option_values_def)
  show "list_all (\<lambda>opt. fst opt \<in> set known_flags) (create_opts now seccomp c)"
    by (rule create_opts_known)
qed (simp_all add: create_opts_read assms create_opts_def option_values_groups option_values_limits
    option_values_isolation case_prod_beta mount_value_def)

text \<open>
  With an image that starts with a dash the command line has one option more, the image, and the
  words of the keep-alive command take its place.
\<close>

lemma read_opts_more:
  "list_all opt_ok opts \<Longrightarrow> read_opts (concat (map opt_args opts) @ rest) = apfst ((@) opts) (read_opts rest)"
proof (induction opts)
  case Nil
  then show ?case by (cases "read_opts rest") simp
next
  case (Cons opt opts)
  then show ?case
    by (cases opt; cases "read_opts rest") (auto simp: opt_args_def opt_ok_def split: if_splits)
qed

theorem create_image_is_option:
  assumes "starts_with ''-'' (sc_image c)" "sc_image c \<noteq> ''--read-only''"
  shows "\<exists>opts. read_opts (tl (build_create_args now seccomp c)) = (opts @ [(sc_image c, ''sleep'')], [''infinity''])"
  using read_opts_more[OF create_opts_ok[of now seccomp c], of "[sc_image c, ''sleep'', ''infinity'']"] assms
  by (auto simp: build_create_args_opts starts_with_def)

theorem create_image_is_option_witness:
  "\<exists>opts. read_opts (tl (build_create_args 0 None (sandbox_config_default\<lparr>sc_image := ''--privileged''\<rparr>)))
     = (opts @ [(''--privileged'', ''sleep'')], [''infinity''])"
  using create_image_is_option[of "sandbox_config_default\<lparr>sc_image := ''--privileged''\<rparr>" 0 None]
  by (simp add: starts_with_def)

definition demo_sandbox :: sandbox_config where
  "demo_sandbox = sandbox_config_default\<lparr>sc_env := [(''K'', ''--privileged'')],
     sc_mounts := [\<lparr>mc_host_path = ''/data'', mc_container_path = ''/in'', mc_readonly = True\<rparr>]\<rparr>"

theorem create_args_isolation_witness:
  "\<exists>opts. read_opts (tl (build_create_args 0 None demo_sandbox))
      = (opts, [''python:3.12-slim'', ''sleep'', ''infinity''])
    \<and> option_values ''--network'' opts = [''none''] \<and> option_values ''-v'' opts = [''/data:/in:ro'']"
  using create_args_isolation[of demo_sandbox 0 None]
  by (auto simp: demo_sandbox_def sandbox_config_default_def default_image_def starts_with_def)

subsection \<open>Garbage collection\<close>

text \<open>A row of the listing \<open>gc\<close> asks for, as the command prints it.\<close>

definition gc_row :: "sandbox_id \<times> u64 option \<Rightarrow> string" where
  "gc_row r = fst r @ CHR 0x09 # (case snd r of Some e \<Rightarrow> show_u64 e | None \<Rightarrow> [])"

definition id_ok :: "sandbox_id \<Rightarrow> bool" where
  "id_ok i \<longleftrightarrow> i \<noteq> [] \<and> list_all (\<lambda>c. ascii_alnum c) i"

definition row_expired :: "u64 \<Rightarrow> sandbox_id \<times> u64 option \<Rightarrow> bool" where
  "row_expired now r = (case snd r of Some e \<Rightarrow> e \<le> now | None \<Rightarrow> False)"

text \<open>Destroying in order, keeping those whose destruction succeeds.\<close>

fun destroy_ok_ids :: "(sandbox_id \<Rightarrow> ('w, unit) io) \<Rightarrow> sandbox_id list \<Rightarrow> 'w \<Rightarrow> sandbox_id list \<times> 'w" where
  "destroy_ok_ids d [] w = ([], w)"
| "destroy_ok_ids d (i # is) w =
     (case d i w of
        (Inl _, w') \<Rightarrow> destroy_ok_ids d is w'
      | (Inr _, w') \<Rightarrow> apfst ((#) i) (destroy_ok_ids d is w'))"

lemma control_not_digit [simp]:
  "\<not> ascii_digit (CHR 0x09)" "\<not> ascii_digit (CHR 0x0A)" "\<not> ascii_digit (CHR 0x0D)"
  "\<not> ascii_alnum (CHR 0x09)" "\<not> ascii_alnum (CHR 0x0A)" "\<not> ascii_alnum (CHR 0x0D)"
  by (simp_all add: ascii_digit_def ascii_alnum_def)

lemma show_u64_ascii_digits: "list_all ascii_digit (show_u64 w)"
  by (simp add: show_u64_def show_nat_digits)

lemma show_u64_ascii: "list_all is_ascii (show_u64 w)"
  by (simp add: show_u64_def show_nat_ascii)

lemma tab_ascii: "is_ascii (CHR 0x09)"
  by (simp add: is_ascii_def)

lemma show_u64_no: "\<not> ascii_digit c \<Longrightarrow> c \<notin> set (show_u64 w)"
  using show_u64_ascii_digits[of w] by (auto simp: list_all_iff)

lemma id_ok_no: "id_ok i \<Longrightarrow> \<not> ascii_alnum c \<Longrightarrow> c \<notin> set i"
  by (auto simp: id_ok_def list_all_iff)

lemma id_ok_ascii: "id_ok i \<Longrightarrow> list_all is_ascii i"
  by (auto simp: id_ok_def list_all_iff ascii_alnum_ascii)

lemma gc_row_line:
  assumes "id_ok (fst r)"
  shows "line_ok (gc_row r)" "list_all is_ascii (gc_row r)" "gc_row r \<noteq> []"
    "split_on (CHR 0x09) (gc_row r) = [fst r, case snd r of Some e \<Rightarrow> show_u64 e | None \<Rightarrow> []]"
  using assms id_ok_ascii[OF assms] show_u64_ascii
  by (auto simp: gc_row_def line_ok_def id_ok_no show_u64_no split_on_append split_on_no_sep
      tab_ascii split: option.splits)

lemma parse_u64_empty [simp]: "parse_u64 [] = None"
  by (simp add: parse_u64_def parse_unsigned_def strip_char_def parse_digits_def)

lemma gc_lines_rows:
  "list_all (\<lambda>r. id_ok (fst r)) rows \<Longrightarrow>
    gc_lines cli now (map gc_row rows) w =
      destroy_ok_ids (docker_destroy cli) (map fst (filter (row_expired now) rows)) w"
proof (induction rows arbitrary: w)
  case (Cons r rows)
  then show ?case
    by (cases "snd r")
      (simp_all add: gc_row_line(4) part_or_def part_def part_u64_def row_expired_def
        split: prod.split sum.split)
qed simp

lemma rows_text:
  assumes "list_all (\<lambda>r. id_ok (fst r)) rows"
  shows "nonempty_lines (from_utf8_lossy (concat (map (\<lambda>r. gc_row r @ [CHR 0x0A]) rows))) = map gc_row rows"
proof -
  let ?t = "concat (map (\<lambda>l. l @ [CHR 0x0A]) (map gc_row rows))"
  have "list_all is_ascii ?t"
    using assms by (induction rows) (auto simp: gc_row_line(2) is_ascii_def)
  then have "from_utf8_lossy ?t = ?t"
    by (rule from_utf8_lossy_ascii)
  moreover have "str_lines ?t = map gc_row rows"
    using assms by (intro str_lines_rows) (auto simp: list_all_iff gc_row_line(1))
  moreover have "filter (\<lambda>l. l \<noteq> []) (map gc_row rows) = map gc_row rows"
    using assms by (auto simp: filter_id_conv list_all_iff gc_row_line(3))
  ultimately show ?thesis
    by (simp add: nonempty_lines_def o_def)
qed


text \<open>
  A scripted command for the witnesses, whose world is the list of the commands run: \<open>ps\<close> lists
  one container that expired and one without label, \<open>start\<close> fails, the rest succeeds.
\<close>

definition ok_output :: "string \<Rightarrow> cmd_output" where
  "ok_output s = \<lparr>co_success = True, co_code = Some 0, co_stdout = s, co_stderr = []\<rparr>"

definition demo_rows :: "(sandbox_id \<times> u64 option) list" where
  "demo_rows = [(''a1'', Some 5), (''b2'', None)]"

definition demo_cli :: "string list list docker_cli" where
  "demo_cli =
     \<lparr>dk_run = (\<lambda>args log.
        (if hd args = ''ps'' then Inr (ok_output (concat (map (\<lambda>r. gc_row r @ [CHR 0x0A]) demo_rows)))
         else if hd args = ''start'' then Inr (ok_output []\<lparr>co_success := False, co_stderr := ''no''\<rparr>)
         else Inr (ok_output ''0123456789abcdef''), log @ [args])),
      dk_run_timeout = (\<lambda>t args log. (None, log)), dk_now = (\<lambda>_. 10), dk_seccomp = (\<lambda>_. None)\<rparr>"


subsection \<open>A creation that fails half way\<close>

text \<open>
  When the container is created and its start fails, \<open>create\<close> returns the error right there:
  the last thing that happened is the failed start, nothing removes the container, and its
  identifier is not in the error.
\<close>

theorem docker_create_leaves_container:
  assumes "validate_config c docker_capabilities = Inr ()"
    and "dk_run cli [''info''] w = (Inr info, w1)" "co_success info"
    and "dk_run cli (build_create_args (dk_now cli w1) (dk_seccomp cli w1) c) w1 = (Inr created, w2)"
    and "co_success created"
    and "dk_run cli [''start'', concat (take 12 (utf8_chars (trim (stdout_text created))))] w2 = (Inr started, w3)"
    and "\<not> co_success started"
  shows "docker_create cli c w = (Inl (CreateFailed (trim (stderr_text started))), w3)"
  using assms by (simp add: docker_create_def check_available_def Let_def)

lemma demo_sandbox_valid: "validate_config demo_sandbox docker_capabilities = Inr ()"
  by (simp add: validate_config_def config_violations_def docker_capabilities_def demo_sandbox_def
      sandbox_config_default_def)

theorem docker_create_leaves_container_witness:
  "map hd (snd (docker_create demo_cli demo_sandbox [])) = [''info'', ''create'', ''start'']"
proof -
  have "docker_create demo_cli demo_sandbox [] = (Inl (CreateFailed (trim (stderr_text
      (ok_output []\<lparr>co_success := False, co_stderr := ''no''\<rparr>)))),
      [[''info''], build_create_args 10 None demo_sandbox,
       [''start'', concat (take 12 (utf8_chars (trim (stdout_text (ok_output ''0123456789abcdef'')))))]])"
    by (rule docker_create_leaves_container[OF demo_sandbox_valid, where info = "ok_output ''0123456789abcdef''"
          and created = "ok_output ''0123456789abcdef''"])
      (simp_all add: demo_cli_def ok_output_def build_create_args_def)
  then show ?thesis by (simp add: build_create_args_def)
qed

end
