(* ===== verification/Sensor.thy ===== *)
theory Sensor
  imports Docker
begin

text \<open>
  The Docker sensor, \<open>sensor/mod.rs\<close> and \<open>sensor/docker.rs\<close>: a trace is collected after an
  execution from \<open>docker stats\<close> and \<open>docker diff\<close>. An \<open>Instant\<close> is a number of nanoseconds. The
  parser of the diff slices its lines by bytes; \<open>None\<close> is the panic of a slice that cuts a
  character.
\<close>

subsection \<open>State\<close>

record docker_trace_collector =
  dt_level :: trace_level
  dt_container_id :: string
  dt_start_time :: nat

datatype trace_collector_handle = Handle_Docker docker_trace_collector

datatype sensor_dispatch = Sensor_Docker | Sensor_None

definition collector_start :: "nat \<Rightarrow> string \<Rightarrow> trace_level \<Rightarrow> docker_trace_collector" where
  "collector_start now container_id level =
     \<lparr>dt_level = level, dt_container_id = container_id, dt_start_time = now\<rparr>"

definition docker_start_trace ::
    "nat \<Rightarrow> sandbox_id \<Rightarrow> trace_level \<Rightarrow> (provider_error, trace_collector_handle) result" where
  "docker_start_trace now i level = Inr (Handle_Docker (collector_start now i level))"

definition sensor_start_trace ::
    "sensor_dispatch \<Rightarrow> nat \<Rightarrow> sandbox_id \<Rightarrow> trace_level \<Rightarrow> trace_collector_handle option" where
  "sensor_start_trace s now i level =
     (case s of
        Sensor_Docker \<Rightarrow> (case docker_start_trace now i level of Inr h \<Rightarrow> Some h | Inl _ \<Rightarrow> None)
      | Sensor_None \<Rightarrow> None)"

subsection \<open>Parsers\<close>

text \<open>The first suffix of the table that the string ends in, with its multiplier.\<close>

fun split_unit :: "(string \<times> nat) list \<Rightarrow> string \<Rightarrow> string \<times> nat" where
  "split_unit [] s = (s, 1)"
| "split_unit ((suffix, m) # us) s =
     (case strip_suffix suffix s of Some n \<Rightarrow> (n, m) | None \<Rightarrow> split_unit us s)"

definition memory_units :: "(string \<times> nat) list" where
  "memory_units =
     [(''GiB'', 1024 * 1024 * 1024), (''MiB'', 1024 * 1024), (''KiB'', 1024), (''GB'', 1000000000),
      (''MB'', 1000000), (''kB'', 1000), (''B'', 1)]"

definition size_units :: "(string \<times> nat) list" where
  "size_units = [(''GB'', 1000000000), (''MB'', 1000000), (''kB'', 1000), (''B'', 1)]"

definition parse_units :: "(string \<times> nat) list \<Rightarrow> string \<Rightarrow> u64" where
  "parse_units units s0 =
     (let s = trim s0
      in if s = [] then 0
         else case split_unit units s of
           (num_str, multiplier) \<Rightarrow>
             (case parse_f64 (trim num_str) of
                Some v \<Rightarrow> f64_to_u64 (f64_mul v (f64_of_u64 (word_of_nat multiplier)))
              | None \<Rightarrow> 0))"

definition parse_memory_bytes :: "string \<Rightarrow> u64" where
  "parse_memory_bytes s = parse_units memory_units s"

definition parse_size_bytes :: "string \<Rightarrow> u64" where
  "parse_size_bytes s = parse_units size_units s"

definition parse_net_rx :: "string \<Rightarrow> u64" where
  "parse_net_rx s = parse_size_bytes s"

definition parse_net_tx :: "string \<Rightarrow> u64" where
  "parse_net_tx s = parse_size_bytes s"

definition diff_op :: "string \<Rightarrow> file_op option" where
  "diff_op t =
     (if t = ''A'' then Some Create else if t = ''C'' then Some Write
      else if t = ''D'' then Some Delete else None)"

text \<open>One line: \<open>None\<close> the panic, \<open>Some None\<close> a line that is skipped.\<close>

definition parse_diff_line :: "string \<Rightarrow> file_access option option" where
  "parse_diff_line line0 =
     (let line = trim line0
      in if length line < 3 then Some None
         else if \<not> is_char_boundary line 1 \<or> \<not> is_char_boundary line 2 then None
         else Some (map_option (\<lambda>op. \<lparr>fa_path = drop 2 line, fa_op = op, fa_size_bytes = None\<rparr>)
                      (diff_op (take 1 line))))"

fun collect_lines :: "string list \<Rightarrow> file_access list option" where
  "collect_lines [] = Some []"
| "collect_lines (l # ls) =
     (case parse_diff_line l of
        None \<Rightarrow> None
      | Some r \<Rightarrow> map_option (\<lambda>as. case r of Some a \<Rightarrow> a # as | None \<Rightarrow> as) (collect_lines ls))"

definition parse_docker_diff :: "string \<Rightarrow> file_access list option" where
  "parse_docker_diff output = collect_lines (nonempty_lines output)"

subsection \<open>Collection\<close>

definition parse_stats :: "string \<Rightarrow> resource_usage" where
  "parse_stats stdout =
     (let parts = split_on (CHR 0x09) (trim stdout);
          peak = parse_memory_bytes (trim (hd (split_on (CHR ''/'') (hd parts))));
          io = (case part 1 parts of
             None \<Rightarrow> (0, 0)
           | Some s \<Rightarrow>
               (let io_parts = split_on (CHR ''/'') s
                in (parse_net_rx (trim (hd io_parts)),
                    case part 1 io_parts of Some v \<Rightarrow> parse_net_tx (trim v) | None \<Rightarrow> 0)))
      in \<lparr>ru_peak_memory_bytes = peak, ru_cpu_time_secs = F_fin 0,
          ru_network_rx_bytes = fst io, ru_network_tx_bytes = snd io\<rparr>)"

definition collect_resource_usage :: "'w docker_cli \<Rightarrow> docker_trace_collector \<Rightarrow> ('w, resource_usage) io" where
  "collect_resource_usage cli c w =
     (case dk_run cli [''stats'', ''--no-stream'', ''--format'',
             ''{{.MemUsage}}'' @ [CHR 0x09] @ ''{{.NetIO}}'', dt_container_id c] w of
        (Inl e, w') \<Rightarrow> (Inl (ExecFailed (''docker stats failed: '' @ e)), w')
      | (Inr out, w') \<Rightarrow>
          (Inr (if \<not> co_success out then resource_usage_default else parse_stats (stdout_text out)), w'))"

text \<open>Here and in \<open>finish\<close> the outer \<open>None\<close> is the panic of the diff parser.\<close>

definition collect_file_accesses ::
    "'w docker_cli \<Rightarrow> docker_trace_collector \<Rightarrow> 'w \<Rightarrow> ((provider_error, file_access list) result \<times> 'w) option" where
  "collect_file_accesses cli c w =
     (case dk_run cli [''diff'', dt_container_id c] w of
        (Inl e, w') \<Rightarrow> Some (Inl (ExecFailed (''docker diff failed: '' @ e)), w')
      | (Inr out, w') \<Rightarrow>
          (if \<not> co_success out then Some (Inr [], w')
           else map_option (\<lambda>as. (Inr as, w')) (parse_docker_diff (stdout_text out))))"

definition secs_f64 :: "nat \<Rightarrow> f64" where
  "secs_f64 ns =
     f64_add (f64_of_u64 (word_of_nat (ns div 1000000000)))
       (f64_round (of_nat (ns mod 1000000000) / 1000000000))"

definition collector_finish ::
    "'w docker_cli \<Rightarrow> nat \<Rightarrow> docker_trace_collector \<Rightarrow> 'w \<Rightarrow> ((provider_error, execution_trace) result \<times> 'w) option" where
  "collector_finish cli now c w =
     (let duration = secs_f64 (now - dt_start_time c);
          trace = (\<lambda>usage accesses. \<lparr>et_duration_secs = duration, et_resource_usage = usage,
            et_file_accesses = accesses, et_network_attempts = [], et_blocked_ops = [],
            et_syscalls = [], et_resource_timeline = []\<rparr>)
      in if dt_level c = Off then Some (Inr (trace resource_usage_default []), w)
         else
           let (usage, w1) =
             (if Summary \<le> dt_level c then
                (case collect_resource_usage cli c w of
                   (Inl _, w') \<Rightarrow> (resource_usage_default, w')
                 | (Inr u, w') \<Rightarrow> (u, w'))
              else (resource_usage_default, w))
           in if Standard \<le> dt_level c then
                (case collect_file_accesses cli c w1 of
                   None \<Rightarrow> None
                 | Some (Inl _, w2) \<Rightarrow> Some (Inr (trace usage []), w2)
                 | Some (Inr as, w2) \<Rightarrow> Some (Inr (trace usage as), w2))
              else Some (Inr (trace usage []), w1))"

fun handle_finish ::
    "'w docker_cli \<Rightarrow> nat \<Rightarrow> trace_collector_handle \<Rightarrow> 'w \<Rightarrow> ((provider_error, execution_trace) result \<times> 'w) option" where
  "handle_finish cli now (Handle_Docker c) w = collector_finish cli now c w"

subsection \<open>The diff is read back\<close>

definition diff_letter :: "file_op \<Rightarrow> string" where
  "diff_letter op = (case op of Create \<Rightarrow> ''A'' | Write \<Rightarrow> ''C'' | _ \<Rightarrow> ''D'')"

definition diff_line :: "file_access \<Rightarrow> string" where
  "diff_line a = diff_letter (fa_op a) @ '' '' @ fa_path a"

text \<open>A change \<open>docker diff\<close> can report: an absolute path on one line that does not end in a space.\<close>

definition diff_ok :: "file_access \<Rightarrow> bool" where
  "diff_ok a \<longleftrightarrow> fa_op a \<noteq> Read \<and> fa_size_bytes a = None \<and> line_ok (fa_path a)
     \<and> fa_path a \<noteq> [] \<and> hd (fa_path a) = CHR ''/'' \<and> \<not> is_ws (last (utf8_chars (fa_path a)))"

lemma diff_line_blocks:
  assumes "diff_ok a"
  shows "utf8_chars (diff_line a) = [diff_letter (fa_op a), '' ''] @ utf8_chars (fa_path a)"
proof -
  have "is_cont (CHR ''/'') = False" by (simp add: is_cont_def)
  then have "utf8_chars ((diff_letter (fa_op a) @ '' '') @ fa_path a)
      = map (\<lambda>c. [c]) (diff_letter (fa_op a) @ '' '') @ utf8_chars (fa_path a)"
    using assms by (intro utf8_chars_ascii_append)
      (auto simp: diff_ok_def diff_letter_def is_ascii_def split: file_op.splits)
  then show ?thesis
    by (cases "fa_op a") (simp_all add: diff_line_def diff_letter_def)
qed

lemma letter_not_ws: "\<not> is_ws (diff_letter op)"
  by (cases op) (simp_all add: diff_letter_def is_ws_def white_space_def)

lemma trim_diff_line:
  assumes "diff_ok a"
  shows "trim (diff_line a) = diff_line a"
proof -
  have "trim_start (diff_line a) = diff_line a"
    using letter_not_ws[of "fa_op a"] concat_utf8_chars[of "diff_line a"]
    by (simp add: trim_start_def diff_line_blocks[OF assms])
  moreover have "trim_end (diff_line a) = diff_line a"
  proof -
    let ?bs = "utf8_chars (diff_line a)"
    have "?bs \<noteq> []" "\<not> is_ws (last ?bs)"
      using assms by (auto simp: diff_line_blocks[OF assms] diff_ok_def)
    then have "dropWhile is_ws (rev ?bs) = rev ?bs"
      by (cases "rev ?bs") (auto simp: hd_rev[symmetric])
    then show ?thesis by (simp add: trim_end_def)
  qed
  ultimately show ?thesis by (simp add: trim_def)
qed

lemma parse_diff_line_ok:
  assumes "diff_ok a"
  shows "parse_diff_line (diff_line a) = Some (Some a)"
proof -
  have "length (diff_line a) \<ge> 3" "is_char_boundary (diff_line a) 1" "is_char_boundary (diff_line a) 2"
    using assms
    by (cases "fa_path a"; cases "fa_op a";
        simp add: diff_ok_def diff_line_def diff_letter_def is_char_boundary_def is_cont_def)+
  moreover have "diff_op (take 1 (diff_line a)) = Some (fa_op a)" "drop 2 (diff_line a) = fa_path a"
    using assms by (cases "fa_op a"; simp add: diff_ok_def diff_line_def diff_letter_def diff_op_def)+
  ultimately show ?thesis
    using assms by (simp add: parse_diff_line_def trim_diff_line diff_ok_def)
qed

lemma diff_line_ok: "diff_ok a \<Longrightarrow> line_ok (diff_line a) \<and> diff_line a \<noteq> []"
  by (cases "fa_op a") (auto simp: diff_ok_def diff_line_def diff_letter_def line_ok_def)

text \<open>
  Round trip of the file changes: what \<open>docker diff\<close> prints for any list of additions,
  changes and deletions of paths on one line that do not end in white space is read back as
  exactly that list.
\<close>

theorem docker_diff_roundtrip:
  assumes "list_all diff_ok as"
  shows "parse_docker_diff (concat (map (\<lambda>a. diff_line a @ [CHR 0x0A]) as)) = Some as"
proof -
  have "concat (map (\<lambda>a. diff_line a @ [CHR 0x0A]) as)
      = concat (map (\<lambda>l. l @ [CHR 0x0A]) (map diff_line as))"
    by (simp add: o_def)
  moreover have "str_lines (concat (map (\<lambda>l. l @ [CHR 0x0A]) (map diff_line as))) = map diff_line as"
    using assms diff_line_ok by (intro str_lines_rows) (auto simp: list_all_iff)
  moreover have "filter (\<lambda>l. l \<noteq> []) (map diff_line as) = map diff_line as"
    using assms diff_line_ok by (auto simp: filter_id_conv list_all_iff)
  moreover have "collect_lines (map diff_line as) = Some as"
    using assms by (induction as) (simp_all add: parse_diff_line_ok)
  ultimately show ?thesis
    by (simp add: parse_docker_diff_def nonempty_lines_def)
qed

theorem docker_diff_roundtrip_witness:
  "parse_docker_diff (concat (map (\<lambda>a. diff_line a @ [CHR 0x0A])
     [\<lparr>fa_path = ''/tmp/a b'', fa_op = Create, fa_size_bytes = None\<rparr>])) =
   Some [\<lparr>fa_path = ''/tmp/a b'', fa_op = Create, fa_size_bytes = None\<rparr>]"
  by (rule docker_diff_roundtrip)
    (simp add: diff_ok_def line_ok_def is_ws_def white_space_def is_cont_def)

text \<open>A line that starts with a character of two bytes stops the thread.\<close>

lemma docker_diff_panics: "parse_docker_diff [CHR 0xC3, CHR 0xA9, CHR '' '', CHR ''x''] = None"
  by code_simp

subsection \<open>Sizes\<close>

lemma strip_suffix_rev:
  "strip_suffix p s = Some r \<longleftrightarrow> rev s = rev p @ rev r"
  by (metis rev_append rev_rev_ident strip_suffix_Some_iff)

lemma strip_suffix_None_iff: "strip_suffix p s = None \<longleftrightarrow> (\<forall>r. rev s \<noteq> rev p @ r)"
proof -
  have "strip_suffix p s = None \<longleftrightarrow> (\<forall>r. strip_suffix p s \<noteq> Some r)"
    by auto
  then show ?thesis
    unfolding strip_suffix_rev by (metis rev_rev_ident)
qed

lemma split_unit_memory:
  assumes "ds \<noteq> []" "list_all ascii_digit ds" "(suffix, m) \<in> set memory_units"
  shows "split_unit memory_units (ds @ suffix) = (ds, m)"
proof -
  obtain d rs where r: "rev ds = d # rs"
    using assms(1) by (cases "rev ds") auto
  then have d: "ascii_digit d"
    using assms(2) by (metis list.set_intros(1) list_all_iff set_rev)
  then have neq: "d \<noteq> CHR ''G''" "d \<noteq> CHR ''M''" "d \<noteq> CHR ''k''" "d \<noteq> CHR ''i''"
    by (auto simp: ascii_digit_def)
  have some: "strip_suffix suffix (ds @ suffix) = Some ds"
    by simp
  have "\<exists>us vs. memory_units = us @ (suffix, m) # vs
      \<and> list_all (\<lambda>u. strip_suffix (fst u) (ds @ suffix) = None) us"
    using assms(3)
    by (simp add: memory_units_def)
      (elim disjE; simp add: strip_suffix_None_iff r neq append_eq_Cons_conv Cons_eq_append_conv)
  then obtain us vs where "memory_units = us @ (suffix, m) # vs"
    "list_all (\<lambda>u. strip_suffix (fst u) (ds @ suffix) = None) us" by blast
  moreover have "split_unit (us @ (suffix, m) # vs) (ds @ suffix) = (ds, m)"
    if "list_all (\<lambda>u. strip_suffix (fst u) (ds @ suffix) = None) us" for us
    using that some by (induction us) auto
  ultimately show ?thesis by metis
qed

lemma ascii_trim:
  assumes "list_all is_ascii s" "list_all (\<lambda>c. \<not> is_ws [c]) s"
  shows "trim s = s"
proof (cases "s = []")
  case False
  let ?cs = "map (\<lambda>c. [c]) s"
  have "dropWhile is_ws ?cs = ?cs" "dropWhile is_ws (rev ?cs) = rev ?cs"
    using assms(2) False
    by (simp_all add: dropWhile_eq_self_iff hd_rev hd_map last_map list_all_iff)
  then show ?thesis
    using utf8_chars_ascii[OF assms(1)]
    by (simp add: trim_def trim_start_def trim_end_def concat_map_singleton)
qed simp

lemma digit_not_ws: "ascii_digit c \<Longrightarrow> \<not> is_ws [c]"
  by (auto simp: is_ws_def white_space_def ascii_digit_def)

lemma parse_f64_show_nat: "parse_f64 (show_nat n) = Some (f64_round (of_nat n))"
proof -
  have dig: "list_all ascii_digit (show_nat n)" by (rule show_nat_digits)
  then obtain d ds where s: "show_nat n = d # ds" "ascii_digit d"
    by (cases "show_nat n") auto
  have "ascii_lower d = d"
    using s(2) by (auto simp: ascii_lower_def ascii_digit_def)
  then have "to_ascii_lower (show_nat n) \<notin> {''inf'', ''infinity'', ''nan''}"
    using s by (auto simp: to_ascii_lower_def ascii_digit_def)
  moreover have tw: "takeWhile ascii_digit (show_nat n) = show_nat n" "dropWhile ascii_digit (show_nat n) = []"
    using dig by (simp_all add: takeWhile_eq_all_conv list_all_iff)
  moreover have "digits_value 0 (show_nat n) = n"
    using show_radix_10[of n] by (simp add: show_nat_def)
  ultimately have "parse_f64_unsigned (show_nat n) = Some (f64_round (of_nat n))"
    by (simp add: parse_f64_unsigned_def parse_decimal_def tw strip_char_def[of _ "[]"] pow10_def Let_def)
  then show ?thesis
    by (simp add: parse_f64_def strip_char_digits[OF dig])
qed

lemma f64_to_u64_of_nat: "n < 2 ^ 64 \<Longrightarrow> f64_to_u64 (F_fin (of_nat n)) = word_of_nat n"
  by (simp add: f64_to_u64_def trunc_rat_def del: power_numeral)

lemma memory_units_bounds:
  "(suffix, m) \<in> set memory_units \<Longrightarrow> 0 < m \<and> m < 2 ^ 53 \<and> suffix \<noteq> []
     \<and> list_all is_ascii suffix \<and> list_all (\<lambda>c. \<not> is_ws [c]) suffix"
  by (auto simp: memory_units_def is_ascii_def is_ws_def white_space_def)

text \<open>
  Sizes are exact: a whole number with any of the units is read as the number times the
  unit, as long as the product is below \<open>2^53\<close>, although the code multiplies floating point numbers.
\<close>

theorem memory_size_exact:
  assumes "(suffix, m) \<in> set memory_units" "n * m < 2 ^ 53"
  shows "unat (parse_memory_bytes (show_nat n @ suffix)) = n * m"
proof -
  note b = memory_units_bounds[OF assms(1)]
  have n: "n < 2 ^ 53"
    using b assms(2) by (metis le_less_trans mult.right_neutral mult_le_mono2 Suc_leI One_nat_def)
  have digits_trim: "trim (show_nat n) = show_nat n"
    by (rule ascii_trim) (use show_nat_ascii show_nat_digits digit_not_ws in \<open>auto simp: list_all_iff\<close>)
  have "trim (show_nat n @ suffix) = show_nat n @ suffix"
    by (rule ascii_trim) (use b show_nat_ascii show_nat_digits digit_not_ws in \<open>auto simp: list_all_iff\<close>)
  then have parse: "parse_memory_bytes (show_nat n @ suffix) =
      f64_to_u64 (f64_mul (f64_round (of_nat n)) (f64_of_u64 (word_of_nat m)))"
    using split_unit_memory[OF show_nat_nonempty show_nat_digits assms(1)]
    by (simp add: parse_memory_bytes_def parse_units_def digits_trim parse_f64_show_nat)
  have m: "f64_of_u64 (word_of_nat m) = F_fin (of_nat m)"
    using b by (simp add: f64_of_u64_exact)
  have "f64_mul (F_fin (of_nat n)) (F_fin (of_nat m)) = F_fin (of_nat (n * m))"
    using f64_round_of_nat_exact[OF assms(2)] by simp
  then have "parse_memory_bytes (show_nat n @ suffix) = word_of_nat (n * m)"
    unfolding parse m f64_round_of_nat_exact[OF n]
    using assms(2) f64_to_u64_of_nat[of "n * m"] by simp
  then show ?thesis
    using assms(2) unat_of_nat_small[of "n * m", where 'a = 64] by simp
qed

theorem memory_size_exact_witness:
  "unat (parse_memory_bytes (show_nat 3 @ ''MiB'')) = 3145728"
  using memory_size_exact[of "''MiB''" "1024 * 1024" 3] by (simp add: memory_units_def)

end
