(* ===== verification/Wasm.thy ===== *)
theory Wasm
  imports Provider Rust_Text
begin

text \<open>
  The WASM provider: the registry of \<open>wasm/sandbox_state.rs\<close>, the operations of
  \<open>wasm/mod.rs\<close> and the run of a module, \<open>wasm/engine.rs\<close>. Wasmtime is an argument of the model
  (\<open>'m\<close> is its compiled module, \<open>'h\<close> the host's files, which a guest reads and may change through the
  directories it is given); the world holds the registry, the engines made so far, the host, the clock and the
  supply of random identifiers. The provider is the model's own instance of the provider contract.
\<close>

subsection \<open>The registry\<close>

record 'm wasm_sandbox =
  ws_id :: sandbox_id
  ws_module :: 'm
  ws_config :: sandbox_config
  ws_created_at :: u64
  ws_expires_at :: "u64 option"

type_synonym 'm sandbox_registry = "(sandbox_id, 'm wasm_sandbox) hash_map"

definition registry_insert :: "'m wasm_sandbox \<Rightarrow> 'm sandbox_registry \<Rightarrow> 'm sandbox_registry" where
  "registry_insert sb r = hm_insert (ws_id sb) sb r"

definition get_module_and_config :: "sandbox_id \<Rightarrow> 'm sandbox_registry \<Rightarrow> ('m \<times> sandbox_config) option" where
  "get_module_and_config i r =
     (case hm_get r i of None \<Rightarrow> None | Some sb \<Rightarrow> Some (ws_module sb, ws_config sb))"

definition registry_remove :: "sandbox_id \<Rightarrow> 'm sandbox_registry \<Rightarrow> bool \<times> 'm sandbox_registry" where
  "registry_remove i r = (hm_get r i \<noteq> None, hm_remove i r)"

definition registry_list :: "'m sandbox_registry \<Rightarrow> sandbox_info list" where
  "registry_list r =
     map (\<lambda>(_, sb). \<lparr>si_id = ws_id sb, si_status = Running, si_provider = ''wasm'',
       si_image = sc_image (ws_config sb), si_expires_at = ws_expires_at sb\<rparr>) r"

definition wasm_expired :: "u64 \<Rightarrow> 'm wasm_sandbox \<Rightarrow> bool" where
  "wasm_expired now sb = (case ws_expires_at sb of Some expires \<Rightarrow> expires \<le> now | None \<Rightarrow> False)"

definition registry_gc :: "u64 \<Rightarrow> 'm sandbox_registry \<Rightarrow> sandbox_id list \<times> 'm sandbox_registry" where
  "registry_gc now r =
     (let expired = map fst (filter (\<lambda>(_, sb). wasm_expired now sb) r)
      in (expired, fold hm_remove expired r))"

definition registry_contains :: "sandbox_id \<Rightarrow> 'm sandbox_registry \<Rightarrow> bool" where
  "registry_contains i r = (hm_get r i \<noteq> None)"

subsection \<open>The engine\<close>

text \<open>How the run of \<open>_start\<close> ends.\<close>

datatype wasi_end = Returned | Exited i32 | Trapped string

record wasi_run =
  wr_end :: wasi_end
  wr_stdout :: string
  wr_stderr :: string

text \<open>What a guest is given: its arguments, its environment, and directories with their access.\<close>

record preopen =
  po_host :: string
  po_guest :: string
  po_writable :: bool

record wasi_context =
  wc_args :: "string list"
  wc_env :: "(string, string) hash_map"
  wc_preopens :: "preopen list"

text \<open>
  Wasmtime. An engine is the number of its creation. Compiling a file with an engine; opening a directory for
  the guest (with write access or not; the error, if it fails); linking; instantiating a module in a
  store of an engine, which runs its start section; whether \<open>_start\<close> is exported; running it; and
  what a guest that panics or is given up has done to the host.
\<close>

type_synonym engine = nat

record ('m, 'h) wasmtime =
  wt_compile :: "engine \<Rightarrow> 'h \<Rightarrow> string \<Rightarrow> (string, 'm) result"
  wt_preopen :: "'h \<Rightarrow> string \<Rightarrow> string \<Rightarrow> bool \<Rightarrow> string option"
  wt_link :: "string option"
  wt_instantiate :: "engine \<Rightarrow> wasi_context \<Rightarrow> 'm \<Rightarrow> 'h \<Rightarrow> string option \<times> 'h"
  wt_has_start :: "'m \<Rightarrow> bool"
  wt_run :: "wasi_context \<Rightarrow> 'm \<Rightarrow> 'h \<Rightarrow> wasi_run \<times> 'h"
  wt_interrupted :: "wasi_context \<Rightarrow> 'm \<Rightarrow> 'h \<Rightarrow> 'h"

definition wasm_compile :: "('m, 'h) wasmtime \<Rightarrow> engine \<Rightarrow> 'h \<Rightarrow> string \<Rightarrow> (provider_error, 'm) result" where
  "wasm_compile rt e host path =
     map_err (\<lambda>e. CreateFailed (''failed to compile WASM module '' @ CHR 0x27 # path @ CHR 0x27 # '': '' @ e))
       (wt_compile rt e host path)"

definition mount_preopen :: "mount_config \<Rightarrow> preopen" where
  "mount_preopen m = \<lparr>po_host = mc_host_path m, po_guest = mc_container_path m, po_writable = \<not> mc_readonly m\<rparr>"

fun open_mounts :: "('m, 'h) wasmtime \<Rightarrow> 'h \<Rightarrow> mount_config list \<Rightarrow> (provider_error, preopen list) result" where
  "open_mounts rt host [] = Inr []"
| "open_mounts rt host (m # ms) =
     (let dir = mount_preopen m
      in case wt_preopen rt host (po_host dir) (po_guest dir) (po_writable dir) of
        Some e \<Rightarrow> Inl (ExecFailed (''failed to open mount '' @ CHR 0x27 # mc_host_path m @ CHR 0x27 # '': '' @ e))
      | None \<Rightarrow> map_sum id ((#) dir) (open_mounts rt host ms))"

definition wasi_context_of :: "sandbox_config \<Rightarrow> exec_request \<Rightarrow> preopen list \<Rightarrow> wasi_context" where
  "wasi_context_of config request dirs =
     \<lparr>wc_args = er_command request, wc_env = sc_env config, wc_preopens = dirs\<rparr>"

text \<open>The output of a finished run: the trap is an error, and what it has written is lost.\<close>

definition run_output :: "wasi_run \<Rightarrow> (provider_error, exec_output) result" where
  "run_output run =
     (let finish = (\<lambda>code. Inr \<lparr>eo_exit_code = code, eo_stdout = from_utf8_lossy (wr_stdout run),
           eo_stderr = from_utf8_lossy (wr_stderr run), eo_trace = None\<rparr>)
      in case wr_end run of
           Returned \<Rightarrow> finish 0
         | Exited code \<Rightarrow> finish code
         | Trapped e \<Rightarrow> Inl (ExecFailed (''WASM trap: '' @ e)))"

definition wasm_execute ::
    "('m, 'h) wasmtime \<Rightarrow> engine \<Rightarrow> 'm \<Rightarrow> sandbox_config \<Rightarrow> exec_request \<Rightarrow> 'h
     \<Rightarrow> (provider_error, exec_output) result \<times> 'h" where
  "wasm_execute rt e m config request host =
     (case open_mounts rt host (sc_mounts config) of
        Inl e \<Rightarrow> (Inl e, host)
      | Inr dirs \<Rightarrow>
     (case wt_link rt of
        Some e \<Rightarrow> (Inl (ExecFailed (''failed to configure WASI linker: '' @ e)), host)
      | None \<Rightarrow>
     (let ctx = wasi_context_of config request dirs
      in case wt_instantiate rt e ctx m host of
        (Some e, host1) \<Rightarrow> (Inl (ExecFailed (''failed to instantiate WASM module: '' @ e)), host1)
      | (None, host1) \<Rightarrow>
          (if \<not> wt_has_start rt m then (Inl (ExecFailed ''no _start export found''), host1)
           else case wt_run rt ctx m host1 of (run, host2) \<Rightarrow> (run_output run, host2)))))"

subsection \<open>The provider\<close>

text \<open>
  The blocking task an execution waits for, as the timeout sees it: it finished, it panicked, or
  the time ran out first. A guest that is given up goes on in its thread; all it does to the host is
  counted at once.
\<close>

datatype task_end = Task_Finished | Task_Panicked string | Task_Elapsed

record ('m, 'h) wasm_world =
  ww_registry :: "'m sandbox_registry"
  ww_engine :: engine
  ww_engines :: nat
  ww_host :: 'h
  ww_now :: u64
  ww_uuid :: "nat \<Rightarrow> sandbox_id"
  ww_count :: nat
  ww_task :: "u64 \<Rightarrow> task_end"

definition wasm_provider_new :: "('m, 'h) wasm_world \<Rightarrow> ('m, 'h) wasm_world" where
  "wasm_provider_new w = w\<lparr>ww_registry := [], ww_engine := ww_engines w, ww_engines := Suc (ww_engines w)\<rparr>"

definition wasm_create :: "('m, 'h) wasmtime \<Rightarrow> sandbox_config \<Rightarrow> (('m, 'h) wasm_world, sandbox_id) io" where
  "wasm_create rt config w =
     (case validate_config config wasm_capabilities of
        Inl e \<Rightarrow> (Inl e, w)
      | Inr _ \<Rightarrow>
     (case wasm_compile rt (ww_engine w) (ww_host w) (sc_image config) of
        Inl e \<Rightarrow> (Inl e, w)
      | Inr m \<Rightarrow>
          (let i = ww_uuid w (ww_count w);
               sb = \<lparr>ws_id = i, ws_module = m, ws_config = config, ws_created_at = ww_now w,
                     ws_expires_at = Some (ww_now w + sc_timeout_secs config)\<rparr>
           in (Inr i, w\<lparr>ww_registry := registry_insert sb (ww_registry w), ww_count := Suc (ww_count w)\<rparr>))))"

text \<open>An execution makes an engine of its own.\<close>

definition wasm_exec ::
    "('m, 'h) wasmtime \<Rightarrow> sandbox_id \<Rightarrow> exec_request \<Rightarrow> (('m, 'h) wasm_world, exec_output) io" where
  "wasm_exec rt i request w =
     (case get_module_and_config i (ww_registry w) of
        None \<Rightarrow> (Inl (NotFound i), w)
      | Some (m, config) \<Rightarrow>
          (let timeout = (case er_timeout_secs request of Some t \<Rightarrow> t | None \<Rightarrow> 300);
               e = ww_engines w;
               w1 = w\<lparr>ww_engines := Suc e\<rparr>;
               given_up = wt_interrupted rt (wasi_context_of config request (map mount_preopen (sc_mounts config)))
                 m (ww_host w)
           in case ww_task w timeout of
                Task_Finished \<Rightarrow>
                  (case wasm_execute rt e m config request (ww_host w) of (r, host) \<Rightarrow> (r, w1\<lparr>ww_host := host\<rparr>))
              | Task_Panicked e \<Rightarrow> (Inl (ExecFailed (''task join error: '' @ e)), w1\<lparr>ww_host := given_up\<rparr>)
              | Task_Elapsed \<Rightarrow> (Inl (Timeout timeout), w1\<lparr>ww_host := given_up\<rparr>)))"

definition wasm_destroy :: "sandbox_id \<Rightarrow> (('m, 'h) wasm_world, unit) io" where
  "wasm_destroy i w =
     (case registry_remove i (ww_registry w) of
        (found, r) \<Rightarrow> (if found then Inr () else Inl (NotFound i), w\<lparr>ww_registry := r\<rparr>))"

definition wasm_list :: "(('m, 'h) wasm_world, sandbox_info list) io" where
  "wasm_list w = (Inr (registry_list (ww_registry w)), w)"

definition wasm_pause :: "sandbox_id \<Rightarrow> (('m, 'h) wasm_world, unit) io" where
  "wasm_pause i w = (Inl (Unsupported ''WASM sandboxes cannot be paused''), w)"

definition wasm_unpause :: "sandbox_id \<Rightarrow> (('m, 'h) wasm_world, unit) io" where
  "wasm_unpause i w = (Inl (Unsupported ''WASM sandboxes cannot be unpaused''), w)"

definition wasm_gc :: "(('m, 'h) wasm_world, sandbox_id list) io" where
  "wasm_gc w =
     (case registry_gc (ww_now w) (ww_registry w) of (ids, r) \<Rightarrow> (Inr ids, w\<lparr>ww_registry := r\<rparr>))"

subsection \<open>The contract\<close>

definition wasm_live :: "('m, 'h) wasm_world \<Rightarrow> sandbox_id set" where
  "wasm_live w = dom (hm_get (ww_registry w))"

definition wasm_ok :: "('m, 'h) wasm_world \<Rightarrow> bool" where
  "wasm_ok w \<longleftrightarrow> hm_wf (ww_registry w) \<and> list_all (\<lambda>(i, sb). ws_id sb = i) (ww_registry w)"

lemma registry_insert_ok:
  "list_all (\<lambda>(i, sb). ws_id sb = i) r \<Longrightarrow> list_all (\<lambda>(i, sb). ws_id sb = i) (registry_insert sb r)"
  by (auto simp: registry_insert_def list_all_iff dest!: hm_insert_entries)

lemma hm_remove_list_all: "list_all P m \<Longrightarrow> list_all P (hm_remove k m)"
  by (simp add: hm_remove_def list_all_iff)

lemma fold_remove_list_all: "list_all P m \<Longrightarrow> list_all P (fold hm_remove ks m)"
  by (induction ks arbitrary: m) (simp_all add: hm_remove_list_all)

lemma wasm_create_ok: "wasm_ok w \<Longrightarrow> wasm_ok (snd (wasm_create rt c w))"
  by (auto simp: wasm_ok_def wasm_create_def Let_def registry_insert_ok split: sum.split)
    (simp add: registry_insert_def)

lemma wasm_create_live: "wasm_create rt c w = (Inr i, w') \<Longrightarrow> wasm_live w' = insert i (wasm_live w)"
  by (auto simp: wasm_create_def wasm_live_def registry_insert_def Let_def split: sum.splits if_splits)

lemma wasm_create_err: "wasm_create rt c w = (Inl e, w') \<Longrightarrow> w' = w"
  by (auto simp: wasm_create_def Let_def split: sum.splits)

lemma wasm_destroy_ok: "wasm_ok w \<Longrightarrow> wasm_ok (snd (wasm_destroy i w))"
  by (auto simp: wasm_ok_def wasm_destroy_def registry_remove_def hm_remove_list_all)

lemma wasm_destroy_live: "wasm_live (snd (wasm_destroy i w)) = wasm_live w - {i}"
  by (auto simp: wasm_destroy_def wasm_live_def registry_remove_def split: if_splits)

lemma wasm_destroy_is_ok: "is_ok (fst (wasm_destroy i w)) \<longleftrightarrow> i \<in> wasm_live w"
  by (auto simp: wasm_destroy_def wasm_live_def registry_remove_def)

interpretation wasm: sandbox_provider "wasm_create rt" wasm_destroy wasm_live wasm_ok
proof
  fix w w' :: "('a, 'b) wasm_world" and i e c
  show "wasm_destroy i w = (Inr (), w') \<Longrightarrow> wasm_live w' = wasm_live w - {i}"
    using wasm_destroy_live[of i w] by simp
  show "wasm_destroy i w = (Inl e, w') \<Longrightarrow> wasm_live w' = wasm_live w"
    using wasm_destroy_live[of i w] wasm_destroy_is_ok[of i w] by auto
qed (auto simp: wasm_create_ok wasm_destroy_ok wasm_destroy_is_ok dest: wasm_create_live wasm_create_err)

text \<open>The identifiers are all different.\<close>

definition wasm_fresh :: "('m, 'h) wasm_world \<Rightarrow> bool" where
  "wasm_fresh w \<longleftrightarrow> wasm_ok w \<and> inj (ww_uuid w) \<and> wasm_live w \<subseteq> ww_uuid w ` {..<ww_count w}"

lemma wasm_create_fresh:
  assumes "wasm_fresh w" "wasm_create rt c w = (Inr i, w')"
  shows "i \<notin> wasm_live w" "wasm_fresh w'"
proof -
  have i: "i = ww_uuid w (ww_count w)" "ww_uuid w' = ww_uuid w" "ww_count w' = Suc (ww_count w)"
    using assms(2) by (auto simp: wasm_create_def Let_def split: sum.splits)
  then show "i \<notin> wasm_live w"
    using assms(1) by (auto simp: wasm_fresh_def dest: injD)
  have "wasm_ok w'"
    using assms wasm_create_ok[of w rt c] by (simp add: wasm_fresh_def)
  then show "wasm_fresh w'"
    using assms(1) i wasm_create_live[OF assms(2)] by (auto simp: wasm_fresh_def lessThan_Suc)
qed

lemma wasm_create_keeps_fresh: "wasm_fresh w \<Longrightarrow> wasm_fresh (snd (wasm_create rt c w))"
  using wasm_create_fresh(2)[of w rt c] wasm_create_err[of rt c w]
  by (cases "wasm_create rt c w"; cases "fst (wasm_create rt c w)") auto

lemma wasm_destroy_fresh: "wasm_fresh w \<Longrightarrow> wasm_fresh (snd (wasm_destroy i w))"
proof -
  assume w: "wasm_fresh w"
  have "ww_uuid (snd (wasm_destroy i w)) = ww_uuid w" "ww_count (snd (wasm_destroy i w)) = ww_count w"
    by (simp_all add: wasm_destroy_def registry_remove_def)
  then show ?thesis
    using w wasm_destroy_ok[of w i] wasm_destroy_live[of i w] by (auto simp: wasm_fresh_def)
qed

lemma wasm_exec_frame:
  "ww_registry (snd (wasm_exec rt i q w)) = ww_registry w" "ww_uuid (snd (wasm_exec rt i q w)) = ww_uuid w"
  "ww_count (snd (wasm_exec rt i q w)) = ww_count w" "ww_now (snd (wasm_exec rt i q w)) = ww_now w"
  "ww_engine (snd (wasm_exec rt i q w)) = ww_engine w" "ww_task (snd (wasm_exec rt i q w)) = ww_task w"
  by (simp_all add: wasm_exec_def Let_def split: option.split task_end.split prod.split)

lemma wasm_exec_live: "wasm_live (snd (wasm_exec rt i q w)) = wasm_live w"
  by (simp add: wasm_live_def wasm_exec_frame)

lemma wasm_exec_fresh: "wasm_fresh (snd (wasm_exec rt i q w)) = wasm_fresh w"
  by (simp add: wasm_fresh_def wasm_ok_def wasm_exec_live wasm_exec_frame)

definition demo_wasmtime :: "(nat, nat) wasmtime" where
  "demo_wasmtime =
     \<lparr>wt_compile = (\<lambda>_ _ p. Inr (length p)), wt_preopen = (\<lambda>_ _ _ _. None), wt_link = None,
      wt_instantiate = (\<lambda>_ _ _ h. (None, h)), wt_has_start = (\<lambda>_. True),
      wt_run = (\<lambda>ctx m h. (\<lparr>wr_end = Exited (int m), wr_stdout = [], wr_stderr = []\<rparr>,
        if list_ex po_writable (wc_preopens ctx) then Suc h else h)),
      wt_interrupted = (\<lambda>ctx _ h. if list_ex po_writable (wc_preopens ctx) then Suc h else h)\<rparr>"

definition demo_wasm_world :: "(nat, nat) wasm_world" where
  "demo_wasm_world =
     \<lparr>ww_registry = [], ww_engine = 0, ww_engines = 1, ww_host = 0, ww_now = 100, ww_uuid = show_nat, ww_count = 7,
      ww_task = (\<lambda>_. Task_Finished)\<rparr>"

lemma demo_wasm_create:
  "sc_mounts c = [] \<or> sc_memory c = None \<Longrightarrow> \<exists>w'. wasm_create demo_wasmtime c demo_wasm_world = (Inr (show_nat 7), w')"
  by (simp add: wasm_create_def validate_config_def config_violations_def wasm_capabilities_def
      wasm_compile_def demo_wasmtime_def demo_wasm_world_def Let_def)

lemma demo_wasm_fresh: "wasm_fresh demo_wasm_world"
  by (simp add: wasm_fresh_def demo_wasm_world_def wasm_ok_def wasm_live_def inj_def show_nat_inject subset_iff dom_def)

subsection \<open>Garbage collection\<close>

lemma registry_gc_ids:
  "hm_wf r \<Longrightarrow> i \<in> set (fst (registry_gc now r)) \<longleftrightarrow> (\<exists>sb. hm_get r i = Some sb \<and> wasm_expired now sb)"
  by (force simp: registry_gc_def Let_def hm_get_Some_iff)

lemma registry_gc_get:
  assumes "hm_wf r"
  shows "hm_get (snd (registry_gc now r)) i =
    (if i \<in> set (fst (registry_gc now r)) then None else hm_get r i)"
  using hm.del_all[OF assms, of "fst (registry_gc now r)" i] by (simp add: registry_gc_def Let_def)

text \<open>
  Garbage collection returns exactly the identifiers of the sandboxes whose expiry is at or
  before the clock, removes exactly those, and a second collection at the same time finds none.
\<close>

theorem wasm_gc_spec:
  assumes "wasm_ok w"
  shows "\<exists>ids w'. wasm_gc w = (Inr ids, w')
    \<and> set ids = {i. \<exists>sb. hm_get (ww_registry w) i = Some sb \<and> wasm_expired (ww_now w) sb}
    \<and> (\<forall>i. hm_get (ww_registry w') i = (if i \<in> set ids then None else hm_get (ww_registry w) i))
    \<and> fst (wasm_gc w') = Inr []"
proof -
  let ?g = "registry_gc (ww_now w) (ww_registry w)"
  have wf: "hm_wf (ww_registry w)" using assms by (simp add: wasm_ok_def)
  note get = registry_gc_get[OF wf, of "ww_now w"]
  have wf': "hm_wf (snd ?g)"
    using hm.del_all[OF wf, of "fst ?g"] by (simp add: registry_gc_def Let_def)
  have "i \<notin> set (fst (registry_gc (ww_now w) (snd ?g)))" for i
    unfolding registry_gc_ids[OF wf'] get by (auto simp: registry_gc_ids[OF wf])
  then have "fst (registry_gc (ww_now w) (snd ?g)) = []"
    by (metis list.set_intros(1) neq_Nil_conv)
  moreover have "wasm_gc w = (Inr (fst ?g), w\<lparr>ww_registry := snd ?g\<rparr>)"
    by (simp add: wasm_gc_def split: prod.split)
  ultimately show ?thesis
    using registry_gc_ids[OF wf, of _ "ww_now w"] get
    by (auto simp: wasm_gc_def split: prod.splits)
qed

theorem wasm_gc_spec_witness: "fst (wasm_gc demo_wasm_world) = Inr []"
proof -
  have "wasm_ok demo_wasm_world"
    by (simp add: demo_wasm_world_def wasm_ok_def)
  from wasm_gc_spec[OF this] show ?thesis
    by (auto simp: demo_wasm_world_def wasm_gc_def registry_gc_def)
qed

text \<open>
  The timeout 0, no expiry for a Docker container, is an expiry right now for a module.
\<close>

lemma wasm_zero_timeout_expires:
  "wasm_create rt c w = (Inr i, w') \<Longrightarrow> sc_timeout_secs c = 0 \<Longrightarrow>
    \<exists>sb. hm_get (ww_registry w') i = Some sb \<and> wasm_expired (ww_now w') sb"
  by (auto simp: wasm_create_def registry_insert_def wasm_expired_def Let_def split: sum.splits)

end
