(* ===== verification/Wasm_Runs.thy ===== *)
theory Wasm_Runs
  imports Wasm Runs
begin

text \<open>
  The WASM provider over any sequence of operations: what an execution runs, which of them can change
  the host, and that a store of another engine keeps every module from running.
\<close>

datatype wasm_op =
    Wo_Create sandbox_config
  | Wo_Exec sandbox_id exec_request
  | Wo_Destroy sandbox_id
  | Wo_Gc
  | Wo_Clock u64

primrec wasm_step :: "('m, 'h) wasmtime \<Rightarrow> wasm_op \<Rightarrow> ('m, 'h) wasm_world \<Rightarrow> ('m, 'h) wasm_world" where
  "wasm_step rt (Wo_Create c) w = snd (wasm_create rt c w)"
| "wasm_step rt (Wo_Exec i q) w = snd (wasm_exec rt i q w)"
| "wasm_step rt (Wo_Destroy i) w = snd (wasm_destroy i w)"
| "wasm_step rt Wo_Gc w = snd (wasm_gc w)"
| "wasm_step rt (Wo_Clock t) w = w\<lparr>ww_now := t\<rparr>"

lemma wasm_destroy_eq: "snd (wasm_destroy i w) = w\<lparr>ww_registry := hm_remove i (ww_registry w)\<rparr>"
  by (simp add: wasm_destroy_def registry_remove_def)

lemma wasm_gc_eq: "snd (wasm_gc w) = w\<lparr>ww_registry := snd (registry_gc (ww_now w) (ww_registry w))\<rparr>"
  by (simp add: wasm_gc_def split: prod.split)

lemma wasm_create_cases:
  obtains (failed) "snd (wasm_create rt c w) = w"
  | (made) m sb where "wt_compile rt (ww_engine w) (ww_host w) (sc_image c) = Inr m"
      "sb = \<lparr>ws_id = ww_uuid w (ww_count w), ws_module = m, ws_config = c, ws_created_at = ww_now w,
         ws_expires_at = Some (ww_now w + sc_timeout_secs c)\<rparr>"
      "wasm_create rt c w = (Inr (ws_id sb), w\<lparr>ww_registry := registry_insert sb (ww_registry w), ww_count := Suc (ww_count w)\<rparr>)"
proof (cases "wasm_create rt c w")
  case (Pair r w')
  show ?thesis
  proof (cases r)
    case (Inl e)
    then show ?thesis using Pair wasm_create_err[of rt c w e w'] failed by simp
  next
    case (Inr i)
    with Pair obtain m where m: "wt_compile rt (ww_engine w) (ww_host w) (sc_image c) = Inr m"
      by (auto simp: wasm_create_def wasm_compile_def split: sum.splits)
    let ?sb = "\<lparr>ws_id = ww_uuid w (ww_count w), ws_module = m, ws_config = c, ws_created_at = ww_now w,
         ws_expires_at = Some (ww_now w + sc_timeout_secs c)\<rparr>"
    have "wasm_create rt c w = (Inr (ws_id ?sb), w\<lparr>ww_registry := registry_insert ?sb (ww_registry w), ww_count := Suc (ww_count w)\<rparr>)"
      using Pair Inr m by (clarsimp simp: wasm_create_def wasm_compile_def Let_def split: sum.splits)
    then show ?thesis by (rule made[OF m refl])
  qed
qed

lemma wasm_create_counts: "wasm_create rt c w = (Inr i, w') \<Longrightarrow> ww_count w' = Suc (ww_count w)"
  by (auto simp: wasm_create_def Let_def split: sum.splits)

lemma made_of_failed: "snd (wasm_create rt c w) = w \<Longrightarrow> wasm_create rt c w = (Inr i, w') \<Longrightarrow> False"
  using wasm_create_counts[of rt c w i w'] by simp

lemma registry_gc_sub: "set (snd (registry_gc now r)) \<subseteq> set r"
proof -
  have "set (fold hm_remove ks r) \<subseteq> set r" for ks
  proof (induction ks arbitrary: r)
    case (Cons k ks)
    have "set (hm_remove k r) \<subseteq> set r" by (auto simp: hm_remove_def)
    then show ?case using Cons[of "hm_remove k r"] by (simp only: fold_simps)
  qed simp
  then show ?thesis by (simp add: registry_gc_def Let_def)
qed

lemma wasm_gc_fresh: "wasm_fresh w \<Longrightarrow> wasm_fresh (snd (wasm_gc w))"
proof -
  assume w: "wasm_fresh w"
  let ?r = "snd (registry_gc (ww_now w) (ww_registry w))"
  have wf: "hm_wf (ww_registry w)" using w by (simp add: wasm_fresh_def wasm_ok_def)
  have "hm_wf ?r"
    using hm.del_all[OF wf, of "fst (registry_gc (ww_now w) (ww_registry w))"] by (simp add: registry_gc_def Let_def)
  moreover from registry_gc_get[OF wf, of "ww_now w"]
  have "dom (hm_get ?r) \<subseteq> dom (hm_get (ww_registry w))"
    by (auto split: if_splits)
  then have "dom (hm_get ?r) \<subseteq> ww_uuid w ` {..<ww_count w}"
    using w by (auto simp: wasm_fresh_def wasm_live_def)
  moreover have "list_all (\<lambda>(i, sb). ws_id sb = i) ?r"
    using w registry_gc_sub[of "ww_now w" "ww_registry w"] by (auto simp: wasm_fresh_def wasm_ok_def list_all_iff)
  ultimately show ?thesis
    using w by (simp add: wasm_gc_eq wasm_fresh_def wasm_ok_def wasm_live_def)
qed

interpretation wasm_runs: preserving "wasm_step rt" wasm_fresh
proof
  show "wasm_fresh (wasm_step rt op w)" if "wasm_fresh w" for op and w :: "('a, 'b) wasm_world"
    using that
    by (cases op)
      (simp_all add: wasm_create_keeps_fresh wasm_exec_fresh wasm_destroy_fresh wasm_gc_fresh,
       simp add: wasm_fresh_def wasm_ok_def wasm_live_def)
qed

subsection \<open>What an execution runs\<close>

text \<open>The operations that do not end the sandbox: no destruction of it, and the clock stays before its expiry.\<close>

primrec spares :: "sandbox_id \<Rightarrow> u64 \<Rightarrow> wasm_op \<Rightarrow> bool" where
  "spares i expires (Wo_Create c) = True"
| "spares i expires (Wo_Exec j q) = True"
| "spares i expires (Wo_Destroy j) \<longleftrightarrow> j \<noteq> i"
| "spares i expires Wo_Gc = True"
| "spares i expires (Wo_Clock t) \<longleftrightarrow> t < expires"

definition stays :: "sandbox_id \<Rightarrow> 'm wasm_sandbox \<Rightarrow> u64 \<Rightarrow> ('m, 'h) wasm_world \<Rightarrow> bool" where
  "stays i sb expires w \<longleftrightarrow>
     hm_get (ww_registry w) i = Some sb \<and> ws_expires_at sb = Some expires \<and> ww_now w < expires"

lemma wasm_step_stays:
  assumes "wasm_fresh w" "stays i sb expires w" "spares i expires op"
  shows "stays i sb expires (wasm_step rt op w)"
proof (cases op)
  case (Wo_Create c)
  show ?thesis
  proof (cases rule: wasm_create_cases[of rt c w])
    case failed
    then show ?thesis using assms Wo_Create by simp
  next
    case (made m sb')
    have "ws_id sb' \<noteq> i"
      using wasm_create_fresh(1)[OF assms(1) made(3)] assms(2) by (auto simp: wasm_live_def stays_def)
    then show ?thesis
      using assms(2) Wo_Create made(3) by (simp add: stays_def registry_insert_def)
  qed
next
  case Wo_Gc
  have wf: "hm_wf (ww_registry w)" using assms(1) by (simp add: wasm_fresh_def wasm_ok_def)
  have "i \<notin> set (fst (registry_gc (ww_now w) (ww_registry w)))"
    using registry_gc_ids[OF wf, of i "ww_now w"] assms(2) by (auto simp: stays_def wasm_expired_def)
  then show ?thesis
    using assms(2) Wo_Gc registry_gc_get[OF wf, of "ww_now w" i] by (simp add: stays_def wasm_gc_eq)
qed (use assms in \<open>auto simp: stays_def wasm_exec_frame wasm_destroy_eq\<close>)

text \<open>
  A module finishes: every directory opens, linking and instantiation succeed, it has a \<open>_start\<close>, and
  this is its run and the host after it.
\<close>

definition finishes ::
    "('m, 'h) wasmtime \<Rightarrow> engine \<Rightarrow> wasi_context \<Rightarrow> 'm \<Rightarrow> 'h \<Rightarrow> wasi_run \<Rightarrow> 'h \<Rightarrow> bool" where
  "finishes rt e ctx m h run h' \<longleftrightarrow>
     list_all (\<lambda>d. wt_preopen rt h (po_host d) (po_guest d) (po_writable d) = None) (wc_preopens ctx)
     \<and> wt_link rt = None \<and> wt_has_start rt m
     \<and> (\<exists>h1. wt_instantiate rt e ctx m h = (None, h1) \<and> wt_run rt ctx m h1 = (run, h'))"

definition exits_with :: "wasi_run \<Rightarrow> i32 \<Rightarrow> bool" where
  "exits_with run code \<longleftrightarrow> wr_end run = Exited code \<or> wr_end run = Returned \<and> code = 0"

definition given :: "sandbox_config \<Rightarrow> exec_request \<Rightarrow> wasi_context" where
  "given c q = \<lparr>wc_args = er_command q, wc_env = sc_env c, wc_preopens = map (\<lambda>m.
     \<lparr>po_host = mc_host_path m, po_guest = mc_container_path m, po_writable = \<not> mc_readonly m\<rparr>) (sc_mounts c)\<rparr>"

lemma given_eq: "given c q = wasi_context_of c q (map mount_preopen (sc_mounts c))"
  by (simp add: given_def wasi_context_of_def mount_preopen_def[abs_def])

lemma open_mounts_result:
  "case open_mounts rt h ms of
     Inr dirs \<Rightarrow> dirs = map mount_preopen ms
       \<and> list_all (\<lambda>d. wt_preopen rt h (po_host d) (po_guest d) (po_writable d) = None) dirs
   | Inl e \<Rightarrow> (\<exists>msg. e = ExecFailed msg)
       \<and> \<not> list_all (\<lambda>d. wt_preopen rt h (po_host d) (po_guest d) (po_writable d) = None) (map mount_preopen ms)"
  by (induction ms) (auto simp: Let_def split: option.splits sum.splits)

lemma wasm_execute_outcome:
  assumes "wasm_execute rt e m c q h = (r, h')"
  shows "case r of
      Inr out \<Rightarrow> \<exists>run. finishes rt e (given c q) m h run h' \<and> exits_with run (eo_exit_code out)
        \<and> eo_stdout out = from_utf8_lossy (wr_stdout run) \<and> eo_stderr out = from_utf8_lossy (wr_stderr run)
    | Inl err \<Rightarrow> (\<exists>msg. err = ExecFailed msg)
        \<and> \<not> (\<exists>run h1 code. finishes rt e (given c q) m h run h1 \<and> exits_with run code)"
  using assms open_mounts_result[of rt h "sc_mounts c"]
  by (auto simp: wasm_execute_def run_output_def Let_def given_eq wasi_context_of_def finishes_def exits_with_def
      split: sum.splits option.splits prod.splits if_splits wasi_end.splits)


definition writer_config :: sandbox_config where
  "writer_config = sandbox_config_default\<lparr>sc_image := ''ab'', sc_timeout_secs := 60,
     sc_mounts := [\<lparr>mc_host_path = ''/data'', mc_container_path = ''/in'', mc_readonly = False\<rparr>]\<rparr>"


subsection \<open>What can change the host\<close>

text \<open>
  What WASI promises of a guest: it changes the host through directories it was given with write access
  only, so without such a directory not at all.
\<close>

definition guests_confined :: "('m, 'h) wasmtime \<Rightarrow> bool" where
  "guests_confined rt \<longleftrightarrow>
     (\<forall>e ctx m h. \<not> list_ex po_writable (wc_preopens ctx) \<longrightarrow>
        snd (wt_instantiate rt e ctx m h) = h \<and> snd (wt_run rt ctx m h) = h \<and> wt_interrupted rt ctx m h = h)"

definition read_only :: "sandbox_config \<Rightarrow> bool" where
  "read_only c \<longleftrightarrow> list_all mc_readonly (sc_mounts c)"

primrec creates_read_only :: "wasm_op \<Rightarrow> bool" where
  "creates_read_only (Wo_Create c) = read_only c"
| "creates_read_only (Wo_Exec i q) = True"
| "creates_read_only (Wo_Destroy i) = True"
| "creates_read_only Wo_Gc = True"
| "creates_read_only (Wo_Clock t) = True"

lemma read_only_context: "read_only c \<Longrightarrow> \<not> list_ex po_writable (map mount_preopen (sc_mounts c))"
  by (auto simp: read_only_def mount_preopen_def list_ex_iff list_all_iff)

lemma wasm_execute_host:
  assumes "guests_confined rt" "read_only c"
  shows "snd (wasm_execute rt e m c q h) = h"
proof -
  let ?ctx = "wasi_context_of c q (map mount_preopen (sc_mounts c))"
  have "\<not> list_ex po_writable (wc_preopens ?ctx)"
    using read_only_context[OF assms(2)] by (simp add: wasi_context_of_def)
  then have keeps: "snd (wt_instantiate rt e ?ctx m h) = h" "snd (wt_run rt ?ctx m h) = h"
    using assms(1) unfolding guests_confined_def by blast+
  show ?thesis
  proof (cases "open_mounts rt h (sc_mounts c)")
    case (Inr dirs)
    then have "dirs = map mount_preopen (sc_mounts c)"
      using open_mounts_result[of rt h "sc_mounts c"] by simp
    then show ?thesis
      using keeps Inr
      by (cases "wt_instantiate rt e ?ctx m h"; cases "wt_run rt ?ctx m h")
        (simp add: wasm_execute_def Let_def split: option.split)
  qed (simp add: wasm_execute_def)
qed

lemma wasm_exec_host:
  assumes "guests_confined rt" "\<And>sb. hm_get (ww_registry w) i = Some sb \<Longrightarrow> read_only (ws_config sb)"
  shows "ww_host (snd (wasm_exec rt i q w)) = ww_host w"
proof -
  have given_up: "wt_interrupted rt (wasi_context_of c q (map mount_preopen (sc_mounts c))) m h = h" if "read_only c" for c m h
    using assms(1) read_only_context[OF that] by (simp add: guests_confined_def wasi_context_of_def)
  show ?thesis
  proof (cases "hm_get (ww_registry w) i")
    case (Some sb)
    note ro = assms(2)[OF Some]
    show ?thesis
      using wasm_execute_host[OF assms(1) ro, of "ww_engines w" "ws_module sb" q "ww_host w"]
      by (cases "wasm_execute rt (ww_engines w) (ws_module sb) (ws_config sb) q (ww_host w)") (simp add: wasm_exec_def get_module_and_config_def Some Let_def given_up[OF ro] split: task_end.split)
  qed (simp add: wasm_exec_def get_module_and_config_def)
qed

definition hosts_read_only :: "('m, 'h) wasm_world \<Rightarrow> bool" where
  "hosts_read_only w \<longleftrightarrow> (\<forall>(i, sb) \<in> set (ww_registry w). read_only (ws_config sb))"

lemma wasm_step_host:
  assumes "guests_confined rt" "hosts_read_only w" "creates_read_only op"
  shows "ww_host (wasm_step rt op w) = ww_host w \<and> hosts_read_only (wasm_step rt op w)"
proof (cases op)
  case (Wo_Create c)
  show ?thesis
    using assms(2,3) Wo_Create
    by (cases rule: wasm_create_cases[of rt c w])
      (auto simp: hosts_read_only_def registry_insert_def dest!: hm_insert_entries)
next
  case (Wo_Exec i q)
  have "read_only (ws_config sb)" if "hm_get (ww_registry w) i = Some sb" for sb
    using hm_get_Some_in[OF that] assms(2) by (auto simp: hosts_read_only_def)
  then show ?thesis
    using wasm_exec_host[OF assms(1), of w i q] assms(2) Wo_Exec by (simp add: hosts_read_only_def wasm_exec_frame)
next
  case (Wo_Destroy i)
  then show ?thesis
    using assms(2) by (auto simp: wasm_destroy_eq hosts_read_only_def hm_remove_def)
next
  case Wo_Gc
  then show ?thesis
    using assms(2) registry_gc_sub[of "ww_now w" "ww_registry w"] by (auto simp: wasm_gc_eq hosts_read_only_def)
qed (use assms in \<open>simp add: hosts_read_only_def\<close>)

text \<open>
  (C40) WASM sandboxes whose mounts are all read-only never change the host: over any sequence of creations
  with read-only mounts, executions that finish, trap, panic or run out of time, destructions and
  collections the files of the host stay, given that a guest changes nothing but through a directory it
  was given with write access. So writing reaches the host only through a mount that asks for it; the
  \<open>writable\<close> of a configuration has no part in it.
\<close>

theorem wasm_read_only_host:
  assumes "guests_confined rt" and "list_all creates_read_only ops"
  shows "ww_host (fold (wasm_step rt) ops (wasm_provider_new w)) = ww_host w"
proof -
  have "ww_host (fold (wasm_step rt) ops v) = ww_host v" if "hosts_read_only v" for v
    using assms(2) that
    by (induction ops arbitrary: v) (use wasm_step_host[OF assms(1)] in auto)
  from this[of "wasm_provider_new w"] show ?thesis
    by (simp add: hosts_read_only_def wasm_provider_new_def)
qed

lemma demo_confined: "guests_confined demo_wasmtime"
  by (simp add: guests_confined_def demo_wasmtime_def)

theorem wasm_read_only_host_witness:
  "ww_host (fold (wasm_step demo_wasmtime)
     [Wo_Create (writer_config\<lparr>sc_writable := True,
        sc_mounts := [\<lparr>mc_host_path = ''/data'', mc_container_path = ''/in'', mc_readonly = True\<rparr>]\<rparr>),
      Wo_Exec (show_nat 7) \<lparr>er_command = [], er_timeout_secs = None, er_idempotency_key = None\<rparr>]
     (wasm_provider_new demo_wasm_world)) = 0"
  using wasm_read_only_host[OF demo_confined, where w = demo_wasm_world and
      ops = "[Wo_Create (writer_config\<lparr>sc_writable := True,
        sc_mounts := [\<lparr>mc_host_path = ''/data'', mc_container_path = ''/in'', mc_readonly = True\<rparr>]\<rparr>),
      Wo_Exec (show_nat 7) \<lparr>er_command = [], er_timeout_secs = None, er_idempotency_key = None\<rparr>]"]
  by (simp add: read_only_def demo_wasm_world_def del: fold_simps)

subsection \<open>The engine of an execution\<close>

text \<open>
  Wasmtime instantiates a module only in a store of the engine that compiled it. \<open>made_by\<close> is the
  engine of a module.
\<close>

definition own_engine_only :: "('m \<Rightarrow> engine) \<Rightarrow> ('m, 'h) wasmtime \<Rightarrow> bool" where
  "own_engine_only made_by rt \<longleftrightarrow>
     (\<forall>e h path m. wt_compile rt e h path = Inr m \<longrightarrow> made_by m = e)
     \<and> (\<forall>e ctx m h. made_by m \<noteq> e \<longrightarrow> (\<exists>msg. wt_instantiate rt e ctx m h = (Some msg, h)))"

definition made_before :: "('m \<Rightarrow> engine) \<Rightarrow> ('m, 'h) wasm_world \<Rightarrow> bool" where
  "made_before made_by w \<longleftrightarrow>
     ww_engine w < ww_engines w \<and> (\<forall>(i, sb) \<in> set (ww_registry w). made_by (ws_module sb) < ww_engines w)"

lemma wasm_exec_engines: "ww_engines w \<le> ww_engines (snd (wasm_exec rt i q w))"
  by (simp add: wasm_exec_def Let_def split: option.split task_end.split prod.split)

lemma wasm_step_made_before:
  assumes "own_engine_only made_by rt" "made_before made_by w"
  shows "made_before made_by (wasm_step rt op w)"
proof (cases op)
  case (Wo_Create c)
  show ?thesis
    using assms Wo_Create
    by (cases rule: wasm_create_cases[of rt c w])
      (auto simp: made_before_def own_engine_only_def registry_insert_def dest!: hm_insert_entries)
next
  case (Wo_Exec i q)
  then show ?thesis
    using assms(2) wasm_exec_engines[of w rt i q]
    by (auto simp: made_before_def wasm_exec_frame intro: less_le_trans)
next
  case (Wo_Destroy i)
  then show ?thesis
    using assms(2) by (auto simp: wasm_destroy_eq made_before_def hm_remove_def)
next
  case Wo_Gc
  then show ?thesis
    using assms(2) registry_gc_sub[of "ww_now w" "ww_registry w"] by (auto simp: wasm_gc_eq made_before_def)
qed (use assms in \<open>simp add: made_before_def\<close>)

text \<open>So no execution of the provider ever succeeds: it never uses the engine that compiled its module.\<close>

theorem wasm_exec_never_succeeds:
  assumes "own_engine_only made_by rt"
  shows "\<not> is_ok (fst (wasm_exec rt i q (fold (wasm_step rt) ops (wasm_provider_new w))))"
proof -
  let ?w = "fold (wasm_step rt) ops (wasm_provider_new w)"
  have "made_before made_by (fold (wasm_step rt) ops v)" if "made_before made_by v" for v
    using that by (induction ops arbitrary: v) (use wasm_step_made_before[OF assms] in auto)
  from this[of "wasm_provider_new w"] have before: "made_before made_by ?w"
    by (simp add: made_before_def wasm_provider_new_def)
  have "\<not> is_ok (fst (wasm_execute rt (ww_engines ?w) m c q h))" if "made_by m < ww_engines ?w" for m c h
  proof -
    have "\<exists>msg. wt_instantiate rt (ww_engines ?w) ctx m h = (Some msg, h)" for ctx
      using assms that by (auto simp: own_engine_only_def)
    then show ?thesis
      by (auto simp: wasm_execute_def Let_def split: sum.split option.split prod.split) (metis option.distinct(1) prod.inject)+
  qed
  moreover have "made_by m < ww_engines ?w" if "get_module_and_config i (ww_registry ?w) = Some (m, c)" for m c
    using that before by (auto simp: get_module_and_config_def made_before_def dest!: hm_get_Some_in split: option.splits)
  ultimately have run: "\<not> is_ok (fst (wasm_execute rt (ww_engines ?w) m c q (ww_host ?w)))"
    if "get_module_and_config i (ww_registry ?w) = Some (m, c)" for m c
    using that by blast
  show ?thesis
  proof (cases "get_module_and_config i (ww_registry ?w)")
    case (Some mc)
    obtain m c where "mc = (m, c)" by (cases mc)
    with Some run[of m c] show ?thesis
      by (cases "wasm_execute rt (ww_engines ?w) m c q (ww_host ?w)") (simp add: wasm_exec_def Let_def split: task_end.split)
  qed (simp add: wasm_exec_def)
qed

definition strict_wasmtime :: "(nat, nat) wasmtime" where
  "strict_wasmtime = demo_wasmtime\<lparr>wt_compile := (\<lambda>e _ _. Inr e),
     wt_instantiate := (\<lambda>e _ m h. (if m = e then None else Some ''cross-engine'', h))\<rparr>"

theorem wasm_exec_never_succeeds_witness:
  "\<not> is_ok (fst (wasm_exec strict_wasmtime (show_nat 7) \<lparr>er_command = [], er_timeout_secs = None, er_idempotency_key = None\<rparr>
     (fold (wasm_step strict_wasmtime) [Wo_Create writer_config] (wasm_provider_new demo_wasm_world))))"
  by (rule wasm_exec_never_succeeds[of id]) (simp add: own_engine_only_def strict_wasmtime_def)

end
