(* ===== verification/K8s.thy ===== *)
theory K8s
  imports Provider Rust_Text
begin

text \<open>
  The Kubernetes provider, \<open>provider/k8s.rs\<close>: the namespace, the pod and the network policy of a
  sandbox, its creation with the wait for the pod to run, execution with the exit code carried
  in the output, destruction, listing and garbage collection. The Kubernetes API is an argument
  of the model, a record of its calls on a world \<open>'w\<close>; so are the environment, the configuration
  file and the random identifier. The constructor and the file copies are in \<open>K8s_Files\<close>.
\<close>

subsection \<open>Objects\<close>

record pod =
  pod_name :: "string option"
  pod_namespace :: string
  pod_labels :: "(string, string) hash_map"
  pod_annotations :: "(string, string) hash_map"
  pod_image :: string
  pod_command :: "string list"
  pod_read_only_root :: "bool option"
  pod_privilege_escalation :: "bool option"
  pod_non_root :: "bool option"
  pod_user :: "int option"
  pod_limits :: "(string, string) hash_map"
  pod_env :: "(string \<times> string) list"
  pod_volumes :: "(string \<times> string) list"
  pod_mounts :: "(string \<times> string) list"
  pod_deadline :: "int option"
  pod_restart_policy :: string
  pod_phase :: "string option"

record network_policy =
  np_name :: string
  np_namespace :: string
  np_match_labels :: "(string, string) hash_map"
  np_types :: "string list"
  np_ingress :: "string list option"
  np_egress :: "string list option"

datatype kube_error = Api_Error nat string | Other_Error string

primrec kube_error_display :: "kube_error \<Rightarrow> string" where
  "kube_error_display (Api_Error c m) = m"
| "kube_error_display (Other_Error m) = m"

text \<open>What an attached process gives: its streams, each present or not, with the read error if any.\<close>

record attached =
  at_stdout :: "(string, string) result option"
  at_stderr :: "(string, string) result option"

record 'w kube =
  kb_create_pod :: "pod \<Rightarrow> 'w \<Rightarrow> kube_error option \<times> 'w"
  kb_create_policy :: "network_policy \<Rightarrow> 'w \<Rightarrow> kube_error option \<times> 'w"
  kb_get_pod :: "string \<Rightarrow> 'w \<Rightarrow> (kube_error, pod) result \<times> 'w"
  kb_delete_pod :: "string \<Rightarrow> 'w \<Rightarrow> kube_error option \<times> 'w"
  kb_delete_policy :: "string \<Rightarrow> 'w \<Rightarrow> kube_error option \<times> 'w"
  kb_list_pods :: "'w \<Rightarrow> (kube_error, pod list) result \<times> 'w"
  kb_exec :: "string \<Rightarrow> string list \<Rightarrow> u64 option \<Rightarrow> 'w \<Rightarrow> (kube_error, attached) result option \<times> 'w"
  kb_sleep :: "nat \<Rightarrow> 'w \<Rightarrow> 'w"
  kb_instant :: "'w \<Rightarrow> nat"
  kb_now_secs :: "'w \<Rightarrow> u64"
  kb_uuid :: "'w \<Rightarrow> string \<times> 'w"

subsection \<open>Configuration\<close>

definition default_namespace :: string where
  "default_namespace = ''roche-sandboxes''"

text \<open>\<open>file_namespace\<close>: the field \<open>namespace\<close> of the configuration file, where it can be read.\<close>

definition resolve_namespace :: "string option \<Rightarrow> string option \<Rightarrow> string" where
  "resolve_namespace env_namespace file_namespace =
     (case env_namespace of
        Some ns \<Rightarrow>
          (if ns \<noteq> [] then ns
           else case file_namespace of Some f \<Rightarrow> (if f \<noteq> [] then f else default_namespace)
                | None \<Rightarrow> default_namespace)
      | None \<Rightarrow>
          (case file_namespace of Some f \<Rightarrow> (if f \<noteq> [] then f else default_namespace)
           | None \<Rightarrow> default_namespace))"

subsection \<open>The pod of a sandbox\<close>

definition millicores :: "f64 \<Rightarrow> string" where
  "millicores cpus = show_u32 (f64_to_u32 (f64_mul cpus (F_fin 1000))) @ ''m''"

definition build_pod :: "u64 \<Rightarrow> string \<Rightarrow> string \<Rightarrow> sandbox_config \<Rightarrow> pod" where
  "build_pod now name namespace c =
     \<lparr>pod_name = Some name,
      pod_namespace = namespace,
      pod_labels = [(''roche.managed'', ''true''), (''roche.image'', sc_image c), (''roche.sandbox'', name)],
      pod_annotations = (if 0 < sc_timeout_secs c
        then [(''roche.expires'', show_u64 (now + sc_timeout_secs c))] else []),
      pod_image = sc_image c,
      pod_command = [''sleep'', ''infinity''],
      pod_read_only_root = (if sc_writable c then None else Some True),
      pod_privilege_escalation = Some False,
      pod_non_root = Some True,
      pod_user = Some 1000,
      pod_limits =
        (case sc_memory c of Some m \<Rightarrow> [(''memory'', m)] | None \<Rightarrow> [])
        @ (case sc_cpus c of Some x \<Rightarrow> [(''cpu'', millicores x)] | None \<Rightarrow> []),
      pod_env = sc_env c,
      pod_volumes = (if \<not> sc_writable c then [(''tmp'', ''64Mi'')] else []),
      pod_mounts = (if \<not> sc_writable c then [(''tmp'', ''/tmp'')] else []),
      pod_deadline = (if 0 < sc_timeout_secs c then Some (sint (sc_timeout_secs c)) else None),
      pod_restart_policy = ''Never'',
      pod_phase = None\<rparr>"

definition deny_policy_name :: "string \<Rightarrow> string" where
  "deny_policy_name name = ''roche-deny-'' @ name"

definition build_deny_all_network_policy :: "string \<Rightarrow> string \<Rightarrow> network_policy" where
  "build_deny_all_network_policy name namespace =
     \<lparr>np_name = deny_policy_name name, np_namespace = namespace,
      np_match_labels = [(''roche.sandbox'', name)], np_types = [''Ingress'', ''Egress''],
      np_ingress = None, np_egress = None\<rparr>"

definition pod_phase_to_status :: "string option \<Rightarrow> sandbox_status" where
  "pod_phase_to_status phase =
     (if phase = Some ''Running'' then Running
      else if phase = Some ''Pending'' then Running
      else if phase = Some ''Succeeded'' then Stopped
      else if phase = Some ''Failed'' then Failed
      else Stopped)"

subsection \<open>Operations\<close>

definition k8s_destroy :: "'w kube \<Rightarrow> sandbox_id \<Rightarrow> ('w, unit) io" where
  "k8s_destroy kb i w =
     (case kb_delete_pod kb i w of
        (Some (Api_Error c m), w1) \<Rightarrow>
          (if c = 404 then (Inl (NotFound i), w1)
           else (Inl (ExecFailed (''failed to delete pod: '' @ m)), w1))
      | (Some (Other_Error m), w1) \<Rightarrow> (Inl (ExecFailed (''failed to delete pod: '' @ m)), w1)
      | (None, w1) \<Rightarrow>
          (case kb_delete_policy kb (deny_policy_name i) w1 of
             (None, w2) \<Rightarrow> (Inr (), w2)
           | (Some (Api_Error c m), w2) \<Rightarrow>
               (if c = 404 then (Inr (), w2)
                else (Inl (ExecFailed (''failed to delete network policy: '' @ m)), w2))
           | (Some (Other_Error m), w2) \<Rightarrow>
               (Inl (ExecFailed (''failed to delete network policy: '' @ m)), w2)))"

text \<open>
  The wait for the pod: at most \<open>fuel\<close> rounds of the loop, \<open>None\<close> when they do not suffice. The
  loop reads the clock first, then the pod, and sleeps half a second while it is pending.
\<close>

fun await_running :: "'w kube \<Rightarrow> nat \<Rightarrow> nat \<Rightarrow> string \<Rightarrow> 'w \<Rightarrow> ((provider_error, sandbox_id) result \<times> 'w) option" where
  "await_running kb 0 deadline name w = None"
| "await_running kb (Suc fuel) deadline name w =
     (if deadline \<le> kb_instant kb w then Some (Inl (Timeout 60), snd (k8s_destroy kb name w))
      else case kb_get_pod kb name w of
        (Inl e, w1) \<Rightarrow>
          Some (Inl (CreateFailed (''failed to get pod status: '' @ kube_error_display e)),
                snd (k8s_destroy kb name w1))
      | (Inr p, w1) \<Rightarrow>
          (if pod_phase p = Some ''Running'' then Some (Inr name, w1)
           else if pod_phase p = Some ''Failed'' \<or> pod_phase p = Some ''Succeeded'' then
             Some (Inl (CreateFailed (''pod entered '' @ the (pod_phase p) @ '' phase'')),
                   snd (k8s_destroy kb name w1))
           else await_running kb fuel deadline name (kb_sleep kb 500 w1)))"

definition k8s_create ::
    "'w kube \<Rightarrow> nat \<Rightarrow> string \<Rightarrow> sandbox_config \<Rightarrow> 'w \<Rightarrow> ((provider_error, sandbox_id) result \<times> 'w) option" where
  "k8s_create kb fuel namespace c w =
     (case validate_config c k8s_capabilities of
        Inl e \<Rightarrow> Some (Inl e, w)
      | Inr _ \<Rightarrow>
     (case kb_uuid kb w of (uuid, w0) \<Rightarrow>
        let name = ''roche-'' @ uuid
        in case kb_create_pod kb (build_pod (kb_now_secs kb w0) name namespace c) w0 of
             (Some e, w1) \<Rightarrow> Some (Inl (CreateFailed (''failed to create pod: '' @ kube_error_display e)), w1)
           | (None, w1) \<Rightarrow>
               (let (failed, w2) =
                  (if \<not> sc_network c
                   then kb_create_policy kb (build_deny_all_network_policy name namespace) w1
                   else (None, w1))
                in case failed of
                     Some e \<Rightarrow>
                       Some (Inl (CreateFailed (''failed to create network policy: '' @ kube_error_display e)), w2)
                   | None \<Rightarrow> await_running kb fuel (kb_instant kb w2 + 60000) name w2)))"

definition safe_char :: "(string \<Rightarrow> bool) \<Rightarrow> string \<Rightarrow> bool" where
  "safe_char ua ch \<longleftrightarrow> is_alphanumeric ua ch \<or> ch \<in> {''_'', ''-'', ''/'', ''.''}"

fun replace_quotes :: "string \<Rightarrow> string" where
  "replace_quotes [] = []"
| "replace_quotes (c # s) =
     (if c = CHR 0x27 then [CHR 0x27, CHR 0x5C, CHR 0x27, CHR 0x27] else [c]) @ replace_quotes s"

definition shell_escape :: "(string \<Rightarrow> bool) \<Rightarrow> string \<Rightarrow> string" where
  "shell_escape ua s =
     (if list_all (safe_char ua) (utf8_chars s) then s
      else CHR 0x27 # replace_quotes s @ [CHR 0x27])"

definition exit_sentinel :: string where
  "exit_sentinel = ''ROCHE_EXIT:''"

definition parse_exit_sentinel :: "string \<Rightarrow> i32 \<times> string" where
  "parse_exit_sentinel stdout =
     (case str_rfind exit_sentinel stdout of
        Some pos \<Rightarrow>
          (case parse_i32 (trim (drop (pos + length exit_sentinel) stdout)) of
             Some code \<Rightarrow> (code, take pos stdout)
           | None \<Rightarrow> (-1, stdout))
      | None \<Rightarrow> (-1, stdout))"

definition wrapped_command :: "(string \<Rightarrow> bool) \<Rightarrow> string list \<Rightarrow> string" where
  "wrapped_command ua cmd =
     join '' '' (map (shell_escape ua) cmd) @ ''; echo '' @ [CHR 0x22] @ exit_sentinel @ ''$?'' @ [CHR 0x22]"

definition k8s_exec :: "(string \<Rightarrow> bool) \<Rightarrow> 'w kube \<Rightarrow> sandbox_id \<Rightarrow> exec_request \<Rightarrow> ('w, exec_output) io" where
  "k8s_exec ua kb i request w =
     (case kb_exec kb i [''sh'', ''-c'', wrapped_command ua (er_command request)] (er_timeout_secs request) w of
        (None, w1) \<Rightarrow> (Inl (Timeout (case er_timeout_secs request of Some t \<Rightarrow> t | None \<Rightarrow> 0)), w1)
      | (Some (Inl e), w1) \<Rightarrow>
          (case e of
             Api_Error c m \<Rightarrow>
               (if c = 404 then (Inl (NotFound i), w1)
                else (Inl (ExecFailed (''failed to exec in pod: '' @ m)), w1))
           | Other_Error m \<Rightarrow> (Inl (ExecFailed (''failed to exec in pod: '' @ m)), w1))
      | (Some (Inr a), w1) \<Rightarrow>
          (case at_stdout a of
             None \<Rightarrow> (Inl (ExecFailed ''no stdout stream''), w1)
           | Some out \<Rightarrow>
          (case at_stderr a of
             None \<Rightarrow> (Inl (ExecFailed ''no stderr stream''), w1)
           | Some err \<Rightarrow>
          (case out of
             Inl e \<Rightarrow> (Inl (ExecFailed (''stdout read error: '' @ e)), w1)
           | Inr out_bytes \<Rightarrow>
          (case err of
             Inl e \<Rightarrow> (Inl (ExecFailed (''stderr read error: '' @ e)), w1)
           | Inr err_bytes \<Rightarrow>
               (case parse_exit_sentinel (from_utf8_lossy out_bytes) of (code, clean) \<Rightarrow>
                  (Inr \<lparr>eo_exit_code = code, eo_stdout = clean, eo_stderr = from_utf8_lossy err_bytes,
                        eo_trace = None\<rparr>, w1)))))))"

definition pod_info :: "pod \<Rightarrow> sandbox_info" where
  "pod_info p =
     \<lparr>si_id = (case pod_name p of Some n \<Rightarrow> n | None \<Rightarrow> []),
      si_status = pod_phase_to_status (pod_phase p),
      si_provider = ''k8s'',
      si_image = (case hm_get (pod_labels p) ''roche.image'' of Some x \<Rightarrow> x | None \<Rightarrow> []),
      si_expires_at = (case hm_get (pod_annotations p) ''roche.expires'' of
         Some v \<Rightarrow> parse_u64 v | None \<Rightarrow> None)\<rparr>"

definition k8s_list :: "'w kube \<Rightarrow> ('w, sandbox_info list) io" where
  "k8s_list kb w =
     (case kb_list_pods kb w of
        (Inl e, w1) \<Rightarrow> (Inl (ExecFailed (''failed to list pods: '' @ kube_error_display e)), w1)
      | (Inr ps, w1) \<Rightarrow> (Inr (map pod_info ps), w1))"

definition k8s_pause :: "sandbox_id \<Rightarrow> ('w, unit) io" where
  "k8s_pause i w = (Inl (Unsupported ''K8s does not support Pod pause''), w)"

definition k8s_unpause :: "sandbox_id \<Rightarrow> ('w, unit) io" where
  "k8s_unpause i w = (Inl (Unsupported ''K8s does not support Pod unpause''), w)"

fun gc_pods :: "'w kube \<Rightarrow> u64 \<Rightarrow> pod list \<Rightarrow> 'w \<Rightarrow> sandbox_id list \<times> 'w" where
  "gc_pods kb now [] w = ([], w)"
| "gc_pods kb now (p # ps) w =
     (case pod_name p of
        None \<Rightarrow> gc_pods kb now ps w
      | Some name \<Rightarrow>
          (case Option.bind (hm_get (pod_annotations p) ''roche.expires'') parse_u64 of
             None \<Rightarrow> gc_pods kb now ps w
           | Some expires \<Rightarrow>
               (if expires \<le> now then
                  (case k8s_destroy kb name w of
                     (Inl _, w1) \<Rightarrow> gc_pods kb now ps w1
                   | (Inr _, w1) \<Rightarrow> apfst ((#) name) (gc_pods kb now ps w1))
                else gc_pods kb now ps w)))"

definition k8s_gc :: "'w kube \<Rightarrow> ('w, sandbox_id list) io" where
  "k8s_gc kb w =
     (case kb_list_pods kb w of
        (Inl e, w1) \<Rightarrow> (Inl (ExecFailed (''Failed to list Pods: '' @ kube_error_display e)), w1)
      | (Inr ps, w1) \<Rightarrow> (case gc_pods kb (kb_now_secs kb w1) ps w1 of (ids, w2) \<Rightarrow> (Inr ids, w2)))"

subsection \<open>The exit code in the output\<close>

lemma str_rfind_append_last:
  assumes "p \<noteq> []" "\<And>k. 0 < k \<Longrightarrow> k < length (p @ t) \<Longrightarrow> \<not> starts_with p (drop k (p @ t))"
  shows "str_rfind p (s @ p @ t) = Some (length s)"
proof -
  have "starts_with p (drop (length s) (s @ p @ t))" "length s < length (s @ p @ t)"
    using assms(1) by simp_all
  then obtain i where i: "str_rfind p (s @ p @ t) = Some i"
    using str_rfind_exists by blast
  have "i \<le> length (s @ p @ t)" "starts_with p (drop i (s @ p @ t))"
    using str_rfind_Some[OF i] by blast+
  moreover have "\<not> length s < i"
  proof
    assume less: "length s < i"
    then have "starts_with p (drop (i - length s) (p @ t))"
      using \<open>starts_with p (drop i (s @ p @ t))\<close> by simp
    moreover have "i - length s < length (p @ t)"
    proof (rule ccontr)
      assume "\<not> i - length s < length (p @ t)"
      then have "drop (i - length s) (p @ t) = []" by simp
      with \<open>starts_with p (drop (i - length s) (p @ t))\<close> show False
        using assms(1) by (simp add: starts_with_def)
    qed
    ultimately show False
      using assms(2)[of "i - length s"] less by simp
  qed
  moreover have "\<not> i < length s"
    using str_rfind_last[OF i, of "length s"] assms(1) by auto
  ultimately show ?thesis using i by simp
qed

lemma starts_with_R: "starts_with exit_sentinel t \<Longrightarrow> t \<noteq> [] \<and> hd t = CHR ''R''"
  by (auto simp: starts_with_iff exit_sentinel_def)

lemma show_i32_no_R: "CHR ''R'' \<notin> set (show_i32 i)"
proof -
  have "\<not> ascii_digit (CHR ''R'')" by (simp add: ascii_digit_def)
  then show ?thesis
    using not_in_show_nat[of "CHR ''R''"] by (simp add: show_i32_def)
qed

lemma sentinel_once:
  assumes "CHR ''R'' \<notin> set t" "0 < k" "k < length (exit_sentinel @ t)"
  shows "\<not> starts_with exit_sentinel (drop k (exit_sentinel @ t))"
proof
  assume "starts_with exit_sentinel (drop k (exit_sentinel @ t))"
  then have "hd (drop k (exit_sentinel @ t)) = CHR ''R''"
    using starts_with_R by blast
  then have "(exit_sentinel @ t) ! k = CHR ''R''"
    by (metis assms(3) hd_drop_conv_nth)
  moreover have "CHR ''R'' \<notin> set (tl exit_sentinel @ t)"
    using assms(1) by (simp add: exit_sentinel_def)
  moreover have "(exit_sentinel @ t) ! k = (tl exit_sentinel @ t) ! (k - 1)" "k - 1 < length (tl exit_sentinel @ t)"
    using assms(2,3) by (auto simp: exit_sentinel_def nth_Cons')
  ultimately show False
    by (metis nth_mem)
qed

lemma trim_show_i32: "trim (show_i32 i @ [CHR 0x0A]) = show_i32 i"
proof -
  have ascii: "list_all is_ascii (show_i32 i @ [CHR 0x0A])"
    using show_nat_ascii by (simp add: show_i32_def is_ascii_def)
  have chars: "\<not> is_ws [c]" if "c \<in> set (show_i32 i)" for c
  proof -
    have "ascii_digit c \<or> c = CHR ''-''"
      using that show_nat_digits by (auto simp: show_i32_def list_all_iff split: if_splits)
    then show ?thesis
      by (auto simp: is_ws_def white_space_def ascii_digit_def)
  qed
  have ne: "show_i32 i \<noteq> []" by (simp add: show_i32_def)
  have nl: "is_ws [CHR 0x0A]" by (simp add: is_ws_def white_space_def)
  let ?cs = "map (\<lambda>c. [c]) (show_i32 i)"
  have blocks: "utf8_chars (show_i32 i @ [CHR 0x0A]) = ?cs @ [[CHR 0x0A]]"
    using utf8_chars_ascii[OF ascii] by simp
  have "dropWhile is_ws (?cs @ [[CHR 0x0A]]) = ?cs @ [[CHR 0x0A]]"
    using ne chars by (cases "show_i32 i") auto
  then have start: "trim_start (show_i32 i @ [CHR 0x0A]) = show_i32 i @ [CHR 0x0A]"
    unfolding trim_start_def blocks by (simp add: concat_map_singleton)
  have "dropWhile is_ws (rev (?cs @ [[CHR 0x0A]])) = rev ?cs"
    using ne chars nl by (cases "rev (show_i32 i)") (auto simp: rev_map)
  then show ?thesis
    unfolding trim_def start trim_end_def blocks by (simp add: concat_map_singleton)
qed

text \<open>
  (C22) Round trip of the exit code: whatever a command prints, also text with the sentinel in
  it, the output followed by the line the wrapper echoes is taken apart into exactly that output
  and the exit code.
\<close>

theorem exit_sentinel_roundtrip:
  assumes "- (2 ^ 31) \<le> code" "code < 2 ^ 31"
  shows "parse_exit_sentinel (out @ exit_sentinel @ show_i32 code @ [CHR 0x0A]) = (code, out)"
proof -
  have "CHR ''R'' \<notin> set (show_i32 code @ [CHR 0x0A])"
    using show_i32_no_R by simp
  then have "str_rfind exit_sentinel (out @ exit_sentinel @ show_i32 code @ [CHR 0x0A]) = Some (length out)"
    by (intro str_rfind_append_last sentinel_once) (simp_all add: exit_sentinel_def)
  then show ?thesis
    using parse_i32_show_i32[OF assms] by (simp add: parse_exit_sentinel_def trim_show_i32)
qed

theorem exit_sentinel_roundtrip_witness:
  "parse_exit_sentinel (''ROCHE_EXIT:9'' @ exit_sentinel @ show_i32 (-3) @ [CHR 0x0A]) = (-3, ''ROCHE_EXIT:9'')"
  by (rule exit_sentinel_roundtrip) simp_all

subsection \<open>The wait ends\<close>

text \<open>The clock is monotonic, and a sleep lasts at least as long as asked.\<close>

definition clock_ok :: "'w kube \<Rightarrow> bool" where
  "clock_ok kb \<longleftrightarrow> (\<forall>t w. kb_instant kb w + t \<le> kb_instant kb (kb_sleep kb t w))
     \<and> (\<forall>n w. kb_instant kb w \<le> kb_instant kb (snd (kb_get_pod kb n w)))"

lemma await_running_returns:
  "clock_ok kb \<Longrightarrow> deadline \<le> kb_instant kb w + 500 * n \<Longrightarrow> n < fuel \<Longrightarrow>
    \<exists>r. await_running kb fuel deadline name w = Some r"
proof (induction fuel arbitrary: w n)
  case (Suc fuel)
  show ?case
  proof (cases "deadline \<le> kb_instant kb w")
    case False
    then obtain m where m: "n = Suc m" using Suc.prems(2) by (cases n) auto
    have "kb_instant kb w \<le> kb_instant kb (snd (kb_get_pod kb name w))"
      "kb_instant kb (snd (kb_get_pod kb name w)) + 500
        \<le> kb_instant kb (kb_sleep kb 500 (snd (kb_get_pod kb name w)))"
      using Suc.prems(1) by (auto simp: clock_ok_def)
    then have "deadline \<le> kb_instant kb (kb_sleep kb 500 (snd (kb_get_pod kb name w))) + 500 * m"
      using Suc.prems(2) m by simp
    then show ?thesis
      using Suc.IH[OF Suc.prems(1), of _ m] Suc.prems(3) m False
      by (auto split: prod.split sum.split)
  qed simp
qed simp

text \<open>
  (C35) Creation returns: with a monotonic clock, 121 rounds of the wait are enough, whatever
  the API answers, since each pending round lasts half a second and the deadline is a minute.
\<close>

theorem k8s_create_returns:
  assumes "clock_ok kb"
  shows "\<exists>r. k8s_create kb 121 namespace c w = Some r"
proof -
  have "\<exists>r. await_running kb 121 (kb_instant kb w2 + 60000) name w2 = Some r" for name w2
    by (rule await_running_returns[OF assms, of _ _ 120]) simp_all
  then show ?thesis
    by (simp add: k8s_create_def Let_def split: sum.split prod.split option.split)
qed

text \<open>An API whose pods stay pending, on a clock of milliseconds.\<close>

definition pending_kube :: "nat kube" where
  "pending_kube =
     \<lparr>kb_create_pod = (\<lambda>_ w. (None, w)), kb_create_policy = (\<lambda>_ w. (None, w)),
      kb_get_pod = (\<lambda>n w. (Inr (build_pod 0 n [] sandbox_config_default), w)),
      kb_delete_pod = (\<lambda>_ w. (None, w)), kb_delete_policy = (\<lambda>_ w. (None, w)),
      kb_list_pods = (\<lambda>w. (Inr [], w)), kb_exec = (\<lambda>_ _ _ w. (None, w)),
      kb_sleep = (\<lambda>t w. w + t), kb_instant = (\<lambda>w. w), kb_now_secs = (\<lambda>_. 0), kb_uuid = (\<lambda>w. (''u'', w))\<rparr>"

theorem k8s_create_returns_witness:
  "\<exists>r. k8s_create pending_kube 121 default_namespace sandbox_config_default 0 = Some r"
  by (rule k8s_create_returns) (simp add: clock_ok_def pending_kube_def)

subsection \<open>The quoting of the command\<close>

text \<open>
  How the POSIX shell cuts a simple command into words: blanks separate, everything between
  single quotes stands for itself, a backslash takes the next character literally. \<open>None\<close> where
  an unquoted character has another meaning, or a quote is not closed.
\<close>

datatype sh_mode = Sh_Blank | Sh_Word | Sh_Quoted

definition sh_plain :: "char \<Rightarrow> bool" where
  "sh_plain c \<longleftrightarrow> ascii_alnum c \<or> c \<in> {CHR ''_'', CHR ''-'', CHR ''/'', CHR ''.''} \<or> \<not> is_ascii c"

fun sh_lex :: "sh_mode \<Rightarrow> string \<Rightarrow> string \<Rightarrow> string list option" where
  "sh_lex Sh_Blank acc [] = Some []"
| "sh_lex Sh_Word acc [] = Some [acc]"
| "sh_lex Sh_Quoted acc [] = None"
| "sh_lex Sh_Quoted acc (c # s) = (if c = CHR 0x27 then sh_lex Sh_Word acc s else sh_lex Sh_Quoted (acc @ [c]) s)"
| "sh_lex Sh_Word acc (c # s) =
     (if c = CHR '' '' then map_option ((#) acc) (sh_lex Sh_Blank [] s)
      else if c = CHR 0x27 then sh_lex Sh_Quoted acc s
      else if c = CHR 0x5C then (case s of [] \<Rightarrow> None | d # s' \<Rightarrow> sh_lex Sh_Word (acc @ [d]) s')
      else if sh_plain c then sh_lex Sh_Word (acc @ [c]) s else None)"
| "sh_lex Sh_Blank acc (c # s) =
     (if c = CHR '' '' then sh_lex Sh_Blank [] s
      else if c = CHR 0x27 then sh_lex Sh_Quoted [] s
      else if c = CHR 0x5C then (case s of [] \<Rightarrow> None | d # s' \<Rightarrow> sh_lex Sh_Word [d] s')
      else if sh_plain c then sh_lex Sh_Word [c] s else None)"

definition sh_words :: "string \<Rightarrow> string list option" where
  "sh_words s = sh_lex Sh_Blank [] s"

text \<open>Rust strings are UTF-8: a scalar value of several bytes does not start with an ASCII byte.\<close>

definition blocks_ok :: "string \<Rightarrow> bool" where
  "blocks_ok s \<longleftrightarrow> list_all (\<lambda>ch. length ch = 1 \<or> list_all (\<lambda>c. \<not> is_ascii c) ch) (utf8_chars s)"

lemma sh_plain_not_special:
  "sh_plain c \<Longrightarrow> c \<noteq> CHR '' '' \<and> c \<noteq> CHR 0x27 \<and> c \<noteq> CHR 0x5C"
  by (auto simp: sh_plain_def ascii_alnum_def ascii_digit_def is_ascii_def)

lemma sh_lex_plain:
  "list_all sh_plain s \<Longrightarrow> sh_lex Sh_Word acc (s @ t) = sh_lex Sh_Word (acc @ s) t"
proof (induction s arbitrary: acc)
  case (Cons c s)
  then show ?case using sh_plain_not_special[of c] by simp
qed simp

lemma sh_lex_plain_blank:
  "list_all sh_plain s \<Longrightarrow> s \<noteq> [] \<Longrightarrow> sh_lex Sh_Blank [] (s @ t) = sh_lex Sh_Word s t"
proof (cases s)
  case (Cons c s')
  assume "list_all sh_plain s"
  then show ?thesis using Cons sh_plain_not_special[of c] sh_lex_plain[of s' "[c]" t] by simp
qed simp

lemma sh_lex_quoted:
  "sh_lex Sh_Quoted acc (replace_quotes s @ CHR 0x27 # t) = sh_lex Sh_Word (acc @ s) t"
  by (induction s arbitrary: acc) auto

lemma safe_block_plain:
  "safe_char ua ch \<Longrightarrow> length ch = 1 \<or> list_all (\<lambda>c. \<not> is_ascii c) ch \<Longrightarrow> list_all sh_plain ch"
  by (cases ch) (auto simp: safe_char_def is_alphanumeric_def sh_plain_def list_all_iff)

lemma safe_plain:
  assumes "blocks_ok s" "list_all (safe_char ua) (utf8_chars s)"
  shows "list_all sh_plain s"
proof -
  have "list_all sh_plain ch" if "ch \<in> set (utf8_chars s)" for ch
  proof (rule safe_block_plain)
    show "safe_char ua ch" using assms(2) that by (simp add: list_all_iff)
    show "length ch = 1 \<or> list_all (\<lambda>c. \<not> is_ascii c) ch"
      using assms(1) that by (simp add: blocks_ok_def list_all_iff[of _ "utf8_chars s"])
  qed
  then have "list_all sh_plain (concat (utf8_chars s))"
    by (auto simp: list_all_iff simp del: concat_utf8_chars)
  then show ?thesis by simp
qed

lemma shell_escape_word:
  assumes "blocks_ok s" "s \<noteq> []"
  shows "sh_lex Sh_Blank [] (shell_escape ua s @ t) = sh_lex Sh_Word s t"
proof (cases "list_all (safe_char ua) (utf8_chars s)")
  case True
  then show ?thesis
    using assms safe_plain[OF assms(1) True] by (simp add: shell_escape_def sh_lex_plain_blank)
next
  case False
  then show ?thesis
    using sh_lex_quoted[of "[]" s t] by (simp add: shell_escape_def)
qed

lemma shell_escape_empty: "shell_escape ua [] = []"
  by (simp add: shell_escape_def)

text \<open>
  (C21) The command line \<open>exec\<close> builds is read by the shell as the words of the request, special
  characters and all, except that empty words are lost: the empty string counts as safe and is
  written without quotes.
\<close>

theorem shell_escape_words:
  assumes "list_all blocks_ok cmd"
  shows "sh_words (join '' '' (map (shell_escape ua) cmd)) = Some (filter (\<lambda>a. a \<noteq> []) cmd)"
  unfolding sh_words_def using assms
proof (induction cmd rule: induct_list012)
  case (2 a)
  then show ?case
    using shell_escape_word[of a ua "[]"] by (cases "a = []") (simp_all add: shell_escape_empty)
next
  case (3 a b cmd)
  then have IH: "sh_lex Sh_Blank [] (join '' '' (map (shell_escape ua) (b # cmd))) = Some (filter (\<lambda>a. a \<noteq> []) (b # cmd))"
    by simp
  show ?case
  proof (cases "a = []")
    case True
    then show ?thesis using IH by (simp add: shell_escape_empty)
  next
    case False
    then show ?thesis
      using 3(3) IH shell_escape_word[of a ua "'' '' @ join '' '' (map (shell_escape ua) (b # cmd))"]
      by simp
  qed
qed simp

theorem shell_escape_words_witness:
  "sh_words (join '' '' (map (shell_escape (\<lambda>_. False)) [''printf'', ''%s'', [], ''a b'' @ [CHR 0x27]]))
     = Some [''printf'', ''%s'', ''a b'' @ [CHR 0x27]]"
proof -
  have "list_all blocks_ok [''printf'', ''%s'', [], ''a b'' @ [CHR 0x27]]"
    by (simp add: blocks_ok_def is_cont_def)
  from shell_escape_words[OF this] show ?thesis by simp
qed

subsection \<open>Creation: what can go wrong\<close>

text \<open>
  The pod is created before its network policy. When the policy is refused, \<open>create\<close> returns the
  error at once: the pod keeps running, with the network it was not to have.
\<close>

lemma k8s_create_policy_refused:
  assumes "validate_config c k8s_capabilities = Inr ()" "\<not> sc_network c" "kb_uuid kb w = (uuid, w0)"
    and "kb_create_pod kb (build_pod (kb_now_secs kb w0) (''roche-'' @ uuid) namespace c) w0 = (None, w1)"
    and "kb_create_policy kb (build_deny_all_network_policy (''roche-'' @ uuid) namespace) w1 = (Some e, w2)"
  shows "\<exists>m. k8s_create kb fuel namespace c w = Some (Inl (CreateFailed m), w2)"
  using assms by (simp add: k8s_create_def)

text \<open>
  The syntax Kubernetes documents for a label value: at most 63 characters, letters, digits,
  dashes, underscores and dots, an alphanumeric one at both ends. The image label of the default
  configuration does not follow it, nor that of any image with a tag or a registry path.
\<close>

definition label_value_ok :: "string \<Rightarrow> bool" where
  "label_value_ok v \<longleftrightarrow> length v \<le> 63
     \<and> list_all (\<lambda>c. ascii_alnum c \<or> c \<in> {CHR ''-'', CHR ''_'', CHR ''.''}) v
     \<and> (v = [] \<or> ascii_alnum (hd v) \<and> ascii_alnum (last v))"

lemma label_value_no:
  "label_value_ok v \<Longrightarrow> CHR '':'' \<notin> set v \<and> CHR ''/'' \<notin> set v"
proof -
  have no: "\<not> ascii_alnum (CHR '':'')" "\<not> ascii_alnum (CHR ''/'')"
    by (simp_all add: ascii_alnum_def ascii_digit_def)
  show "label_value_ok v \<Longrightarrow> ?thesis"
    using no by (auto simp: label_value_ok_def list_all_iff)
qed

lemma image_label_bad:
  assumes "CHR '':'' \<in> set (sc_image c) \<or> CHR ''/'' \<in> set (sc_image c)"
  shows "\<not> list_all (\<lambda>(k, v). label_value_ok v) (pod_labels (build_pod now name namespace c))"
proof -
  have "\<not> label_value_ok (sc_image c)"
    using assms label_value_no by blast
  then show ?thesis by (simp add: build_pod_def)
qed

lemma default_image_label_bad:
  "\<not> list_all (\<lambda>(k, v). label_value_ok v) (pod_labels (build_pod now name namespace sandbox_config_default))"
  by (rule image_label_bad) (simp add: sandbox_config_default_def default_image_def)

end
