(* ===== verification/K8s_Files.thy ===== *)
theory K8s_Files
  imports K8s Rust_Path
begin

text \<open>
  The rest of \<open>provider/k8s.rs\<close>: the constructor, which makes sure of the namespace, and the
  copies of files to and from a pod, through \<open>tar\<close> run in the pod. The \<open>tar\<close> crate, the local
  files and the attached process are a record argument.
\<close>

subsection \<open>The constructor\<close>

record 'w kube_new =
  kn_connect :: "'w \<Rightarrow> (string, 'w kube) result \<times> 'w"
  kn_create_namespace :: "string \<Rightarrow> (string, string) hash_map \<Rightarrow> 'w \<Rightarrow> kube_error option \<times> 'w"

record 'w k8s_provider =
  kp_client :: "'w kube"
  kp_namespace :: string

definition k8s_new ::
    "'w kube_new \<Rightarrow> string option \<Rightarrow> string option \<Rightarrow> ('w, 'w k8s_provider) io" where
  "k8s_new kn env_namespace file_namespace w =
     (case kn_connect kn w of
        (Inl e, w1) \<Rightarrow> (Inl (Unavailable (''failed to create Kubernetes client: '' @ e)), w1)
      | (Inr client, w1) \<Rightarrow>
          (let namespace = resolve_namespace env_namespace file_namespace;
               made = Inr \<lparr>kp_client = client, kp_namespace = namespace\<rparr>;
               failed = (\<lambda>e. Inl (Unavailable (''failed to ensure namespace '' @ [CHR 0x27] @ namespace @ [CHR 0x27]
                 @ '': '' @ kube_error_display e)))
           in case kn_create_namespace kn namespace [(''roche.managed'', ''true'')] w1 of
                (None, w2) \<Rightarrow> (made, w2)
              | (Some (Api_Error c m), w2) \<Rightarrow> (if c = 409 then made else failed (Api_Error c m), w2)
              | (Some (Other_Error m), w2) \<Rightarrow> (failed (Other_Error m), w2)))"

subsection \<open>Copies\<close>

text \<open>
  An attached process: its standard input (a write, then its end), and what is read of its
  outputs, each there or not. A read error of the error output is ignored: what was read counts.
\<close>

record 'w pipes =
  pp_stdin :: "(string \<Rightarrow> 'w \<Rightarrow> (string, unit) result \<times> 'w) option"
  pp_shutdown :: "'w \<Rightarrow> (string, unit) result \<times> 'w"
  pp_stdout :: "('w \<Rightarrow> (string, string) result \<times> 'w) option"
  pp_stderr :: "('w \<Rightarrow> string \<times> 'w) option"

text \<open>
  Local files; an archive of one member, built in two steps; its members, of which the first is
  used, each readable or not with its contents; attaching a command with or without its input.
\<close>

record 'w kube_files =
  kf_read :: "string \<Rightarrow> 'w \<Rightarrow> (string, string) result \<times> 'w"
  kf_write :: "string \<Rightarrow> string \<Rightarrow> 'w \<Rightarrow> (string, unit) result \<times> 'w"
  kf_append :: "string \<Rightarrow> string \<Rightarrow> (string, string) result"
  kf_finish :: "string \<Rightarrow> (string, string) result"
  kf_entries :: "string \<Rightarrow> (string, (string, (string, string) result) result option) result"
  kf_attach :: "string \<Rightarrow> string list \<Rightarrow> bool \<Rightarrow> 'w \<Rightarrow> (kube_error, 'w pipes) result \<times> 'w"

definition parent_or_root :: "string \<Rightarrow> string" where
  "parent_or_root p = (case path_parent p of Some d \<Rightarrow> d | None \<Rightarrow> ''/'')"

definition extract_command :: "(string \<Rightarrow> bool) \<Rightarrow> string \<Rightarrow> string" where
  "extract_command ua parent = ''tar -xf - -C '' @ shell_escape ua parent"

definition archive_command :: "(string \<Rightarrow> bool) \<Rightarrow> string \<Rightarrow> string \<Rightarrow> string" where
  "archive_command ua parent name = ''tar -cf - -C '' @ shell_escape ua parent @ '' '' @ shell_escape ua name"

definition attach_tar :: "'w kube_files \<Rightarrow> sandbox_id \<Rightarrow> string \<Rightarrow> bool \<Rightarrow> ('w, 'w pipes) io" where
  "attach_tar kf i command with_stdin w =
     (case kf_attach kf i [''sh'', ''-c'', command] with_stdin w of
        (Inr p, w1) \<Rightarrow> (Inr p, w1)
      | (Inl e, w1) \<Rightarrow>
          (let failed = Inl (FileFailed (''failed to exec tar in pod: '' @ kube_error_display e))
           in (case e of Api_Error c m \<Rightarrow> (if c = 404 then Inl (NotFound i) else failed) | Other_Error m \<Rightarrow> failed, w1)))"

definition make_tar :: "'w kube_files \<Rightarrow> string \<Rightarrow> string \<Rightarrow> (provider_error, string) result" where
  "make_tar kf name data =
     (case kf_append kf name data of
        Inl e \<Rightarrow> Inl (FileFailed (''failed to create tar: '' @ e))
      | Inr t \<Rightarrow> map_err (\<lambda>e. FileFailed (''failed to finish tar: '' @ e)) (kf_finish kf t))"

text \<open>The archive goes to the standard input; anything on the error output is a failure.\<close>

definition send_tar :: "'w pipes \<Rightarrow> string \<Rightarrow> ('w, unit) io" where
  "send_tar p t w =
     (case pp_stdin p of
        None \<Rightarrow> (Inl (FileFailed ''no stdin stream''), w)
      | Some wr \<Rightarrow>
     (case wr t w of
        (Inl e, w1) \<Rightarrow> (Inl (FileFailed (''failed to write tar to stdin: '' @ e)), w1)
      | (Inr _, w1) \<Rightarrow>
     (case pp_shutdown p w1 of
        (Inl e, w2) \<Rightarrow> (Inl (FileFailed (''failed to close stdin: '' @ e)), w2)
      | (Inr _, w2) \<Rightarrow>
     (case pp_stderr p of
        None \<Rightarrow> (Inr (), w2)
      | Some rd \<Rightarrow>
          (case rd w2 of (bytes, w3) \<Rightarrow>
             let err = from_utf8_lossy bytes
             in if err \<noteq> [] then (Inl (FileFailed (''tar extraction failed: '' @ err)), w3) else (Inr (), w3))))))"

definition k8s_copy_to ::
    "(string \<Rightarrow> bool) \<Rightarrow> 'w kube_files \<Rightarrow> sandbox_id \<Rightarrow> string \<Rightarrow> string \<Rightarrow> ('w, unit) io" where
  "k8s_copy_to ua kf i src dest w =
     (case kf_read kf src w of
        (Inl e, w1) \<Rightarrow> (Inl (FileFailed (''failed to read local file '' @ src @ '': '' @ e)), w1)
      | (Inr data, w1) \<Rightarrow>
     (case path_file_name src of
        None \<Rightarrow> (Inl (FileFailed ''source path has no filename''), w1)
      | Some name \<Rightarrow>
     (case make_tar kf name data of
        Inl e \<Rightarrow> (Inl e, w1)
      | Inr t \<Rightarrow>
     (case attach_tar kf i (extract_command ua (parent_or_root dest)) True w1 of
        (Inl e, w2) \<Rightarrow> (Inl e, w2)
      | (Inr p, w2) \<Rightarrow> send_tar p t w2))))"

text \<open>The contents of the first member, written to the local path.\<close>

definition save_first :: "'w kube_files \<Rightarrow> string \<Rightarrow> string \<Rightarrow> ('w, unit) io" where
  "save_first kf t dest w =
     (case kf_entries kf t of
        Inl e \<Rightarrow> (Inl (FileFailed (''failed to read tar entries: '' @ e)), w)
      | Inr None \<Rightarrow>
          (Inl (FileFailed (''tar archive is empty '' @ [CHR 0xE2, CHR 0x80, CHR 0x94] @ '' file not found in sandbox'')), w)
      | Inr (Some (Inl e)) \<Rightarrow> (Inl (FileFailed (''failed to read tar entry: '' @ e)), w)
      | Inr (Some (Inr (Inl e))) \<Rightarrow> (Inl (FileFailed (''failed to read tar entry data: '' @ e)), w)
      | Inr (Some (Inr (Inr data))) \<Rightarrow>
          (case kf_write kf dest data w of
             (r, w1) \<Rightarrow> (map_err (\<lambda>e. FileFailed (''failed to write to '' @ dest @ '': '' @ e)) r, w1)))"

definition k8s_copy_from ::
    "(string \<Rightarrow> bool) \<Rightarrow> 'w kube_files \<Rightarrow> sandbox_id \<Rightarrow> string \<Rightarrow> string \<Rightarrow> ('w, unit) io" where
  "k8s_copy_from ua kf i src dest w =
     (case path_file_name src of
        None \<Rightarrow> (Inl (FileFailed ''source path has no filename''), w)
      | Some name \<Rightarrow>
     (case attach_tar kf i (archive_command ua (parent_or_root src) name) False w of
        (Inl e, w1) \<Rightarrow> (Inl e, w1)
      | (Inr p, w1) \<Rightarrow>
     (case pp_stdout p of
        None \<Rightarrow> (Inl (FileFailed ''no stdout stream''), w1)
      | Some rd \<Rightarrow>
          (case rd w1 of
             (Inl e, w2) \<Rightarrow> (Inl (FileFailed (''failed to read tar from stdout: '' @ e)), w2)
           | (Inr t, w2) \<Rightarrow> save_first kf t dest w2))))"

subsection \<open>What the pod is told\<close>

lemma sh_words_tar:
  assumes "opt = ''-xf'' \<or> opt = ''-cf''"
  shows "sh_words (''tar '' @ opt @ '' - -C '' @ rest) =
    map_option (\<lambda>ws. [''tar'', opt, ''-'', ''-C''] @ ws) (sh_lex Sh_Blank [] rest)"
  using assms
  by (auto simp: sh_words_def sh_plain_def ascii_alnum_def ascii_digit_def option.map_comp comp_def)

text \<open>
  (C37) What the pod's shell makes of the command of a copy: \<open>tar\<close> gets the directory and the name
  as single words, whatever characters they have. A name that begins with a dash is an option
  to it, and an empty directory (that of a path with one component) is not there at all.
\<close>

theorem tar_command_words:
  assumes "blocks_ok parent" and "blocks_ok name" and "name \<noteq> []"
  shows "sh_words (extract_command ua parent) = Some ([''tar'', ''-xf'', ''-'', ''-C''] @ (if parent = [] then [] else [parent]))
    \<and> sh_words (archive_command ua parent name)
      = Some ([''tar'', ''-cf'', ''-'', ''-C''] @ (if parent = [] then [] else [parent]) @ [name])"
proof -
  have one: "sh_lex Sh_Blank [] (shell_escape ua parent) = Some (if parent = [] then [] else [parent])"
    using shell_escape_word[OF assms(1), of ua "[]"] by (simp add: shell_escape_empty)
  have last: "sh_lex Sh_Blank [] (shell_escape ua name) = Some [name]"
    using shell_escape_word[OF assms(2,3), of ua "[]"] by simp
  have both: "sh_lex Sh_Blank [] (shell_escape ua parent @ CHR '' '' # shell_escape ua name)
      = Some ((if parent = [] then [] else [parent]) @ [name])"
    using shell_escape_word[OF assms(1), of ua "CHR '' '' # shell_escape ua name"] last
    by (cases "parent = []") (simp_all add: shell_escape_empty)
  have to_pod: "extract_command ua parent = ''tar '' @ ''-xf'' @ '' - -C '' @ shell_escape ua parent"
    by (simp add: extract_command_def)
  have from_pod: "archive_command ua parent name
      = ''tar '' @ ''-cf'' @ '' - -C '' @ shell_escape ua parent @ CHR '' '' # shell_escape ua name"
    by (simp add: archive_command_def)
  show ?thesis
    unfolding to_pod from_pod
    using sh_words_tar[of "''-xf''" "shell_escape ua parent"]
      sh_words_tar[of "''-cf''" "shell_escape ua parent @ CHR '' '' # shell_escape ua name"] one both
    by simp
qed

theorem tar_command_words_witness:
  "sh_words (archive_command (\<lambda>_. False) (parent_or_root ''/my dir/--x'') ''--x'')
     = Some [''tar'', ''-cf'', ''-'', ''-C'', ''/my dir'', ''--x'']
   \<and> sh_words (extract_command (\<lambda>_. False) (parent_or_root ''x'')) = Some [''tar'', ''-xf'', ''-'', ''-C'']"
proof -
  have "parent_or_root ''/my dir/--x'' = ''/my dir''" "parent_or_root ''x'' = []"
    by code_simp+
  moreover have "blocks_ok ''/my dir''" "blocks_ok ''--x''" "blocks_ok []"
    by (simp_all add: blocks_ok_def is_cont_def)
  ultimately show ?thesis
    using tar_command_words[of "''/my dir''" "''--x''" "\<lambda>_. False"] tar_command_words[of "[]" "''--x''" "\<lambda>_. False"]
    by simp
qed

text \<open>
  A copy to a pod writes the file under the name it has on the host: of the destination only
  the directory counts, so that two destinations in one directory are the same file.
\<close>

theorem k8s_copy_to_ignores_name:
  assumes "path_parent dest = path_parent dest'"
  shows "k8s_copy_to ua kf i src dest w = k8s_copy_to ua kf i src dest' w"
proof -
  have "parent_or_root dest = parent_or_root dest'"
    using assms by (simp add: parent_or_root_def)
  then show ?thesis
    by (simp only: k8s_copy_to_def)
qed

theorem k8s_copy_to_ignores_name_witness:
  "\<forall>ua (kf :: nat kube_files) i w.
     k8s_copy_to ua kf i ''/h/x'' ''/app/a.txt'' w = k8s_copy_to ua kf i ''/h/x'' ''/app/b.txt'' w"
proof (intro allI)
  have same: "path_parent ''/app/a.txt'' = path_parent ''/app/b.txt''"
    by code_simp
  show "k8s_copy_to ua kf i ''/h/x'' ''/app/a.txt'' w = k8s_copy_to ua kf i ''/h/x'' ''/app/b.txt'' w"
    for ua and kf :: "nat kube_files" and i w
    by (rule k8s_copy_to_ignores_name[OF same])
qed

end
