(* ===== verification/E2b.thy ===== *)
theory E2b
  imports Provider Rust_Text Rust_Path
begin

text \<open>
  The E2B provider, \<open>provider/e2b.rs\<close>: the requests to the control API and to the agent inside
  a sandbox, the cache of access tokens, the framed stream of process events and the look-up of
  the API key. HTTP, JSON, base64 and the local files are libraries and services: a parameter
  record \<open>e2b_env\<close> of the provider. The world of the provider is its cache and what lies behind
  the environment.
\<close>

subsection \<open>Data\<close>

record e2b_meta =
  em_envd_access_token :: string
  em_domain :: string
  em_template_id :: string

record e2b_provider =
  ep_api_key :: string
  ep_api_base :: string
  ep_domain :: string

type_synonym e2b_cache = "(string, e2b_meta) hash_map"

record new_sandbox =
  ns_template_id :: string
  ns_timeout :: "u64 option"
  ns_allow_internet_access :: "bool option"
  ns_env_vars :: "(string, string) hash_map option"
  ns_metadata :: "(string, string) hash_map option"

record sandbox_response =
  sr_sandbox_id :: string
  sr_template_id :: string
  sr_envd_access_token :: string
  sr_domain :: string

record listed_sandbox =
  ls_sandbox_id :: string
  ls_template_id :: string

record start_request =
  st_cmd :: string
  st_args :: "string list"
  st_envs :: "(string, string) hash_map"
  st_stdin :: "bool option"

record data_event =
  de_stdout :: "string option"
  de_stderr :: "string option"

record process_event =
  pe_data :: "data_event option"
  pe_end :: "i32 option"

text \<open>Requests and responses; the body of a request before it is serialised.\<close>

datatype http_method = Http_Get | Http_Post | Http_Delete

datatype http_body =
    Body_None
  | Body_New new_sandbox
  | Body_Start start_request
  | Body_Text string
  | Body_File string string

record http_request =
  hq_method :: http_method
  hq_url :: string
  hq_headers :: "(string \<times> string) list"
  hq_query :: "(string \<times> string) list"
  hq_body :: http_body

record http_response =
  hr_code :: nat
  hr_status :: string
  hr_body :: string

definition is_success :: "http_response \<Rightarrow> bool" where
  "is_success r \<longleftrightarrow> 200 \<le> hr_code r \<and> hr_code r < 300"

text \<open>
  The environment: sending a request (with a limit on the time until the response begins; \<open>None\<close>
  is its end), the text of a body, reading it, its parsing as JSON, base64, local files.
\<close>

record 'w e2b_env =
  ee_send :: "http_request \<Rightarrow> 'w \<Rightarrow> (string, http_response) result \<times> 'w"
  ee_send_timeout :: "u64 \<Rightarrow> http_request \<Rightarrow> 'w \<Rightarrow> (string, http_response) result option \<times> 'w"
  ee_text :: "http_response \<Rightarrow> string"
  ee_bytes :: "http_response \<Rightarrow> (string, string) result"
  ee_sandbox :: "http_response \<Rightarrow> (string, sandbox_response) result"
  ee_listed :: "http_response \<Rightarrow> (string, listed_sandbox list) result"
  ee_error_message :: "string \<Rightarrow> string option"
  ee_event :: "string \<Rightarrow> (string, process_event) result"
  ee_trailer_error :: "string \<Rightarrow> string option"
  ee_b64_encode :: "string \<Rightarrow> string"
  ee_b64_decode :: "string \<Rightarrow> string option"
  ee_read_file :: "string \<Rightarrow> 'w \<Rightarrow> (string, string) result \<times> 'w"
  ee_write_file :: "string \<Rightarrow> string \<Rightarrow> 'w \<Rightarrow> (string, unit) result \<times> 'w"

type_synonym ('w, 'a) e2b_io = "(e2b_cache \<times> 'w, 'a) io"

subsection \<open>The provider's settings\<close>

definition default_api_base :: string where
  "default_api_base = ''https://api.e2b.app''"

definition default_domain :: string where
  "default_domain = ''e2b.app''"

definition envd_port :: nat where
  "envd_port = 49983"

text \<open>A line of the configuration file that sets the key.\<close>

definition api_key_line :: "string \<Rightarrow> string option" where
  "api_key_line l =
     (case strip_prefix ''api_key'' (trim l) of
        None \<Rightarrow> None
      | Some rest \<Rightarrow>
          (case strip_prefix ''='' (trim rest) of
             None \<Rightarrow> None
           | Some rest \<Rightarrow>
               (let value = trim_matches (CHR 0x27) (trim_matches (CHR 0x22) (trim rest))
                in if value \<noteq> [] then Some value else None)))"

fun api_key_of_lines :: "string list \<Rightarrow> string option" where
  "api_key_of_lines [] = None"
| "api_key_of_lines (l # ls) = (case api_key_line l of Some v \<Rightarrow> Some v | None \<Rightarrow> api_key_of_lines ls)"

text \<open>
  \<open>env_key\<close> is the environment variable; \<open>config\<close> is \<open>None\<close> without a home directory or a file,
  else what reading the file gives.
\<close>

definition resolve_api_key :: "string option \<Rightarrow> (string, string) result option \<Rightarrow> (provider_error, string) result" where
  "resolve_api_key env_key config =
     (let missing = Inl (Unavailable
            ''E2B API key not found. Set E2B_API_KEY env var or add api_key to ~/.roche/e2b.toml'');
          from_file = (case config of
              None \<Rightarrow> missing
            | Some (Inl e) \<Rightarrow> Inl (Unavailable (''failed to read e2b.toml: '' @ e))
            | Some (Inr content) \<Rightarrow>
                (case api_key_of_lines (str_lines content) of Some v \<Rightarrow> Inr v | None \<Rightarrow> missing))
      in case env_key of
           Some key \<Rightarrow> (if key \<noteq> [] then Inr key else from_file)
         | None \<Rightarrow> from_file)"

definition e2b_new ::
    "string option \<Rightarrow> (string, string) result option \<Rightarrow> string option \<Rightarrow> string option
     \<Rightarrow> (provider_error, e2b_provider \<times> e2b_cache) result" where
  "e2b_new env_key config env_url env_domain =
     (case resolve_api_key env_key config of
        Inl e \<Rightarrow> Inl e
      | Inr key \<Rightarrow>
          Inr (\<lparr>ep_api_key = key,
                ep_api_base = (case env_url of Some u \<Rightarrow> u | None \<Rightarrow> default_api_base),
                ep_domain = (case env_domain of Some d \<Rightarrow> d | None \<Rightarrow> default_domain)\<rparr>, []))"

definition envd_url :: "string \<Rightarrow> string \<Rightarrow> string" where
  "envd_url sandbox_id domain = ''https://'' @ show_nat envd_port @ ''-'' @ sandbox_id @ ''.'' @ domain"

definition envd_auth :: "'w e2b_env \<Rightarrow> string \<Rightarrow> string" where
  "envd_auth env access_token = ''Basic '' @ ee_b64_encode env (access_token @ '':'')"

definition api_headers :: "e2b_provider \<Rightarrow> (string \<times> string) list" where
  "api_headers ep = [(''X-API-Key'', ep_api_key ep)]"

definition e2b_request :: "e2b_provider \<Rightarrow> http_method \<Rightarrow> string \<Rightarrow> http_body \<Rightarrow> http_request" where
  "e2b_request ep m path b =
     \<lparr>hq_method = m, hq_url = ep_api_base ep @ path, hq_headers = api_headers ep, hq_query = [], hq_body = b\<rparr>"

text \<open>\<open>{what} ({status}): {body}\<close>\<close>

definition http_error :: "string \<Rightarrow> http_response \<Rightarrow> string \<Rightarrow> string" where
  "http_error what r body = what @ '' ('' @ hr_status r @ ''): '' @ body"

definition meta_of :: "e2b_provider \<Rightarrow> sandbox_response \<Rightarrow> e2b_meta" where
  "meta_of ep sb =
     \<lparr>em_envd_access_token = sr_envd_access_token sb,
      em_domain = (if sr_domain sb = [] then ep_domain ep else sr_domain sb),
      em_template_id = sr_template_id sb\<rparr>"

subsection \<open>The stream of process events\<close>

record stream_acc =
  sa_stdout :: string
  sa_stderr :: string
  sa_exit_code :: "i32 option"

definition stream_start :: stream_acc where
  "stream_start = \<lparr>sa_stdout = [], sa_stderr = [], sa_exit_code = None\<rparr>"

definition decoded_text :: "'w e2b_env \<Rightarrow> string option \<Rightarrow> string" where
  "decoded_text env chunk =
     (case chunk of
        None \<Rightarrow> []
      | Some t \<Rightarrow> (case ee_b64_decode env t of Some bytes \<Rightarrow> from_utf8_lossy bytes | None \<Rightarrow> []))"

definition apply_event :: "'w e2b_env \<Rightarrow> process_event \<Rightarrow> stream_acc \<Rightarrow> stream_acc" where
  "apply_event env ev acc =
     (let acc = (case pe_data ev of
            None \<Rightarrow> acc
          | Some d \<Rightarrow> acc\<lparr>sa_stdout := sa_stdout acc @ decoded_text env (de_stdout d),
                         sa_stderr := sa_stderr acc @ decoded_text env (de_stderr d)\<rparr>)
      in case pe_end ev of None \<Rightarrow> acc | Some code \<Rightarrow> acc\<lparr>sa_exit_code := Some code\<rparr>)"

definition end_flag :: "char \<Rightarrow> bool" where
  "end_flag c \<longleftrightarrow> odd ((of_char c :: nat) div 2)"

function stream_loop :: "'w e2b_env \<Rightarrow> string \<Rightarrow> stream_acc \<Rightarrow> (provider_error, stream_acc) result" where
  "stream_loop env data acc =
     (if length data < 5 then Inr acc
      else
        let len = from_be (take 4 (drop 1 data)); rest = drop 5 data
        in if length rest < len then Inr acc
           else if end_flag (data ! 0) then
             (case ee_trailer_error env (take len rest) of
                Some msg \<Rightarrow> Inl (ExecFailed (''envd stream error: '' @ msg))
              | None \<Rightarrow> stream_loop env (drop len rest) acc)
           else
             (case ee_event env (take len rest) of
                Inl e \<Rightarrow> Inl (ExecFailed (''failed to parse process event: '' @ e))
              | Inr ev \<Rightarrow> stream_loop env (drop len rest) (apply_event env ev acc)))"
  by pat_completeness auto
termination
  by (relation "measure (\<lambda>(env, data, acc). length data)") auto

declare stream_loop.simps [simp del]

definition parse_process_stream :: "'w e2b_env \<Rightarrow> string \<Rightarrow> (provider_error, exec_output) result" where
  "parse_process_stream env data =
     (case stream_loop env data stream_start of
        Inl e \<Rightarrow> Inl e
      | Inr acc \<Rightarrow>
          Inr \<lparr>eo_exit_code = (case sa_exit_code acc of Some code \<Rightarrow> code | None \<Rightarrow> -1),
               eo_stdout = sa_stdout acc, eo_stderr = sa_stderr acc, eo_trace = None\<rparr>)"

subsection \<open>Operations\<close>

definition get_meta :: "'w e2b_env \<Rightarrow> e2b_provider \<Rightarrow> string \<Rightarrow> ('w, string \<times> string) e2b_io" where
  "get_meta env ep i w0 =
     (case w0 of (cache, w) \<Rightarrow>
        case hm_get cache i of
          Some m \<Rightarrow> (Inr (em_envd_access_token m, em_domain m), (cache, w))
        | None \<Rightarrow>
            (case ee_send env (e2b_request ep Http_Get (''/sandboxes/'' @ i) Body_None) w of
               (Inl e, w1) \<Rightarrow> (Inl (ExecFailed (''E2B API request failed: '' @ e)), (cache, w1))
             | (Inr r, w1) \<Rightarrow>
                 (if hr_code r = 404 then (Inl (NotFound i), (cache, w1))
                  else if \<not> is_success r
                    then (Inl (ExecFailed (http_error ''E2B API error'' r (ee_text env r))), (cache, w1))
                  else case ee_sandbox env r of
                    Inl e \<Rightarrow> (Inl (ExecFailed (''failed to parse response: '' @ e)), (cache, w1))
                  | Inr sb \<Rightarrow>
                      (Inr (sr_envd_access_token sb, em_domain (meta_of ep sb)),
                       (hm_insert i (meta_of ep sb) cache, w1)))))"

text \<open>A single word is a shell command; otherwise the words are the command and its arguments.\<close>

definition start_of :: "string list \<Rightarrow> start_request" where
  "start_of command =
     (if length command = 1
      then \<lparr>st_cmd = ''/bin/bash'', st_args = [''-c'', command ! 0], st_envs = [], st_stdin = Some False\<rparr>
      else \<lparr>st_cmd = command ! 0, st_args = drop 1 command, st_envs = [], st_stdin = Some False\<rparr>)"

definition start_http :: "'w e2b_env \<Rightarrow> string \<Rightarrow> string \<Rightarrow> string \<Rightarrow> string list \<Rightarrow> http_request" where
  "start_http env i token domain command =
     \<lparr>hq_method = Http_Post, hq_url = envd_url i domain @ ''/process.Process/Start'',
      hq_headers = [(''Content-Type'', ''application/connect+json''), (''Connect-Protocol-Version'', ''1''),
        (''Authorization'', envd_auth env token)],
      hq_query = [], hq_body = Body_Start (start_of command)\<rparr>"

definition envd_exec ::
    "'w e2b_env \<Rightarrow> string \<Rightarrow> string \<Rightarrow> string \<Rightarrow> exec_request \<Rightarrow> ('w, exec_output) io" where
  "envd_exec env i token domain request w =
     (if er_command request = [] then (Inl (ExecFailed ''empty command''), w)
      else
        let timeout_secs = (case er_timeout_secs request of Some t \<Rightarrow> t | None \<Rightarrow> 300)
        in case ee_send_timeout env timeout_secs (start_http env i token domain (er_command request)) w of
             (None, w1) \<Rightarrow> (Inl (Timeout timeout_secs), w1)
           | (Some (Inl e), w1) \<Rightarrow> (Inl (ExecFailed (''envd request failed: '' @ e)), w1)
           | (Some (Inr r), w1) \<Rightarrow>
               (if \<not> is_success r then (Inl (ExecFailed (http_error ''envd error'' r (ee_text env r))), w1)
                else case ee_bytes env r of
                  Inl e \<Rightarrow> (Inl (ExecFailed (''failed to read response: '' @ e)), w1)
                | Inr bytes \<Rightarrow> (parse_process_stream env bytes, w1)))"

definition new_sandbox_of :: "sandbox_config \<Rightarrow> new_sandbox" where
  "new_sandbox_of c =
     \<lparr>ns_template_id = sc_image c,
      ns_timeout = (if 0 < sc_timeout_secs c then Some (sc_timeout_secs c) else None),
      ns_allow_internet_access = Some (sc_network c),
      ns_env_vars = (if sc_env c = [] then None else Some (sc_env c)),
      ns_metadata = Some [(''roche.managed'', ''true'')]\<rparr>"

definition e2b_create :: "'w e2b_env \<Rightarrow> e2b_provider \<Rightarrow> sandbox_config \<Rightarrow> ('w, sandbox_id) e2b_io" where
  "e2b_create env ep c w0 =
     (case w0 of (cache, w) \<Rightarrow>
        case validate_config c e2b_capabilities of
          Inl e \<Rightarrow> (Inl e, (cache, w))
        | Inr _ \<Rightarrow>
            (case ee_send env (e2b_request ep Http_Post ''/sandboxes'' (Body_New (new_sandbox_of c))) w of
               (Inl e, w1) \<Rightarrow> (Inl (CreateFailed (''E2B API request failed: '' @ e)), (cache, w1))
             | (Inr r, w1) \<Rightarrow>
                 (if \<not> is_success r then
                    (let body = ee_text env r;
                         msg = (case ee_error_message env body of Some m \<Rightarrow> m | None \<Rightarrow> body)
                     in (Inl (CreateFailed (http_error ''E2B API error'' r msg)), (cache, w1)))
                  else case ee_sandbox env r of
                    Inl e \<Rightarrow> (Inl (CreateFailed (''failed to parse response: '' @ e)), (cache, w1))
                  | Inr sb \<Rightarrow>
                      (Inr (sr_sandbox_id sb), (hm_insert (sr_sandbox_id sb) (meta_of ep sb) cache, w1)))))"

definition e2b_exec :: "'w e2b_env \<Rightarrow> e2b_provider \<Rightarrow> sandbox_id \<Rightarrow> exec_request \<Rightarrow> ('w, exec_output) e2b_io" where
  "e2b_exec env ep i request w0 =
     (case get_meta env ep i w0 of
        (Inl e, w1) \<Rightarrow> (Inl e, w1)
      | (Inr (token, domain), (cache, w1)) \<Rightarrow>
          (case envd_exec env i token domain request w1 of (r, w2) \<Rightarrow> (r, (cache, w2))))"

definition e2b_destroy :: "'w e2b_env \<Rightarrow> e2b_provider \<Rightarrow> sandbox_id \<Rightarrow> ('w, unit) e2b_io" where
  "e2b_destroy env ep i w0 =
     (case w0 of (cache, w) \<Rightarrow>
        case ee_send env (e2b_request ep Http_Delete (''/sandboxes/'' @ i) Body_None) w of
          (Inl e, w1) \<Rightarrow> (Inl (ExecFailed (''E2B API request failed: '' @ e)), (cache, w1))
        | (Inr r, w1) \<Rightarrow>
            (if hr_code r = 404 then (Inl (NotFound i), (cache, w1))
             else if \<not> is_success r
               then (Inl (ExecFailed (http_error ''E2B API error'' r (ee_text env r))), (cache, w1))
             else (Inr (), (hm_remove i cache, w1))))"

definition e2b_list :: "'w e2b_env \<Rightarrow> e2b_provider \<Rightarrow> ('w, sandbox_info list) e2b_io" where
  "e2b_list env ep w0 =
     (case w0 of (cache, w) \<Rightarrow>
        case ee_send env (e2b_request ep Http_Get ''/sandboxes'' Body_None) w of
          (Inl e, w1) \<Rightarrow> (Inl (Unavailable (''E2B API request failed: '' @ e)), (cache, w1))
        | (Inr r, w1) \<Rightarrow>
            (if \<not> is_success r
             then (Inl (Unavailable (http_error ''E2B API error'' r (ee_text env r))), (cache, w1))
             else case ee_listed env r of
               Inl e \<Rightarrow> (Inl (Unavailable (''failed to parse response: '' @ e)), (cache, w1))
             | Inr sbs \<Rightarrow>
                 (Inr (map (\<lambda>s. \<lparr>si_id = ls_sandbox_id s, si_status = Running, si_provider = ''e2b'',
                    si_image = ls_template_id s, si_expires_at = None\<rparr>) sbs), (cache, w1))))"

definition e2b_pause :: "'w e2b_env \<Rightarrow> e2b_provider \<Rightarrow> sandbox_id \<Rightarrow> ('w, unit) e2b_io" where
  "e2b_pause env ep i w0 =
     (case w0 of (cache, w) \<Rightarrow>
        case ee_send env (e2b_request ep Http_Post (''/sandboxes/'' @ i @ ''/pause'') Body_None) w of
          (Inl e, w1) \<Rightarrow> (Inl (ExecFailed (''E2B API request failed: '' @ e)), (cache, w1))
        | (Inr r, w1) \<Rightarrow>
            (if hr_code r = 404 then (Inl (NotFound i), (cache, w1))
             else if \<not> is_success r
               then (Inl (ExecFailed (http_error ''E2B pause error'' r (ee_text env r))), (cache, w1))
             else (Inr (), (cache, w1))))"

definition connect_request :: "e2b_provider \<Rightarrow> sandbox_id \<Rightarrow> http_request" where
  "connect_request ep i =
     (e2b_request ep Http_Post (''/sandboxes/'' @ i @ ''/connect'')
        (Body_Text (''{'' @ CHR 0x22 # ''timeout'' @ CHR 0x22 # '':300}'')))
     \<lparr>hq_headers := api_headers ep @ [(''Content-Type'', ''application/json'')]\<rparr>"

definition e2b_unpause :: "'w e2b_env \<Rightarrow> e2b_provider \<Rightarrow> sandbox_id \<Rightarrow> ('w, unit) e2b_io" where
  "e2b_unpause env ep i w0 =
     (case w0 of (cache, w) \<Rightarrow>
        case ee_send env (connect_request ep i) w of
          (Inl e, w1) \<Rightarrow> (Inl (ExecFailed (''E2B API request failed: '' @ e)), (cache, w1))
        | (Inr r, w1) \<Rightarrow>
            (if hr_code r = 404 then (Inl (NotFound i), (cache, w1))
             else if \<not> is_success r
               then (Inl (ExecFailed (http_error ''E2B resume error'' r (ee_text env r))), (cache, w1))
             else (Inr (),
               (case ee_sandbox env r of Inr sb \<Rightarrow> hm_insert i (meta_of ep sb) cache | Inl _ \<Rightarrow> cache, w1))))"

definition e2b_gc :: "('w, sandbox_id list) e2b_io" where
  "e2b_gc w = (Inr [], w)"

definition e2b_copy_to :: "'w e2b_env \<Rightarrow> e2b_provider \<Rightarrow> sandbox_id \<Rightarrow> string \<Rightarrow> string \<Rightarrow> ('w, unit) e2b_io" where
  "e2b_copy_to env ep i src dest w0 =
     (case get_meta env ep i w0 of
        (Inl e, w1) \<Rightarrow> (Inl e, w1)
      | (Inr (token, domain), (cache, w1)) \<Rightarrow>
          (case ee_read_file env src w1 of
             (Inl e, w2) \<Rightarrow> (Inl (FileFailed (''failed to read local file: '' @ e)), (cache, w2))
           | (Inr content, w2) \<Rightarrow>
               (let name = (case path_file_name dest of Some n \<Rightarrow> n | None \<Rightarrow> ''file'')
                in case ee_send env \<lparr>hq_method = Http_Post, hq_url = envd_url i domain @ ''/files'',
                       hq_headers = [(''Authorization'', envd_auth env token)], hq_query = [(''path'', dest)],
                       hq_body = Body_File name content\<rparr> w2 of
                     (Inl e, w3) \<Rightarrow> (Inl (FileFailed (''envd file upload failed: '' @ e)), (cache, w3))
                   | (Inr r, w3) \<Rightarrow>
                       (if \<not> is_success r
                        then (Inl (FileFailed (http_error ''envd file upload error'' r (ee_text env r))), (cache, w3))
                        else (Inr (), (cache, w3))))))"

definition e2b_copy_from :: "'w e2b_env \<Rightarrow> e2b_provider \<Rightarrow> sandbox_id \<Rightarrow> string \<Rightarrow> string \<Rightarrow> ('w, unit) e2b_io" where
  "e2b_copy_from env ep i src dest w0 =
     (case get_meta env ep i w0 of
        (Inl e, w1) \<Rightarrow> (Inl e, w1)
      | (Inr (token, domain), (cache, w1)) \<Rightarrow>
          (case ee_send env \<lparr>hq_method = Http_Get, hq_url = envd_url i domain @ ''/files'',
                 hq_headers = [(''Authorization'', envd_auth env token)], hq_query = [(''path'', src)],
                 hq_body = Body_None\<rparr> w1 of
             (Inl e, w2) \<Rightarrow> (Inl (FileFailed (''envd file download failed: '' @ e)), (cache, w2))
           | (Inr r, w2) \<Rightarrow>
               (if hr_code r = 404
                then (Inl (FileFailed (''file not found in sandbox: '' @ src)), (cache, w2))
                else if \<not> is_success r
                then (Inl (FileFailed (http_error ''envd file download error'' r (ee_text env r))), (cache, w2))
                else case ee_bytes env r of
                  Inl e \<Rightarrow> (Inl (FileFailed (''failed to read response: '' @ e)), (cache, w2))
                | Inr bytes \<Rightarrow>
                    (case ee_write_file env dest bytes w2 of
                       (Inl e, w3) \<Rightarrow> (Inl (FileFailed (''failed to write local file: '' @ e)), (cache, w3))
                     | (Inr _, w3) \<Rightarrow> (Inr (), (cache, w3))))))"

definition e2b_provider_of :: "'w e2b_env \<Rightarrow> e2b_provider \<Rightarrow> (e2b_cache \<times> 'w) provider" where
  "e2b_provider_of env ep =
     \<lparr>pv_capabilities = e2b_capabilities, pv_create = e2b_create env ep, pv_exec = e2b_exec env ep,
      pv_destroy = e2b_destroy env ep, pv_list = e2b_list env ep, pv_copy_to = e2b_copy_to env ep,
      pv_copy_from = e2b_copy_from env ep, pv_pause = e2b_pause env ep, pv_unpause = e2b_unpause env ep,
      pv_gc = e2b_gc\<rparr>"

subsection \<open>The stream is read back\<close>

definition envelope :: "nat \<Rightarrow> string \<Rightarrow> string" where
  "envelope flags payload = char_of flags # to_be32 (length payload) @ payload"

lemma length_envelope [simp]: "length (envelope f p) = 5 + length p"
  by (simp add: envelope_def)

lemma end_flag_values: "\<not> end_flag (char_of (0 :: nat))" "end_flag (char_of (2 :: nat))"
  by (simp_all add: end_flag_def)

lemma stream_loop_data:
  "ee_event env p = Inr ev \<Longrightarrow> length p < 2 ^ 32 \<Longrightarrow>
    stream_loop env (envelope 0 p @ rest) acc = stream_loop env rest (apply_event env ev acc)"
  by (subst stream_loop.simps) (simp add: envelope_def from_be_to_be32 end_flag_values Let_def)

lemma stream_loop_trailer:
  "length p < 2 ^ 32 \<Longrightarrow>
    stream_loop env (envelope 2 p @ rest) acc =
      (case ee_trailer_error env p of
         Some msg \<Rightarrow> Inl (ExecFailed (''envd stream error: '' @ msg))
       | None \<Rightarrow> stream_loop env rest acc)"
  by (subst stream_loop.simps)
    (simp add: envelope_def from_be_to_be32 end_flag_values Let_def split: option.split)

lemma stream_loop_cut:
  assumes "k < length (envelope f p)" "length p < 2 ^ 32"
  shows "stream_loop env (take k (envelope f p)) acc = Inr acc"
proof (cases "k < 5")
  case False
  then have "take k (envelope f p) = char_of f # to_be32 (length p) @ take (k - 5) p"
    by (cases k) (simp_all add: envelope_def eval_nat_numeral)
  moreover have "k - 5 < length p"
    using False assms(1) by simp
  ultimately show ?thesis
    using assms(2) by (subst stream_loop.simps) (simp add: from_be_to_be32 Let_def)
qed (subst stream_loop.simps, simp)

definition event_stdout :: "'w e2b_env \<Rightarrow> process_event \<Rightarrow> string" where
  "event_stdout env ev = (case pe_data ev of None \<Rightarrow> [] | Some d \<Rightarrow> decoded_text env (de_stdout d))"

definition event_stderr :: "'w e2b_env \<Rightarrow> process_event \<Rightarrow> string" where
  "event_stderr env ev = (case pe_data ev of None \<Rightarrow> [] | Some d \<Rightarrow> decoded_text env (de_stderr d))"

fun last_exit :: "process_event list \<Rightarrow> i32 option" where
  "last_exit [] = None"
| "last_exit (ev # evs) = (case last_exit evs of Some c \<Rightarrow> Some c | None \<Rightarrow> pe_end ev)"

lemma apply_events:
  "fold (apply_event env) evs acc =
     \<lparr>sa_stdout = sa_stdout acc @ concat (map (event_stdout env) evs),
      sa_stderr = sa_stderr acc @ concat (map (event_stderr env) evs),
      sa_exit_code = (case last_exit evs of Some c \<Rightarrow> Some c | None \<Rightarrow> sa_exit_code acc)\<rparr>"
proof (induction evs arbitrary: acc)
  case (Cons ev evs)
  show ?case
    unfolding fold_Cons o_apply Cons
    by (auto simp: apply_event_def Let_def event_stdout_def[of env ev] event_stderr_def[of env ev]
        split: option.splits)
qed simp

lemma stream_loop_events:
  "list_all (\<lambda>(p, ev). ee_event env p = Inr ev \<and> length p < 2 ^ 32) fs \<Longrightarrow>
    stream_loop env (concat (map (\<lambda>f. envelope 0 (fst f)) fs) @ rest) acc =
      stream_loop env rest (fold (apply_event env) (map snd fs) acc)"
  by (induction fs arbitrary: acc) (auto simp: stream_loop_data)

text \<open>
  (C20) Round trip of a process stream: the envelopes of any events, a trailer without an error
  and then nothing, or an envelope cut off anywhere, are read as the decoded output of the events
  in their order and the last exit code, \<open>-1\<close> when none came.
\<close>

theorem process_stream_roundtrip:
  assumes "list_all (\<lambda>(p, ev). ee_event env p = Inr ev \<and> length p < 2 ^ 32) fs"
    and "ee_trailer_error env trailer = None" "length trailer < 2 ^ 32"
    and "k < length (envelope f lost)" "length lost < 2 ^ 32"
  shows "parse_process_stream env
      (concat (map (\<lambda>f. envelope 0 (fst f)) fs) @ envelope 2 trailer @ take k (envelope f lost)) =
    Inr \<lparr>eo_exit_code = (case last_exit (map snd fs) of Some c \<Rightarrow> c | None \<Rightarrow> -1),
         eo_stdout = concat (map (event_stdout env) (map snd fs)),
         eo_stderr = concat (map (event_stderr env) (map snd fs)), eo_trace = None\<rparr>"
  unfolding parse_process_stream_def stream_loop_events[OF assms(1)] stream_loop_trailer[OF assms(3)]
  using assms(2) stream_loop_cut[OF assms(4,5), of env]
  by (simp add: apply_events stream_start_def split: option.split)

text \<open>A service for the witnesses: base64 is the identity, an event is a chunk of output.\<close>

definition demo_event :: "string \<Rightarrow> process_event" where
  "demo_event t = \<lparr>pe_data = Some \<lparr>de_stdout = Some t, de_stderr = None\<rparr>, pe_end = None\<rparr>"

definition demo_sandbox_response :: sandbox_response where
  "demo_sandbox_response =
     \<lparr>sr_sandbox_id = ''sb'', sr_template_id = ''base'', sr_envd_access_token = ''tok'', sr_domain = []\<rparr>"

definition demo_env :: "nat e2b_env" where
  "demo_env =
     \<lparr>ee_send = (\<lambda>_ n. (Inr \<lparr>hr_code = 200, hr_status = ''200 OK'', hr_body = []\<rparr>, Suc n)),
      ee_send_timeout = (\<lambda>_ _ n. (None, Suc n)),
      ee_text = hr_body, ee_bytes = (\<lambda>r. Inr (hr_body r)),
      ee_sandbox = (\<lambda>_. Inr demo_sandbox_response), ee_listed = (\<lambda>_. Inr []),
      ee_error_message = (\<lambda>_. None), ee_event = (\<lambda>p. Inr (demo_event p)), ee_trailer_error = (\<lambda>_. None),
      ee_b64_encode = (\<lambda>t. t), ee_b64_decode = Some,
      ee_read_file = (\<lambda>_ n. (Inr [], n)), ee_write_file = (\<lambda>_ _ n. (Inr (), n))\<rparr>"

theorem process_stream_roundtrip_witness:
  "\<exists>out. parse_process_stream demo_env
      (envelope 0 ''hi'' @ envelope 2 [] @ take 6 (envelope 0 ''lost'')) = Inr out \<and> eo_exit_code out = -1"
  using process_stream_roundtrip[of demo_env "[(''hi'', demo_event ''hi'')]" "[]" 6 0 "''lost''"]
  by (simp add: demo_env_def demo_event_def)

text \<open>
  Each chunk is decoded as text on its own, so a character the agent splits over two chunks is
  lost: the two bytes of an accented letter come out as two replacement characters.
\<close>

lemma split_character_lost:
  "stream_loop demo_env (envelope 0 [CHR 0xC3] @ envelope 0 [CHR 0xA9]) stream_start
     = Inr (stream_start\<lparr>sa_stdout := replacement_char @ replacement_char\<rparr>)"
proof -
  have "stream_loop demo_env (envelope 0 [CHR 0xC3] @ envelope 0 [CHR 0xA9] @ []) stream_start
      = stream_loop demo_env []
          (apply_event demo_env (demo_event [CHR 0xA9]) (apply_event demo_env (demo_event [CHR 0xC3]) stream_start))"
    by (subst stream_loop_data[where ev = "demo_event [CHR 0xC3]"], simp add: demo_env_def, simp,
        subst stream_loop_data[where ev = "demo_event [CHR 0xA9]"]) (simp_all add: demo_env_def)
  also have "\<dots> = Inr (stream_start\<lparr>sa_stdout := replacement_char @ replacement_char\<rparr>)"
    by (subst stream_loop.simps) code_simp
  finally show ?thesis by simp
qed

subsection \<open>The access token of a sandbox\<close>

lemma get_meta_cached:
  "hm_get cache i = Some m \<Longrightarrow>
    get_meta env ep i (cache, w) = (Inr (em_envd_access_token m, em_domain m), (cache, w))"
  by (simp add: get_meta_def)

text \<open>
  A created sandbox is used with the token of its creation: executions in it go to its agent
  right away, with no look-up, whatever other sandboxes are created or destroyed, until it is
  destroyed; from then on an execution first asks the service for the sandbox, and one the service
  does not know is not found.
\<close>

theorem e2b_token_kept:
  assumes "e2b_create env ep c (cache, w) = (Inr i, (cache1, w1))"
  shows "\<exists>token domain.
    (\<forall>rq w2. e2b_exec env ep i rq (cache1, w2) = map_prod id (Pair cache1) (envd_exec env i token domain rq w2))
    \<and> (\<forall>k. k \<noteq> i \<longrightarrow> hm_get cache1 k = hm_get cache k)
    \<and> (\<forall>j w2 w3 cache2 rq. j \<noteq> i \<longrightarrow> e2b_destroy env ep j (cache1, w2) = (Inr (), (cache2, w3)) \<longrightarrow>
         e2b_exec env ep i rq (cache2, w3) = map_prod id (Pair cache2) (envd_exec env i token domain rq w3))
    \<and> (\<forall>w2 w3 w4 cache2 r rq. e2b_destroy env ep i (cache1, w2) = (Inr (), (cache2, w3)) \<longrightarrow>
         ee_send env (e2b_request ep Http_Get (''/sandboxes/'' @ i) Body_None) w3 = (Inr r, w4) \<longrightarrow> hr_code r = 404 \<longrightarrow>
         e2b_exec env ep i rq (cache2, w3) = (Inl (NotFound i), (cache2, w4)))"
proof -
  obtain m where m: "cache1 = hm_insert i m cache"
    using assms by (auto simp: e2b_create_def Let_def split: sum.splits prod.splits if_splits)
  have exec: "e2b_exec env ep i rq (ca, w2)
      = map_prod id (Pair ca) (envd_exec env i (em_envd_access_token m) (em_domain m) rq w2)"
    if "hm_get ca i = Some m" for ca rq w2
    using get_meta_cached[OF that, of env ep w2] by (simp add: e2b_exec_def split: prod.split)
  have "hm_get cache2 k = (if k = j then None else hm_get cache1 k)"
    if "e2b_destroy env ep j (cache1, w2) = (Inr (), (cache2, w3))" for j k w2 w3 cache2
    using that by (auto simp: e2b_destroy_def split: sum.splits prod.splits if_splits)
  note gone = this
  show ?thesis
  proof (intro exI conjI allI impI)
    show "e2b_exec env ep i rq (cache1, w2)
        = map_prod id (Pair cache1) (envd_exec env i (em_envd_access_token m) (em_domain m) rq w2)" for rq w2
      using exec m by simp
    show "hm_get cache1 k = hm_get cache k" if "k \<noteq> i" for k
      using m that by simp
    show "e2b_exec env ep i rq (cache2, w3)
        = map_prod id (Pair cache2) (envd_exec env i (em_envd_access_token m) (em_domain m) rq w3)"
      if "j \<noteq> i" "e2b_destroy env ep j (cache1, w2) = (Inr (), (cache2, w3))" for j w2 w3 cache2 rq
      using exec gone[OF that(2), of i] m that(1) by simp
    show "e2b_exec env ep i rq (cache2, w3) = (Inl (NotFound i), (cache2, w4))"
      if "e2b_destroy env ep i (cache1, w2) = (Inr (), (cache2, w3))"
        "ee_send env (e2b_request ep Http_Get (''/sandboxes/'' @ i) Body_None) w3 = (Inr r, w4)" "hr_code r = 404"
      for w2 w3 w4 cache2 r rq
      using gone[OF that(1), of i] that(2,3) by (simp add: e2b_exec_def get_meta_def)
  qed
qed

definition demo_ep :: e2b_provider where
  "demo_ep = \<lparr>ep_api_key = ''k'', ep_api_base = default_api_base, ep_domain = default_domain\<rparr>"

lemma demo_e2b_create:
  "e2b_create demo_env demo_ep (sandbox_config_default\<lparr>sc_writable := True\<rparr>) ([], 0)
     = (Inr ''sb'', (hm_insert ''sb'' (meta_of demo_ep demo_sandbox_response) [], 1))"
  by (simp add: e2b_create_def demo_env_def is_success_def demo_sandbox_response_def validate_config_def
      config_violations_def e2b_capabilities_def sandbox_config_default_def)

theorem e2b_token_kept_witness:
  "\<exists>token domain. \<forall>rq. e2b_exec demo_env demo_ep ''sb'' rq
      (hm_insert ''sb'' (meta_of demo_ep demo_sandbox_response) [], 1)
    = map_prod id (Pair (hm_insert ''sb'' (meta_of demo_ep demo_sandbox_response) []))
        (envd_exec demo_env ''sb'' token domain rq 1)"
  using e2b_token_kept[OF demo_e2b_create]
  by (elim exE conjE) (intro exI allI, elim allE, assumption)

subsection \<open>The API key\<close>

lemma resolve_api_key_nonempty: "resolve_api_key env_key config = Inr key \<Longrightarrow> key \<noteq> []"
proof -
  have lines: "api_key_of_lines ls = Some v \<Longrightarrow> v \<noteq> []" for ls v
    by (induction ls) (auto simp: api_key_line_def Let_def split: option.splits if_splits)
  show "resolve_api_key env_key config = Inr key \<Longrightarrow> key \<noteq> []"
    by (auto simp: resolve_api_key_def Let_def dest: lines split: option.splits sum.splits if_splits)
qed

lemma resolve_api_key_comment:
  "resolve_api_key None (Some (Inr (''api_key = '' @ CHR 0x22 # ''k'' @ CHR 0x22 # '' # main'')))
     = Inr (''k'' @ CHR 0x22 # '' # main'')"
  by code_simp

end
