(* ===== verification/Firecracker.thy ===== *)
theory Firecracker
  imports Provider Rust_Path Rust_Text
begin

text \<open>
  The Firecracker provider: the state directories of the virtual machines
  (\<open>firecracker/state.rs\<close>), the calls to the process's API (\<open>api_client.rs\<close>), execution over vsock
  (\<open>vsock_exec.rs\<close>) and the provider (\<open>mod.rs\<close>), as built for Linux. Files are those of
  \<open>Rust_Path\<close> and the running processes a list of their numbers; the Firecracker process, the
  guest, serde and the clock are a parameter record \<open>fc_env\<close>.
\<close>

subsection \<open>Data\<close>

record vm_metadata =
  vm_id :: sandbox_id
  vm_provider :: string
  vm_image :: string
  vm_pid :: u32
  vm_cid :: u32
  vm_kernel :: string
  vm_expires_at :: "u64 option"
  vm_created_at :: u64

datatype json_value = J_Str string | J_Num nat | J_Bool bool

record api_request =
  aq_method :: string
  aq_path :: string
  aq_body :: "(string \<times> json_value) list"

text \<open>What becomes of a request: the step that failed, or the status and the body of the response.\<close>

datatype api_answer =
    No_Connection string
  | No_Handshake string
  | No_Response string
  | Answer bool string "(string, string) result"

text \<open>
  The environment: JSON of the metadata; spawning a process; whether the socket is there; a call
  of the API; the clock, a pause and fresh identifiers; and the vsock stream: connecting (\<open>None\<close> is
  the end of the five seconds), writing, flushing, reading so many bytes, whether more than a
  number of seconds passed between two worlds, and the JSON of a request and of its answer.
\<close>

record 'w fc_env =
  fe_meta_write :: "vm_metadata \<Rightarrow> (string, string) result"
  fe_meta_read :: "string \<Rightarrow> (string, vm_metadata) result"
  fe_spawn :: "string list \<Rightarrow> 'w \<Rightarrow> (string, u32) result \<times> 'w"
  fe_socket_there :: "string \<Rightarrow> 'w \<Rightarrow> bool"
  fe_api :: "string \<Rightarrow> api_request \<Rightarrow> 'w \<Rightarrow> api_answer \<times> 'w"
  fe_nanos :: "'w \<Rightarrow> nat"
  fe_sleep :: "nat \<Rightarrow> 'w \<Rightarrow> 'w"
  fe_uuid :: "'w \<Rightarrow> string \<times> 'w"
  fe_connect :: "u32 \<Rightarrow> u32 \<Rightarrow> 'w \<Rightarrow> (string, unit) result option \<times> 'w"
  fe_write :: "string \<Rightarrow> 'w \<Rightarrow> (string, unit) result \<times> 'w"
  fe_flush :: "'w \<Rightarrow> (string, unit) result \<times> 'w"
  fe_read_exact :: "nat \<Rightarrow> 'w \<Rightarrow> (string, string) result \<times> 'w"
  fe_late :: "u64 \<Rightarrow> 'w \<Rightarrow> 'w \<Rightarrow> bool"
  fe_request_json :: "string list \<Rightarrow> u64 \<Rightarrow> (string, string) result"
  fe_output_json :: "string \<Rightarrow> (string, exec_output) result"

record 'w fc_world =
  fw_fs :: fs
  fw_procs :: "u32 list"
  fw_rest :: 'w

type_synonym ('w, 'a) fc_io = "('w fc_world, 'a) io"

definition fe_secs :: "'w fc_env \<Rightarrow> 'w \<Rightarrow> u64" where
  "fe_secs env r = word_of_nat (fe_nanos env r div 10 ^ 9)"

definition lift_fs :: "(string \<Rightarrow> provider_error) \<Rightarrow> 'a fs_io \<Rightarrow> ('w, 'a) fc_io" where
  "lift_fs err f w = (case f (fw_fs w) of (r, s) \<Rightarrow> (map_err err r, w\<lparr>fw_fs := s\<rparr>))"

subsection \<open>The state directories\<close>

definition state_base_dir :: "string option \<Rightarrow> (provider_error, string) result" where
  "state_base_dir home =
     (case home of
        None \<Rightarrow> Inl (Unavailable ''cannot determine home directory'')
      | Some h \<Rightarrow> Inr (path_join (path_join h ''.roche'') ''firecracker''))"

definition vm_dir :: "string \<Rightarrow> string \<Rightarrow> string" where
  "vm_dir base i = path_join base i"

definition socket_path :: "string \<Rightarrow> string \<Rightarrow> string" where
  "socket_path base i = path_join (vm_dir base i) ''firecracker.sock''"

definition rootfs_path :: "string \<Rightarrow> string \<Rightarrow> string" where
  "rootfs_path base i = path_join (vm_dir base i) ''rootfs.ext4''"

definition metadata_path :: "string \<Rightarrow> string \<Rightarrow> string" where
  "metadata_path base i = path_join (vm_dir base i) ''metadata.json''"

definition create_vm_dir :: "string \<Rightarrow> string \<Rightarrow> ('w, unit) fc_io" where
  "create_vm_dir base i =
     lift_fs (\<lambda>e. CreateFailed (''failed to create state dir: '' @ e)) (create_dir_all (vm_dir base i))"

definition copy_rootfs :: "string \<Rightarrow> string \<Rightarrow> string \<Rightarrow> ('w, unit) fc_io" where
  "copy_rootfs base i source =
     lift_fs (\<lambda>e. CreateFailed (''failed to copy rootfs: '' @ e)) (copy_file source (rootfs_path base i))"

definition write_metadata :: "'w fc_env \<Rightarrow> string \<Rightarrow> vm_metadata \<Rightarrow> ('w, unit) fc_io" where
  "write_metadata env base m w =
     (case fe_meta_write env m of
        Inl e \<Rightarrow> (Inl (CreateFailed (''failed to serialize metadata: '' @ e)), w)
      | Inr json \<Rightarrow>
          lift_fs (\<lambda>e. CreateFailed (''failed to write metadata: '' @ e))
            (write_file (metadata_path base (vm_id m)) json) w)"

definition read_metadata :: "'w fc_env \<Rightarrow> string \<Rightarrow> string \<Rightarrow> ('w, vm_metadata) fc_io" where
  "read_metadata env base i w =
     (case lift_fs (\<lambda>_. NotFound i) (read_to_string (metadata_path base i)) w of
        (Inl e, w1) \<Rightarrow> (Inl e, w1)
      | (Inr json, w1) \<Rightarrow> (map_err (\<lambda>e. ExecFailed (''corrupt metadata: '' @ e)) (fe_meta_read env json), w1))"

definition remove_vm_dir :: "string \<Rightarrow> string \<Rightarrow> ('w, unit) fc_io" where
  "remove_vm_dir base i w =
     (if fs_exists (vm_dir base i) (fw_fs w)
      then lift_fs (\<lambda>e. ExecFailed (''failed to remove state dir: '' @ e)) (remove_dir_all (vm_dir base i)) w
      else (Inr (), w))"

definition list_vm_ids :: "string \<Rightarrow> ('w, string list) fc_io" where
  "list_vm_ids base w =
     (if \<not> fs_exists base (fw_fs w) then (Inr [], w)
      else lift_fs (\<lambda>e. Unavailable (''cannot read state dir: '' @ e)) (read_sub_dirs base) w)"

subsection \<open>The API of the process\<close>

definition send_api :: "'w fc_env \<Rightarrow> string \<Rightarrow> api_request \<Rightarrow> ('w, unit) fc_io" where
  "send_api env socket q w =
     (case fe_api env socket q (fw_rest w) of
        (a, r) \<Rightarrow>
          ((case a of
              No_Connection e \<Rightarrow> Inl (Unavailable (''cannot connect to Firecracker socket '' @ socket @ '': '' @ e))
            | No_Handshake e \<Rightarrow> Inl (ExecFailed (''HTTP handshake failed: '' @ e))
            | No_Response e \<Rightarrow> Inl (ExecFailed (''API request failed: '' @ e))
            | Answer success st body \<Rightarrow>
                (if success then Inr ()
                 else case body of
                   Inl e \<Rightarrow> Inl (ExecFailed (''read response: '' @ e))
                 | Inr bytes \<Rightarrow>
                     Inl (ExecFailed (''Firecracker API error ('' @ st @ ''): '' @ from_utf8_lossy bytes)))),
           w\<lparr>fw_rest := r\<rparr>))"

definition put_boot_source :: "string \<Rightarrow> string \<Rightarrow> api_request" where
  "put_boot_source kern boot_args =
     \<lparr>aq_method = ''PUT'', aq_path = ''/boot-source'',
      aq_body = [(''kernel_image_path'', J_Str kern), (''boot_args'', J_Str boot_args)]\<rparr>"

definition put_drive :: "string \<Rightarrow> string \<Rightarrow> bool \<Rightarrow> bool \<Rightarrow> api_request" where
  "put_drive drive_id path is_root is_read_only =
     \<lparr>aq_method = ''PUT'', aq_path = ''/drives/'' @ drive_id,
      aq_body = [(''drive_id'', J_Str drive_id), (''path_on_host'', J_Str path),
        (''is_root_device'', J_Bool is_root), (''is_read_only'', J_Bool is_read_only)]\<rparr>"

definition put_machine_config :: "u8 \<Rightarrow> u64 \<Rightarrow> api_request" where
  "put_machine_config vcpus mem_mib =
     \<lparr>aq_method = ''PUT'', aq_path = ''/machine-config'',
      aq_body = [(''vcpu_count'', J_Num (unat vcpus)), (''mem_size_mib'', J_Num (unat mem_mib))]\<rparr>"

definition put_vsock :: "u32 \<Rightarrow> api_request" where
  "put_vsock cid =
     \<lparr>aq_method = ''PUT'', aq_path = ''/vsock'',
      aq_body = [(''guest_cid'', J_Num (unat cid)), (''uds_path'', J_Str ''vsock.sock'')]\<rparr>"

definition start_action :: api_request where
  "start_action = \<lparr>aq_method = ''PUT'', aq_path = ''/actions'', aq_body = [(''action_type'', J_Str ''InstanceStart'')]\<rparr>"

definition patch_vm :: "string \<Rightarrow> api_request" where
  "patch_vm st = \<lparr>aq_method = ''PATCH'', aq_path = ''/vm'', aq_body = [(''state'', J_Str st)]\<rparr>"

subsection \<open>Execution over vsock\<close>

definition agent_port :: u32 where
  "agent_port = 52"

text \<open>The response, read with a length of four bytes in front; at most 64 MiB are accepted.\<close>

definition read_response :: "'w fc_env \<Rightarrow> ('w, exec_output) io" where
  "read_response env w =
     (case fe_read_exact env 4 w of
        (Inl e, w1) \<Rightarrow> (Inl (ExecFailed (''vsock read response len: '' @ e)), w1)
      | (Inr len_buf, w1) \<Rightarrow>
          (let resp_len = from_be len_buf
           in if 64 * 1024 * 1024 < resp_len then (Inl (ExecFailed ''response too large (>64MB)''), w1)
              else case fe_read_exact env resp_len w1 of
                (Inl e, w2) \<Rightarrow> (Inl (ExecFailed (''vsock read response: '' @ e)), w2)
              | (Inr resp_buf, w2) \<Rightarrow>
                  (map_err (\<lambda>e. ExecFailed (''parse response: '' @ e)) (fe_output_json env resp_buf), w2)))"

definition send_request :: "'w fc_env \<Rightarrow> string \<Rightarrow> ('w, unit) io" where
  "send_request env req_bytes w =
     (case fe_write env (to_be32 (length req_bytes)) w of
        (Inl e, w1) \<Rightarrow> (Inl (ExecFailed (''vsock write len: '' @ e)), w1)
      | (Inr _, w1) \<Rightarrow>
     (case fe_write env req_bytes w1 of
        (Inl e, w2) \<Rightarrow> (Inl (ExecFailed (''vsock write: '' @ e)), w2)
      | (Inr _, w2) \<Rightarrow>
     (case fe_flush env w2 of
        (Inl e, w3) \<Rightarrow> (Inl (ExecFailed (''vsock flush: '' @ e)), w3)
      | (Inr _, w3) \<Rightarrow> (Inr (), w3))))"

definition exec_via_vsock :: "'w fc_env \<Rightarrow> u32 \<Rightarrow> exec_request \<Rightarrow> u64 \<Rightarrow> ('w, exec_output) io" where
  "exec_via_vsock env cid request timeout_secs w =
     (case fe_connect env cid agent_port w of
        (None, w1) \<Rightarrow> (Inl (Timeout 5), w1)
      | (Some (Inl e), w1) \<Rightarrow> (Inl (ExecFailed (''vsock connect failed: '' @ e)), w1)
      | (Some (Inr _), w1) \<Rightarrow>
          (case fe_request_json env (er_command request)
                  (case er_timeout_secs request of Some t \<Rightarrow> t | None \<Rightarrow> timeout_secs) of
             Inl e \<Rightarrow> (Inl (ExecFailed (''serialize request: '' @ e)), w1)
           | Inr req_bytes \<Rightarrow>
               (case send_request env req_bytes w1 of
                  (Inl e, w2) \<Rightarrow> (Inl e, w2)
                | (Inr _, w2) \<Rightarrow>
                    (case read_response env w2 of
                       (r, w3) \<Rightarrow> (if fe_late env timeout_secs w2 w3 then Inl (Timeout timeout_secs) else r, w3)))))"

subsection \<open>The provider\<close>

definition fc_validate_config :: "fs \<Rightarrow> sandbox_config \<Rightarrow> (provider_error, string \<times> string) result" where
  "fc_validate_config s c =
     (case sc_kernel c of
        None \<Rightarrow> Inl (CreateFailed ''--kernel is required for Firecracker provider'')
      | Some kern \<Rightarrow>
     (case sc_rootfs c of
        None \<Rightarrow> Inl (CreateFailed ''--rootfs is required for Firecracker provider'')
      | Some rootfs \<Rightarrow>
          (if \<not> fs_exists kern s then Inl (CreateFailed (''kernel not found: '' @ kern))
           else if \<not> fs_exists rootfs s then Inl (CreateFailed (''rootfs not found: '' @ rootfs))
           else Inr (kern, rootfs))))"

text \<open>
  \<open>to_lowercase\<close> is that of ASCII: no other character has a lower case that could end or make up
  a number with its unit.
\<close>

definition parse_memory_mib :: "string option \<Rightarrow> u64" where
  "parse_memory_mib memory =
     (case memory of
        None \<Rightarrow> 128
      | Some t \<Rightarrow>
          (let s = to_ascii_lower (trim t); or_else = (\<lambda>d n. case parse_u64 n of Some v \<Rightarrow> v | None \<Rightarrow> d)
           in case strip_suffix ''m'' s of
                Some num \<Rightarrow> or_else 128 num
              | None \<Rightarrow>
                  (case strip_suffix ''g'' s of
                     Some num \<Rightarrow> or_else 1 num * 1024
                   | None \<Rightarrow> or_else 128 s)))"

definition allocate_cid :: "nat \<Rightarrow> u32" where
  "allocate_cid ts = word_of_nat (ts mod (2 ^ 32 - 1 - 3) + 3)"

definition is_process_alive :: "u32 \<Rightarrow> 'w fc_world \<Rightarrow> bool" where
  "is_process_alive pid w \<longleftrightarrow> pid \<in> set (fw_procs w)"

text \<open>
  \<open>SIGKILL\<close> ends the process; the loop that waits for it returns without an error either way.
\<close>

definition kill_process :: "u32 \<Rightarrow> ('w, unit) fc_io" where
  "kill_process pid w =
     (if is_process_alive pid w then (Inr (), w\<lparr>fw_procs := hs_remove pid (fw_procs w)\<rparr>)
      else (Inl (ExecFailed ''failed to kill process: ESRCH: No such process''), w))"

text \<open>The cleanup after a failure: results ignored.\<close>

definition discard_vm :: "string \<Rightarrow> string \<Rightarrow> u32 \<Rightarrow> 'w fc_world \<Rightarrow> 'w fc_world" where
  "discard_vm base i pid w = snd (remove_vm_dir base i (snd (kill_process pid w)))"

text \<open>At most \<open>n\<close> rounds of a tenth of a second.\<close>

fun wait_socket :: "'w fc_env \<Rightarrow> string \<Rightarrow> nat \<Rightarrow> 'w \<Rightarrow> 'w" where
  "wait_socket env socket 0 r = r"
| "wait_socket env socket (Suc n) r =
     (if fe_socket_there env socket r then r else wait_socket env socket n (fe_sleep env 100 r))"

definition spawn_firecracker :: "'w fc_env \<Rightarrow> string \<Rightarrow> ('w, u32) fc_io" where
  "spawn_firecracker env socket w =
     (case fe_spawn env [''firecracker'', ''--api-sock'', socket] (fw_rest w) of
        (Inl e, r) \<Rightarrow> (Inl (CreateFailed (''failed to spawn firecracker: '' @ e)), w\<lparr>fw_rest := r\<rparr>)
      | (Inr pid, r) \<Rightarrow> (Inr pid, w\<lparr>fw_rest := r, fw_procs := hs_insert pid (fw_procs w)\<rparr>))"

text \<open>The calls in their order, up to the first that fails.\<close>

fun send_all :: "'w fc_env \<Rightarrow> string \<Rightarrow> api_request list \<Rightarrow> ('w, unit) fc_io" where
  "send_all env socket [] w = (Inr (), w)"
| "send_all env socket (q # qs) w =
     (case send_api env socket q w of
        (Inl e, w1) \<Rightarrow> (Inl e, w1)
      | (Inr _, w1) \<Rightarrow> send_all env socket qs w1)"

definition vm_requests :: "string \<Rightarrow> string \<Rightarrow> u32 \<Rightarrow> sandbox_config \<Rightarrow> api_request list" where
  "vm_requests kern rootfs_copy cid c =
     [put_boot_source kern ''console=ttyS0 reboot=k panic=1 pci=off'',
      put_drive ''rootfs'' rootfs_copy True (\<not> sc_writable c),
      put_machine_config (case sc_cpus c of Some x \<Rightarrow> f64_to_u8 (f64_ceil x) | None \<Rightarrow> 1)
        (parse_memory_mib (sc_memory c)),
      put_vsock cid, start_action]"

definition new_metadata :: "u64 \<Rightarrow> string \<Rightarrow> u32 \<Rightarrow> u32 \<Rightarrow> string \<Rightarrow> sandbox_config \<Rightarrow> vm_metadata" where
  "new_metadata now i pid cid kern c =
     \<lparr>vm_id = i, vm_provider = ''firecracker'', vm_image = ''custom'', vm_pid = pid, vm_cid = cid,
      vm_kernel = kern, vm_expires_at = Some (now + sc_timeout_secs c), vm_created_at = now\<rparr>"

text \<open>From the spawned process to the machine that runs, with the cleanup on failure.\<close>

definition boot_vm ::
    "'w fc_env \<Rightarrow> string \<Rightarrow> string \<Rightarrow> u32 \<Rightarrow> string \<Rightarrow> u32 \<Rightarrow> sandbox_config \<Rightarrow> ('w, unit) fc_io" where
  "boot_vm env base i pid kern cid c w =
     (let socket = socket_path base i; w1 = w\<lparr>fw_rest := wait_socket env socket 50 (fw_rest w)\<rparr>
      in if \<not> fe_socket_there env socket (fw_rest w1)
         then (Inl (CreateFailed ''firecracker socket did not appear''), discard_vm base i pid w1)
         else case send_all env socket (vm_requests kern (rootfs_path base i) cid c) w1 of
           (Inl e, w2) \<Rightarrow> (Inl e, discard_vm base i pid w2)
         | (Inr _, w2) \<Rightarrow> (Inr (), w2))"

definition fc_create :: "'w fc_env \<Rightarrow> string \<Rightarrow> sandbox_config \<Rightarrow> ('w, sandbox_id) fc_io" where
  "fc_create env base c w =
     (case validate_config c firecracker_capabilities of
        Inl e \<Rightarrow> (Inl e, w)
      | Inr _ \<Rightarrow>
     (case fc_validate_config (fw_fs w) c of
        Inl e \<Rightarrow> (Inl e, w)
      | Inr (kern, rootfs) \<Rightarrow>
     (case fe_uuid env (fw_rest w) of (i, r1) \<Rightarrow>
        let cid = allocate_cid (fe_nanos env r1); w1 = w\<lparr>fw_rest := r1\<rparr> in
      case create_vm_dir base i w1 of
        (Inl e, w2) \<Rightarrow> (Inl e, w2)
      | (Inr _, w2) \<Rightarrow>
     (case copy_rootfs base i rootfs w2 of
        (Inl e, w3) \<Rightarrow> (Inl e, w3)
      | (Inr _, w3) \<Rightarrow>
     (case spawn_firecracker env (socket_path base i) w3 of
        (Inl e, w4) \<Rightarrow> (Inl e, snd (remove_vm_dir base i w4))
      | (Inr pid, w4) \<Rightarrow>
     (case boot_vm env base i pid kern cid c w4 of
        (Inl e, w5) \<Rightarrow> (Inl e, w5)
      | (Inr _, w5) \<Rightarrow>
     (case write_metadata env base (new_metadata (fe_secs env (fw_rest w5)) i pid cid kern c) w5 of
        (Inl e, w6) \<Rightarrow> (Inl e, w6)
      | (Inr _, w6) \<Rightarrow> (Inr i, w6))))))))"

text \<open>The metadata of a machine whose process runs.\<close>

definition live_metadata :: "'w fc_env \<Rightarrow> string \<Rightarrow> string \<Rightarrow> ('w, vm_metadata) fc_io" where
  "live_metadata env base i w =
     (case read_metadata env base i w of
        (Inl e, w1) \<Rightarrow> (Inl e, w1)
      | (Inr m, w1) \<Rightarrow> (if \<not> is_process_alive (vm_pid m) w1 then Inl (NotFound i) else Inr m, w1))"

definition fc_exec :: "'w fc_env \<Rightarrow> string \<Rightarrow> sandbox_id \<Rightarrow> exec_request \<Rightarrow> ('w, exec_output) fc_io" where
  "fc_exec env base i request w =
     (case live_metadata env base i w of
        (Inl e, w1) \<Rightarrow> (Inl e, w1)
      | (Inr m, w1) \<Rightarrow>
          (case exec_via_vsock env (vm_cid m) request
                  (case er_timeout_secs request of Some t \<Rightarrow> t | None \<Rightarrow> 300) (fw_rest w1) of
             (r, rest) \<Rightarrow> (r, w1\<lparr>fw_rest := rest\<rparr>)))"

definition fc_destroy :: "'w fc_env \<Rightarrow> string \<Rightarrow> sandbox_id \<Rightarrow> ('w, unit) fc_io" where
  "fc_destroy env base i w =
     (case read_metadata env base i w of
        (Inl e, w1) \<Rightarrow> (Inl e, w1)
      | (Inr m, w1) \<Rightarrow>
          (if is_process_alive (vm_pid m) w1 then
             (case kill_process (vm_pid m) w1 of
                (Inl e, w2) \<Rightarrow> (Inl e, w2)
              | (Inr _, w2) \<Rightarrow> remove_vm_dir base i w2)
           else remove_vm_dir base i w1))"

text \<open>The loop of \<open>list\<close>: machines whose metadata cannot be read are left out.\<close>

fun list_vms :: "'w fc_env \<Rightarrow> string \<Rightarrow> string list \<Rightarrow> 'w fc_world \<Rightarrow> sandbox_info list \<times> 'w fc_world" where
  "list_vms env base [] w = ([], w)"
| "list_vms env base (i # is) w =
     (case read_metadata env base i w of
        (Inl _, w1) \<Rightarrow> list_vms env base is w1
      | (Inr m, w1) \<Rightarrow>
          apfst ((#) \<lparr>si_id = vm_id m, si_status = (if is_process_alive (vm_pid m) w1 then Running else Stopped),
              si_provider = ''firecracker'', si_image = vm_image m, si_expires_at = vm_expires_at m\<rparr>)
            (list_vms env base is w1))"

definition fc_list :: "'w fc_env \<Rightarrow> string \<Rightarrow> ('w, sandbox_info list) fc_io" where
  "fc_list env base w =
     (case list_vm_ids base w of
        (Inl e, w1) \<Rightarrow> (Inl e, w1)
      | (Inr ids, w1) \<Rightarrow> (case list_vms env base ids w1 of (infos, w2) \<Rightarrow> (Inr infos, w2)))"

definition fc_patch :: "'w fc_env \<Rightarrow> string \<Rightarrow> string \<Rightarrow> sandbox_id \<Rightarrow> ('w, unit) fc_io" where
  "fc_patch env base st i w =
     (case live_metadata env base i w of
        (Inl e, w1) \<Rightarrow> (Inl e, w1)
      | (Inr m, w1) \<Rightarrow> send_api env (socket_path base i) (patch_vm st) w1)"

definition fc_pause :: "'w fc_env \<Rightarrow> string \<Rightarrow> sandbox_id \<Rightarrow> ('w, unit) fc_io" where
  "fc_pause env base = fc_patch env base ''Paused''"

definition fc_unpause :: "'w fc_env \<Rightarrow> string \<Rightarrow> sandbox_id \<Rightarrow> ('w, unit) fc_io" where
  "fc_unpause env base = fc_patch env base ''Resumed''"

text \<open>The loop of \<open>gc\<close> over the listed machines.\<close>

fun gc_vms :: "'w fc_env \<Rightarrow> string \<Rightarrow> u64 \<Rightarrow> sandbox_info list \<Rightarrow> 'w fc_world \<Rightarrow> sandbox_id list \<times> 'w fc_world" where
  "gc_vms env base now [] w = ([], w)"
| "gc_vms env base now (info # infos) w =
     (case si_expires_at info of
        None \<Rightarrow> gc_vms env base now infos w
      | Some expires \<Rightarrow>
          (if expires \<le> now then
             (case fc_destroy env base (si_id info) w of
                (Inl _, w1) \<Rightarrow> gc_vms env base now infos w1
              | (Inr _, w1) \<Rightarrow> apfst ((#) (si_id info)) (gc_vms env base now infos w1))
           else gc_vms env base now infos w))"

definition fc_gc :: "'w fc_env \<Rightarrow> string \<Rightarrow> ('w, sandbox_id list) fc_io" where
  "fc_gc env base w =
     (case fc_list env base w of
        (Inl e, w1) \<Rightarrow> (Inl e, w1)
      | (Inr infos, w1) \<Rightarrow>
          (case gc_vms env base (fe_secs env (fw_rest w1)) infos w1 of (ids, w2) \<Rightarrow> (Inr ids, w2)))"

text \<open>There are no file operations: the trait is not implemented.\<close>

definition firecracker_provider :: "'w fc_env \<Rightarrow> string \<Rightarrow> 'w fc_world provider" where
  "firecracker_provider env base =
     \<lparr>pv_capabilities = firecracker_capabilities, pv_create = fc_create env base, pv_exec = fc_exec env base,
      pv_destroy = fc_destroy env base, pv_list = fc_list env base,
      pv_copy_to = (\<lambda>_ _ _ w. (Inl (Unsupported ''firecracker''), w)),
      pv_copy_from = (\<lambda>_ _ _ w. (Inl (Unsupported ''firecracker''), w)),
      pv_pause = fc_pause env base, pv_unpause = fc_unpause env base, pv_gc = fc_gc env base\<rparr>"

subsection \<open>Settings of a machine\<close>

text \<open>The context identifiers 0 to 2 are reserved, the largest is the wildcard.\<close>

lemma allocate_cid_range: "3 \<le> unat (allocate_cid ts) \<and> unat (allocate_cid ts) < 2 ^ 32 - 1"
proof -
  define m where "m = ts mod (2 ^ 32 - 1 - 3)"
  have m: "m < 2 ^ 32 - 1 - 3"
    by (simp add: m_def)
  have "unat (word_of_nat (m + 3) :: u32) = m + 3"
    using m by (subst unat_of_nat) simp
  then show ?thesis
    using m unfolding allocate_cid_def m_def[symmetric] by simp
qed

subsection \<open>Creation leaves a machine or nothing\<close>

text \<open>
  The documented behaviour of serde: what it writes of the metadata, it reads back.
\<close>

definition metadata_json_ok :: "'w fc_env \<Rightarrow> bool" where
  "metadata_json_ok env \<longleftrightarrow> (\<forall>m. \<exists>t. fe_meta_write env m = Inr t \<and> fe_meta_read env t = Inr m)"

text \<open>No file and no directory is at or below the directory of a machine.\<close>

definition vm_free :: "string \<Rightarrow> string \<Rightarrow> fs \<Rightarrow> bool" where
  "vm_free base i s \<longleftrightarrow>
     list_all (\<lambda>e. \<not> below (vm_dir base i) (fst e)) (fs_files s)
     \<and> list_all (\<lambda>d. \<not> below (vm_dir base i) d) (fs_dirs s)
     \<and> list_all (\<lambda>q. hm_get (fs_files s) q = None) (path_chain (vm_dir base i))"

abbreviation no_faults :: "'w fc_world \<Rightarrow> bool" where
  "no_faults w \<equiv> fs_fault (fw_fs w) = (\<lambda>_. None)"

lemma vm_paths:
  assumes "plain_name i"
  shows "socket_path base i = vm_dir base i @ ''/'' @ ''firecracker.sock''"
    and "rootfs_path base i = vm_dir base i @ ''/'' @ ''rootfs.ext4''"
    and "metadata_path base i = vm_dir base i @ ''/'' @ ''metadata.json''"
  unfolding socket_path_def rootfs_path_def metadata_path_def vm_dir_def
  by (rule path_join_join[OF assms], simp add: plain_name_def)+

lemma create_vm_dir_ok:
  assumes "no_faults w" "vm_free base i (fw_fs w)"
  shows "\<exists>w'. create_vm_dir base i w = (Inr (), w') \<and> no_faults w' \<and> fw_procs w' = fw_procs w
    \<and> fw_rest w' = fw_rest w \<and> fs_files (fw_fs w') = fs_files (fw_fs w)
    \<and> set (fs_dirs (fw_fs w')) = set (fs_dirs (fw_fs w)) \<union> set (path_chain (vm_dir base i))"
  using assms
  by (auto simp: create_vm_dir_def lift_fs_def create_dir_all_def fs_call_ok vm_free_def list_ex_iff list_all_iff)

text \<open>The directory of a machine while it is set up: its files are the only ones below it.\<close>

definition vm_dir_only :: "string \<Rightarrow> string \<Rightarrow> 'w fc_world \<Rightarrow> 'w fc_world \<Rightarrow> bool" where
  "vm_dir_only base i w w' \<longleftrightarrow> no_faults w'
     \<and> hm_retain (\<lambda>p _. \<not> below (vm_dir base i) p) (fs_files (fw_fs w')) = fs_files (fw_fs w)
     \<and> set (fs_dirs (fw_fs w')) = set (fs_dirs (fw_fs w)) \<union> set (path_chain (vm_dir base i))"

lemma vm_path_no_dir:
  assumes "plain_name i" "vm_free base i (fw_fs w)" "vm_dir_only base i w w'" "k \<noteq> []"
  shows "vm_dir base i @ ''/'' @ k \<notin> set (fs_dirs (fw_fs w'))"
proof
  assume "vm_dir base i @ ''/'' @ k \<in> set (fs_dirs (fw_fs w'))"
  then consider "vm_dir base i @ ''/'' @ k \<in> set (fs_dirs (fw_fs w))"
    | "vm_dir base i @ ''/'' @ k \<in> set (path_chain (vm_dir base i))"
    using assms(3) by (auto simp: vm_dir_only_def)
  then show False
  proof cases
    case 1
    then show False using assms(2) below_join[of "vm_dir base i" k] by (auto simp: vm_free_def list_all_iff)
  next
    case 2
    then show False using path_chain_le by fastforce
  qed
qed

lemma copy_rootfs_ok:
  assumes "plain_name i" "vm_free base i (fw_fs w)" "vm_dir_only base i w w'"
    and "hm_get (fs_files (fw_fs w')) rf \<noteq> None"
  shows "\<exists>w''. copy_rootfs base i rf w' = (Inr (), w'') \<and> vm_dir_only base i w w''
    \<and> fw_procs w'' = fw_procs w' \<and> fw_rest w'' = fw_rest w'"
proof -
  have "vm_dir base i @ ''/'' @ ''rootfs.ext4'' \<notin> set (fs_dirs (fw_fs w'))"
    using vm_path_no_dir[OF assms(1-3)] by simp
  then show ?thesis
    using assms(3,4) below_join[of "vm_dir base i" "''rootfs.ext4''"]
    by (auto simp: copy_rootfs_def lift_fs_def copy_file_def fs_call_ok vm_paths[OF assms(1)] vm_dir_only_def
        hm_retain_insert_drop)
qed

lemma write_metadata_ok:
  assumes "plain_name i" "vm_free base i (fw_fs w)" "vm_dir_only base i w w'"
    and "metadata_json_ok env" "vm_id m = i"
  shows "\<exists>w''. write_metadata env base m w' = (Inr (), w'') \<and> vm_dir_only base i w w''
    \<and> fw_procs w'' = fw_procs w' \<and> fst (read_metadata env base i w'') = Inr m"
proof -
  obtain t where t: "fe_meta_write env m = Inr t" "fe_meta_read env t = Inr m"
    using assms(4) by (auto simp: metadata_json_ok_def)
  have "vm_dir base i @ ''/'' @ ''metadata.json'' \<notin> set (fs_dirs (fw_fs w'))"
    using vm_path_no_dir[OF assms(1-3)] by simp
  then show ?thesis
    using assms(3,5) t below_join[of "vm_dir base i" "''metadata.json''"]
    by (auto simp: write_metadata_def read_metadata_def read_to_string_def lift_fs_def write_file_def fs_call_ok
        vm_paths[OF assms(1)] vm_dir_only_def hm_retain_insert_drop)
qed

lemma remove_vm_dir_ok:
  assumes "vm_free base i (fw_fs w)" "vm_dir_only base i w w'"
  shows "\<exists>w''. remove_vm_dir base i w' = (Inr (), w'') \<and> fs_files (fw_fs w'') = fs_files (fw_fs w)
    \<and> \<not> fs_exists (vm_dir base i) (fw_fs w'') \<and> fw_procs w'' = fw_procs w'"
proof -
  have here: "vm_dir base i \<in> set (fs_dirs (fw_fs w'))"
    using assms(2) path_chain_self by (auto simp: vm_dir_only_def)
  have "hm_get (fs_files (fw_fs w)) (vm_dir base i) = None"
    using assms(1) path_chain_self by (auto simp: vm_free_def list_all_iff)
  then show ?thesis
    using here assms(2)
    by (auto simp: remove_vm_dir_def lift_fs_def remove_dir_all_def fs_call_ok vm_dir_only_def fs_exists_def)
qed

lemma send_all_frame:
  "send_all env socket qs w = (r, w') \<Longrightarrow> fw_fs w' = fw_fs w \<and> fw_procs w' = fw_procs w"
  by (induction qs arbitrary: w) (fastforce simp: send_api_def split: prod.splits sum.splits)+

lemma discard_vm_ok:
  assumes "vm_free base i (fw_fs w)" "vm_dir_only base i w w'" "fw_procs w' = hs_insert pid (fw_procs w)"
    and "pid \<notin> set (fw_procs w)"
  shows "fs_files (fw_fs (discard_vm base i pid w')) = fs_files (fw_fs w)
    \<and> \<not> fs_exists (vm_dir base i) (fw_fs (discard_vm base i pid w'))
    \<and> fw_procs (discard_vm base i pid w') = fw_procs w"
proof -
  have kill: "kill_process pid w' = (Inr (), w'\<lparr>fw_procs := fw_procs w\<rparr>)"
    using assms(3,4) filter_neq_id[of pid "fw_procs w"]
    by (simp add: kill_process_def is_process_alive_def hs_insert_def hs_remove_def)
  have "vm_dir_only base i w (w'\<lparr>fw_procs := fw_procs w\<rparr>)"
    using assms(2) by (simp add: vm_dir_only_def)
  from remove_vm_dir_ok[OF assms(1) this] show ?thesis
    by (auto simp: discard_vm_def kill)
qed

lemma boot_vm_ok:
  assumes "vm_free base i (fw_fs w)" "vm_dir_only base i w w'" "fw_procs w' = hs_insert pid (fw_procs w)"
    and "pid \<notin> set (fw_procs w)" "boot_vm env base i pid kern cid c w' = (r, w'')"
  shows "(\<forall>e. r = Inl e \<longrightarrow> fs_files (fw_fs w'') = fs_files (fw_fs w)
      \<and> \<not> fs_exists (vm_dir base i) (fw_fs w'') \<and> fw_procs w'' = fw_procs w)
    \<and> (r = Inr () \<longrightarrow> vm_dir_only base i w w'' \<and> fw_procs w'' = fw_procs w')"
proof -
  define w1 where "w1 = w'\<lparr>fw_rest := wait_socket env (socket_path base i) 50 (fw_rest w')\<rparr>"
  have w1: "fw_fs w1 = fw_fs w'" "fw_procs w1 = fw_procs w'" by (simp_all add: w1_def)
  have boot: "boot_vm env base i pid kern cid c w' =
      (if \<not> fe_socket_there env (socket_path base i) (fw_rest w1)
       then (Inl (CreateFailed ''firecracker socket did not appear''), discard_vm base i pid w1)
       else case send_all env (socket_path base i) (vm_requests kern (rootfs_path base i) cid c) w1 of
         (Inl e, w2) \<Rightarrow> (Inl e, discard_vm base i pid w2)
       | (Inr _, w2) \<Rightarrow> (Inr (), w2))"
    by (simp add: boot_vm_def Let_def w1_def)
  have keep: "vm_dir_only base i w v" if "fw_fs v = fw_fs w1" for v
    using that assms(2) w1 by (simp add: vm_dir_only_def)
  show ?thesis
  proof (cases "fe_socket_there env (socket_path base i) (fw_rest w1)")
    case False
    then show ?thesis
      using assms(5) discard_vm_ok[OF assms(1) keep[of w1] _ assms(4)] assms(3) w1
      unfolding boot by auto
  next
    case True
    obtain r2 w2 where run: "send_all env (socket_path base i) (vm_requests kern (rootfs_path base i) cid c) w1 = (r2, w2)"
      by (cases "send_all env (socket_path base i) (vm_requests kern (rootfs_path base i) cid c) w1")
    note frame = send_all_frame[OF run]
    show ?thesis
      using assms(5) True run discard_vm_ok[OF assms(1) keep[of w2] _ assms(4)] keep[of w2] frame assms(3) w1
      unfolding boot by (auto split: sum.splits)
  qed
qed

lemma vm_free_absent: "vm_free base i s \<Longrightarrow> \<not> fs_exists (vm_dir base i) s"
  using path_chain_self by (fastforce simp: vm_free_def fs_exists_def list_all_iff)

lemma vm_free_dir_only:
  assumes "vm_free base i (fw_fs w)" "no_faults w'" "fs_files (fw_fs w') = fs_files (fw_fs w)"
    and "set (fs_dirs (fw_fs w')) = set (fs_dirs (fw_fs w)) \<union> set (path_chain (vm_dir base i))"
  shows "vm_dir_only base i w w'"
  using assms hm_retain_all[of "\<lambda>p. \<not> below (vm_dir base i) p" "fs_files (fw_fs w)"]
  by (simp add: vm_dir_only_def vm_free_def)

text \<open>The directory and the copy of the root file system, then the process.\<close>

lemma prepare_vm_ok:
  assumes "no_faults w" "plain_name i" "vm_free base i (fw_fs w)" "hm_get (fs_files (fw_fs w)) rf \<noteq> None"
  shows "\<exists>w2 w3. create_vm_dir base i w = (Inr (), w2) \<and> copy_rootfs base i rf w2 = (Inr (), w3)
    \<and> vm_dir_only base i w w3 \<and> fw_procs w3 = fw_procs w \<and> fw_rest w3 = fw_rest w"
proof -
  obtain w2 where w2: "create_vm_dir base i w = (Inr (), w2)" "no_faults w2" "fw_procs w2 = fw_procs w"
    "fw_rest w2 = fw_rest w" "fs_files (fw_fs w2) = fs_files (fw_fs w)"
    "set (fs_dirs (fw_fs w2)) = set (fs_dirs (fw_fs w)) \<union> set (path_chain (vm_dir base i))"
    using create_vm_dir_ok[OF assms(1,3)] by blast
  have "vm_dir_only base i w w2"
    using vm_free_dir_only[OF assms(3)] w2 by simp
  from copy_rootfs_ok[OF assms(2,3) this] show ?thesis
    using assms(4) w2 by auto
qed

lemma fc_create_cases:
  assumes w: "no_faults w" "plain_name i" "vm_free base i (fw_fs w)" and js: "metadata_json_ok env"
    and rf: "sc_rootfs c = Some rf" "hm_get (fs_files (fw_fs w)) rf \<noteq> None"
    and i: "fst (fe_uuid env (fw_rest w)) = i"
    and fresh: "\<forall>args pid r r'. fe_spawn env args r = (Inr pid, r') \<longrightarrow> pid \<notin> set (fw_procs w)"
    and run: "fc_create env base c w = (res, w')"
  shows "(\<forall>e. res = Inl e \<longrightarrow> fw_procs w' = fw_procs w \<and> fs_files (fw_fs w') = fs_files (fw_fs w)
        \<and> \<not> fs_exists (vm_dir base i) (fw_fs w'))
    \<and> (\<forall>j. res = Inr j \<longrightarrow> j = i \<and> vm_dir_only base i w w'
        \<and> (\<exists>m. fst (read_metadata env base i w') = Inr m \<and> vm_id m = i \<and> vm_pid m \<notin> set (fw_procs w)
             \<and> fw_procs w' = hs_insert (vm_pid m) (fw_procs w)
             \<and> vm_expires_at m = Some (vm_created_at m + sc_timeout_secs c)))"
proof (cases "is_ok (validate_config c firecracker_capabilities) \<and> is_ok (fc_validate_config (fw_fs w) c)")
  case False
  then have "w' = w" "\<not> is_ok res"
    using run by (auto simp: fc_create_def split: sum.splits)
  then show ?thesis
    using vm_free_absent[OF w(3)] by auto
next
  case True
  then obtain kern where valid: "is_ok (validate_config c firecracker_capabilities)"
    "fc_validate_config (fw_fs w) c = Inr (kern, rf)"
    using rf(1) by (auto simp: fc_validate_config_def split: option.splits if_splits)
  obtain r1 where r1: "fe_uuid env (fw_rest w) = (i, r1)" using i by (cases "fe_uuid env (fw_rest w)") auto
  define w1 where "w1 = w\<lparr>fw_rest := r1\<rparr>"
  define cid where "cid = allocate_cid (fe_nanos env r1)"
  have eq: "fw_fs w1 = fw_fs w" "fw_procs w1 = fw_procs w" by (simp_all add: w1_def)
  obtain w2 w3 where prep: "create_vm_dir base i w1 = (Inr (), w2)" "copy_rootfs base i rf w2 = (Inr (), w3)"
    "vm_dir_only base i w1 w3" "fw_procs w3 = fw_procs w1"
    using prepare_vm_ok[of w1 i base rf] w rf(2) eq by auto
  have only3: "vm_dir_only base i w w3" using prep(3) eq by (simp add: vm_dir_only_def)
  have run3: "(res, w') =
     (case spawn_firecracker env (socket_path base i) w3 of
        (Inl e, w4) \<Rightarrow> (Inl e, snd (remove_vm_dir base i w4))
      | (Inr pid, w4) \<Rightarrow>
     (case boot_vm env base i pid kern cid c w4 of
        (Inl e, w5) \<Rightarrow> (Inl e, w5)
      | (Inr _, w5) \<Rightarrow>
     (case write_metadata env base (new_metadata (fe_secs env (fw_rest w5)) i pid cid kern c) w5 of
        (Inl e, w6) \<Rightarrow> (Inl e, w6)
      | (Inr _, w6) \<Rightarrow> (Inr i, w6))))"
    using run valid r1 prep(1,2) unfolding cid_def w1_def by (auto simp: fc_create_def Let_def is_ok_iff)
  obtain sp w4 where sp: "spawn_firecracker env (socket_path base i) w3 = (sp, w4)"
    by (cases "spawn_firecracker env (socket_path base i) w3")
  have fs4: "fw_fs w4 = fw_fs w3"
    using sp by (auto simp: spawn_firecracker_def split: prod.splits sum.splits)
  have only4: "vm_dir_only base i w w4" using only3 fs4 by (simp add: vm_dir_only_def)
  show ?thesis
  proof (cases sp)
    case (Inl e)
    then have "fw_procs w4 = fw_procs w"
      using sp prep(4) eq by (auto simp: spawn_firecracker_def split: prod.splits sum.splits)
    then show ?thesis
      using run3 sp Inl remove_vm_dir_ok[OF w(3) only4] by auto
  next
    case (Inr pid)
    then have pid: "fw_procs w4 = hs_insert pid (fw_procs w)" "pid \<notin> set (fw_procs w)"
      using sp prep(4) eq fresh by (auto simp: spawn_firecracker_def split: prod.splits sum.splits)
    obtain b w5 where boot: "boot_vm env base i pid kern cid c w4 = (b, w5)"
      by (cases "boot_vm env base i pid kern cid c w4")
    note boots = boot_vm_ok[OF w(3) only4 pid boot]
    show ?thesis
    proof (cases b)
      case (Inl e)
      then show ?thesis using run3 sp \<open>sp = Inr pid\<close> boot boots by auto
    next
      case (Inr u)
      let ?m = "new_metadata (fe_secs env (fw_rest w5)) i pid cid kern c"
      have "vm_dir_only base i w w5" "fw_procs w5 = hs_insert pid (fw_procs w)"
        using boots Inr pid(1) by auto
      with write_metadata_ok[OF w(2,3) this(1) js, of ?m] obtain w6 where w6:
        "write_metadata env base ?m w5 = (Inr (), w6)" "vm_dir_only base i w w6"
        "fw_procs w6 = hs_insert pid (fw_procs w)" "fst (read_metadata env base i w6) = Inr ?m"
        by (auto simp: new_metadata_def)
      have "(res, w') = (Inr i, w6)"
        using run3 sp \<open>sp = Inr pid\<close> boot Inr w6(1) by simp
      then show ?thesis
        using w6 pid(2) by (auto simp: new_metadata_def)
    qed
  qed
qed

lemma read_metadata_world:
  "read_metadata env base i w = (r, w') \<Longrightarrow> \<exists>n. w' = w\<lparr>fw_fs := fw_fs w\<lparr>fs_calls := n\<rparr>\<rparr>"
  by (auto simp: read_metadata_def lift_fs_def read_to_string_def fs_call_def split: prod.splits sum.splits option.splits)

lemma vm_dir_only_calls:
  "vm_dir_only base i w (w'\<lparr>fw_fs := fw_fs w'\<lparr>fs_calls := n\<rparr>, fw_procs := ps\<rparr>) = vm_dir_only base i w w'"
  by (simp add: vm_dir_only_def)

text \<open>
  (C12) All or nothing, as long as the file operations of the host succeed: when none fails, the root
  file system exists, the identifier is a new name and metadata is read back as written, a creation that is
  refused, whose process does not start or whose machine does not boot (its socket, any call of its API)
  leaves no process, no state directory and no file behind; one that
  succeeds leaves one process whose metadata is on disk with the expiry of the request, and
  destroying the machine removes the process, the directory and every file of it.
  Without the first condition it does not hold: when writing the metadata fails, the process and its
  directory stay.
\<close>

theorem fc_create_all_or_nothing:
  assumes "no_faults w" "plain_name i" "vm_free base i (fw_fs w)" and "metadata_json_ok env"
    and "sc_rootfs c = Some rf" "hm_get (fs_files (fw_fs w)) rf \<noteq> None"
    and "fst (fe_uuid env (fw_rest w)) = i"
    and "\<forall>args pid r r'. fe_spawn env args r = (Inr pid, r') \<longrightarrow> pid \<notin> set (fw_procs w)"
    and "fc_create env base c w = (res, w')"
  shows "case res of
      Inl _ \<Rightarrow> fw_procs w' = fw_procs w \<and> fs_files (fw_fs w') = fs_files (fw_fs w)
        \<and> \<not> fs_exists (vm_dir base i) (fw_fs w')
    | Inr j \<Rightarrow> j = i \<and> (\<exists>m w''. fst (read_metadata env base i w') = Inr m
        \<and> fw_procs w' = hs_insert (vm_pid m) (fw_procs w)
        \<and> vm_expires_at m = Some (vm_created_at m + sc_timeout_secs c)
        \<and> fc_destroy env base i w' = (Inr (), w'') \<and> fw_procs w'' = fw_procs w
        \<and> fs_files (fw_fs w'') = fs_files (fw_fs w) \<and> \<not> fs_exists (vm_dir base i) (fw_fs w''))"
proof (cases res)
  case (Inl e)
  then show ?thesis using fc_create_cases[OF assms] by auto
next
  case (Inr j)
  obtain m where m: "j = i" "vm_dir_only base i w w'" "fst (read_metadata env base i w') = Inr m"
    "vm_pid m \<notin> set (fw_procs w)" "fw_procs w' = hs_insert (vm_pid m) (fw_procs w)"
    "vm_expires_at m = Some (vm_created_at m + sc_timeout_secs c)"
    using fc_create_cases[OF assms] Inr by auto
  obtain w1 where w1: "read_metadata env base i w' = (Inr m, w1)"
    using m(3) by (cases "read_metadata env base i w'") simp
  then obtain n where n: "w1 = w'\<lparr>fw_fs := fw_fs w'\<lparr>fs_calls := n\<rparr>\<rparr>"
    using read_metadata_world by blast
  have "kill_process (vm_pid m) w1 = (Inr (), w1\<lparr>fw_procs := fw_procs w\<rparr>)" "is_process_alive (vm_pid m) w1"
    using m(4,5) n filter_neq_id[of "vm_pid m" "fw_procs w"]
    by (auto simp: kill_process_def is_process_alive_def hs_insert_def hs_remove_def)
  moreover have "vm_dir_only base i w (w1\<lparr>fw_procs := fw_procs w\<rparr>)"
    using m(2) n by (simp add: vm_dir_only_def)
  ultimately have "\<exists>w''. fc_destroy env base i w' = (Inr (), w'') \<and> fw_procs w'' = fw_procs w
      \<and> fs_files (fw_fs w'') = fs_files (fw_fs w) \<and> \<not> fs_exists (vm_dir base i) (fw_fs w'')"
    using w1 remove_vm_dir_ok[OF assms(3)] by (fastforce simp: fc_destroy_def)
  then show ?thesis using Inr m by auto
qed

text \<open>
  A host for the witnesses: its clock counts the calls, its service answers \<open>204\<close>, and metadata is
  written as the list of its fields, every character marked.
\<close>

definition mark :: "string \<Rightarrow> string" where
  "mark s = concat (map (\<lambda>c. [CHR ''c'', c]) s) @ ''.''"

fun unmark :: "string \<Rightarrow> string \<Rightarrow> string list" where
  "unmark acc (x # c # s) =
     (if x = CHR ''c'' then unmark (acc @ [c]) s else acc # unmark [] (c # s))"
| "unmark acc [x] = [acc]"
| "unmark acc [] = []"

lemma unmark_mark: "unmark acc (mark s @ r) = (acc @ s) # unmark [] r"
  by (induction s arbitrary: acc) (auto simp: mark_def neq_Nil_conv intro: list.exhaust[of r])

definition mark_metadata :: "vm_metadata \<Rightarrow> string" where
  "mark_metadata m =
     concat (map mark [vm_id m, vm_provider m, vm_image m, show_u64 (ucast (vm_pid m)), show_u64 (ucast (vm_cid m)),
       vm_kernel m, (case vm_expires_at m of Some e \<Rightarrow> show_u64 e | None \<Rightarrow> []), show_u64 (vm_created_at m)])"

definition unmark_metadata :: "string \<Rightarrow> (string, vm_metadata) result" where
  "unmark_metadata t =
     (case unmark [] t of
        [i, pv, img, pid, cid, kern, expires, created] \<Rightarrow>
          (let num = (\<lambda>s. case parse_u64 s of Some n \<Rightarrow> n | None \<Rightarrow> 0)
           in Inr \<lparr>vm_id = i, vm_provider = pv, vm_image = img, vm_pid = ucast (num pid), vm_cid = ucast (num cid),
                vm_kernel = kern, vm_expires_at = parse_u64 expires, vm_created_at = num created\<rparr>)
      | _ \<Rightarrow> Inl ''expected value'')"

lemma parse_no_digits: "parse_u64 [] = None"
  by (simp add: parse_u64_def parse_unsigned_def strip_char_def parse_digits_def)

lemma unmark_mark_end: "unmark [] (mark s) = [s]"
  using unmark_mark[of "[]" s "[]"] by simp

lemma unmark_mark_fields:
  "unmark [] (mark a @ mark b @ mark d @ mark e @ mark f @ mark g @ mark h @ mark k) = [a, b, d, e, f, g, h, k]"
  by (simp only: unmark_mark unmark_mark_end append_Nil)

lemma unmark_mark_metadata: "unmark_metadata (mark_metadata m) = Inr m"
proof -
  have u32: "ucast (ucast x :: u64) = x" for x :: u32
    by (simp add: ucast_up_ucast_id is_up)
  have expires: "parse_u64 (case e of Some e \<Rightarrow> show_u64 e | None \<Rightarrow> []) = e" for e
    by (cases e) (simp_all add: parse_no_digits parse_u64_show_u64)
  show ?thesis
    by (cases m) (simp add: unmark_metadata_def mark_metadata_def unmark_mark_fields parse_u64_show_u64 expires u32)
qed

definition demo_fc_env :: "nat fc_env" where
  "demo_fc_env =
     \<lparr>fe_meta_write = (\<lambda>m. Inr (mark_metadata m)), fe_meta_read = unmark_metadata,
      fe_spawn = (\<lambda>_ n. (Inr 7, Suc n)), fe_socket_there = (\<lambda>_ n. 3 < n),
      fe_api = (\<lambda>_ _ n. (Answer True ''204 No Content'' (Inr []), Suc n)),
      fe_nanos = (\<lambda>n. n), fe_sleep = (\<lambda>_ n. Suc n), fe_uuid = (\<lambda>n. (''vm'', Suc n)),
      fe_connect = (\<lambda>_ _ n. (None, n)), fe_write = (\<lambda>_ n. (Inr (), n)), fe_flush = (\<lambda>n. (Inr (), n)),
      fe_read_exact = (\<lambda>_ n. (Inl ''eof'', n)), fe_late = (\<lambda>_ _ _. False),
      fe_request_json = (\<lambda>_ _. Inr ''{}''), fe_output_json = (\<lambda>_. Inl ''empty'')\<rparr>"

definition demo_fc_world :: "nat fc_world" where
  "demo_fc_world =
     \<lparr>fw_fs = \<lparr>fs_files = [(''/k'', ''kernel''), (''/r'', ''root'')], fs_dirs = [], fs_fault = (\<lambda>_. None), fs_calls = 0\<rparr>,
      fw_procs = [], fw_rest = 0\<rparr>"

definition demo_fc_config :: sandbox_config where
  "demo_fc_config = sandbox_config_default\<lparr>sc_kernel := Some ''/k'', sc_rootfs := Some ''/r''\<rparr>"

lemma demo_metadata_json_ok: "metadata_json_ok demo_fc_env"
  by (simp add: metadata_json_ok_def demo_fc_env_def unmark_mark_metadata)

lemma demo_vm_free: "vm_free ''/s'' ''vm'' (fw_fs demo_fc_world)"
  by (simp add: vm_free_def demo_fc_world_def vm_dir_def path_join_def below_def path_chain_def
      path_parts_back_def starts_with_iff)

theorem fc_create_all_or_nothing_witness:
  "\<exists>res w'. fc_create demo_fc_env ''/s'' demo_fc_config demo_fc_world = (res, w')
     \<and> (case res of
          Inl _ \<Rightarrow> fw_procs w' = [] \<and> fs_files (fw_fs w') = fs_files (fw_fs demo_fc_world)
        | Inr j \<Rightarrow> j = ''vm'' \<and> (\<exists>w''. fc_destroy demo_fc_env ''/s'' ''vm'' w' = (Inr (), w'') \<and> fw_procs w'' = []))"
proof -
  obtain res w' where run: "fc_create demo_fc_env ''/s'' demo_fc_config demo_fc_world = (res, w')"
    by (cases "fc_create demo_fc_env ''/s'' demo_fc_config demo_fc_world")
  have start: "plain_name ''vm''" "sc_rootfs demo_fc_config = Some ''/r''"
    "hm_get (fs_files (fw_fs demo_fc_world)) ''/r'' \<noteq> None"
    "fst (fe_uuid demo_fc_env (fw_rest demo_fc_world)) = ''vm''" "no_faults demo_fc_world"
    "fw_procs demo_fc_world = []"
    by (simp_all add: plain_name_def demo_fc_config_def demo_fc_world_def demo_fc_env_def)
  have fresh: "\<forall>args pid r r'. fe_spawn demo_fc_env args r = (Inr pid, r') \<longrightarrow> pid \<notin> set (fw_procs demo_fc_world)"
    by (simp add: start(6))
  from fc_create_all_or_nothing[OF start(5,1) demo_vm_free demo_metadata_json_ok start(2,3,4) fresh run]
  show ?thesis
    using run start(6) by (cases res) auto
qed

end
