(* ===== verification/Pool_Spec.thy ===== *)
theory Pool_Spec
  imports Pool Firecracker
begin

text \<open>
  What the pools achieve: a pass of the replenisher fills a pool up to its minimum when its
  provider creates, and the pools of the Firecracker provider, which never does, stay empty.
\<close>

subsection \<open>The replenisher reaches the minimum\<close>

definition always_creates :: "'w backends \<Rightarrow> string \<Rightarrow> bool" where
  "always_creates be pv \<longleftrightarrow>
     (\<forall>c. \<exists>create. backend_create be pv c = Some create \<and> (\<forall>w. \<exists>i w'. create w = (Inr i, w')))"

lemma replenish_task_other:
  "k \<noteq> key \<Longrightarrow> pool_of (fst (replenish_task be key now pm w)) k = pool_of pm k"
  by (auto simp: replenish_task_def push_idle_get split: option.split prod.split sum.split)

lemma replenish_tasks_other:
  "k \<noteq> key \<Longrightarrow> pool_of (fst (replenish_tasks be key clock n pm w)) k = pool_of pm k"
proof (induction be key clock n pm w rule: replenish_tasks.induct)
  case (2 be key clock n pm w)
  then show ?case
    using replenish_task_other[of k key be "clock n" pm w] by (auto split: prod.split)
qed simp

text \<open>\<open>grown p p' n\<close>: \<open>n\<close> sandboxes were added at the end of the idle list.\<close>

definition grown :: "sandbox_pool \<Rightarrow> sandbox_pool \<Rightarrow> nat \<Rightarrow> bool" where
  "grown p p' n \<longleftrightarrow> (\<exists>new. length new = n \<and> p' = p\<lparr>sp_idle := sp_idle p @ new\<rparr>)"

lemma grown_zero [simp]: "grown p p' 0 \<longleftrightarrow> p' = p"
  by (simp add: grown_def)

lemma grown_trans: "grown p q m \<Longrightarrow> grown q r n \<Longrightarrow> grown p r (m + n)"
  by (auto simp: grown_def intro: exI[of _ "_ @ _"])

lemma grown_fields:
  "grown p p' n \<Longrightarrow> length (sp_idle p') = length (sp_idle p) + n \<and> sp_active p' = sp_active p
    \<and> sp_config p' = sp_config p \<and> take (length (sp_idle p)) (sp_idle p') = sp_idle p"
  by (auto simp: grown_def)

lemma replenish_task_grows:
  assumes "always_creates be (pk_provider key)" "pool_of pm key = Some p"
  shows "\<exists>p'. pool_of (fst (replenish_task be key now pm w)) key = Some p' \<and> grown p p' 1"
proof -
  obtain create i w' where "backend_create be (pk_provider key)
      (pool_sandbox_config (pk_provider key) (pk_image key) 0) = Some create" "create w = (Inr i, w')"
    using assms(1) by (auto simp: always_creates_def) (metis option.inject)
  then show ?thesis
    using assms(2) by (auto simp: replenish_task_def push_idle_get grown_def intro: exI[of _ "[_]"])
qed

lemma replenish_tasks_grow:
  assumes "always_creates be (pk_provider key)" "pool_of pm key = Some p"
  shows "\<exists>p'. pool_of (fst (replenish_tasks be key clock n pm w)) key = Some p' \<and> grown p p' n"
  using assms(2)
proof (induction n arbitrary: pm p w)
  case (Suc n)
  obtain q where q: "pool_of (fst (replenish_task be key (clock n) pm w)) key = Some q" "grown p q 1"
    using replenish_task_grows[OF assms(1) Suc.prems] by blast
  obtain p' where "pool_of (fst (replenish_tasks be key clock n (fst (replenish_task be key (clock n) pm w))
      (snd (replenish_task be key (clock n) pm w)))) key = Some p'" "grown q p' n"
    using Suc.IH[OF q(1)] by blast
  then show ?case
    using grown_trans[OF q(2)] by (auto simp: case_prod_beta)
qed simp

lemma deficit_after:
  "grown p p' (replenish_deficit p) \<Longrightarrow> replenish_deficit p' = 0"
  by (drule grown_fields) (auto simp: replenish_deficit_def Let_def min_def split: if_splits)

lemma replenish_keys_grow:
  assumes "always_creates be (pk_provider key)" "pool_of pm key = Some p"
  shows "\<exists>p'. pool_of (fst (replenish_keys be clock keys pm w)) key = Some p'
    \<and> grown p p' (if key \<in> set keys then replenish_deficit p else 0)"
  using assms(2)
proof (induction keys arbitrary: pm p w)
  case (Cons k keys)
  obtain pm1 w1 where t: "replenish_tasks be k clock (key_deficit k pm) pm w = (pm1, w1)"
    by (cases "replenish_tasks be k clock (key_deficit k pm) pm w")
  show ?case
  proof (cases "k = key")
    case False
    then have "pool_of pm1 key = Some p"
      using replenish_tasks_other[of key k be clock "key_deficit k pm" pm w] t Cons.prems by simp
    from Cons.IH[OF this, of w1] show ?thesis using t False by auto
  next
    case True
    then have "key_deficit k pm = replenish_deficit p"
      using Cons.prems by (simp add: key_deficit_def)
    then obtain q where q: "pool_of pm1 key = Some q" "grown p q (replenish_deficit p)"
      using replenish_tasks_grow[OF assms(1) Cons.prems, of clock "replenish_deficit p" w] t True by auto
    obtain p' where p': "pool_of (fst (replenish_keys be clock keys pm1 w1)) key = Some p'" "grown q p' 0"
      using Cons.IH[OF q(1), of w1] deficit_after[OF q(2)] by (auto split: if_splits)
    then show ?thesis using q t True by auto
  qed
qed simp

text \<open>
  (C15) The replenisher gets there: when the provider of a pool creates, one pass after a request
  for the pool leaves it with its minimum of idle sandboxes, as far as its maximum allows, the
  sandboxes it had first and the active ones untouched.
\<close>

theorem replenish_reaches_min:
  assumes "pool_of pm key = Some p" and "key \<in> set (pm_pending pm)" and "always_creates be (pk_provider key)"
  shows "\<exists>p'. pool_of (fst (replenish_pass be clock pm w)) key = Some p'
    \<and> length (sp_idle p') = max (length (sp_idle p))
        (min (unat (pc_min_idle (sp_config p))) (unat (pc_max_total (sp_config p)) - length (sp_active p)))
    \<and> take (length (sp_idle p)) (sp_idle p') = sp_idle p \<and> sp_active p' = sp_active p"
proof -
  have "pool_of (pm\<lparr>pm_pending := [], pm_notified := False\<rparr>) key = Some p"
    using assms(1) by simp
  from replenish_keys_grow[OF assms(3) this, of clock "pm_pending pm" w] obtain p' where
    p': "pool_of (fst (replenish_pass be clock pm w)) key = Some p'" "grown p p' (replenish_deficit p)"
    using assms(2) by (auto simp: replenish_pass_def drain_pending_def)
  then show ?thesis
    using grown_fields[OF p'(2)] by (auto simp: replenish_deficit_def Let_def min_def max_def)
qed


lemma counting_always_creates: "always_creates counting_backends ''docker''"
  by (simp add: always_creates_def backend_create_def counting_backends_def counting_provider_def)

definition hungry_pool :: sandbox_pool where
  "hungry_pool = \<lparr>sp_config = \<lparr>pc_provider = ''docker'', pc_image = ''img'', pc_min_idle = 3, pc_max_idle = 5,
       pc_max_total = 3, pc_idle_timeout_secs = 600\<rparr>, sp_idle = [], sp_active = [''a'']\<rparr>"

definition hungry_manager :: pool_manager where
  "hungry_manager =
     \<lparr>pm_pools = [(\<lparr>pk_provider = ''docker'', pk_image = ''img''\<rparr>, hungry_pool)],
      pm_pending = [\<lparr>pk_provider = ''docker'', pk_image = ''img''\<rparr>], pm_notified = True\<rparr>"

theorem replenish_reaches_min_witness:
  "\<exists>p'. pool_of (fst (replenish_pass counting_backends (\<lambda>_. 0) hungry_manager 7)) \<lparr>pk_provider = ''docker'', pk_image = ''img''\<rparr>
      = Some p' \<and> length (sp_idle p') = 2"
proof -
  have "pool_of hungry_manager \<lparr>pk_provider = ''docker'', pk_image = ''img''\<rparr> = Some hungry_pool"
    "\<lparr>pk_provider = ''docker'', pk_image = ''img''\<rparr> \<in> set (pm_pending hungry_manager)"
    by (simp_all add: hungry_manager_def)
  from replenish_reaches_min[OF this, of counting_backends "\<lambda>_. 0" 7] counting_always_creates
  obtain p' where "pool_of (fst (replenish_pass counting_backends (\<lambda>_. 0) hungry_manager 7))
      \<lparr>pk_provider = ''docker'', pk_image = ''img''\<rparr> = Some p'"
    "length (sp_idle p') = max (length (sp_idle hungry_pool))
        (min (unat (pc_min_idle (sp_config hungry_pool))) (unat (pc_max_total (sp_config hungry_pool)) - length (sp_active hungry_pool)))"
    by auto
  then show ?thesis
    by (auto simp: hungry_pool_def)
qed

subsection \<open>The pools of Firecracker\<close>

text \<open>The configuration of a pool's sandbox names no kernel, which Firecracker requires.\<close>

lemma pool_config_refused:
  "\<exists>e. validate_config (pool_sandbox_config pv img t) firecracker_capabilities = Inl e"
  by (simp add: validate_config_def config_violations_def firecracker_capabilities_def pool_sandbox_config_def)

definition with_firecracker :: "'w fc_env \<Rightarrow> string \<Rightarrow> 'w fc_world provider \<Rightarrow> 'w fc_world backends" where
  "with_firecracker env base docker = \<lparr>be_docker = docker, be_firecracker = Some (firecracker_provider env base)\<rparr>"

lemma firecracker_backend_fails:
  "\<exists>create. backend_create (with_firecracker env base docker) ''firecracker'' (pool_sandbox_config pv img t) = Some create
    \<and> (\<exists>e. \<forall>w. create w = (Inl e, w))"
proof -
  obtain e where "validate_config (pool_sandbox_config pv img t) firecracker_capabilities = Inl e"
    using pool_config_refused by blast
  then show ?thesis
    by (simp add: backend_create_def with_firecracker_def firecracker_provider_def fc_create_def)
qed

definition vm_pools_empty :: "pool_manager \<Rightarrow> bool" where
  "vm_pools_empty pm \<longleftrightarrow> (\<nexists>key p. pool_of pm key = Some p \<and> pk_provider key = ''firecracker'' \<and> 0 < pool_total p)"

lemma vm_pools_emptyD:
  "vm_pools_empty pm \<Longrightarrow> pool_of pm key = Some p \<Longrightarrow> pk_provider key = ''firecracker'' \<Longrightarrow> pool_total p = 0"
  by (auto simp: vm_pools_empty_def)

lemma vm_pools_emptyI:
  "(\<And>key p. pool_of pm key = Some p \<Longrightarrow> pk_provider key = ''firecracker'' \<Longrightarrow> pool_total p = 0) \<Longrightarrow> vm_pools_empty pm"
  by (fastforce simp: vm_pools_empty_def)

lemma vm_pools_empty_shrinks: "shrinks pm pm' \<Longrightarrow> vm_pools_empty pm \<Longrightarrow> vm_pools_empty pm'"
  by (fastforce intro!: vm_pools_emptyI dest: shrinksD vm_pools_emptyD)

lemma vm_pools_empty_same: "pm_pools pm' = pm_pools pm \<Longrightarrow> vm_pools_empty pm' = vm_pools_empty pm"
  by (simp add: vm_pools_empty_def)

lemma vm_pools_empty_acquire:
  assumes "try_acquire (with_firecracker env base docker) c pm w = (r, pm', w')" "vm_pools_empty pm"
  shows "vm_pools_empty pm'"
proof (rule vm_pools_emptyI)
  fix key p'
  assume p': "pool_of pm' key = Some p'" "pk_provider key = ''firecracker''"
  show "pool_total p' = 0"
  proof (cases "acquire_key c = key")
    case False
    then have "pool_of pm' key = pool_of pm key"
      using assms(1) by (auto simp: try_acquire_unfold split: if_splits option.splits list.splits prod.splits sum.splits)
    then have "pool_of pm key = Some p'" using p'(1) by simp
    then show ?thesis using p'(2) by (rule vm_pools_emptyD[OF assms(2)])
  next
    case True
    then have vm: "acquire_provider c = ''firecracker''"
      and key: "\<lparr>pk_provider = ''firecracker'', pk_image = sc_image c\<rparr> = key"
      using p'(2) by (auto simp: acquire_key_def)
    obtain create e where create: "backend_create (with_firecracker env base docker) ''firecracker''
        (pool_sandbox_config ''firecracker'' (sc_image c) (sc_timeout_secs c)) = Some create" "\<forall>w. create w = (Inl e, w)"
      using firecracker_backend_fails by blast
    obtain p where p: "pool_of pm key = Some p"
      using assms(1) p'(1)
      by (cases "pool_of pm key") (auto simp: try_acquire_def Let_def vm key split: if_splits)
    then have "sp_idle p = []"
      using assms(2) p'(2) vm_pools_emptyD[of pm key p] by (simp add: pool_total_def)
    then have "pm' = pm"
      using assms(1) create p by (auto simp: try_acquire_def Let_def vm key split: if_splits)
    then show ?thesis using p' vm_pools_emptyD[OF assms(2)] by simp
  qed
qed

lemma vm_pools_empty_task:
  assumes "vm_pools_empty pm"
  shows "vm_pools_empty (fst (replenish_task (with_firecracker env base docker) key now pm w))"
proof (cases "pk_provider key = ''firecracker''")
  case True
  then show ?thesis
    using assms firecracker_backend_fails[of env base docker "pk_provider key" "pk_image key" 0]
    by (auto simp: replenish_task_def)
next
  case False
  show ?thesis
  proof (rule vm_pools_emptyI)
    fix k p
    assume k: "pool_of (fst (replenish_task (with_firecracker env base docker) key now pm w)) k = Some p"
      "pk_provider k = ''firecracker''"
    moreover have "k \<noteq> key" using False k(2) by auto
    ultimately have "pool_of pm k = Some p"
      using replenish_task_other[of k key "with_firecracker env base docker" now pm w] by simp
    then show "pool_total p = 0" using k(2) by (rule vm_pools_emptyD[OF assms])
  qed
qed

lemma vm_pools_empty_tasks:
  "vm_pools_empty pm \<Longrightarrow> vm_pools_empty (fst (replenish_tasks (with_firecracker env base docker) key clock n pm w))"
proof (induction n arbitrary: pm w)
  case (Suc n)
  then show ?case
    using vm_pools_empty_task[OF Suc.prems, of env base docker key "clock n" w] by (auto split: prod.split)
qed simp

lemma vm_pools_empty_keys:
  "vm_pools_empty pm \<Longrightarrow> vm_pools_empty (fst (replenish_keys (with_firecracker env base docker) clock keys pm w))"
proof (induction keys arbitrary: pm w)
  case (Cons key keys)
  then show ?case
    using vm_pools_empty_tasks[OF Cons.prems, of env base docker key clock "key_deficit key pm" w]
    by (auto split: prod.split)
qed simp

lemma vm_pools_empty_step:
  assumes "vm_pools_empty pm"
  shows "vm_pools_empty (fst (pool_step (with_firecracker env base docker) op (pm, w)))"
proof (cases op)
  case (Acquire c)
  obtain r pm' w' where "try_acquire (with_firecracker env base docker) c pm w = (r, pm', w')"
    by (cases "try_acquire (with_firecracker env base docker) c pm w") auto
  then show ?thesis using Acquire assms vm_pools_empty_acquire by fastforce
next
  case (Replenish clock)
  have "vm_pools_empty (pm\<lparr>pm_pending := [], pm_notified := False\<rparr>)"
    using assms vm_pools_empty_same[of "pm\<lparr>pm_pending := [], pm_notified := False\<rparr>" pm] by simp
  then show ?thesis
    using Replenish by (simp add: replenish_pass_def drain_pending_def vm_pools_empty_keys)
next
  case Warmup
  then show ?thesis using assms vm_pools_empty_same[of "pool_warmup pm" pm] by (simp add: pool_warmup_def)
next
  case Shutdown
  then show ?thesis using assms vm_pools_empty_shrinks[OF pool_shutdown_shrinks, of pm] by simp
next
  case (Reap now)
  then show ?thesis using assms vm_pools_empty_shrinks[OF reaper_pass_shrinks, of pm] by simp
next
  case Drain
  then show ?thesis using assms vm_pools_empty_shrinks[OF pool_drain_shrinks, of pm] by simp
qed (use assms vm_pools_empty_shrinks[OF on_destroy_shrinks, of pm] in simp)

interpretation vm_runs: preserving "pool_step (with_firecracker env base docker)" "\<lambda>s. vm_pools_empty (fst s)"
  for env base docker
  by unfold_locales (metis prod.collapse vm_pools_empty_step)

text \<open>
  (C29) A pool of the Firecracker provider never holds a sandbox, idle or active, whatever the
  configuration and whatever operations run: the sandboxes of a pool are created without the
  kernel and the root file system the provider requires.
\<close>

theorem firecracker_pools_stay_empty:
  "\<nexists>key p. pool_of (fst (fold (pool_step (with_firecracker env base docker)) ops (pool_manager_new configs, w))) key = Some p
     \<and> pk_provider key = ''firecracker'' \<and> 0 < pool_total p"
proof -
  have "vm_pools_empty (pool_manager_new configs)"
    using pool_manager_new_empty by (blast intro: vm_pools_emptyI)
  then show ?thesis
    using vm_runs.run_inv[of "(pool_manager_new configs, w)" env base docker ops] by (auto simp: vm_pools_empty_def)
qed

end
