(* ===== verification/Server.thy ===== *)
theory Server
  imports Intent Session Pool Idempotency Sensor
begin

text \<open>
  The daemon's service, \<open>server.rs\<close>: the state of \<open>SandboxServiceImpl\<close>, the mapping of errors and
  data to the protocol, and its handlers. A handler is a function of the request, the server's
  state and the world \<open>'w\<close> behind the providers; the readings of the clocks are a record argument.
  Handlers run concurrently in the daemon and synchronise on the locks of the components; a
  handler here is one run without interference (the interleavings that matter are in \<open>Session\<close>
  and \<open>Pool\<close>).
\<close>

subsection \<open>The protocol\<close>

datatype code =
    Code_NotFound | Code_Internal | Code_Unavailable | Code_DeadlineExceeded | Code_Unimplemented
  | Code_FailedPrecondition | Code_ResourceExhausted | Code_PermissionDenied | Code_InvalidArgument

type_synonym status = "code \<times> string"
type_synonym 'a rpc = "(status, 'a) result"

record proto_file_access =
  pf_path :: string
  pf_op :: i32
  pf_size_bytes :: "u64 option"

record proto_trace =
  pt_duration_secs :: f64
  pt_resource_usage :: "resource_usage option"
  pt_file_accesses :: "proto_file_access list"
  pt_network_attempts :: "network_attempt list"
  pt_blocked_ops :: "blocked_operation list"
  pt_syscalls :: "syscall_event list"
  pt_resource_timeline :: "resource_snapshot list"

record exec_response =
  xr_exit_code :: i32
  xr_stdout :: string
  xr_stderr :: string
  xr_trace :: "proto_trace option"

record exec_record =
  xl_command :: "string list"
  xl_exit_code :: "i32 option"
  xl_stdout :: string
  xl_stderr :: string
  xl_timestamp_ms :: u64
  xl_duration_ms :: "u64 option"

record create_request =
  cq_provider :: string
  cq_image :: string
  cq_memory :: "string option"
  cq_cpus :: "f64 option"
  cq_timeout_secs :: u64
  cq_network :: bool
  cq_writable :: bool
  cq_env :: "(string, string) hash_map"
  cq_mounts :: "mount_config list"
  cq_kernel :: "string option"
  cq_rootfs :: "string option"
  cq_network_allowlist :: "string list"
  cq_fs_paths :: "string list"

record exec_rpc_request =
  xq_sandbox_id :: string
  xq_command :: "string list"
  xq_timeout_secs :: "u64 option"
  xq_provider :: string
  xq_trace_level :: i32
  xq_idempotency_key :: "string option"
  xq_session_id :: "string option"

record proto_sandbox_info =
  pi_id :: string
  pi_status :: i32
  pi_provider :: string
  pi_image :: string
  pi_expires_at :: "u64 option"

subsection \<open>State\<close>

record 'w providers =
  ps_docker_cli :: "'w docker_cli"
  ps_e2b :: "'w provider option"
  ps_k8s :: "'w provider option"
  ps_firecracker :: "'w provider option"
  ps_wasm :: "'w provider option"

record server =
  sv_pool :: pool_manager
  sv_last_rpc_ms :: u64
  sv_cache :: "exec_response idempotency_cache"
  sv_sessions :: session_manager
  sv_log :: "(string, exec_record list) hash_map"

text \<open>Wall clock in milliseconds, nanoseconds and seconds, and the instants a handler reads.\<close>

record rpc_clock =
  ck_ms :: u64
  ck_exec_ms :: u64
  ck_wall_ns :: nat
  ck_now_secs :: u64
  ck_get :: nat
  ck_start :: nat
  ck_finish :: nat
  ck_evict :: nat
  ck_put :: nat
  ck_end :: nat

definition server_new :: "pool_manager \<Rightarrow> u64 \<Rightarrow> server" where
  "server_new pm now_ms =
     \<lparr>sv_pool = pm, sv_last_rpc_ms = now_ms, sv_cache = idempotency_cache_new,
      sv_sessions = session_manager_new, sv_log = []\<rparr>"

definition touch_last_rpc :: "rpc_clock \<Rightarrow> server \<Rightarrow> server" where
  "touch_last_rpc ck sv = sv\<lparr>sv_last_rpc_ms := ck_ms ck\<rparr>"

definition get_sensor :: "string \<Rightarrow> sensor_dispatch" where
  "get_sensor pv = (if pv = ''docker'' then Sensor_Docker else Sensor_None)"

definition pool_backends :: "'w providers \<Rightarrow> 'w backends" where
  "pool_backends ps = \<lparr>be_docker = docker_provider (ps_docker_cli ps), be_firecracker = ps_firecracker ps\<rparr>"

subsection \<open>Errors and data of the protocol\<close>

definition provider_error_to_status :: "provider_error \<Rightarrow> status" where
  "provider_error_to_status err =
     ((case err of
         NotFound _ \<Rightarrow> Code_NotFound
       | CreateFailed _ \<Rightarrow> Code_Internal
       | ExecFailed _ \<Rightarrow> Code_Internal
       | Unavailable _ \<Rightarrow> Code_Unavailable
       | Timeout _ \<Rightarrow> Code_DeadlineExceeded
       | Unsupported _ \<Rightarrow> Code_Unimplemented
       | FileFailed _ \<Rightarrow> Code_Internal
       | PausedErr _ \<Rightarrow> Code_FailedPrecondition), provider_error_display err)"

definition session_error_to_status :: "session_error \<Rightarrow> status" where
  "session_error_to_status err =
     ((case err of
         SessionNotFound _ \<Rightarrow> Code_NotFound
       | BudgetExceeded _ \<Rightarrow> Code_ResourceExhausted
       | PermissionDenied _ \<Rightarrow> Code_PermissionDenied), session_error_display err)"

definition provider_hint_to_str :: "provider_hint \<Rightarrow> string" where
  "provider_hint_to_str h =
     (case h of Hint_Wasm \<Rightarrow> ''wasm'' | Hint_Docker \<Rightarrow> ''docker'' | Hint_Firecracker \<Rightarrow> ''firecracker'')"

definition resolve_provider :: "(string \<Rightarrow> bool) \<Rightarrow> string \<Rightarrow> string list \<Rightarrow> string" where
  "resolve_provider ua explicit command =
     (if explicit \<noteq> [] then explicit
      else if length command < 3 then ''docker''
      else
        let cmd = command ! 0;
            is_python = (cmd = ''python'' \<or> cmd = ''python3'' \<or> starts_with ''python3.'' cmd);
            is_node = (cmd = ''node'' \<or> starts_with ''node'' cmd)
        in if (is_python \<or> is_node) \<and> command ! 1 = ''-c'' \<and> command ! 2 \<noteq> [] then
             provider_hint_to_str (ci_provider
               (analyze ua (command ! 2) (if is_python then ''python'' else ''node'')))
           else ''docker'')"

definition sandbox_status_to_proto :: "sandbox_status \<Rightarrow> i32" where
  "sandbox_status_to_proto st = (case st of Running \<Rightarrow> 1 | Paused \<Rightarrow> 2 | Stopped \<Rightarrow> 3 | Failed \<Rightarrow> 4)"

definition file_op_to_proto :: "file_op \<Rightarrow> i32" where
  "file_op_to_proto op = (case op of Read \<Rightarrow> 0 | Write \<Rightarrow> 1 | Create \<Rightarrow> 2 | Delete \<Rightarrow> 3)"

definition trace_to_proto :: "execution_trace \<Rightarrow> proto_trace" where
  "trace_to_proto t =
     \<lparr>pt_duration_secs = et_duration_secs t,
      pt_resource_usage = Some (et_resource_usage t),
      pt_file_accesses = map (\<lambda>fa. \<lparr>pf_path = fa_path fa, pf_op = file_op_to_proto (fa_op fa),
        pf_size_bytes = fa_size_bytes fa\<rparr>) (et_file_accesses t),
      pt_network_attempts = et_network_attempts t,
      pt_blocked_ops = et_blocked_ops t,
      pt_syscalls = et_syscalls t,
      pt_resource_timeline = et_resource_timeline t\<rparr>"

text \<open>The loop that moves \<open>end\<close> back to a character boundary.\<close>

fun boundary_before :: "string \<Rightarrow> nat \<Rightarrow> nat" where
  "boundary_before s 0 = 0"
| "boundary_before s (Suc k) = (if \<not> is_char_boundary s (Suc k) then boundary_before s k else Suc k)"

definition truncate_str :: "string \<Rightarrow> nat \<Rightarrow> string" where
  "truncate_str s max_bytes =
     (if length s \<le> max_bytes then s else take (boundary_before s max_bytes) s)"

definition server_default_timeout :: "u64 \<Rightarrow> u64" where
  "server_default_timeout t = (if t = 0 then 300 else t)"

definition default_provider :: "string \<Rightarrow> string" where
  "default_provider p = (if p = [] then ''docker'' else p)"

text \<open>The macro \<open>with_provider\<close>: the provider of a name, or the status it fails with.\<close>

definition with_provider :: "'w providers \<Rightarrow> string \<Rightarrow> 'w provider rpc" where
  "with_provider ps name =
     (let opt = (\<lambda>p msg. case p of Some pv \<Rightarrow> Inr pv | None \<Rightarrow> Inl (Code_Unavailable, msg))
      in if name = ''e2b'' then opt (ps_e2b ps)
             ''E2B provider not available (set E2B_API_KEY or configure ~/.roche/e2b.toml)''
         else if name = ''k8s'' then opt (ps_k8s ps)
             ''K8s provider not available (check kubeconfig or in-cluster configuration)''
         else if name = ''firecracker'' then opt (ps_firecracker ps) ''Firecracker provider not available''
         else if name = ''wasm'' then opt (ps_wasm ps) ''WASM provider not available''
         else Inr (docker_provider (ps_docker_cli ps)))"

subsection \<open>The handlers of a sandbox\<close>

definition request_config :: "create_request \<Rightarrow> sandbox_config" where
  "request_config q =
     \<lparr>sc_provider = cq_provider q,
      sc_image = (if cq_image q = [] then ''python:3.12-slim'' else cq_image q),
      sc_memory = cq_memory q, sc_cpus = cq_cpus q,
      sc_timeout_secs = server_default_timeout (cq_timeout_secs q),
      sc_network = cq_network q, sc_writable = cq_writable q, sc_env = cq_env q, sc_mounts = cq_mounts q,
      sc_kernel = cq_kernel q, sc_rootfs = cq_rootfs q, sc_trace_enabled = True,
      sc_network_allowlist = cq_network_allowlist q, sc_fs_paths = cq_fs_paths q\<rparr>"

definition rpc_create ::
    "'w providers \<Rightarrow> rpc_clock \<Rightarrow> create_request \<Rightarrow> server \<Rightarrow> 'w \<Rightarrow> sandbox_id rpc \<times> server \<times> 'w" where
  "rpc_create ps ck q sv0 w =
     (let sv = touch_last_rpc ck sv0; config = request_config q
      in case try_acquire (pool_backends ps) config (sv_pool sv) w of
           (Some i, pm, w1) \<Rightarrow> (Inr i, sv\<lparr>sv_pool := pm\<rparr>, w1)
         | (None, pm, w1) \<Rightarrow>
             (case with_provider ps (default_provider (sc_provider config)) of
                Inl st \<Rightarrow> (Inl st, sv\<lparr>sv_pool := pm\<rparr>, w1)
              | Inr p \<Rightarrow>
                  (case pv_create p config w1 of
                     (r, w2) \<Rightarrow> (map_err provider_error_to_status r, sv\<lparr>sv_pool := pm\<rparr>, w2))))"

definition log_push :: "string \<Rightarrow> exec_record \<Rightarrow> server \<Rightarrow> server" where
  "log_push i r sv =
     sv\<lparr>sv_log := hm_insert i ((case hm_get (sv_log sv) i of Some rs \<Rightarrow> rs | None \<Rightarrow> []) @ [r]) (sv_log sv)\<rparr>"

definition trace_duration :: "exec_response \<Rightarrow> f64" where
  "trace_duration r = (case xr_trace r of Some t \<Rightarrow> pt_duration_secs t | None \<Rightarrow> F_fin 0)"

text \<open>\<open>record_usage\<close> for a request bound to a session; its error is dropped.\<close>

definition charge_session :: "string option \<Rightarrow> exec_response \<Rightarrow> server \<Rightarrow> server" where
  "charge_session session r sv =
     (case session of
        None \<Rightarrow> sv
      | Some sid \<Rightarrow> sv\<lparr>sv_sessions := snd (record_usage sid (trace_duration r)
          (word_of_nat (length (xr_stdout r) + length (xr_stderr r))) (sv_sessions sv))\<rparr>)"

definition cache_response :: "rpc_clock \<Rightarrow> string option \<Rightarrow> exec_response \<Rightarrow> server \<Rightarrow> server" where
  "cache_response ck key r sv =
     (case key of
        None \<Rightarrow> sv
      | Some k \<Rightarrow> sv\<lparr>sv_cache := idem_put (ck_evict ck) (ck_put ck) k r (sv_cache sv)\<rparr>)"

definition millis_between :: "nat \<Rightarrow> nat \<Rightarrow> u64" where
  "millis_between start now = word_of_nat ((now - start) div 1000000)"

text \<open>\<open>c.finish().await.ok()\<close>; the outer \<open>None\<close> is the panic of the collector.\<close>

definition finish_trace ::
    "'w providers \<Rightarrow> rpc_clock \<Rightarrow> trace_collector_handle option \<Rightarrow> 'w \<Rightarrow> (proto_trace option \<times> 'w) option" where
  "finish_trace ps ck collector w =
     (case collector of
        None \<Rightarrow> Some (None, w)
      | Some c \<Rightarrow>
          (case handle_finish (ps_docker_cli ps) (ck_finish ck) c w of
             None \<Rightarrow> None
           | Some (Inl _, w1) \<Rightarrow> Some (None, w1)
           | Some (Inr t, w1) \<Rightarrow> Some (Some (trace_to_proto t), w1)))"

text \<open>The part of \<open>exec\<close> after the provider is found; the result \<open>None\<close> is a panic.\<close>

definition run_exec ::
    "'w providers \<Rightarrow> rpc_clock \<Rightarrow> exec_rpc_request \<Rightarrow> string \<Rightarrow> 'w provider \<Rightarrow> server \<Rightarrow> 'w
     \<Rightarrow> exec_response rpc option \<times> server \<times> 'w" where
  "run_exec ps ck q provider_name p sv w =
     (let level = trace_level_from_proto (xq_trace_level q);
          collector = (if level \<noteq> Off
            then sensor_start_trace (get_sensor provider_name) (ck_start ck) (xq_sandbox_id q) level else None)
      in case pv_exec p (xq_sandbox_id q) \<lparr>er_command = xq_command q, er_timeout_secs = xq_timeout_secs q,
               er_idempotency_key = xq_idempotency_key q\<rparr> w of
           (Inr output, w1) \<Rightarrow>
             (case finish_trace ps ck collector w1 of
                None \<Rightarrow> (None, sv, w1)
              | Some (trace, w2) \<Rightarrow>
                  (let response = \<lparr>xr_exit_code = eo_exit_code output, xr_stdout = eo_stdout output,
                         xr_stderr = eo_stderr output, xr_trace = trace\<rparr>;
                       entry = \<lparr>xl_command = xq_command q, xl_exit_code = Some (xr_exit_code response),
                         xl_stdout = truncate_str (xr_stdout response) 4096,
                         xl_stderr = truncate_str (xr_stderr response) 4096,
                         xl_timestamp_ms = ck_exec_ms ck,
                         xl_duration_ms = Some (millis_between (ck_start ck) (ck_end ck))\<rparr>
                   in (Some (Inr response),
                       log_push (xq_sandbox_id q) entry
                         (cache_response ck (xq_idempotency_key q) response
                           (charge_session (xq_session_id q) response sv)), w2)))
         | (Inl e, w1) \<Rightarrow>
             (let entry = \<lparr>xl_command = xq_command q, xl_exit_code = None, xl_stdout = [],
                    xl_stderr = provider_error_display e, xl_timestamp_ms = ck_exec_ms ck, xl_duration_ms = None\<rparr>
              in (Some (Inl (provider_error_to_status e)), log_push (xq_sandbox_id q) entry sv, w1)))"

definition exec_uncached ::
    "(string \<Rightarrow> bool) \<Rightarrow> 'w providers \<Rightarrow> rpc_clock \<Rightarrow> exec_rpc_request \<Rightarrow> server \<Rightarrow> 'w
     \<Rightarrow> exec_response rpc option \<times> server \<times> 'w" where
  "exec_uncached ua ps ck q sv w =
     (case (case xq_session_id q of None \<Rightarrow> Inr () | Some sid \<Rightarrow> check_budget sid (sv_sessions sv)) of
        Inl e \<Rightarrow> (Some (Inl (session_error_to_status e)), sv, w)
      | Inr _ \<Rightarrow>
          (let provider_name = resolve_provider ua (xq_provider q) (xq_command q)
           in case with_provider ps provider_name of
                Inl st \<Rightarrow> (Some (Inl st), sv, w)
              | Inr p \<Rightarrow> run_exec ps ck q provider_name p sv w))"

definition rpc_exec ::
    "(string \<Rightarrow> bool) \<Rightarrow> 'w providers \<Rightarrow> rpc_clock \<Rightarrow> exec_rpc_request \<Rightarrow> server \<Rightarrow> 'w
     \<Rightarrow> exec_response rpc option \<times> server \<times> 'w" where
  "rpc_exec ua ps ck q sv0 w =
     (let sv = touch_last_rpc ck sv0
      in case xq_idempotency_key q of
           None \<Rightarrow> exec_uncached ua ps ck q sv w
         | Some key \<Rightarrow>
             (case idem_get (ck_get ck) key (sv_cache sv) of
                (Some cached, c) \<Rightarrow> (Some (Inr cached), sv\<lparr>sv_cache := c\<rparr>, w)
              | (None, c) \<Rightarrow> exec_uncached ua ps ck q (sv\<lparr>sv_cache := c\<rparr>) w))"

text \<open>The loop of \<open>destroy\<close> over its targets.\<close>

fun destroy_targets ::
    "'w provider \<Rightarrow> sandbox_id list \<Rightarrow> server \<Rightarrow> 'w \<Rightarrow> sandbox_id list \<times> server \<times> 'w" where
  "destroy_targets p [] sv w = ([], sv, w)"
| "destroy_targets p (i # is) sv w =
     (case pv_destroy p i w of
        (Inl _, w1) \<Rightarrow> destroy_targets p is sv w1
      | (Inr _, w1) \<Rightarrow>
          apfst ((#) i) (destroy_targets p is
            (sv\<lparr>sv_pool := on_destroy i (sv_pool sv), sv_log := hm_remove i (sv_log sv)\<rparr>) w1))"

definition rpc_destroy ::
    "'w providers \<Rightarrow> rpc_clock \<Rightarrow> string \<Rightarrow> sandbox_id list \<Rightarrow> bool \<Rightarrow> server \<Rightarrow> 'w
     \<Rightarrow> sandbox_id list rpc \<times> server \<times> 'w" where
  "rpc_destroy ps ck pv ids destroy_all sv0 w =
     (let sv = touch_last_rpc ck sv0
      in case with_provider ps (default_provider pv) of
           Inl st \<Rightarrow> (Inl st, sv, w)
         | Inr p \<Rightarrow>
             (if destroy_all then
                (case pv_list p w of
                   (Inl e, w1) \<Rightarrow> (Inl (provider_error_to_status e), sv, w1)
                 | (Inr infos, w1) \<Rightarrow>
                     (case destroy_targets p (map si_id infos) sv w1 of
                        (destroyed, sv', w2) \<Rightarrow> (Inr destroyed, sv', w2)))
              else (case destroy_targets p ids sv w of
                      (destroyed, sv', w2) \<Rightarrow> (Inr destroyed, sv', w2))))"

definition rpc_list ::
    "'w providers \<Rightarrow> rpc_clock \<Rightarrow> string \<Rightarrow> server \<Rightarrow> 'w \<Rightarrow> proto_sandbox_info list rpc \<times> server \<times> 'w" where
  "rpc_list ps ck pv sv0 w =
     (let sv = touch_last_rpc ck sv0
      in case with_provider ps (default_provider pv) of
           Inl st \<Rightarrow> (Inl st, sv, w)
         | Inr p \<Rightarrow>
             (case pv_list p w of
                (Inl e, w1) \<Rightarrow> (Inl (provider_error_to_status e), sv, w1)
              | (Inr infos, w1) \<Rightarrow>
                  (Inr (map (\<lambda>sb. \<lparr>pi_id = si_id sb, pi_status = sandbox_status_to_proto (si_status sb),
                     pi_provider = si_provider sb, pi_image = si_image sb, pi_expires_at = si_expires_at sb\<rparr>) infos),
                   sv, w1)))"

definition rpc_pause ::
    "'w providers \<Rightarrow> rpc_clock \<Rightarrow> string \<Rightarrow> sandbox_id \<Rightarrow> server \<Rightarrow> 'w \<Rightarrow> unit rpc \<times> server \<times> 'w" where
  "rpc_pause ps ck pv i sv0 w =
     (let sv = touch_last_rpc ck sv0
      in case with_provider ps (default_provider pv) of
           Inl st \<Rightarrow> (Inl st, sv, w)
         | Inr p \<Rightarrow> (case pv_pause p i w of (r, w1) \<Rightarrow> (map_err provider_error_to_status r, sv, w1)))"

definition rpc_unpause ::
    "'w providers \<Rightarrow> rpc_clock \<Rightarrow> string \<Rightarrow> sandbox_id \<Rightarrow> server \<Rightarrow> 'w \<Rightarrow> unit rpc \<times> server \<times> 'w" where
  "rpc_unpause ps ck pv i sv0 w =
     (let sv = touch_last_rpc ck sv0
      in case with_provider ps (default_provider pv) of
           Inl st \<Rightarrow> (Inl st, sv, w)
         | Inr p \<Rightarrow> (case pv_unpause p i w of (r, w1) \<Rightarrow> (map_err provider_error_to_status r, sv, w1)))"

text \<open>The loop of \<open>gc\<close> with \<open>all\<close>: a dry run destroys nothing.\<close>

fun gc_all :: "'w provider \<Rightarrow> bool \<Rightarrow> sandbox_id list \<Rightarrow> 'w \<Rightarrow> sandbox_id list \<times> 'w" where
  "gc_all p dry [] w = ([], w)"
| "gc_all p dry (i # is) w =
     (if dry then apfst ((#) i) (gc_all p dry is w)
      else case pv_destroy p i w of
             (Inl _, w1) \<Rightarrow> gc_all p dry is w1
           | (Inr _, w1) \<Rightarrow> apfst ((#) i) (gc_all p dry is w1))"

definition rpc_gc ::
    "'w providers \<Rightarrow> rpc_clock \<Rightarrow> string \<Rightarrow> bool \<Rightarrow> bool \<Rightarrow> server \<Rightarrow> 'w
     \<Rightarrow> sandbox_id list rpc \<times> server \<times> 'w" where
  "rpc_gc ps ck pv all_sandboxes dry_run sv0 w =
     (let sv = touch_last_rpc ck sv0
      in case with_provider ps (default_provider pv) of
           Inl st \<Rightarrow> (Inl st, sv, w)
         | Inr p \<Rightarrow>
             (if all_sandboxes then
                (case pv_list p w of
                   (Inl e, w1) \<Rightarrow> (Inl (provider_error_to_status e), sv, w1)
                 | (Inr infos, w1) \<Rightarrow>
                     (case gc_all p dry_run (map si_id infos) w1 of (ids, w2) \<Rightarrow> (Inr ids, sv, w2)))
              else if dry_run then
                (case pv_list p w of
                   (Inl e, w1) \<Rightarrow> (Inl (provider_error_to_status e), sv, w1)
                 | (Inr infos, w1) \<Rightarrow>
                     (Inr (map si_id (filter (\<lambda>sb. case si_expires_at sb of
                        Some expires \<Rightarrow> expires \<le> ck_now_secs ck | None \<Rightarrow> False) infos)), sv, w1))
              else (case pv_gc p w of (r, w1) \<Rightarrow> (map_err provider_error_to_status r, sv, w1))))"

definition rpc_copy_to ::
    "'w providers \<Rightarrow> rpc_clock \<Rightarrow> sandbox_id \<Rightarrow> string \<Rightarrow> string \<Rightarrow> server \<Rightarrow> 'w \<Rightarrow> unit rpc \<times> server \<times> 'w" where
  "rpc_copy_to ps ck i host_path sandbox_path sv0 w =
     (case docker_copy_to (ps_docker_cli ps) i host_path sandbox_path w of
        (r, w1) \<Rightarrow> (map_err provider_error_to_status r, touch_last_rpc ck sv0, w1))"

definition rpc_copy_from ::
    "'w providers \<Rightarrow> rpc_clock \<Rightarrow> sandbox_id \<Rightarrow> string \<Rightarrow> string \<Rightarrow> server \<Rightarrow> 'w \<Rightarrow> unit rpc \<times> server \<times> 'w" where
  "rpc_copy_from ps ck i sandbox_path host_path sv0 w =
     (case docker_copy_from (ps_docker_cli ps) i sandbox_path host_path w of
        (r, w1) \<Rightarrow> (map_err provider_error_to_status r, touch_last_rpc ck sv0, w1))"

subsection \<open>The handlers of the pool, the history and the sessions\<close>

definition rpc_pool_status :: "rpc_clock \<Rightarrow> server \<Rightarrow> pool_status list rpc \<times> server" where
  "rpc_pool_status ck sv = (Inr (pool_statuses (sv_pool sv)), touch_last_rpc ck sv)"

definition rpc_pool_warmup :: "rpc_clock \<Rightarrow> server \<Rightarrow> unit rpc \<times> server" where
  "rpc_pool_warmup ck sv = (Inr (), (touch_last_rpc ck sv)\<lparr>sv_pool := pool_warmup (sv_pool sv)\<rparr>)"

definition rpc_pool_drain :: "'w providers \<Rightarrow> rpc_clock \<Rightarrow> server \<Rightarrow> 'w \<Rightarrow> u32 rpc \<times> server \<times> 'w" where
  "rpc_pool_drain ps ck sv w =
     (case pool_drain (pool_backends ps) (sv_pool sv) w of
        (n, pm, w1) \<Rightarrow> (Inr n, (touch_last_rpc ck sv)\<lparr>sv_pool := pm\<rparr>, w1))"

datatype stream_event =
    Stream_Output string string
  | Stream_Heartbeat u64 resource_snapshot
  | Stream_Result i32 "proto_trace option"

text \<open>
  The events of \<open>exec_stream\<close> in order: the heartbeats sent while the command ran (their elapsed
  milliseconds), then the output and the result. The Docker provider runs the command whatever
  the request names.
\<close>

definition heartbeat :: "u64 \<Rightarrow> stream_event rpc" where
  "heartbeat ms = Inr (Stream_Heartbeat ms \<lparr>rs_timestamp_ms = ms, rs_memory_bytes = 0, rs_cpu_percent = F_fin 0\<rparr>)"

definition exec_stream_events ::
    "'w providers \<Rightarrow> rpc_clock \<Rightarrow> u64 list \<Rightarrow> sandbox_id \<Rightarrow> exec_request \<Rightarrow> i32 \<Rightarrow> 'w
     \<Rightarrow> stream_event rpc list \<times> 'w" where
  "exec_stream_events ps ck beats i request level_code w =
     (let level = trace_level_from_proto level_code;
          collector = (if level \<noteq> Off then sensor_start_trace Sensor_Docker (ck_start ck) i level else None)
      in case docker_exec (ps_docker_cli ps) i request w of
           (Inl e, w1) \<Rightarrow> (map heartbeat beats @ [Inl (provider_error_to_status e)], w1)
         | (Inr output, w1) \<Rightarrow>
             (let out = map heartbeat beats
                    @ (if eo_stdout output \<noteq> [] then [Inr (Stream_Output ''stdout'' (eo_stdout output))] else [])
                    @ (if eo_stderr output \<noteq> [] then [Inr (Stream_Output ''stderr'' (eo_stderr output))] else [])
              in case finish_trace ps ck collector w1 of
                   None \<Rightarrow> (out, w1)
                 | Some (trace, w2) \<Rightarrow> (out @ [Inr (Stream_Result (eo_exit_code output) trace)], w2)))"

definition rpc_history :: "rpc_clock \<Rightarrow> sandbox_id \<Rightarrow> server \<Rightarrow> exec_record list rpc \<times> server" where
  "rpc_history ck i sv =
     (Inr (case hm_get (sv_log sv) i of Some rs \<Rightarrow> rs | None \<Rightarrow> []), touch_last_rpc ck sv)"

text \<open>
  The session of a response. The messages for its permissions, budget and usage are optional in the
  protocol and have the fields of the daemon's own records.
\<close>

record proto_session =
  sp_session_id :: string
  sp_sandbox_id :: string
  sp_provider :: string
  sp_permissions :: "dynamic_permissions option"
  sp_budget :: "budget option"
  sp_usage :: "budget_usage option"
  sp_created_at_ms :: u64
  sp_agent_pids :: "string list"

definition session_state_to_proto :: "session_state \<Rightarrow> proto_session" where
  "session_state_to_proto s =
     \<lparr>sp_session_id = ss_id s, sp_sandbox_id = ss_sandbox_id s, sp_provider = ss_provider s,
      sp_permissions = Some \<lparr>dp_network = dp_network (ss_permissions s),
        dp_network_allowlist = dp_network_allowlist (ss_permissions s),
        dp_writable = dp_writable (ss_permissions s), dp_fs_paths = dp_fs_paths (ss_permissions s)\<rparr>,
      sp_budget = Some \<lparr>bu_max_execs = bu_max_execs (ss_budget s),
        bu_max_total_secs = bu_max_total_secs (ss_budget s),
        bu_max_output_bytes = bu_max_output_bytes (ss_budget s)\<rparr>,
      sp_usage = Some \<lparr>us_exec_count = us_exec_count (ss_usage s), us_total_secs = us_total_secs (ss_usage s),
        us_output_bytes = us_output_bytes (ss_usage s)\<rparr>,
      sp_created_at_ms = ss_created_at_ms s, sp_agent_pids = ss_agent_pids s\<rparr>"

definition rpc_create_session ::
    "rpc_clock \<Rightarrow> string \<Rightarrow> string \<Rightarrow> dynamic_permissions option \<Rightarrow> budget option \<Rightarrow> server \<Rightarrow> string rpc \<times> server" where
  "rpc_create_session ck i pv perms b sv =
     (case session_create (ck_wall_ns ck) (unat (ck_ms ck)) i pv
             (case perms of Some p \<Rightarrow> p | None \<Rightarrow> dynamic_permissions_default)
             (case b of Some x \<Rightarrow> x | None \<Rightarrow> budget_default) (sv_sessions sv) of
        (sid, sm) \<Rightarrow> (Inr sid, (touch_last_rpc ck sv)\<lparr>sv_sessions := sm\<rparr>))"

definition rpc_destroy_session :: "rpc_clock \<Rightarrow> string \<Rightarrow> server \<Rightarrow> proto_session rpc \<times> server" where
  "rpc_destroy_session ck sid sv =
     (case session_destroy sid (sv_sessions sv) of
        (r, sm) \<Rightarrow> (map_sum session_error_to_status session_state_to_proto r,
          (touch_last_rpc ck sv)\<lparr>sv_sessions := sm\<rparr>))"

definition rpc_list_sessions :: "rpc_clock \<Rightarrow> server \<Rightarrow> proto_session list rpc \<times> server" where
  "rpc_list_sessions ck sv =
     (Inr (map session_state_to_proto (session_list (sv_sessions sv))), touch_last_rpc ck sv)"

definition rpc_update_permissions ::
    "rpc_clock \<Rightarrow> string \<Rightarrow> permission_change option \<Rightarrow> server \<Rightarrow> dynamic_permissions rpc \<times> server" where
  "rpc_update_permissions ck sid change sv0 =
     (let sv = touch_last_rpc ck sv0
      in case change of
           None \<Rightarrow> (Inl (Code_InvalidArgument, ''missing permission change''), sv)
         | Some c \<Rightarrow>
             (case change_permissions sid c (sv_sessions sv) of
                (r, sm) \<Rightarrow> (map_err session_error_to_status r, sv\<lparr>sv_sessions := sm\<rparr>)))"

text \<open>The response of \<open>analyze_intent\<close> has the fields of the intent, the provider as its name.\<close>

definition rpc_analyze_intent ::
    "(string \<Rightarrow> bool) \<Rightarrow> rpc_clock \<Rightarrow> string \<Rightarrow> string \<Rightarrow> server \<Rightarrow> (string \<times> code_intent) rpc \<times> server" where
  "rpc_analyze_intent ua ck code_text language sv =
     (let result = analyze ua code_text language
      in (Inr (provider_hint_to_str (ci_provider result), result), touch_last_rpc ck sv))"

subsection \<open>Truncation\<close>

lemma boundary_before_le: "boundary_before s n \<le> n"
  by (induction n) (auto intro: le_SucI)

lemma boundary_before_boundary: "is_char_boundary s (boundary_before s n)"
  by (induction n) (auto simp: is_char_boundary_def)

lemma boundary_before_greatest: "k \<le> n \<Longrightarrow> is_char_boundary s k \<Longrightarrow> k \<le> boundary_before s n"
  by (induction n) (auto simp: le_Suc_eq)

text \<open>
  Truncation: the result is a prefix of the string within the limit that ends at a
  character boundary, and no longer prefix does; a string within the limit is kept.
\<close>

theorem truncate_str_spec:
  "take (length (truncate_str s n)) s = truncate_str s n
   \<and> length (truncate_str s n) \<le> n
   \<and> is_char_boundary s (length (truncate_str s n))
   \<and> list_all (\<lambda>k. \<not> is_char_boundary s k) [Suc (length (truncate_str s n))..<Suc (min n (length s))]"
proof (cases "length s \<le> n")
  case True
  then show ?thesis
    by (auto simp: truncate_str_def is_char_boundary_def list_all_iff)
next
  case False
  let ?b = "boundary_before s n"
  have len: "length (truncate_str s n) = ?b"
    using False boundary_before_le[of s n] by (simp add: truncate_str_def)
  have "\<not> is_char_boundary s k" if "Suc ?b \<le> k" "k < Suc n" for k
    using boundary_before_greatest[of k n s] that by auto
  then show ?thesis
    unfolding len using False boundary_before_le[of s n] boundary_before_boundary[of s n]
    by (auto simp: truncate_str_def list_all_iff)
qed

subsection \<open>Idempotent execution\<close>

lemma run_exec_ok:
  "run_exec ps ck q name p sv w = (Some (Inr r), sv1, w1) \<Longrightarrow>
    sv_cache sv1 = sv_cache (cache_response ck (xq_idempotency_key q) r sv)
    \<and> sv_sessions sv1 = sv_sessions (charge_session (xq_session_id q) r sv) \<and> sv_pool sv1 = sv_pool sv"
  by (auto simp: run_exec_def Let_def log_push_def cache_response_def charge_session_def
      split: prod.splits sum.splits option.splits)

lemma run_exec_not_ok:
  "run_exec ps ck q name p sv w = (res, sv1, w1) \<Longrightarrow> (\<And>r. res \<noteq> Some (Inr r)) \<Longrightarrow>
    sv_sessions sv1 = sv_sessions sv \<and> sv_cache sv1 = sv_cache sv"
  by (auto simp: run_exec_def Let_def log_push_def split: prod.splits sum.splits option.splits)

lemma exec_uncached_ok:
  "exec_uncached ua ps ck q sv w = (Some (Inr r), sv1, w1) \<Longrightarrow>
    \<exists>p. with_provider ps (resolve_provider ua (xq_provider q) (xq_command q)) = Inr p
      \<and> run_exec ps ck q (resolve_provider ua (xq_provider q) (xq_command q)) p sv w = (Some (Inr r), sv1, w1)"
  by (auto simp: exec_uncached_def Let_def split: sum.splits)

lemma exec_uncached_caches:
  "exec_uncached ua ps ck q sv w = (Some (Inr r), sv1, w1) \<Longrightarrow> xq_idempotency_key q = Some k \<Longrightarrow>
    sv_cache sv1 = idem_put (ck_evict ck) (ck_put ck) k r (sv_cache sv)"
  by (auto dest!: exec_uncached_ok run_exec_ok simp: cache_response_def)

text \<open>
  Replay: after the first execution under an idempotency key succeeded, any request with
  that key within the time to live gets the same response, and nothing is run: the world behind
  the providers, the sessions, the pool and the history are untouched. This holds of \<^emph>\<open>any\<close>
  such request, for another sandbox or command too, since only the key is compared.
\<close>

theorem exec_replay:
  assumes "rpc_exec ua ps ck q sv w = (Some (Inr r), sv1, w1)"
    and "xq_idempotency_key q = Some k" "xq_idempotency_key q' = Some k"
    and "hm_get (ic_entries (sv_cache sv)) k = None"
    and "ck_get ck' - ck_put ck < ic_ttl (sv_cache sv)"
  shows "\<exists>sv2. rpc_exec ua ps ck' q' sv1 w1 = (Some (Inr r), sv2, w1)
    \<and> sv_sessions sv2 = sv_sessions sv1 \<and> sv_pool sv2 = sv_pool sv1 \<and> sv_log sv2 = sv_log sv1
    \<and> sv_cache sv2 = sv_cache sv1"
proof -
  have "idem_get (ck_get ck) k (sv_cache sv) = (None, sv_cache sv)"
    using assms(4) by (simp add: idem_get_def)
  then have "exec_uncached ua ps ck q ((touch_last_rpc ck sv)\<lparr>sv_cache := sv_cache sv\<rparr>) w = (Some (Inr r), sv1, w1)"
    using assms(1,2) by (simp add: rpc_exec_def Let_def touch_last_rpc_def)
  from exec_uncached_caches[OF this assms(2)]
  have c: "sv_cache sv1 = idem_put (ck_evict ck) (ck_put ck) k r (sv_cache sv)" by simp
  have "idem_get (ck_get ck') k (sv_cache sv1) = (Some r, sv_cache sv1)"
    using assms(5) idem_put_get[of "ck_evict ck" "ck_put ck" k r "sv_cache sv"]
    by (simp add: c idem_get_def)
  then show ?thesis
    using assms(3) by (simp add: rpc_exec_def Let_def touch_last_rpc_def)
qed

subsection \<open>Executions in a session\<close>

text \<open>The answer of the cache to a request, and the cache after the look-up.\<close>

definition cached_answer ::
    "rpc_clock \<Rightarrow> exec_rpc_request \<Rightarrow> server \<Rightarrow> exec_response option \<times> exec_response idempotency_cache" where
  "cached_answer ck q sv =
     (case xq_idempotency_key q of
        None \<Rightarrow> (None, sv_cache sv)
      | Some k \<Rightarrow> idem_get (ck_get ck) k (sv_cache sv))"

lemma rpc_exec_cached:
  "rpc_exec ua ps ck q sv w =
    (case cached_answer ck q sv of
       (Some r, c) \<Rightarrow> (Some (Inr r), (touch_last_rpc ck sv)\<lparr>sv_cache := c\<rparr>, w)
     | (None, c) \<Rightarrow> exec_uncached ua ps ck q ((touch_last_rpc ck sv)\<lparr>sv_cache := c\<rparr>) w)"
  by (simp add: rpc_exec_def cached_answer_def touch_last_rpc_def Let_def split: option.split prod.split)

text \<open>
  (C6) The gate and the meter, for requests bound to a session. A request whose idempotency key has a
  response in the cache gets it, and nothing is checked, run or charged. Any other, with a
  key or without, reaches the provider only when the budget check passes; when it fails nothing changes but
  the time of the last request and an expired response of the cache. One that succeeds is charged once, with
  the bytes of its output and the duration of its trace; one that fails is not charged at all.
\<close>

theorem exec_session_metered:
  assumes "xq_session_id q = Some sid"
    and "rpc_exec ua ps ck q sv w = (res, sv1, w1)"
  shows "case cached_answer ck q sv of
      (Some r, c) \<Rightarrow> res = Some (Inr r) \<and> w1 = w \<and> sv1 = (touch_last_rpc ck sv)\<lparr>sv_cache := c\<rparr>
    | (None, c) \<Rightarrow>
        (\<forall>e. check_budget sid (sv_sessions sv) = Inl e \<longrightarrow>
          res = Some (Inl (session_error_to_status e)) \<and> w1 = w \<and> sv1 = (touch_last_rpc ck sv)\<lparr>sv_cache := c\<rparr>)
        \<and> (\<forall>r. res = Some (Inr r) \<longrightarrow>
          check_budget sid (sv_sessions sv) = Inr ()
          \<and> sv_sessions sv1 = snd (record_usage sid (trace_duration r)
              (word_of_nat (length (xr_stdout r) + length (xr_stderr r))) (sv_sessions sv)))
        \<and> ((\<forall>r. res \<noteq> Some (Inr r)) \<longrightarrow> sv_sessions sv1 = sv_sessions sv)"
proof (cases "cached_answer ck q sv")
  case (Pair hit c)
  show ?thesis
  proof (cases hit)
    case (Some r)
    then show ?thesis using assms(2) Pair by (simp add: rpc_exec_cached)
  next
    case None
    let ?sv = "(touch_last_rpc ck sv)\<lparr>sv_cache := c\<rparr>"
    have run: "exec_uncached ua ps ck q ?sv w = (res, sv1, w1)"
      using assms(2) Pair None by (simp add: rpc_exec_cached)
    have same: "sv_sessions ?sv = sv_sessions sv"
      by (simp add: touch_last_rpc_def)
    have denied: "res = Some (Inl (session_error_to_status e)) \<and> w1 = w \<and> sv1 = ?sv"
      if "check_budget sid (sv_sessions sv) = Inl e" for e
      using run assms(1) same that by (simp add: exec_uncached_def)
    have charged: "check_budget sid (sv_sessions sv) = Inr () \<and> sv_sessions sv1 = snd (record_usage sid (trace_duration r)
        (word_of_nat (length (xr_stdout r) + length (xr_stderr r))) (sv_sessions sv))" if ok: "res = Some (Inr r)" for r
    proof
      show "check_budget sid (sv_sessions sv) = Inr ()"
        using run[unfolded ok] assms(1) same by (simp add: exec_uncached_def split: sum.splits)
      show "sv_sessions sv1 = snd (record_usage sid (trace_duration r)
          (word_of_nat (length (xr_stdout r) + length (xr_stderr r))) (sv_sessions sv))"
        using exec_uncached_ok[OF run[unfolded ok]] assms(1) same
        by (auto dest!: run_exec_ok simp: charge_session_def)
    qed
    have "sv_sessions sv1 = sv_sessions sv" if no: "\<forall>r. res \<noteq> Some (Inr r)"
      using run same
      by (auto simp: exec_uncached_def Let_def split: sum.splits dest!: run_exec_not_ok[OF _ no[rule_format]])
    with denied charged show ?thesis
      unfolding Pair None prod.case option.case by blast
  qed
qed

subsection \<open>A concrete daemon\<close>

text \<open>A Docker command that prints \<open>out\<close> for an execution, on a world that counts the commands.\<close>

definition echo_cli :: "nat docker_cli" where
  "echo_cli =
     \<lparr>dk_run = (\<lambda>_ n. (Inr (ok_output []), Suc n)),
      dk_run_timeout = (\<lambda>_ _ n. (Some (Inr (ok_output ''out'')), Suc n)),
      dk_now = (\<lambda>_. 0), dk_seccomp = (\<lambda>_. None)\<rparr>"

definition demo_providers :: "nat providers" where
  "demo_providers = \<lparr>ps_docker_cli = echo_cli, ps_e2b = None, ps_k8s = None, ps_firecracker = None, ps_wasm = None\<rparr>"

definition demo_clock :: rpc_clock where
  "demo_clock = \<lparr>ck_ms = 1, ck_exec_ms = 1, ck_wall_ns = 0, ck_now_secs = 0, ck_get = 0, ck_start = 0,
     ck_finish = 0, ck_evict = 0, ck_put = 0, ck_end = 0\<rparr>"

definition demo_exec :: "string option \<Rightarrow> string option \<Rightarrow> exec_rpc_request" where
  "demo_exec key session =
     \<lparr>xq_sandbox_id = ''sb'', xq_command = [''ls''], xq_timeout_secs = None, xq_provider = ''docker'',
      xq_trace_level = 0, xq_idempotency_key = key, xq_session_id = session\<rparr>"

definition demo_response :: exec_response where
  "demo_response = \<lparr>xr_exit_code = 0, xr_stdout = ''out'', xr_stderr = [], xr_trace = None\<rparr>"

definition demo_server :: server where
  "demo_server = (server_new (pool_manager_new []) 0)\<lparr>sv_sessions := one_exec_session\<rparr>"

lemma from_utf8_out: "from_utf8_lossy ''out'' = ''out''"
  by (rule from_utf8_lossy_ascii) (simp add: is_ascii_def)

lemma demo_run_exec:
  "\<exists>sv1. run_exec demo_providers demo_clock (demo_exec key session) ''docker'' (docker_provider echo_cli) sv w
     = (Some (Inr demo_response), sv1, Suc w)"
  by (simp add: run_exec_def demo_exec_def trace_level_from_proto_def docker_provider_def docker_exec_def
      echo_cli_def ok_output_def stderr_text_def stdout_text_def from_utf8_out str_contains_def
      finish_trace_def demo_response_def Let_def del: from_utf8_lossy.simps(2))

lemma demo_uncached:
  assumes "session = None \<or> (\<exists>sid. session = Some sid \<and> check_budget sid (sv_sessions sv) = Inr ())"
  shows "\<exists>sv1. exec_uncached ua demo_providers demo_clock (demo_exec key session) sv w
     = (Some (Inr demo_response), sv1, Suc w)"
proof -
  have "with_provider demo_providers ''docker'' = Inr (docker_provider echo_cli)"
    by (simp add: with_provider_def demo_providers_def)
  moreover have "resolve_provider ua (xq_provider (demo_exec key session)) (xq_command (demo_exec key session)) = ''docker''"
    by (simp add: resolve_provider_def demo_exec_def)
  moreover have "xq_session_id (demo_exec key session) = session"
    by (simp add: demo_exec_def)
  ultimately show ?thesis
    using demo_run_exec[of key session sv w] assms by (auto simp: exec_uncached_def)
qed

theorem exec_replay_witness:
  "\<exists>sv1 sv2. rpc_exec (\<lambda>_. False) demo_providers demo_clock (demo_exec (Some ''k'') None) demo_server 0
      = (Some (Inr demo_response), sv1, 1)
    \<and> rpc_exec (\<lambda>_. False) demo_providers (demo_clock\<lparr>ck_get := 5\<rparr>) (demo_exec (Some ''k'') (Some ''other'')) sv1 1
      = (Some (Inr demo_response), sv2, 1)"
proof -
  have empty: "hm_get (ic_entries (sv_cache demo_server)) ''k'' = None" "ic_ttl (sv_cache demo_server) = default_ttl"
    by (simp_all add: demo_server_def server_new_def idempotency_cache_new_def)
  have keys: "xq_idempotency_key (demo_exec (Some ''k'') s) = Some ''k''" for s
    by (simp add: demo_exec_def)
  obtain sv1 where 1: "rpc_exec (\<lambda>_. False) demo_providers demo_clock (demo_exec (Some ''k'') None) demo_server 0
      = (Some (Inr demo_response), sv1, 1)"
    using demo_uncached[of None "touch_last_rpc demo_clock demo_server\<lparr>sv_cache := sv_cache demo_server\<rparr>"
        "\<lambda>_. False" "Some ''k''" 0] empty keys
    by (auto simp: rpc_exec_def Let_def idem_get_def touch_last_rpc_def)
  have "ck_get (demo_clock\<lparr>ck_get := 5\<rparr>) - ck_put demo_clock < ic_ttl (sv_cache demo_server)"
    by (simp add: empty demo_clock_def default_ttl_def)
  from exec_replay[OF 1 keys keys empty(1) this] 1 show ?thesis by blast
qed

theorem exec_session_metered_witness:
  "\<exists>sv1 s. rpc_exec (\<lambda>_. False) demo_providers demo_clock (demo_exec None (Some ''ses_0'')) demo_server 0
      = (Some (Inr demo_response), sv1, 1)
    \<and> hm_get (sv_sessions sv1) ''ses_0'' = Some s \<and> us_exec_count (ss_usage s) = 1
    \<and> us_output_bytes (ss_usage s) = 3"
proof -
  have sess: "sv_sessions (touch_last_rpc demo_clock demo_server) = one_exec_session"
    "sv_sessions demo_server = one_exec_session"
    by (simp_all add: demo_server_def touch_last_rpc_def)
  have q: "xq_session_id (demo_exec None (Some ''ses_0'')) = Some ''ses_0''"
    "xq_idempotency_key (demo_exec None (Some ''ses_0'')) = None"
    by (simp_all add: demo_exec_def)
  have miss: "cached_answer demo_clock (demo_exec None (Some ''ses_0'')) demo_server = (None, sv_cache demo_server)"
    by (simp add: cached_answer_def q)
  obtain sv1 where 1: "rpc_exec (\<lambda>_. False) demo_providers demo_clock (demo_exec None (Some ''ses_0'')) demo_server 0
      = (Some (Inr demo_response), sv1, 1)"
    using demo_uncached[of "Some ''ses_0''" "touch_last_rpc demo_clock demo_server" "\<lambda>_. False" None 0]
      one_exec_session_check q sess
    by (auto simp: rpc_exec_def Let_def)
  have "sv_sessions sv1 = snd (record_usage ''ses_0'' (trace_duration demo_response)
      (word_of_nat (length (xr_stdout demo_response) + length (xr_stderr demo_response))) one_exec_session)"
    using exec_session_metered[OF q(1) 1] sess miss by simp
  moreover obtain s where "hm_get one_exec_session ''ses_0'' = Some s" "ss_usage s = budget_usage_default"
    using one_exec_session_get by blast
  ultimately show ?thesis
    using 1 by (simp add: record_usage_def add_usage_def budget_usage_default_def demo_response_def)
qed

subsection \<open>Which provider a request reaches\<close>

definition python_command :: "string \<Rightarrow> bool" where
  "python_command cmd \<longleftrightarrow> cmd = ''python'' \<or> cmd = ''python3'' \<or> starts_with ''python3.'' cmd"

definition inline_language :: "string list \<Rightarrow> string option" where
  "inline_language command =
     (if 3 \<le> length command \<and> command ! 1 = ''-c'' \<and> command ! 2 \<noteq> [] then
        (if python_command (command ! 0) then Some ''python''
         else if starts_with ''node'' (command ! 0) then Some ''node'' else None)
      else None)"

text \<open>
  (C36) The provider of an execution: the one the request names; with no name, WASM exactly when
  the command is an interpreter with inline code that mentions no network, package, write or
  host, else Docker. A creation with no name always goes to Docker, so the inline code that
  needs nothing is sent to a provider that does not know the sandbox.
\<close>

theorem resolve_provider_spec:
  "(resolve_provider ua explicit command =
      (if explicit \<noteq> [] then explicit
       else case inline_language command of
         None \<Rightarrow> ''docker''
       | Some l \<Rightarrow>
           (if mentions_network (command ! 2) l \<or> mentions_packages (command ! 2) l
               \<or> mentions_write (command ! 2) l \<or> mentions_host ua (command ! 2)
            then ''docker'' else ''wasm'')))
   \<and> with_provider ps (default_provider []) = Inr (docker_provider (ps_docker_cli ps))"
proof -
  have node: "starts_with ''node'' cmd" if "cmd = ''node''" for cmd
    using that by (simp add: starts_with_def)
  have "resolve_provider ua [] command =
      (case inline_language command of
         None \<Rightarrow> ''docker''
       | Some l \<Rightarrow> provider_hint_to_str (ci_provider (analyze ua (command ! 2) l)))"
    using node by (auto simp: resolve_provider_def inline_language_def python_command_def Let_def)
  then show ?thesis
    by (auto simp: resolve_provider_def analyze_provider analyzed_flags provider_hint_to_str_def
        default_provider_def with_provider_def split: option.split)
qed

text \<open>
  Garbage collection through the service leaves the pool alone: a pooled sandbox it destroys
  stays in the active set and keeps counting against the capacity, unlike in \<open>destroy\<close>.
\<close>

lemma rpc_gc_pool: "sv_pool (fst (snd (rpc_gc ps ck pv all_sandboxes dry sv w))) = sv_pool sv"
  by (auto simp: rpc_gc_def Let_def touch_last_rpc_def split: sum.splits prod.splits)

text \<open>The file copies and the streams run on Docker whatever provider holds the sandbox.\<close>

lemma rpc_copy_docker_only:
  "rpc_copy_to ps ck i h s sv w = rpc_copy_to (ps\<lparr>ps_wasm := a, ps_k8s := b, ps_e2b := c, ps_firecracker := d\<rparr>) ck i h s sv w"
  by (simp add: rpc_copy_to_def)

end
