(* ===== verification/Service.thy ===== *)
theory Service
  imports Server
begin

text \<open>
  The daemon as a whole: a step is one handler of \<open>server.rs\<close>, one pass of the reaper or one of
  the replenisher, each run without interference, and a run is any sequence of them. The
  invariant puts together those of the components and adds what only the service knows: that
  an execution is recorded right after its budget check, and what the history holds.
\<close>

subsection \<open>Steps\<close>

datatype server_op =
    Do_Create create_request
  | Do_Exec exec_rpc_request
  | Do_Destroy string "sandbox_id list" bool
  | Do_List string
  | Do_Pause string sandbox_id
  | Do_Unpause string sandbox_id
  | Do_Gc string bool bool
  | Do_Copy_To sandbox_id string string
  | Do_Copy_From sandbox_id string string
  | Do_Pool_Status
  | Do_Pool_Warmup
  | Do_Pool_Drain
  | Do_Exec_Stream "u64 list" sandbox_id exec_request i32
  | Do_History sandbox_id
  | Do_Create_Session string string "dynamic_permissions option" "budget option"
  | Do_Destroy_Session string
  | Do_List_Sessions
  | Do_Update_Permissions string "permission_change option"
  | Do_Analyze_Intent string string
  | Do_Reap nat
  | Do_Replenish "nat \<Rightarrow> nat"

text \<open>The state after a step, the response left out.\<close>

fun server_step ::
    "(string \<Rightarrow> bool) \<Rightarrow> 'w providers \<Rightarrow> rpc_clock \<times> server_op \<Rightarrow> server \<times> 'w \<Rightarrow> server \<times> 'w" where
  "server_step ua ps (ck, Do_Create q) (sv, w) = snd (rpc_create ps ck q sv w)"
| "server_step ua ps (ck, Do_Exec q) (sv, w) = snd (rpc_exec ua ps ck q sv w)"
| "server_step ua ps (ck, Do_Destroy pv ids b) (sv, w) = snd (rpc_destroy ps ck pv ids b sv w)"
| "server_step ua ps (ck, Do_List pv) (sv, w) = snd (rpc_list ps ck pv sv w)"
| "server_step ua ps (ck, Do_Pause pv i) (sv, w) = snd (rpc_pause ps ck pv i sv w)"
| "server_step ua ps (ck, Do_Unpause pv i) (sv, w) = snd (rpc_unpause ps ck pv i sv w)"
| "server_step ua ps (ck, Do_Gc pv b dry) (sv, w) = snd (rpc_gc ps ck pv b dry sv w)"
| "server_step ua ps (ck, Do_Copy_To i h s) (sv, w) = snd (rpc_copy_to ps ck i h s sv w)"
| "server_step ua ps (ck, Do_Copy_From i s h) (sv, w) = snd (rpc_copy_from ps ck i s h sv w)"
| "server_step ua ps (ck, Do_Pool_Status) (sv, w) = (snd (rpc_pool_status ck sv), w)"
| "server_step ua ps (ck, Do_Pool_Warmup) (sv, w) = (snd (rpc_pool_warmup ck sv), w)"
| "server_step ua ps (ck, Do_Pool_Drain) (sv, w) = snd (rpc_pool_drain ps ck sv w)"
| "server_step ua ps (ck, Do_Exec_Stream beats i r lv) (sv, w) =
     (touch_last_rpc ck sv, snd (exec_stream_events ps ck beats i r lv w))"
| "server_step ua ps (ck, Do_History i) (sv, w) = (snd (rpc_history ck i sv), w)"
| "server_step ua ps (ck, Do_Create_Session i pv p b) (sv, w) = (snd (rpc_create_session ck i pv p b sv), w)"
| "server_step ua ps (ck, Do_Destroy_Session sid) (sv, w) = (snd (rpc_destroy_session ck sid sv), w)"
| "server_step ua ps (ck, Do_List_Sessions) (sv, w) = (snd (rpc_list_sessions ck sv), w)"
| "server_step ua ps (ck, Do_Update_Permissions sid c) (sv, w) = (snd (rpc_update_permissions ck sid c sv), w)"
| "server_step ua ps (ck, Do_Analyze_Intent t l) (sv, w) = (snd (rpc_analyze_intent ua ck t l sv), w)"
| "server_step ua ps (ck, Do_Reap now) (sv, w) =
     (case reaper_pass (pool_backends ps) now (sv_pool sv) w of (pm, w1) \<Rightarrow> (sv\<lparr>sv_pool := pm\<rparr>, w1))"
| "server_step ua ps (ck, Do_Replenish clock) (sv, w) =
     (case replenish_pass (pool_backends ps) clock (sv_pool sv) w of (pm, w1) \<Rightarrow> (sv\<lparr>sv_pool := pm\<rparr>, w1))"

subsection \<open>The invariant\<close>

text \<open>The executions a session has counted are within its limit, a limit of 0 being none.\<close>

definition session_within :: "session_state \<Rightarrow> bool" where
  "session_within s \<longleftrightarrow> bu_max_execs (ss_budget s) = 0 \<or> us_exec_count (ss_usage s) \<le> bu_max_execs (ss_budget s)"

text \<open>What the history keeps of an execution that returned is truncated.\<close>

definition record_ok :: "exec_record \<Rightarrow> bool" where
  "record_ok r \<longleftrightarrow> xl_exit_code r = None \<or> length (xl_stdout r) \<le> 4096 \<and> length (xl_stderr r) \<le> 4096"

definition server_inv :: "server \<Rightarrow> bool" where
  "server_inv sv \<longleftrightarrow>
     sessions_inv (sv_sessions sv) \<and> list_all (\<lambda>e. session_within (snd e)) (sv_sessions sv)
     \<and> pools_within (sv_pool sv) \<and> cache_ok (sv_cache sv)
     \<and> hm_wf (sv_log sv) \<and> list_all (\<lambda>e. list_all record_ok (snd e)) (sv_log sv)"

named_theorems server_upd

lemma server_inv_touch [server_upd]: "server_inv (touch_last_rpc ck sv) = server_inv sv"
  by (simp add: server_inv_def touch_last_rpc_def)

lemma server_inv_pool [server_upd]:
  "server_inv sv \<Longrightarrow> pools_within pm \<Longrightarrow> server_inv (sv\<lparr>sv_pool := pm\<rparr>)"
  by (simp add: server_inv_def)

lemma server_inv_cache [server_upd]:
  "server_inv sv \<Longrightarrow> cache_ok c \<Longrightarrow> server_inv (sv\<lparr>sv_cache := c\<rparr>)"
  by (simp add: server_inv_def)

lemma server_inv_sessions [server_upd]:
  "server_inv sv \<Longrightarrow> sessions_inv sm \<Longrightarrow> list_all (\<lambda>e. session_within (snd e)) sm
    \<Longrightarrow> server_inv (sv\<lparr>sv_sessions := sm\<rparr>)"
  by (simp add: server_inv_def)

lemma sv_sessions_touch [simp]: "sv_sessions (touch_last_rpc ck sv) = sv_sessions sv"
  and sv_pool_touch [simp]: "sv_pool (touch_last_rpc ck sv) = sv_pool sv"
  and sv_cache_touch [simp]: "sv_cache (touch_last_rpc ck sv) = sv_cache sv"
  and sv_log_touch [simp]: "sv_log (touch_last_rpc ck sv) = sv_log sv"
  by (simp_all add: touch_last_rpc_def)

lemma list_all_hm_insert:
  "list_all (\<lambda>e. P (snd e)) m \<Longrightarrow> P v \<Longrightarrow> list_all (\<lambda>e. P (snd e)) (hm_insert k v m)"
  by (auto simp: list_all_iff dest!: hm_insert_entries)

lemma list_all_hm_remove: "list_all P m \<Longrightarrow> list_all P (hm_remove k m)"
  by (auto simp: list_all_iff hm_remove_def)

lemma list_all_hm_get: "list_all (\<lambda>e. P (snd e)) m \<Longrightarrow> hm_get m k = Some v \<Longrightarrow> P v"
  by (auto simp: list_all_iff dest!: hm_get_Some_in)

lemma server_inv_log_push:
  assumes "server_inv sv" "record_ok r"
  shows "server_inv (log_push i r sv)"
proof -
  have "list_all record_ok ((case hm_get (sv_log sv) i of Some rs \<Rightarrow> rs | None \<Rightarrow> []) @ [r])"
    using assms by (auto simp: server_inv_def split: option.splits dest: list_all_hm_get)
  then show ?thesis
    using assms(1) by (auto simp: server_inv_def log_push_def intro!: list_all_hm_insert)
qed

lemma server_inv_log_remove: "server_inv sv \<Longrightarrow> server_inv (sv\<lparr>sv_log := hm_remove i (sv_log sv)\<rparr>)"
  by (simp add: server_inv_def list_all_hm_remove)

subsection \<open>Every step keeps it\<close>

lemma session_within_charged:
  assumes "within_budget (ss_budget s) (ss_usage s)"
  shows "session_within (s\<lparr>ss_usage := add_usage d n (ss_usage s)\<rparr>)"
proof (cases "bu_max_execs (ss_budget s) = 0")
  case False
  then have "us_exec_count (ss_usage s) < bu_max_execs (ss_budget s)"
    using assms by (auto simp: within_budget_def word_less_nat_alt unat_gt_0)
  then show ?thesis
    by (simp add: session_within_def add_usage_def inc_le)
qed (simp add: session_within_def)

lemma record_usage_within:
  assumes "check_budget sid sm = Inr ()" "list_all (\<lambda>e. session_within (snd e)) sm"
  shows "list_all (\<lambda>e. session_within (snd e)) (snd (record_usage sid d n sm))"
  using assms
  by (auto simp: record_usage_def check_budget_Inr_iff intro!: list_all_hm_insert session_within_charged)

lemma record_usage_sessions_inv: "sessions_inv sm \<Longrightarrow> sessions_inv (snd (record_usage sid d n sm))"
  using session_step_inv[of sm "Op_Record sid d n"] by simp

lemma server_inv_charge:
  assumes "server_inv sv" "session = Some sid \<Longrightarrow> check_budget sid (sv_sessions sv) = Inr ()"
    and "session = None \<or> session = Some sid"
  shows "server_inv (charge_session session r sv)"
  using assms
  by (auto simp: charge_session_def server_inv_def record_usage_within record_usage_sessions_inv)

lemma server_inv_cache_response: "server_inv sv \<Longrightarrow> server_inv (cache_response ck key r sv)"
  by (auto simp: cache_response_def server_inv_def idem_put_ok split: option.splits)

lemma truncate_str_le: "length (truncate_str s n) \<le> n"
  using boundary_before_le[of s n] by (auto simp: truncate_str_def)

lemma server_inv_run_exec:
  assumes "server_inv sv"
    and "\<And>sid. xq_session_id q = Some sid \<Longrightarrow> check_budget sid (sv_sessions sv) = Inr ()"
    and "run_exec ps ck q name p sv w = (res, sv1, w1)"
  shows "server_inv sv1"
proof -
  have "server_inv (charge_session (xq_session_id q) r sv)" for r
    using assms(1,2) by (cases "xq_session_id q") (auto intro: server_inv_charge)
  then show ?thesis
    using assms(1,3)
    by (auto simp: run_exec_def Let_def record_ok_def truncate_str_le
        split: prod.splits sum.splits option.splits
        intro!: server_inv_log_push server_inv_cache_response)
qed

lemma server_inv_exec_uncached:
  "server_inv sv \<Longrightarrow> exec_uncached ua ps ck q sv w = (res, sv1, w1) \<Longrightarrow> server_inv sv1"
  by (auto simp: exec_uncached_def Let_def split: sum.splits option.splits
      elim!: server_inv_run_exec[rotated 2])

lemma idem_get_ok: "server_inv sv \<Longrightarrow> idem_get now k (sv_cache sv) = (r, c') \<Longrightarrow> cache_ok c'"
  by (auto simp: server_inv_def idem_get_def cache_ok_def split: option.splits if_splits)

lemma server_inv_exec: "server_inv sv \<Longrightarrow> rpc_exec ua ps ck q sv w = (res, sv1, w1) \<Longrightarrow> server_inv sv1"
  by (auto simp: rpc_exec_def Let_def server_upd split: option.splits prod.splits
      dest!: server_inv_exec_uncached[rotated]
      intro!: server_inv_cache elim: idem_get_ok)

lemma pool_steps_within:
  "server_inv sv \<Longrightarrow> try_acquire be c (sv_pool sv) w = (r, pm, w1) \<Longrightarrow> pools_within pm"
  "server_inv sv \<Longrightarrow> pool_drain be (sv_pool sv) w = (n, pm, w1) \<Longrightarrow> pools_within pm"
  "server_inv sv \<Longrightarrow> reaper_pass be now (sv_pool sv) w = (pm, w1) \<Longrightarrow> pools_within pm"
  "server_inv sv \<Longrightarrow> replenish_pass be clock (sv_pool sv) w = (pm, w1) \<Longrightarrow> pools_within pm"
  "server_inv sv \<Longrightarrow> pools_within (on_destroy i (sv_pool sv))"
  "server_inv sv \<Longrightarrow> pools_within (pool_warmup (sv_pool sv))"
  using pool_step_within[of "(sv_pool sv, w)" be "Acquire c"]
    pool_step_within[of "(sv_pool sv, w)" be Drain] pool_step_within[of "(sv_pool sv, w)" be "Reap now"]
    pool_step_within[of "(sv_pool sv, w)" be "Replenish clock"]
    pool_step_within[of "(sv_pool sv, w)" be "Destroyed i"] pool_step_within[of "(sv_pool sv, w)" be Warmup]
  by (simp_all add: server_inv_def)

lemma server_inv_create: "server_inv sv \<Longrightarrow> rpc_create ps ck q sv w = (res, sv1, w1) \<Longrightarrow> server_inv sv1"
  by (auto simp: rpc_create_def Let_def server_upd split: prod.splits option.splits sum.splits
      intro!: server_inv_pool dest!: pool_steps_within(1)[rotated])

lemma server_inv_destroyed:
  "server_inv sv \<Longrightarrow> server_inv (sv\<lparr>sv_pool := on_destroy i (sv_pool sv), sv_log := hm_remove i (sv_log sv)\<rparr>)"
  using server_inv_log_remove[OF server_inv_pool[OF _ pool_steps_within(5)], of sv sv i i] by simp

text \<open>
  Destroying the targets of a request destroys what the provider can, and then forgets what was
  destroyed.
\<close>

definition forget :: "sandbox_id list \<Rightarrow> server \<Rightarrow> server" where
  "forget ds sv = sv\<lparr>sv_pool := fold on_destroy ds (sv_pool sv), sv_log := fold hm_remove ds (sv_log sv)\<rparr>"

lemma forget_simps [simp]:
  "forget [] sv = sv"
  "forget (i # ds) sv = forget ds (sv\<lparr>sv_pool := on_destroy i (sv_pool sv), sv_log := hm_remove i (sv_log sv)\<rparr>)"
  "sv_sessions (forget ds sv) = sv_sessions sv" "sv_cache (forget ds sv) = sv_cache sv"
  by (simp_all add: forget_def)

lemma destroy_targets_forget:
  "destroy_targets p is sv w = (case destroy_ok_ids (pv_destroy p) is w of (ds, w1) \<Rightarrow> (ds, forget ds sv, w1))"
  by (induction "is" arbitrary: sv w) (auto simp: apfst_def map_prod_def split: prod.splits sum.splits)

lemma destroy_ok_ids_subset: "destroy_ok_ids d is w = (ds, w1) \<Longrightarrow> set ds \<subseteq> set is"
  by (induction "is" arbitrary: w ds w1) (fastforce simp: apfst_def map_prod_def split: prod.splits sum.splits)+

lemma server_inv_forget: "server_inv sv \<Longrightarrow> server_inv (forget ds sv)"
  by (induction ds arbitrary: sv) (simp_all add: server_inv_destroyed)

lemma server_inv_destroy_targets:
  "server_inv sv \<Longrightarrow> destroy_targets p is sv w = (ds, sv1, w1) \<Longrightarrow> server_inv sv1"
  by (auto simp: destroy_targets_forget server_inv_forget split: prod.splits)

lemma server_inv_destroy:
  "server_inv sv \<Longrightarrow> rpc_destroy ps ck pv ids b sv w = (res, sv1, w1) \<Longrightarrow> server_inv sv1"
  by (auto simp: rpc_destroy_def Let_def server_upd split: prod.splits sum.splits if_splits
      dest!: server_inv_destroy_targets[rotated])

lemma server_inv_reads:
  "server_inv (fst (snd (rpc_list ps ck pv sv w))) = server_inv sv"
  "server_inv (fst (snd (rpc_pause ps ck pv i sv w))) = server_inv sv"
  "server_inv (fst (snd (rpc_unpause ps ck pv i sv w))) = server_inv sv"
  "server_inv (fst (snd (rpc_gc ps ck pv b dry sv w))) = server_inv sv"
  "server_inv (fst (snd (rpc_copy_to ps ck i x y sv w))) = server_inv sv"
  "server_inv (fst (snd (rpc_copy_from ps ck i x y sv w))) = server_inv sv"
  by (auto simp: rpc_list_def rpc_pause_def rpc_unpause_def rpc_gc_def rpc_copy_to_def rpc_copy_from_def
      Let_def server_upd split: prod.split sum.split)

lemma server_inv_create_session:
  assumes "server_inv sv" shows "server_inv (snd (rpc_create_session ck i pv p b sv))"
proof -
  have "sessions_inv (snd (session_create t ms i pv perms x (sv_sessions sv)))" for t ms perms x
    using assms session_step_inv[of "sv_sessions sv" "Op_Create t ms i pv perms x"] by (simp add: server_inv_def)
  moreover have "list_all (\<lambda>e. session_within (snd e)) (snd (session_create t ms i pv perms x (sv_sessions sv)))" for t ms perms x
    using assms
    by (auto simp: session_create_def Let_def server_inv_def session_within_def budget_usage_default_def
        intro!: list_all_hm_insert)
  ultimately show ?thesis
    using assms by (auto simp: rpc_create_session_def server_upd intro!: server_inv_sessions split: prod.split)
      (metis snd_conv)+
qed

lemma server_inv_destroy_session:
  assumes "server_inv sv" shows "server_inv (snd (rpc_destroy_session ck sid sv))"
  using assms session_step_inv[of "sv_sessions sv" "Op_Destroy sid"]
  by (auto simp: rpc_destroy_session_def session_destroy_def server_inv_def list_all_hm_remove
      touch_last_rpc_def split: option.splits)

lemma server_inv_update_permissions:
  assumes "server_inv sv" shows "server_inv (snd (rpc_update_permissions ck sid change sv))"
proof (cases change)
  case (Some c)
  have "list_all (\<lambda>e. session_within (snd e)) (snd (change_permissions sid c (sv_sessions sv)))"
    using assms
    by (auto simp: change_permissions_def Let_def server_inv_def session_within_def
        intro!: list_all_hm_insert split: option.splits dest: list_all_hm_get)
  then show ?thesis
    using assms Some session_step_inv[of "sv_sessions sv" "Op_Change sid c"]
    by (auto simp: rpc_update_permissions_def server_inv_def touch_last_rpc_def split: prod.splits)
qed (use assms in \<open>simp add: rpc_update_permissions_def server_upd\<close>)

lemma server_inv_handlers:
  assumes "server_inv sv"
  shows "server_inv (fst (snd (rpc_create ps ck q sv w)))"
    and "server_inv (fst (snd (rpc_exec ua ps ck q' sv w)))"
    and "server_inv (fst (snd (rpc_destroy ps ck pv ids b sv w)))"
    and "server_inv (snd (rpc_analyze_intent ua ck t l sv))"
  using server_inv_create[OF assms, of ps ck q w] server_inv_exec[OF assms, of ua ps ck q' w]
    server_inv_destroy[OF assms, of ps ck pv ids b w] assms
  by (auto simp: rpc_analyze_intent_def Let_def server_upd fst_def snd_def split: prod.splits)

lemma server_step_inv: "server_inv (fst s) \<Longrightarrow> server_inv (fst (server_step ua ps op s))"
  by (induction ua ps op s rule: server_step.induct)
    (auto simp: server_upd server_inv_reads server_inv_create_session server_inv_destroy_session
      server_inv_update_permissions server_inv_handlers rpc_pool_status_def rpc_pool_warmup_def
      rpc_pool_drain_def rpc_history_def rpc_list_sessions_def pool_steps_within
      split: prod.splits intro!: server_inv_pool dest: pool_steps_within)

interpretation server_runs: preserving "server_step ua ps" "\<lambda>s. server_inv (fst s)" for ua ps
  by unfold_locales (rule server_step_inv)

lemma server_inv_new: "server_inv (server_new (pool_manager_new configs) now)"
  by (simp add: server_inv_def server_new_def pools_within_new sessions_inv_def session_manager_new_def
      cache_ok_def idempotency_cache_new_def)


subsection \<open>The history of a sandbox\<close>

definition history :: "server \<Rightarrow> sandbox_id \<Rightarrow> exec_record list" where
  "history sv i = (case hm_get (sv_log sv) i of Some rs \<Rightarrow> rs | None \<Rightarrow> [])"

text \<open>What a step may make of the history of a sandbox.\<close>

fun history_effect :: "server_op \<Rightarrow> sandbox_id \<Rightarrow> exec_record list \<Rightarrow> exec_record list \<Rightarrow> bool" where
  "history_effect (Do_Exec q) i h h' \<longleftrightarrow>
     h' = h \<or> (i = xq_sandbox_id q \<and> butlast h' = h \<and> h' \<noteq> [] \<and> xl_command (last h') = xq_command q)"
| "history_effect (Do_Destroy pv ids every) i h h' \<longleftrightarrow> h' = h \<or> (h' = [] \<and> (every \<or> i \<in> set ids))"
| "history_effect _ i h h' \<longleftrightarrow> h' = h"

lemma history_log_push:
  "history (log_push j r sv) i = (if i = j then history sv i @ [r] else history sv i)"
  by (auto simp: history_def log_push_def)

lemma history_same: "sv_log sv' = sv_log sv \<Longrightarrow> history sv' = history sv"
  by (simp add: history_def fun_eq_iff)

lemma sv_log_response [simp]:
  "sv_log (cache_response ck key r sv) = sv_log sv" "sv_log (charge_session session r sv) = sv_log sv"
  by (simp_all add: cache_response_def charge_session_def split: option.split)

definition logged :: "exec_rpc_request \<Rightarrow> server \<Rightarrow> server \<Rightarrow> bool" where
  "logged q sv sv' \<longleftrightarrow> sv' = sv
     \<or> (\<exists>r sv0. sv' = log_push (xq_sandbox_id q) r sv0 \<and> sv_log sv0 = sv_log sv \<and> xl_command r = xq_command q)"

lemma logged_same [simp]: "logged q sv sv"
  by (simp add: logged_def)

lemma logged_push: "sv_log sv0 = sv_log sv \<Longrightarrow> xl_command r = xq_command q \<Longrightarrow> logged q sv (log_push (xq_sandbox_id q) r sv0)"
  by (auto simp: logged_def)

lemma logged_history: "logged q sv sv' \<Longrightarrow> history_effect (Do_Exec q) i (history sv i) (history sv' i)"
proof -
  assume "logged q sv sv'"
  then consider "sv' = sv"
    | r sv0 where "sv' = log_push (xq_sandbox_id q) r sv0" "history sv0 = history sv" "xl_command r = xq_command q"
    unfolding logged_def using history_same by blast
  then show ?thesis
    by cases (simp_all add: history_log_push)
qed

lemma run_exec_logged: "run_exec ps ck q name p sv w = (res, sv1, w1) \<Longrightarrow> logged q sv sv1"
  by (auto simp: run_exec_def Let_def split: prod.splits sum.splits option.splits intro!: logged_push)

lemma exec_uncached_history:
  "exec_uncached ua ps ck q sv w = (res, sv1, w1) \<Longrightarrow> history_effect (Do_Exec q) i (history sv i) (history sv1 i)"
  by (rule logged_history) (auto simp: exec_uncached_def Let_def dest: run_exec_logged split: sum.splits)

lemma rpc_exec_history:
  "rpc_exec ua ps ck q sv w = (res, sv1, w1) \<Longrightarrow> history_effect (Do_Exec q) i (history sv i) (history sv1 i)"
proof -
  assume run: "rpc_exec ua ps ck q sv w = (res, sv1, w1)"
  have "history (touch_last_rpc ck sv) = history sv" "history ((touch_last_rpc ck sv)\<lparr>sv_cache := c\<rparr>) = history sv" for c
    by (rule history_same, simp)+
  then show ?thesis
    using run exec_uncached_history[of ua ps ck q "touch_last_rpc ck sv" w res sv1 w1 i]
      exec_uncached_history[of ua ps ck q "(touch_last_rpc ck sv)\<lparr>sv_cache := _\<rparr>" w res sv1 w1 i]
    by (auto simp: rpc_exec_def Let_def split: option.splits prod.splits)
qed

lemma history_forget: "history (forget ds sv) i = (if i \<in> set ds then [] else history sv i)"
proof (induction ds arbitrary: sv)
  case (Cons j ds)
  have "history (sv\<lparr>sv_pool := pm, sv_log := hm_remove j (sv_log sv)\<rparr>) k = (if k = j then [] else history sv k)" for pm k
    by (simp add: history_def)
  then show ?case by (auto simp: Cons)
qed simp

lemma destroy_targets_history:
  "destroy_targets p is sv w = (ds, sv1, w1) \<Longrightarrow> history sv1 i = history sv i \<or> history sv1 i = [] \<and> i \<in> set is"
  using destroy_ok_ids_subset[of "pv_destroy p" "is" w ds w1]
  by (auto simp: destroy_targets_forget history_forget split: prod.splits if_splits)

lemma rpc_destroy_history:
  assumes "rpc_destroy ps ck pv ids every sv w = (res, sv1, w1)"
  shows "history_effect (Do_Destroy pv ids every) i (history sv i) (history sv1 i)"
proof -
  have "history (touch_last_rpc ck sv) = history sv" by (rule history_same) simp
  then show ?thesis
    using assms
    by (auto simp: rpc_destroy_def Let_def split: sum.splits prod.splits if_splits dest!: destroy_targets_history[of _ _ _ _ _ _ _ i])
qed

text \<open>
  (C26) The history of a sandbox is a log: a step of the daemon leaves it alone, except that an
  execution on the sandbox may add one record of its command at the end and a destruction that
  names the sandbox, or all of them, may clear it.
\<close>

theorem history_step:
  "history_effect (snd op) i (history (fst s) i) (history (fst (server_step ua ps op s)) i)"
proof -
  obtain ck k sv w where s: "op = (ck, k)" "s = (sv, w)" by (cases op, cases s) auto
  show ?thesis
  proof (cases k)
    case (Do_Exec q)
    then show ?thesis
      using rpc_exec_history[of ua ps ck q sv w] s by (cases "rpc_exec ua ps ck q sv w") auto
  next
    case (Do_Destroy pv ids every)
    then show ?thesis
      using rpc_destroy_history[of ps ck pv ids every sv w] s by (cases "rpc_destroy ps ck pv ids every sv w") auto
  qed (use s in \<open>auto intro!: fun_cong[OF history_same] simp: rpc_create_def rpc_list_def rpc_pause_def rpc_unpause_def
      rpc_gc_def rpc_copy_to_def rpc_copy_from_def rpc_pool_status_def rpc_pool_warmup_def rpc_pool_drain_def
      rpc_history_def rpc_create_session_def rpc_destroy_session_def rpc_list_sessions_def
      rpc_update_permissions_def rpc_analyze_intent_def Let_def split: prod.split sum.split option.split\<close>)
qed

end
