(* ===== verification/Cli.thy ===== *)
theory Cli
  imports Server Rust_Path
begin

text \<open>
  The command line client, \<open>roche-cli/src/main.rs\<close>: the parsers of its arguments, the control of
  the daemon, the commands over the daemon's protocol and those that use a provider directly.
  What \<open>clap\<close> makes of the command line is the record \<open>cli\<close>. The generated client of the
  protocol is a record \<open>rpc_client\<close> of its calls; the providers, \<open>serde_json\<close>, signals and
  the clock are the record \<open>cli_env\<close>.
\<close>

subsection \<open>Arguments\<close>

record create_args =
  ca_provider :: string
  ca_image :: string
  ca_memory :: "string option"
  ca_cpus :: "f64 option"
  ca_timeout :: u64
  ca_network :: bool
  ca_writable :: bool
  ca_env :: "string list"
  ca_mounts :: "string list"
  ca_count :: u32
  ca_kernel :: "string option"
  ca_rootfs :: "string option"

datatype daemon_action = Daemon_Start "16 word" bool | Daemon_Stop | Daemon_Status

datatype pool_action = Pool_Status | Pool_Warmup | Pool_Drain

datatype commands =
    Cmd_Create create_args
  | Cmd_Exec string "u64 option" "string list"
  | Cmd_Destroy "string list" bool
  | Cmd_Pause string
  | Cmd_Unpause string
  | Cmd_List bool
  | Cmd_Gc bool bool
  | Cmd_Cp string string
  | Cmd_Daemon daemon_action
  | Cmd_Pool pool_action

record cli =
  cli_command :: commands
  cli_direct :: bool

fun parse_env_into :: "string list \<Rightarrow> (string, string) hash_map \<Rightarrow> (string, (string, string) hash_map) result" where
  "parse_env_into [] m = Inr m"
| "parse_env_into (s # ss) m =
     (case split_once (CHR ''='') s of
        None \<Rightarrow> Inl (''invalid env format: '' @ s @ '' (expected KEY=VALUE)'')
      | Some (k, v) \<Rightarrow> parse_env_into ss (hm_insert k v m))"

definition parse_env_vars :: "string list \<Rightarrow> (string, (string, string) hash_map) result" where
  "parse_env_vars pairs = parse_env_into pairs []"

text \<open>\<open>str::splitn\<close>: at most \<open>n\<close> pieces, the last one the rest.\<close>

fun splitn :: "nat \<Rightarrow> char \<Rightarrow> string \<Rightarrow> string list" where
  "splitn 0 d s = []"
| "splitn (Suc n) d s =
     (if n = 0 then [s]
      else case split_once d s of None \<Rightarrow> [s] | Some (a, b) \<Rightarrow> a # splitn n d b)"

definition parse_mount :: "string \<Rightarrow> (string, mount_config) result" where
  "parse_mount s =
     (case splitn 3 (CHR '':'') s of
        [host, container] \<Rightarrow> Inr \<lparr>mc_host_path = host, mc_container_path = container, mc_readonly = True\<rparr>
      | [host, container, mode] \<Rightarrow>
          (if mode = ''ro'' then Inr \<lparr>mc_host_path = host, mc_container_path = container, mc_readonly = True\<rparr>
           else if mode = ''rw'' then Inr \<lparr>mc_host_path = host, mc_container_path = container, mc_readonly = False\<rparr>
           else Inl (''invalid mount mode: '' @ mode @ '' (expected ro or rw)''))
      | _ \<Rightarrow> Inl (''invalid mount format: '' @ s @ '' (expected host:container[:ro|rw])''))"

definition parse_cp_path :: "string \<Rightarrow> (string \<times> string) option" where
  "parse_cp_path s = split_once (CHR '':'') s"

text \<open>The mounts of a command up to the first that is refused.\<close>

fun parse_mounts :: "string list \<Rightarrow> (string, mount_config list) result" where
  "parse_mounts [] = Inr []"
| "parse_mounts (s # ss) =
     (case parse_mount s of
        Inl e \<Rightarrow> Inl e
      | Inr m \<Rightarrow> (case parse_mounts ss of Inl e \<Rightarrow> Inl e | Inr ms \<Rightarrow> Inr (m # ms)))"

subsection \<open>The process\<close>

text \<open>
  What a run comes to: \<open>Ok(())\<close>, \<open>Err(e)\<close>, \<open>process::exit\<close> with a code, or a panic.
\<close>

datatype outcome = Finished | Erred provider_error | Exited i32 | Panicked

record 'w cli_world =
  cw_out :: string
  cw_err :: string
  cw_fs :: fs
  cw_rest :: 'w

type_synonym 'w cli_io = "'w cli_world \<Rightarrow> outcome \<times> 'w cli_world"

definition newline :: string where
  "newline = [CHR 0x0A]"

definition print :: "string \<Rightarrow> 'w cli_world \<Rightarrow> 'w cli_world" where
  "print s w = w\<lparr>cw_out := cw_out w @ s\<rparr>"

definition eprint :: "string \<Rightarrow> 'w cli_world \<Rightarrow> 'w cli_world" where
  "eprint s w = w\<lparr>cw_err := cw_err w @ s\<rparr>"

definition println :: "string \<Rightarrow> 'w cli_world \<Rightarrow> 'w cli_world" where
  "println s = print (s @ newline)"

definition eprintln :: "string \<Rightarrow> 'w cli_world \<Rightarrow> 'w cli_world" where
  "eprintln s = eprint (s @ newline)"

text \<open>\<open>eprintln!(...)\<close> followed by \<open>process::exit(1)\<close>.\<close>

definition die :: "string \<Rightarrow> 'w cli_io" where
  "die msg w = (Exited 1, eprintln msg w)"

text \<open>The operator \<open>?\<close> on a call that changes what is behind the process.\<close>

definition try_io :: "('w, 'a) io \<Rightarrow> ('a \<Rightarrow> 'w cli_io) \<Rightarrow> 'w cli_io" where
  "try_io f k w =
     (case f (cw_rest w) of
        (Inl e, r) \<Rightarrow> (Erred e, w\<lparr>cw_rest := r\<rparr>)
      | (Inr a, r) \<Rightarrow> k a (w\<lparr>cw_rest := r\<rparr>))"

definition done_io :: "'w cli_io" where
  "done_io w = (Finished, w)"

definition try_fs :: "'a fs_io \<Rightarrow> ('a \<Rightarrow> 'w cli_io) \<Rightarrow> 'w cli_io" where
  "try_fs f k w =
     (case f (cw_fs w) of
        (Inl e, s) \<Rightarrow> (Erred (ExecFailed e), w\<lparr>cw_fs := s\<rparr>)
      | (Inr a, s) \<Rightarrow> k a (w\<lparr>cw_fs := s\<rparr>))"

record daemon_info =
  di_pid :: u32
  di_port :: "16 word"

text \<open>The client of the protocol: the request's fields in the order of the protocol's handlers.\<close>

record 'w rpc_client =
  rc_create :: "create_request \<Rightarrow> 'w \<Rightarrow> sandbox_id rpc \<times> 'w"
  rc_exec :: "exec_rpc_request \<Rightarrow> 'w \<Rightarrow> exec_response rpc \<times> 'w"
  rc_destroy :: "string \<Rightarrow> sandbox_id list \<Rightarrow> bool \<Rightarrow> 'w \<Rightarrow> sandbox_id list rpc \<times> 'w"
  rc_list :: "string \<Rightarrow> 'w \<Rightarrow> proto_sandbox_info list rpc \<times> 'w"
  rc_pause :: "string \<Rightarrow> sandbox_id \<Rightarrow> 'w \<Rightarrow> unit rpc \<times> 'w"
  rc_unpause :: "string \<Rightarrow> sandbox_id \<Rightarrow> 'w \<Rightarrow> unit rpc \<times> 'w"
  rc_gc :: "string \<Rightarrow> bool \<Rightarrow> bool \<Rightarrow> 'w \<Rightarrow> sandbox_id list rpc \<times> 'w"
  rc_copy_to :: "string \<Rightarrow> sandbox_id \<Rightarrow> string \<Rightarrow> string \<Rightarrow> 'w \<Rightarrow> unit rpc \<times> 'w"
  rc_copy_from :: "string \<Rightarrow> sandbox_id \<Rightarrow> string \<Rightarrow> string \<Rightarrow> 'w \<Rightarrow> unit rpc \<times> 'w"
  rc_pool_status :: "'w \<Rightarrow> pool_status list rpc \<times> 'w"
  rc_pool_warmup :: "'w \<Rightarrow> unit rpc \<times> 'w"
  rc_pool_drain :: "'w \<Rightarrow> u32 rpc \<times> 'w"

datatype row_value = Row_Str string | Row_Num u64 | Row_Null

text \<open>
  The environment: the home directory; JSON of the daemon's file and of the two forms of a listing;
  whether a signal 0 to a process succeeds and the signal that ends it; running the daemon in the
  foreground and in the background; the second handle of the log; the connection; the constructors
  of the providers; and the clock.
\<close>

record 'w cli_env =
  ce_home :: "string option"
  ce_info_json :: "string \<Rightarrow> (string, daemon_info) result"
  ce_infos_json :: "sandbox_info list \<Rightarrow> string"
  ce_rows_json :: "(string \<times> row_value) list list \<Rightarrow> string"
  ce_alive :: "int \<Rightarrow> 'w \<Rightarrow> bool"
  ce_sigterm :: "int \<Rightarrow> 'w \<Rightarrow> 'w"
  ce_run_daemon :: "string list \<Rightarrow> 'w \<Rightarrow> (string, i32 option) result \<times> 'w"
  ce_spawn_daemon :: "string list \<Rightarrow> string \<Rightarrow> 'w \<Rightarrow> (string, u32) result \<times> 'w"
  ce_clone_log :: "'w \<Rightarrow> string option"
  ce_connect :: "string \<Rightarrow> 'w \<Rightarrow> 'w rpc_client option \<times> 'w"
  ce_docker :: "'w docker_cli"
  ce_firecracker :: "('w, 'w provider) io"
  ce_wasm :: "('w, 'w provider) io"
  ce_k8s :: "('w, 'w provider) io"
  ce_e2b :: "('w, 'w provider) io"
  ce_secs :: "'w \<Rightarrow> u64"

subsection \<open>The daemon\<close>

definition roche_dir :: "string \<Rightarrow> string" where
  "roche_dir home = path_join home ''.roche''"

definition daemon_json_path :: "string \<Rightarrow> string" where
  "daemon_json_path home = path_join (path_join home ''.roche'') ''daemon.json''"

text \<open>A file that cannot be read or parsed is none; without a home directory the path panics.\<close>

definition load_daemon_info :: "'w cli_env \<Rightarrow> string \<Rightarrow> fs \<Rightarrow> daemon_info option \<times> fs" where
  "load_daemon_info env home s =
     (case read_to_string (daemon_json_path home) s of
        (Inl _, s1) \<Rightarrow> (None, s1)
      | (Inr json, s1) \<Rightarrow> (case ce_info_json env json of Inl _ \<Rightarrow> None | Inr i \<Rightarrow> Some i, s1))"

definition read_daemon_info ::
    "'w cli_env \<Rightarrow> (string \<Rightarrow> daemon_info option \<Rightarrow> 'w cli_io) \<Rightarrow> 'w cli_io" where
  "read_daemon_info env k w =
     (case ce_home env of
        None \<Rightarrow> (Panicked, w)
      | Some home \<Rightarrow>
          (case load_daemon_info env home (cw_fs w) of (info, s) \<Rightarrow> k home info (w\<lparr>cw_fs := s\<rparr>)))"

text \<open>The process number is cast to a signed one: 0 and those from $2^{31}$ on name process groups.\<close>

definition daemon_alive :: "'w cli_env \<Rightarrow> daemon_info \<Rightarrow> 'w cli_world \<Rightarrow> bool" where
  "daemon_alive env i w = ce_alive env (sint (di_pid i)) (cw_rest w)"

definition show_u16 :: "16 word \<Rightarrow> string" where
  "show_u16 p = show_nat (unat p)"

definition pid_port :: "u32 \<Rightarrow> 16 word \<Rightarrow> string" where
  "pid_port pid port = ''(pid='' @ show_u32 pid @ '', port='' @ show_u16 port @ '')''"

definition start_daemon :: "'w cli_env \<Rightarrow> string \<Rightarrow> 16 word \<Rightarrow> bool \<Rightarrow> 'w cli_io" where
  "start_daemon env home port foreground =
     (let args = [''roched'', ''--port'', show_u16 port];
          start_err = (\<lambda>e. ExecFailed (''failed to start daemon: '' @ e))
      in if foreground then
           try_io (\<lambda>r. apfst (map_err start_err) (ce_run_daemon env args r))
             (\<lambda>st w. (Exited (case st of Some n \<Rightarrow> n | None \<Rightarrow> 1), w))
         else
           try_fs (create_dir_all (roche_dir home)) (\<lambda>_.
           try_fs (write_file (path_join (roche_dir home) ''daemon.log'') []) (\<lambda>_.
           try_io (\<lambda>r. (case ce_clone_log env r of Some e \<Rightarrow> Inl (ExecFailed e) | None \<Rightarrow> Inr (), r)) (\<lambda>_.
           try_io (\<lambda>r. apfst (map_err start_err)
               (ce_spawn_daemon env args (path_join (roche_dir home) ''daemon.log'') r))
             (\<lambda>pid w. (Finished, println (''Daemon started '' @ pid_port pid port) w))))))"

definition drop_daemon_file :: "string \<Rightarrow> 'w cli_world \<Rightarrow> 'w cli_world" where
  "drop_daemon_file home w = w\<lparr>cw_fs := snd (remove_file (daemon_json_path home) (cw_fs w))\<rparr>"

fun handle_daemon :: "'w cli_env \<Rightarrow> daemon_action \<Rightarrow> 'w cli_io" where
  "handle_daemon env (Daemon_Start port foreground) =
     read_daemon_info env (\<lambda>home info w.
       case info of
         Some i \<Rightarrow>
           (if daemon_alive env i w
            then die (''Daemon already running '' @ pid_port (di_pid i) (di_port i)) w
            else start_daemon env home port foreground w)
       | None \<Rightarrow> start_daemon env home port foreground w)"
| "handle_daemon env Daemon_Stop =
     read_daemon_info env (\<lambda>home info w.
       case info of
         None \<Rightarrow> (Erred (ExecFailed ''No daemon running''), w)
       | Some i \<Rightarrow>
           (if \<not> daemon_alive env i w
            then die ''No daemon running (stale pid file cleaned up)'' (drop_daemon_file home w)
            else (Finished, println (''Daemon stopped (pid='' @ show_u32 (di_pid i) @ '')'')
              (w\<lparr>cw_rest := ce_sigterm env (sint (di_pid i)) (cw_rest w)\<rparr>))))"
| "handle_daemon env Daemon_Status =
     read_daemon_info env (\<lambda>home info w.
       case info of
         Some i \<Rightarrow>
           (if daemon_alive env i w
            then (Finished, println (''Daemon running '' @ pid_port (di_pid i) (di_port i)) w)
            else (Finished, println (''Daemon not running (stale pid='' @ show_u32 (di_pid i) @ '', cleaned up)'')
              (drop_daemon_file home w)))
       | None \<Rightarrow> (Finished, println ''Daemon not running'' w))"

subsection \<open>Listings\<close>

text \<open>\<open>{:<n}\<close> pads by characters, not bytes; \<open>{:02}\<close> fills up with zeros.\<close>

definition pad :: "nat \<Rightarrow> string \<Rightarrow> string" where
  "pad n s = s @ replicate (n - length (utf8_chars s)) (CHR '' '')"

definition zero_pad2 :: "string \<Rightarrow> string" where
  "zero_pad2 s = replicate (2 - length s) (CHR ''0'') @ s"

definition expires_str :: "u64 \<Rightarrow> u64 option \<Rightarrow> string" where
  "expires_str now e =
     (case e of
        Some x \<Rightarrow>
          (if now < x then
             (let remaining = x - now; mins = remaining div 60; secs = remaining mod 60
              in show_u64 mins @ ''m'' @ zero_pad2 (show_u64 secs) @ ''s'')
           else ''expired'')
      | None \<Rightarrow> ''-'')"

definition list_row :: "string \<Rightarrow> string \<Rightarrow> string \<Rightarrow> string \<Rightarrow> string \<Rightarrow> string" where
  "list_row i st pv expires img =
     pad 16 i @ '' '' @ pad 10 st @ '' '' @ pad 10 pv @ '' '' @ pad 10 expires @ '' '' @ img"

definition list_header :: string where
  "list_header = list_row ''ID'' ''STATUS'' ''PROVIDER'' ''EXPIRES'' ''IMAGE''"

definition proto_status_str :: "i32 \<Rightarrow> string" where
  "proto_status_str n =
     (if n = 1 then ''running'' else if n = 2 then ''paused'' else if n = 3 then ''stopped''
      else if n = 4 then ''failed'' else ''unknown'')"

text \<open>\<open>format!("{:?}", status).to_lowercase()\<close>.\<close>

definition status_str :: "sandbox_status \<Rightarrow> string" where
  "status_str st =
     (case st of Running \<Rightarrow> ''running'' | Paused \<Rightarrow> ''paused'' | Stopped \<Rightarrow> ''stopped'' | Failed \<Rightarrow> ''failed'')"

definition print_lines :: "string list \<Rightarrow> 'w cli_world \<Rightarrow> 'w cli_world" where
  "print_lines ls w = fold println ls w"

definition proto_row :: "proto_sandbox_info \<Rightarrow> (string \<times> row_value) list" where
  "proto_row sb =
     [(''id'', Row_Str (pi_id sb)), (''status'', Row_Str (proto_status_str (pi_status sb))),
      (''provider'', Row_Str (pi_provider sb)), (''image'', Row_Str (pi_image sb)),
      (''expires_at'', case pi_expires_at sb of Some e \<Rightarrow> Row_Num e | None \<Rightarrow> Row_Null)]"

definition print_proto_list :: "'w cli_env \<Rightarrow> bool \<Rightarrow> proto_sandbox_info list \<Rightarrow> 'w cli_world \<Rightarrow> 'w cli_world" where
  "print_proto_list env json sandboxes w =
     (if json then println (ce_rows_json env (map proto_row sandboxes)) w
      else if sandboxes = [] then println ''No active sandboxes.'' w
      else let now = ce_secs env (cw_rest w)
           in print_lines (map (\<lambda>sb. list_row (pi_id sb) (proto_status_str (pi_status sb)) (pi_provider sb)
                (expires_str now (pi_expires_at sb)) (pi_image sb)) sandboxes) (println list_header w))"

definition print_list :: "'w cli_env \<Rightarrow> bool \<Rightarrow> sandbox_info list \<Rightarrow> 'w cli_world \<Rightarrow> 'w cli_world" where
  "print_list env json sandboxes w =
     (if json then println (ce_infos_json env sandboxes) w
      else if sandboxes = [] then println ''No active sandboxes.'' w
      else let now = ce_secs env (cw_rest w)
           in print_lines (map (\<lambda>sb. list_row (si_id sb) (status_str (si_status sb)) (si_provider sb)
                (expires_str now (si_expires_at sb)) (si_image sb)) sandboxes) (println list_header w))"

definition pool_row :: "string \<Rightarrow> string \<Rightarrow> string \<Rightarrow> string \<Rightarrow> string \<Rightarrow> string \<Rightarrow> string" where
  "pool_row pv img idle active max_idle max_total =
     pad 14 pv @ '' '' @ pad 30 img @ '' '' @ pad 6 idle @ '' '' @ pad 8 active @ '' '' @ pad 10 max_idle
       @ '' '' @ pad 10 max_total"

definition print_pools :: "pool_status list \<Rightarrow> 'w cli_world \<Rightarrow> 'w cli_world" where
  "print_pools pools w =
     (if pools = [] then println ''No pools configured.'' w
      else print_lines (map (\<lambda>p. pool_row (ps_provider p) (ps_image p) (show_u32 (ps_idle_count p))
             (show_u32 (ps_active_count p)) (show_u32 (ps_max_idle p)) (show_u32 (ps_max_total p))) pools)
           (println (pool_row ''PROVIDER'' ''IMAGE'' ''IDLE'' ''ACTIVE'' ''MAX_IDLE'' ''MAX_TOTAL'') w))"

text \<open>The output of an execution; an exit code other than 0 is the process's own.\<close>

definition print_exec :: "string \<Rightarrow> string \<Rightarrow> i32 \<Rightarrow> 'w cli_io" where
  "print_exec out err exit_code w =
     (if exit_code \<noteq> 0 then Exited exit_code else Finished, eprint err (print out w))"

subsection \<open>Commands over the daemon\<close>

definition destroyed_line :: "string \<Rightarrow> string" where
  "destroyed_line i = ''destroyed: '' @ i"

text \<open>A call of the protocol; its status keeps only the message.\<close>

definition grpc :: "('w \<Rightarrow> 'a rpc \<times> 'w) \<Rightarrow> ('w, 'a) io" where
  "grpc f r = apfst (map_err (\<lambda>st. ExecFailed (snd st))) (f r)"

fun grpc_creates :: "'w rpc_client \<Rightarrow> create_request \<Rightarrow> nat \<Rightarrow> 'w cli_io" where
  "grpc_creates c q 0 w = done_io w"
| "grpc_creates c q (Suc n) w =
     try_io (grpc (rc_create c q)) (\<lambda>i w1. grpc_creates c q n (println i w1)) w"

definition both_sandbox_paths :: string where
  "both_sandbox_paths = ''Error: both source and destination cannot be sandbox paths''"

definition no_sandbox_path :: string where
  "no_sandbox_path = ''Error: one of source or destination must be a sandbox path (sandbox_id:/path)''"

definition args_request :: "create_args \<Rightarrow> (string, string) hash_map \<Rightarrow> mount_config list \<Rightarrow> create_request" where
  "args_request a env_map mounts =
     \<lparr>cq_provider = ca_provider a, cq_image = ca_image a, cq_memory = ca_memory a, cq_cpus = ca_cpus a,
      cq_timeout_secs = ca_timeout a, cq_network = ca_network a, cq_writable = ca_writable a, cq_env = env_map,
      cq_mounts = mounts, cq_kernel = ca_kernel a, cq_rootfs = ca_rootfs a, cq_network_allowlist = [],
      cq_fs_paths = []\<rparr>"

definition grpc_create :: "'w rpc_client \<Rightarrow> create_args \<Rightarrow> 'w cli_io" where
  [simp]: "grpc_create c a w =
     (case parse_env_vars (ca_env a) of
        Inl e \<Rightarrow> (Erred (ExecFailed e), w)
      | Inr env_map \<Rightarrow>
          (case parse_mounts (ca_mounts a) of
             Inl e \<Rightarrow> die (''Error: '' @ e) w
           | Inr mounts \<Rightarrow> grpc_creates c (args_request a env_map mounts) (unat (ca_count a)) w))"

definition grpc_exec :: "'w rpc_client \<Rightarrow> sandbox_id \<Rightarrow> u64 option \<Rightarrow> string list \<Rightarrow> 'w cli_io" where
  [simp]: "grpc_exec c sandbox timeout command w =
     try_io (grpc (rc_exec c \<lparr>xq_sandbox_id = sandbox, xq_command = command, xq_timeout_secs = timeout,
         xq_provider = ''docker'', xq_trace_level = 0, xq_idempotency_key = None, xq_session_id = None\<rparr>))
       (\<lambda>o1. print_exec (xr_stdout o1) (xr_stderr o1) (xr_exit_code o1)) w"

definition grpc_destroy :: "'w rpc_client \<Rightarrow> sandbox_id list \<Rightarrow> bool \<Rightarrow> 'w cli_io" where
  [simp]: "grpc_destroy c ids every w = try_io (grpc (rc_destroy c ''docker'' ids every)) (\<lambda>_. done_io) w"

definition grpc_list :: "'w cli_env \<Rightarrow> 'w rpc_client \<Rightarrow> bool \<Rightarrow> 'w cli_io" where
  [simp]: "grpc_list env c json w =
     try_io (grpc (rc_list c ''docker'')) (\<lambda>sandboxes w1. (Finished, print_proto_list env json sandboxes w1)) w"

definition grpc_pause :: "'w rpc_client \<Rightarrow> sandbox_id \<Rightarrow> 'w cli_io" where
  [simp]: "grpc_pause c i w = try_io (grpc (rc_pause c ''docker'' i)) (\<lambda>_. done_io) w"

definition grpc_unpause :: "'w rpc_client \<Rightarrow> sandbox_id \<Rightarrow> 'w cli_io" where
  [simp]: "grpc_unpause c i w = try_io (grpc (rc_unpause c ''docker'' i)) (\<lambda>_. done_io) w"

definition grpc_gc :: "'w rpc_client \<Rightarrow> bool \<Rightarrow> bool \<Rightarrow> 'w cli_io" where
  [simp]: "grpc_gc c dry_run every w =
     try_io (grpc (rc_gc c ''docker'' every dry_run))
       (\<lambda>destroyed w1. (Finished,
          let w2 = print_lines (map (\<lambda>i. if dry_run then i else destroyed_line i) destroyed) w1
          in if destroyed = [] \<and> \<not> dry_run then println ''No expired sandboxes found.'' w2 else w2)) w"

definition grpc_cp :: "'w rpc_client \<Rightarrow> string \<Rightarrow> string \<Rightarrow> 'w cli_io" where
  [simp]: "grpc_cp c src dest w =
     (case (parse_cp_path src, parse_cp_path dest) of
        (Some (i, p), None) \<Rightarrow> try_io (grpc (rc_copy_from c ''docker'' i p dest)) (\<lambda>_. done_io) w
      | (None, Some (i, p)) \<Rightarrow> try_io (grpc (rc_copy_to c ''docker'' i src p)) (\<lambda>_. done_io) w
      | (Some _, Some _) \<Rightarrow> die both_sandbox_paths w
      | (None, None) \<Rightarrow> die no_sandbox_path w)"

fun grpc_pool :: "'w rpc_client \<Rightarrow> pool_action \<Rightarrow> 'w cli_io" where
  "grpc_pool c Pool_Status w =
     try_io (grpc (rc_pool_status c)) (\<lambda>pools w1. (Finished, print_pools pools w1)) w"
| "grpc_pool c Pool_Warmup w =
     try_io (grpc (rc_pool_warmup c)) (\<lambda>_ w1. (Finished, println ''Pool warmup triggered.'' w1)) w"
| "grpc_pool c Pool_Drain w =
     try_io (grpc (rc_pool_drain c))
       (\<lambda>n w1. (Finished, println (''Drained '' @ show_u32 n @ '' idle sandboxes.'') w1)) w"

fun run_via_grpc :: "'w cli_env \<Rightarrow> 'w rpc_client \<Rightarrow> commands \<Rightarrow> 'w cli_io" where
  "run_via_grpc env c (Cmd_Create a) w = grpc_create c a w"
| "run_via_grpc env c (Cmd_Exec sandbox timeout command) w = grpc_exec c sandbox timeout command w"
| "run_via_grpc env c (Cmd_Destroy ids every) w = grpc_destroy c ids every w"
| "run_via_grpc env c (Cmd_List json) w = grpc_list env c json w"
| "run_via_grpc env c (Cmd_Pause i) w = grpc_pause c i w"
| "run_via_grpc env c (Cmd_Unpause i) w = grpc_unpause c i w"
| "run_via_grpc env c (Cmd_Gc dry_run every) w = grpc_gc c dry_run every w"
| "run_via_grpc env c (Cmd_Cp src dest) w = grpc_cp c src dest w"
| "run_via_grpc env c (Cmd_Pool action) w = grpc_pool c action w"
| "run_via_grpc env c (Cmd_Daemon _) w = (Panicked, w)"

text \<open>\<open>None\<close>: there is no daemon to use.\<close>

definition try_daemon_dispatch :: "'w cli_env \<Rightarrow> cli \<Rightarrow> 'w cli_world \<Rightarrow> outcome option \<times> 'w cli_world" where
  "try_daemon_dispatch env args w =
     (if cli_direct args then (None, w)
      else case ce_home env of
        None \<Rightarrow> (Some Panicked, w)
      | Some home \<Rightarrow>
          (case load_daemon_info env home (cw_fs w) of
             (None, s) \<Rightarrow> (None, w\<lparr>cw_fs := s\<rparr>)
           | (Some i, s) \<Rightarrow>
               (let w1 = w\<lparr>cw_fs := s\<rparr>
                in if \<not> daemon_alive env i w1 then (None, w1)
                   else case ce_connect env (''http://127.0.0.1:'' @ show_u16 (di_port i)) (cw_rest w1) of
                     (None, r) \<Rightarrow> (None, w1\<lparr>cw_rest := r\<rparr>)
                   | (Some c, r) \<Rightarrow>
                       apfst Some (run_via_grpc env c (cli_command args) (w1\<lparr>cw_rest := r\<rparr>)))))"

subsection \<open>Commands on a provider\<close>

text \<open>\<open>run_provider_commands!\<close>: a creation that fails is reported and the next one tried.\<close>

fun direct_creates :: "'w provider \<Rightarrow> sandbox_config \<Rightarrow> nat \<Rightarrow> 'w cli_world \<Rightarrow> 'w cli_world" where
  "direct_creates p config 0 w = w"
| "direct_creates p config (Suc n) w =
     (case pv_create p config (cw_rest w) of
        (Inr i, r) \<Rightarrow> direct_creates p config n (println i (w\<lparr>cw_rest := r\<rparr>))
      | (Inl e, r) \<Rightarrow>
          direct_creates p config n (eprintln (''Error: '' @ provider_error_display e) (w\<lparr>cw_rest := r\<rparr>)))"

fun direct_destroys :: "'w provider \<Rightarrow> sandbox_id list \<Rightarrow> 'w cli_io" where
  "direct_destroys p [] w = done_io w"
| "direct_destroys p (i # is) w =
     (case pv_destroy p i (cw_rest w) of
        (Inr _, r) \<Rightarrow> direct_destroys p is (w\<lparr>cw_rest := r\<rparr>)
      | (Inl e, r) \<Rightarrow>
          direct_destroys p is
            (eprintln (''Error destroying '' @ i @ '': '' @ provider_error_display e) (w\<lparr>cw_rest := r\<rparr>)))"

text \<open>The loop of \<open>gc --all\<close>: the first failure ends it.\<close>

fun direct_gc_all :: "'w provider \<Rightarrow> bool \<Rightarrow> sandbox_id list \<Rightarrow> 'w cli_io" where
  "direct_gc_all p dry_run [] w = done_io w"
| "direct_gc_all p dry_run (i # is) w =
     (if dry_run then direct_gc_all p dry_run is (println i w)
      else try_io (pv_destroy p i)
        (\<lambda>_ w1. direct_gc_all p dry_run is (println (destroyed_line i) w1)) w)"

definition args_config :: "create_args \<Rightarrow> (string, string) hash_map \<Rightarrow> mount_config list \<Rightarrow> sandbox_config" where
  "args_config a env_map mounts =
     \<lparr>sc_provider = ca_provider a, sc_image = ca_image a, sc_memory = ca_memory a, sc_cpus = ca_cpus a,
      sc_timeout_secs = ca_timeout a, sc_network = ca_network a, sc_writable = ca_writable a, sc_env = env_map,
      sc_mounts = mounts, sc_kernel = ca_kernel a, sc_rootfs = ca_rootfs a, sc_trace_enabled = True,
      sc_network_allowlist = [], sc_fs_paths = []\<rparr>"

definition direct_create :: "'w provider \<Rightarrow> create_args \<Rightarrow> 'w cli_io" where
  [simp]: "direct_create p a w =
     (case parse_env_vars (ca_env a) of
        Inl e \<Rightarrow> die (''Error: '' @ e) w
      | Inr env_map \<Rightarrow>
          (case parse_mounts (ca_mounts a) of
             Inl e \<Rightarrow> die (''Error: '' @ e) w
           | Inr mounts \<Rightarrow> done_io (direct_creates p (args_config a env_map mounts) (unat (ca_count a)) w)))"

definition direct_exec :: "'w provider \<Rightarrow> sandbox_id \<Rightarrow> u64 option \<Rightarrow> string list \<Rightarrow> 'w cli_io" where
  [simp]: "direct_exec p sandbox timeout command w =
     try_io (pv_exec p sandbox \<lparr>er_command = command, er_timeout_secs = timeout, er_idempotency_key = None\<rparr>)
       (\<lambda>o1. print_exec (eo_stdout o1) (eo_stderr o1) (eo_exit_code o1)) w"

definition direct_destroy :: "'w provider \<Rightarrow> sandbox_id list \<Rightarrow> bool \<Rightarrow> 'w cli_io" where
  [simp]: "direct_destroy p ids every w =
     (if every then try_io (pv_list p) (\<lambda>sandboxes. direct_destroys p (map si_id sandboxes)) w
      else direct_destroys p ids w)"

definition direct_gc :: "'w cli_env \<Rightarrow> 'w provider \<Rightarrow> bool \<Rightarrow> bool \<Rightarrow> 'w cli_io" where
  [simp]: "direct_gc env p dry_run every w =
     (if every then try_io (pv_list p) (\<lambda>sandboxes. direct_gc_all p dry_run (map si_id sandboxes)) w
      else if dry_run then
        try_io (pv_list p) (\<lambda>sandboxes w1. (Finished,
          let now = ce_secs env (cw_rest w1)
          in print_lines (map si_id (filter (\<lambda>sb. case si_expires_at sb of
               Some e \<Rightarrow> e \<le> now | None \<Rightarrow> False) sandboxes)) w1)) w
      else
        try_io (pv_gc p) (\<lambda>destroyed w1. (Finished,
          let w2 = print_lines (map destroyed_line destroyed) w1
          in if destroyed = [] then println ''No expired sandboxes found.'' w2 else w2)) w)"

fun run_provider_commands :: "'w cli_env \<Rightarrow> 'w provider \<Rightarrow> commands \<Rightarrow> 'w cli_io" where
  "run_provider_commands env p (Cmd_Create a) w = direct_create p a w"
| "run_provider_commands env p (Cmd_Exec sandbox timeout command) w = direct_exec p sandbox timeout command w"
| "run_provider_commands env p (Cmd_Destroy ids every) w = direct_destroy p ids every w"
| "run_provider_commands env p (Cmd_Pause i) w = try_io (pv_pause p i) (\<lambda>_. done_io) w"
| "run_provider_commands env p (Cmd_Unpause i) w = try_io (pv_unpause p i) (\<lambda>_. done_io) w"
| "run_provider_commands env p (Cmd_List json) w =
     try_io (pv_list p) (\<lambda>sandboxes w1. (Finished, print_list env json sandboxes w1)) w"
| "run_provider_commands env p (Cmd_Gc dry_run every) w = direct_gc env p dry_run every w"
| "run_provider_commands env p (Cmd_Cp src dest) w =
     die ''Error: file copy is only supported with the docker, e2b, and k8s providers'' w"
| "run_provider_commands env p (Cmd_Pool _) w = (Panicked, w)"
| "run_provider_commands env p (Cmd_Daemon _) w = (Panicked, w)"

text \<open>A copy, for the providers that have file operations.\<close>

definition run_cp :: "'w provider \<Rightarrow> string \<Rightarrow> string \<Rightarrow> 'w cli_io" where
  "run_cp p src dest w =
     (case (parse_cp_path src, parse_cp_path dest) of
        (Some (i, path), None) \<Rightarrow> try_io (pv_copy_from p i path dest) (\<lambda>_. done_io) w
      | (None, Some (i, path)) \<Rightarrow> try_io (pv_copy_to p i src path) (\<lambda>_. done_io) w
      | (Some _, Some _) \<Rightarrow> die both_sandbox_paths w
      | (None, None) \<Rightarrow> die no_sandbox_path w)"

definition command_provider :: "commands \<Rightarrow> string" where
  "command_provider cmd = (case cmd of Cmd_Create a \<Rightarrow> ca_provider a | _ \<Rightarrow> ''docker'')"

definition provider_new :: "'w cli_env \<Rightarrow> string \<Rightarrow> ('w, 'w provider) io" where
  "provider_new env name =
     (if name = ''firecracker'' then ce_firecracker env
      else if name = ''wasm'' then ce_wasm env
      else if name = ''k8s'' then ce_k8s env
      else if name = ''e2b'' then ce_e2b env
      else (\<lambda>r. (Inr (docker_provider (ce_docker env)), r)))"

definition run_direct :: "'w cli_env \<Rightarrow> commands \<Rightarrow> 'w cli_io" where
  "run_direct env cmd =
     (let name = command_provider cmd
      in try_io (provider_new env name) (\<lambda>p.
           if name = ''firecracker'' \<or> name = ''wasm'' then run_provider_commands env p cmd
           else case cmd of
             Cmd_Cp src dest \<Rightarrow> run_cp p src dest
           | _ \<Rightarrow> run_provider_commands env p cmd))"

definition run :: "'w cli_env \<Rightarrow> cli \<Rightarrow> 'w cli_io" where
  "run env args w =
     (case cli_command args of
        Cmd_Daemon action \<Rightarrow> handle_daemon env action w
      | Cmd_Pool _ \<Rightarrow>
          (case try_daemon_dispatch env args w of
             (Some res, w1) \<Rightarrow> (res, w1)
           | (None, w1) \<Rightarrow> die ''Error: pool commands require a running daemon'' w1)
      | cmd \<Rightarrow>
          (case try_daemon_dispatch env args w of
             (Some res, w1) \<Rightarrow> (res, w1)
           | (None, w1) \<Rightarrow> run_direct env cmd w1))"

text \<open>The exit code of the process; 101 is that of a panic.\<close>

definition cli_main :: "'w cli_env \<Rightarrow> cli \<Rightarrow> 'w cli_world \<Rightarrow> i32 \<times> 'w cli_world" where
  "cli_main env args w =
     (case run env args w of
        (Finished, w1) \<Rightarrow> (0, w1)
      | (Erred e, w1) \<Rightarrow> (1, eprintln (''Error: '' @ provider_error_display e) w1)
      | (Exited n, w1) \<Rightarrow> (n, w1)
      | (Panicked, w1) \<Rightarrow> (101, w1))"

subsection \<open>Arguments are read as they are written\<close>

lemma splitn3:
  "splitn 3 d s =
     (case split_once d s of
        None \<Rightarrow> [s]
      | Some (a, b) \<Rightarrow> (case split_once d b of None \<Rightarrow> [a, b] | Some (x, y) \<Rightarrow> [a, x, y]))"
  by (simp add: eval_nat_numeral split: option.split)

text \<open>
  (C38) A mount is accepted exactly when it is a host and a container path with at most a mode
  \<open>ro\<close> or \<open>rw\<close>, neither path with a colon; without a mode it is read-only.
\<close>

theorem parse_mount_spec:
  "parse_mount s = Inr m \<longleftrightarrow>
     CHR '':'' \<notin> set (mc_host_path m) \<and> CHR '':'' \<notin> set (mc_container_path m)
     \<and> (\<exists>mode. s = mc_host_path m @ CHR '':'' # mc_container_path m @ mode
          \<and> mode \<in> {[], '':ro'', '':rw''} \<and> mc_readonly m = (mode \<noteq> '':rw''))"
  (is "?l \<longleftrightarrow> ?r")
proof
  assume ?l
  then show ?r
    by (auto simp: parse_mount_def splitn3 split_once_Some_iff split_once_None_iff
        split: option.splits if_splits)
next
  assume ?r
  then obtain mode where m: "CHR '':'' \<notin> set (mc_host_path m)" "CHR '':'' \<notin> set (mc_container_path m)"
    "s = mc_host_path m @ CHR '':'' # mc_container_path m @ mode"
    "mode = [] \<or> mode = '':ro'' \<or> mode = '':rw''" "mc_readonly m = (mode \<noteq> '':rw'')"
    by auto
  have "split_once (CHR '':'') (mc_container_path m) = None"
    using m(2) by (simp add: split_once_None_iff)
  then show ?l
    using m(4,5) unfolding m(3)
    by (auto simp: parse_mount_def splitn3 m(1,2))
qed

subsection \<open>A process of the client\<close>

lemma cw_rest_print [simp]:
  "cw_rest (print s w) = cw_rest w" "cw_rest (eprint s w) = cw_rest w"
  "cw_rest (println s w) = cw_rest w" "cw_rest (eprintln s w) = cw_rest w"
  by (simp_all add: print_def eprint_def println_def eprintln_def)

text \<open>A client without a daemon, whose Docker is not there.\<close>

definition demo_client_env :: "'w docker_cli \<Rightarrow> 'w cli_env" where
  "demo_client_env docker =
     \<lparr>ce_home = None, ce_info_json = (\<lambda>_. Inl ''no info''), ce_infos_json = (\<lambda>_. ''[]''), ce_rows_json = (\<lambda>_. ''[]''),
      ce_alive = (\<lambda>_ _. False), ce_sigterm = (\<lambda>_ r. r), ce_run_daemon = (\<lambda>_ r. (Inl ''no daemon'', r)),
      ce_spawn_daemon = (\<lambda>_ _ r. (Inl ''no daemon'', r)), ce_clone_log = (\<lambda>_. None), ce_connect = (\<lambda>_ r. (None, r)),
      ce_docker = docker, ce_firecracker = (\<lambda>r. (Inl (Unavailable ''none''), r)),
      ce_wasm = (\<lambda>r. (Inl (Unavailable ''none''), r)), ce_k8s = (\<lambda>r. (Inl (Unavailable ''none''), r)),
      ce_e2b = (\<lambda>r. (Inl (Unavailable ''none''), r)), ce_secs = (\<lambda>_. 0)\<rparr>"

definition idle_cli :: "'w docker_cli" where
  "idle_cli =
     \<lparr>dk_run = (\<lambda>_ r. (Inl ''no docker'', r)), dk_run_timeout = (\<lambda>_ _ r. (None, r)), dk_now = (\<lambda>_. 0),
      dk_seccomp = (\<lambda>_. None)\<rparr>"

definition demo_process :: "'w \<Rightarrow> 'w cli_world" where
  "demo_process r =
     \<lparr>cw_out = [], cw_err = [], cw_fs = \<lparr>fs_files = [], fs_dirs = [], fs_fault = (\<lambda>_. None), fs_calls = 0\<rparr>, cw_rest = r\<rparr>"

lemma try_io_pure [simp]: "try_io (\<lambda>r. (Inr a, r)) k w = k a w"
  by (cases w) (simp add: try_io_def)

lemma run_direct_docker:
  "command_provider cmd = ''docker'' \<Longrightarrow> run_direct env cmd w =
     (case cmd of Cmd_Cp src dest \<Rightarrow> run_cp (docker_provider (ce_docker env)) src dest w
      | _ \<Rightarrow> run_provider_commands env (docker_provider (ce_docker env)) cmd w)"
  by (cases cmd) (simp_all add: run_direct_def provider_new_def Let_def)

subsection \<open>Creating several sandboxes\<close>

text \<open>The results of so many calls one after the other.\<close>

fun repeat_io :: "('w, 'a) io \<Rightarrow> nat \<Rightarrow> 'w \<Rightarrow> (provider_error, 'a) result list" where
  "repeat_io f 0 r = []"
| "repeat_io f (Suc n) r = (case f r of (x, r1) \<Rightarrow> x # repeat_io f n r1)"

definition created_ids :: "(provider_error, sandbox_id) result list \<Rightarrow> string" where
  "created_ids rs = concat (map (\<lambda>r. case r of Inr i \<Rightarrow> i @ newline | Inl _ \<Rightarrow> []) rs)"

definition creation_errors :: "(provider_error, sandbox_id) result list \<Rightarrow> string" where
  "creation_errors rs =
     concat (map (\<lambda>r. case r of Inr _ \<Rightarrow> [] | Inl e \<Rightarrow> ''Error: '' @ provider_error_display e @ newline) rs)"

lemma created_ids_Cons [simp]:
  "created_ids [] = []" "created_ids (Inr i # rs) = i @ newline @ created_ids rs"
  "created_ids (Inl e # rs) = created_ids rs"
  by (simp_all add: created_ids_def)

lemma creation_errors_Cons [simp]:
  "creation_errors [] = []" "creation_errors (Inr i # rs) = creation_errors rs"
  "creation_errors (Inl e # rs) = ''Error: '' @ provider_error_display e @ newline @ creation_errors rs"
  by (simp_all add: creation_errors_def)

lemma print_sel [simp]:
  "cw_out (println s w) = cw_out w @ s @ newline" "cw_err (println s w) = cw_err w"
  "cw_out (eprintln s w) = cw_out w" "cw_err (eprintln s w) = cw_err w @ s @ newline"
  by (simp_all add: println_def eprintln_def print_def eprint_def)

lemma direct_creates_prints:
  "cw_out (direct_creates p config n w) = cw_out w @ created_ids (repeat_io (pv_create p config) n (cw_rest w))
   \<and> cw_err (direct_creates p config n w) = cw_err w @ creation_errors (repeat_io (pv_create p config) n (cw_rest w))"
proof (induction n arbitrary: w)
  case (Suc n)
  obtain x r where "pv_create p config (cw_rest w) = (x, r)" by (cases "pv_create p config (cw_rest w)")
  then show ?case using Suc.IH by (cases x) simp_all
qed simp

lemma grpc_creates_prints:
  "case grpc_creates c q n w of (res, w') \<Rightarrow>
     cw_out w' = cw_out w @ created_ids (takeWhile is_ok (repeat_io (grpc (rc_create c q)) n (cw_rest w)))
     \<and> cw_err w' = cw_err w
     \<and> res = (case dropWhile is_ok (repeat_io (grpc (rc_create c q)) n (cw_rest w)) of Inl e # _ \<Rightarrow> Erred e | _ \<Rightarrow> Finished)"
proof (induction n arbitrary: w)
  case (Suc n)
  obtain x r where x: "grpc (rc_create c q) (cw_rest w) = (x, r)" by (cases "grpc (rc_create c q) (cw_rest w)")
  show ?case
  proof (cases x)
    case (Inr i)
    then show ?thesis
      using x Suc.IH[of "println i (w\<lparr>cw_rest := r\<rparr>)"] by (simp add: try_io_def is_ok_def split: prod.splits)
  qed (use x in \<open>simp add: try_io_def is_ok_def\<close>)
qed (simp add: done_io_def)

text \<open>
  (C27) Creating several sandboxes: directly, every failure is reported on the error output, the
  remaining ones are still created, and the command succeeds even if none was; over the daemon the
  first failure ends the command, after the identifiers created before it.
\<close>

theorem create_failures:
  assumes "parse_env_vars (ca_env a) = Inr env_map" and "parse_mounts (ca_mounts a) = Inr mounts"
  shows "(case run_provider_commands env p (Cmd_Create a) w of (res, w') \<Rightarrow>
       let rs = repeat_io (pv_create p (args_config a env_map mounts)) (unat (ca_count a)) (cw_rest w)
       in res = Finished \<and> cw_out w' = cw_out w @ created_ids rs \<and> cw_err w' = cw_err w @ creation_errors rs)
    \<and> (case run_via_grpc env c (Cmd_Create a) w of (res, w') \<Rightarrow>
       let rs = repeat_io (grpc (rc_create c (args_request a env_map mounts))) (unat (ca_count a)) (cw_rest w)
       in res = (case dropWhile is_ok rs of Inl e # _ \<Rightarrow> Erred e | _ \<Rightarrow> Finished)
          \<and> cw_out w' = cw_out w @ created_ids (takeWhile is_ok rs) \<and> cw_err w' = cw_err w)"
  using grpc_creates_prints[where c = c and q = "args_request a env_map mounts" and n = "unat (ca_count a)" and w = w]
  by (simp add: assms done_io_def direct_creates_prints split: prod.splits)

definition demo_create_args :: create_args where
  "demo_create_args =
     \<lparr>ca_provider = ''docker'', ca_image = ''img'', ca_memory = None, ca_cpus = None, ca_timeout = 300,
      ca_network = False, ca_writable = False, ca_env = [''A=b=c''], ca_mounts = [''/h:/c''], ca_count = 2,
      ca_kernel = None, ca_rootfs = None\<rparr>"

theorem create_failures_witness:
  "\<exists>w'. run_provider_commands (demo_client_env idle_cli) (docker_provider idle_cli) (Cmd_Create demo_create_args)
      (demo_process ()) = (Finished, w') \<and> cw_out w' = []"
proof -
  have args: "parse_env_vars (ca_env demo_create_args) = Inr [(''A'', ''b=c'')]"
    "parse_mounts (ca_mounts demo_create_args)
       = Inr [\<lparr>mc_host_path = ''/h'', mc_container_path = ''/c'', mc_readonly = True\<rparr>]"
    by (simp_all add: demo_create_args_def parse_env_vars_def parse_mount_def splitn3 hm_insert_def)
  have none: "\<exists>e. docker_create idle_cli config r = (Inl e, r)" for config and r :: unit
    by (cases "validate_config config docker_capabilities")
      (simp_all add: docker_create_def check_available_def idle_cli_def)
  have "created_ids (repeat_io (docker_create idle_cli config) n r) = []" for config n and r :: unit
  proof (induction n)
    case (Suc n)
    then show ?case using none[of config r] by auto
  qed simp
  moreover have "pv_create (docker_provider idle_cli :: unit provider) = docker_create idle_cli"
    "cw_out (demo_process ()) = []" "cw_rest (demo_process ()) = ()"
    by (simp_all add: docker_provider_def demo_process_def)
  ultimately show ?thesis
    using create_failures[OF args, where env = "demo_client_env idle_cli" and p = "docker_provider idle_cli"
      and w = "demo_process ()", THEN conjunct1]
    by (cases "run_provider_commands (demo_client_env idle_cli) (docker_provider idle_cli) (Cmd_Create demo_create_args)
      (demo_process ())") (simp add: Let_def del: run_provider_commands.simps)
qed

subsection \<open>Which provider a command reaches\<close>

fun is_sandbox_command :: "commands \<Rightarrow> bool" where
  "is_sandbox_command (Cmd_Create a) = False"
| "is_sandbox_command (Cmd_Daemon a) = False"
| "is_sandbox_command (Cmd_Pool a) = False"
| "is_sandbox_command _ = True"

text \<open>
  Without the daemon, only a creation chooses its provider: every other command on sandboxes
  runs on Docker, whatever provider the sandbox was created with.
\<close>

theorem direct_commands_use_docker:
  assumes "is_sandbox_command cmd"
  shows "run env \<lparr>cli_command = cmd, cli_direct = True\<rparr> w =
    (case cmd of
       Cmd_Cp src dest \<Rightarrow> run_cp (docker_provider (ce_docker env)) src dest w
     | _ \<Rightarrow> run_provider_commands env (docker_provider (ce_docker env)) cmd w)"
  using assms
  by (cases cmd) (simp_all add: run_def try_daemon_dispatch_def run_direct_docker command_provider_def)

theorem direct_commands_use_docker_witness:
  "fst (run (demo_client_env idle_cli) \<lparr>cli_command = Cmd_Cp ''a'' ''b'', cli_direct = True\<rparr> (demo_process ())) = Exited 1"
  using direct_commands_use_docker[of "Cmd_Cp ''a'' ''b''" "demo_client_env idle_cli" "demo_process ()"]
  by (simp add: run_cp_def parse_cp_path_def die_def)

end
