(* ===== verification/Cli_Agree.thy ===== *)
theory Cli_Agree
  imports Cli
begin

text \<open>
  A command does the same over the daemon and directly: the daemon is the model of the service behind
  a client of the protocol, and the provider is Docker.
\<close>

text \<open>
  The client of the daemon's own handlers, each run without interference: the world is the
  daemon's state and what is behind its providers. A handler that panics answers \<open>gone\<close>.
\<close>

definition serve :: "(server \<Rightarrow> 'w \<Rightarrow> 'a \<times> server \<times> 'w) \<Rightarrow> server \<times> 'w \<Rightarrow> 'a \<times> server \<times> 'w" where
  "serve h r = h (fst r) (snd r)"

definition serve_state :: "(server \<Rightarrow> 'a \<times> server) \<Rightarrow> server \<times> 'w \<Rightarrow> 'a \<times> server \<times> 'w" where
  "serve_state h r = (case h (fst r) of (x, sv) \<Rightarrow> (x, sv, snd r))"

definition server_client ::
    "(string \<Rightarrow> bool) \<Rightarrow> 'w providers \<Rightarrow> (server \<times> 'w \<Rightarrow> rpc_clock) \<Rightarrow> status \<Rightarrow> (server \<times> 'w) rpc_client" where
  "server_client ua ps clk gone =
     \<lparr>rc_create = (\<lambda>q r. serve (rpc_create ps (clk r) q) r),
      rc_exec = (\<lambda>q r. apfst (\<lambda>x. case x of Some y \<Rightarrow> y | None \<Rightarrow> Inl gone) (serve (rpc_exec ua ps (clk r) q) r)),
      rc_destroy = (\<lambda>pv ids every r. serve (rpc_destroy ps (clk r) pv ids every) r),
      rc_list = (\<lambda>pv r. serve (rpc_list ps (clk r) pv) r),
      rc_pause = (\<lambda>pv i r. serve (rpc_pause ps (clk r) pv i) r),
      rc_unpause = (\<lambda>pv i r. serve (rpc_unpause ps (clk r) pv i) r),
      rc_gc = (\<lambda>pv every dry r. serve (rpc_gc ps (clk r) pv every dry) r),
      rc_copy_to = (\<lambda>_ i h s r. serve (rpc_copy_to ps (clk r) i h s) r),
      rc_copy_from = (\<lambda>_ i s h r. serve (rpc_copy_from ps (clk r) i s h) r),
      rc_pool_status = (\<lambda>r. serve_state (rpc_pool_status (clk r)) r),
      rc_pool_warmup = (\<lambda>r. serve_state (rpc_pool_warmup (clk r)) r),
      rc_pool_drain = (\<lambda>r. serve (rpc_pool_drain ps (clk r)) r)\<rparr>"

text \<open>The process without the daemon's state, and what the protocol makes of an error.\<close>

definition behind :: "(server \<times> 'w) cli_world \<Rightarrow> 'w cli_world" where
  "behind w = \<lparr>cw_out = cw_out w, cw_err = cw_err w, cw_fs = cw_fs w, cw_rest = snd (cw_rest w)\<rparr>"

fun over_rpc :: "outcome \<Rightarrow> outcome" where
  "over_rpc (Erred e) = Erred (ExecFailed (provider_error_display e))"
| "over_rpc res = res"

text \<open>The commands that mean the same either way.\<close>

fun same_either_way :: "commands \<Rightarrow> bool" where
  "same_either_way (Cmd_Exec i t c) = True"
| "same_either_way (Cmd_Pause i) = True"
| "same_either_way (Cmd_Unpause i) = True"
| "same_either_way (Cmd_List json) = (\<not> json)"
| "same_either_way (Cmd_Gc dry_run every) = (\<not> every)"
| "same_either_way (Cmd_Cp src dest) = True"
| "same_either_way _ = False"

lemma behind_sel [simp]:
  "cw_out (behind w) = cw_out w" "cw_err (behind w) = cw_err w" "cw_fs (behind w) = cw_fs w"
  "cw_rest (behind w) = snd (cw_rest w)"
  by (simp_all add: behind_def)

lemma behind_print [simp]:
  "behind (print s w) = print s (behind w)" "behind (eprint s w) = eprint s (behind w)"
  "behind (println s w) = println s (behind w)" "behind (eprintln s w) = eprintln s (behind w)"
  "behind (w\<lparr>cw_rest := (sv, r)\<rparr>) = (behind w)\<lparr>cw_rest := r\<rparr>"
  by (simp_all add: behind_def print_def eprint_def println_def eprintln_def)

lemma behind_print_lines [simp]: "behind (print_lines ls w) = print_lines ls (behind w)"
  by (induction ls arbitrary: w) (simp_all add: print_lines_def)

text \<open>A call over the protocol that answers as the provider does goes on as the direct call.\<close>

definition agree :: "outcome \<times> (server \<times> 'w) cli_world \<Rightarrow> outcome \<times> 'w cli_world \<Rightarrow> bool" where
  "agree x y \<longleftrightarrow> (case x of (res, w) \<Rightarrow> res = over_rpc (fst y) \<and> behind w = snd y)"

definition answers :: "(server \<times> 'w \<Rightarrow> 'b rpc \<times> server \<times> 'w) \<Rightarrow> ('w, 'a) io \<Rightarrow> ('a \<Rightarrow> 'b) \<Rightarrow> server \<times> 'w \<Rightarrow> bool" where
  "answers h f g q \<longleftrightarrow>
     (case f (snd q) of (r, r') \<Rightarrow>
        \<exists>sv. grpc h q = (map_err (\<lambda>e. ExecFailed (provider_error_display e)) (map_sum id g r), (sv, r')))"

lemma try_io_agree:
  fixes w :: "(server \<times> 'w) cli_world"
  assumes "answers h f g (cw_rest w)"
    and "\<And>a (w1 :: (server \<times> 'w) cli_world). snd (cw_rest w1) = snd (f (snd (cw_rest w))) \<Longrightarrow> agree (k (g a) w1) (l a (behind w1))"
  shows "agree (try_io (grpc h) k w) (try_io f l (behind w))"
proof -
  obtain r r' where f: "f (snd (cw_rest w)) = (r, r')"
    by (cases "f (snd (cw_rest w))")
  then obtain sv where "grpc h (cw_rest w) = (map_err (\<lambda>e. ExecFailed (provider_error_display e)) (map_sum id g r), (sv, r'))"
    using assms(1) by (auto simp: answers_def)
  then show ?thesis
    using f assms(2)[of "w\<lparr>cw_rest := (sv, r')\<rparr>"]
    by (cases r) (simp_all add: try_io_def agree_def)
qed

lemma agree_done [simp]: "agree (done_io w) (done_io (behind w))"
  by (simp add: agree_def done_io_def)

lemma agree_die [simp]: "agree (die msg w) (die msg (behind w))"
  by (simp add: agree_def die_def)

lemma agree_exec [simp]: "agree (print_exec a b n w) (print_exec a b n (behind w))"
  by (simp add: agree_def print_exec_def)

lemma agree_finished [simp]: "agree (Finished, w) (Finished, v) \<longleftrightarrow> behind w = v"
  by (simp add: agree_def)

text \<open>The calls of the client on the daemon's handlers, for the Docker provider.\<close>

definition proto_info :: "sandbox_info \<Rightarrow> proto_sandbox_info" where
  "proto_info sb =
     \<lparr>pi_id = si_id sb, pi_status = sandbox_status_to_proto (si_status sb), pi_provider = si_provider sb,
      pi_image = si_image sb, pi_expires_at = si_expires_at sb\<rparr>"

abbreviation rpc_error :: "provider_error \<Rightarrow> provider_error" where
  "rpc_error e \<equiv> ExecFailed (provider_error_display e)"

lemma with_provider_docker [simp]: "with_provider ps ''docker'' = Inr (docker_provider (ps_docker_cli ps))"
  by (simp add: with_provider_def)

lemma provider_error_message [simp]: "snd (provider_error_to_status e) = provider_error_display e"
  by (simp add: provider_error_to_status_def)

lemma grpc_served:
  "grpc (\<lambda>r. serve (h r) r) q = apfst (map_err (\<lambda>st. ExecFailed (snd st))) (h q (fst q) (snd q))"
  by (simp add: grpc_def serve_def)

lemma answersI:
  assumes "\<And>r r'. f (snd q) = (r, r') \<Longrightarrow>
    \<exists>sv. grpc h q = (map_err (\<lambda>e. ExecFailed (provider_error_display e)) (map_sum id g r), (sv, r'))"
  shows "answers h f g q"
  using assms by (auto simp: answers_def split: prod.split)

named_theorems daemon_calls

lemmas daemon_call_defs =
  server_client_def grpc_served default_provider_def Let_def docker_provider_def rpc_list_def rpc_pause_def
  rpc_unpause_def rpc_copy_to_def rpc_copy_from_def rpc_gc_def

text \<open>The sandboxes a dry run names.\<close>

definition due_ids :: "u64 \<Rightarrow> sandbox_info list \<Rightarrow> sandbox_id list" where
  "due_ids now sandboxes =
     map si_id (filter (\<lambda>sb. case si_expires_at sb of Some e \<Rightarrow> e \<le> now | None \<Rightarrow> False) sandboxes)"

lemma list_answers [daemon_calls]:
  "answers (rc_list (server_client ua ps clk gone) ''docker'') (docker_list (ps_docker_cli ps)) (map proto_info) q"
  by (rule answersI, case_tac r) (simp_all add: daemon_call_defs proto_info_def)

lemma pause_answers [daemon_calls]:
  "answers (rc_pause (server_client ua ps clk gone) ''docker'' i) (docker_pause (ps_docker_cli ps) i) id q"
  by (rule answersI, case_tac r) (simp_all add: daemon_call_defs)

lemma unpause_answers [daemon_calls]:
  "answers (rc_unpause (server_client ua ps clk gone) ''docker'' i) (docker_unpause (ps_docker_cli ps) i) id q"
  by (rule answersI, case_tac r) (simp_all add: daemon_call_defs)

lemma copy_to_answers [daemon_calls]:
  "answers (rc_copy_to (server_client ua ps clk gone) ''docker'' i h s) (docker_copy_to (ps_docker_cli ps) i h s) id q"
  by (rule answersI, case_tac r) (simp_all add: daemon_call_defs)

lemma copy_from_answers [daemon_calls]:
  "answers (rc_copy_from (server_client ua ps clk gone) ''docker'' i s h) (docker_copy_from (ps_docker_cli ps) i s h) id q"
  by (rule answersI, case_tac r) (simp_all add: daemon_call_defs)

lemma gc_answers [daemon_calls]:
  "answers (rc_gc (server_client ua ps clk gone) ''docker'' False False) (docker_gc (ps_docker_cli ps)) id q"
  by (rule answersI, case_tac r) (simp_all add: daemon_call_defs)

lemma gc_dry_answers [daemon_calls]:
  "answers (rc_gc (server_client ua ps clk gone) ''docker'' False True) (docker_list (ps_docker_cli ps))
    (due_ids (ck_now_secs (clk q))) q"
  by (rule answersI, case_tac r) (simp_all add: daemon_call_defs due_ids_def)

lemma exec_answers [daemon_calls]:
  "answers (rc_exec (server_client ua ps clk gone) \<lparr>xq_sandbox_id = i, xq_command = c, xq_timeout_secs = t,
         xq_provider = ''docker'', xq_trace_level = 0, xq_idempotency_key = None, xq_session_id = None\<rparr>)
    (docker_exec (ps_docker_cli ps) i \<lparr>er_command = c, er_timeout_secs = t, er_idempotency_key = None\<rparr>)
    (\<lambda>x. \<lparr>xr_exit_code = eo_exit_code x, xr_stdout = eo_stdout x, xr_stderr = eo_stderr x, xr_trace = None\<rparr>) q"
  by (rule answersI, case_tac r)
    (simp_all add: server_client_def grpc_def serve_def rpc_exec_def exec_uncached_def run_exec_def Let_def
      resolve_provider_def trace_level_from_proto_def docker_provider_def finish_trace_def)

lemma status_str_proto: "proto_status_str (sandbox_status_to_proto st) = status_str st"
  by (cases st) (simp_all add: proto_status_str_def sandbox_status_to_proto_def status_str_def)

lemma print_proto_list_behind:
  assumes "ce_secs daemon (cw_rest w) = ce_secs direct (snd (cw_rest w))"
  shows "behind (print_proto_list daemon False (map proto_info sandboxes) w)
    = print_list direct False sandboxes (behind w)"
  using assms
  by (simp add: print_proto_list_def print_list_def Let_def proto_info_def status_str_proto comp_def)


lemma try_io_cong_rest:
  "(\<And>a r. f (cw_rest w) = (Inr a, r) \<Longrightarrow> k a (w\<lparr>cw_rest := r\<rparr>) = k' a (w\<lparr>cw_rest := r\<rparr>)) \<Longrightarrow> try_io f k w = try_io f k' w"
  by (auto simp: try_io_def split: prod.split sum.split)

text \<open>
  (C11) Executing, pausing, unpausing, listing as a table, collecting the expired (also as a dry run) and
  copying do the same over the daemon as directly on Docker, when both read the same clock: the same
  output, the same errors up to their wrapping, the same exit code, and the same state of Docker. Left
  out are creations, destructions and \<open>gc --all\<close>, which differ at a failure (directly \<open>gc --all\<close> stops
  at the first sandbox that cannot be destroyed, while the daemon goes on), and \<open>list --json\<close>, where each
  of the two builds its own objects.
\<close>

theorem daemon_direct_equivalent:
  assumes "same_either_way cmd" and "ce_docker direct = ps_docker_cli ps"
    and clock: "\<forall>r. ce_secs daemon r = ce_secs direct (snd r)"
    and handler_clock: "\<forall>r. ck_now_secs (clk r) = ce_secs direct (snd (docker_list (ps_docker_cli ps) (snd r)))"
  shows "case run_via_grpc daemon (server_client ua ps clk gone) cmd w of
      (res, w') \<Rightarrow> run_direct direct cmd (behind w) = (fst (run_direct direct cmd (behind w)), behind w')
        \<and> res = over_rpc (fst (run_direct direct cmd (behind w)))"
proof -
  let ?c = "server_client ua ps clk gone" and ?d = "docker_provider (ps_docker_cli ps)"
  note direct = run_direct_docker command_provider_def docker_provider_def assms(2)
  have "agree (run_via_grpc daemon ?c cmd w) (run_direct direct cmd (behind w))"
  proof (cases cmd)
    case (Cmd_Gc dry_run every)
    with assms(1) show ?thesis
    proof (cases dry_run)
      case True
      have "answers (rc_gc ?c ''docker'' False True) (docker_list (ps_docker_cli ps))
        (due_ids (ce_secs direct (snd (docker_list (ps_docker_cli ps) (snd (cw_rest w)))))) (cw_rest w)"
        using gc_dry_answers[of ua ps clk gone "cw_rest w"] handler_clock by simp
      then show ?thesis
        using Cmd_Gc True assms(1) by (auto simp: direct due_ids_def [symmetric] Let_def intro!: try_io_agree)
    qed (use Cmd_Gc in \<open>auto simp: direct Let_def intro!: try_io_agree daemon_calls\<close>)
  qed (use assms(1) in \<open>auto simp: direct run_cp_def print_proto_list_behind[of daemon _ direct] clock
      intro!: try_io_agree daemon_calls split: option.split\<close>)
  then show ?thesis
    by (auto simp: agree_def split: prod.splits)
qed


text \<open>An environment of the client for the witnesses: no provider but Docker, no daemon.\<close>

theorem daemon_direct_equivalent_witness:
  "\<exists>res w'. run_via_grpc (demo_client_env idle_cli)
       (server_client (\<lambda>_. False) demo_providers (\<lambda>_. demo_clock) (Code_Internal, [])) (Cmd_Exec ''x'' None [''ls''])
       (demo_process (demo_server, 0)) = (res, w')
     \<and> run_direct (demo_client_env echo_cli) (Cmd_Exec ''x'' None [''ls'']) (behind (demo_process (demo_server, 0)))
         = (Finished, behind w') \<and> res = Finished"
proof -
  have run: "fst (run_direct (demo_client_env echo_cli) (Cmd_Exec ''x'' None [''ls'']) (behind (demo_process (demo_server, 0))))
      = Finished"
    by (simp add: run_direct_docker command_provider_def demo_client_env_def docker_provider_def try_io_def
        docker_exec_def echo_cli_def ok_output_def print_exec_def Let_def demo_process_def behind_def)
  have "ce_docker (demo_client_env echo_cli) = ps_docker_cli demo_providers"
    "\<forall>r. ce_secs (demo_client_env idle_cli) r = ce_secs (demo_client_env echo_cli) (snd r)"
    "\<forall>r. ck_now_secs ((\<lambda>_. demo_clock) r)
       = ce_secs (demo_client_env echo_cli) (snd (docker_list (ps_docker_cli demo_providers) (snd r)))"
    by (simp_all add: demo_client_env_def demo_providers_def demo_clock_def)
  from daemon_direct_equivalent[OF _ this, where cmd = "Cmd_Exec ''x'' None [''ls'']" and ua = "\<lambda>_. False"
      and gone = "(Code_Internal, [])" and w = "demo_process (demo_server, 0)"]
  show ?thesis
    by (auto simp: run split: prod.splits)
qed

end
