(* ===== verification/Daemon.thy ===== *)
theory Daemon
  imports Service Cli Firecracker
begin

text \<open>
  The daemon's process, \<open>roche-daemon/src/main.rs\<close> and \<open>gc.rs\<close>, with \<open>load_pool_toml\<close> of
  \<open>pool/config.rs\<close>: the choice of the pools, the files it writes, the idle monitor, a round of the
  collector and the shutdown. \<open>clap\<close>, \<open>toml\<close>, \<open>serde_json\<close> and the outcome of serving are
  parameters; log lines are left out.
\<close>

subsection \<open>Start\<close>

record daemon_args =
  da_port :: "16 word"
  da_pools :: "string list"
  da_idle_timeout :: u64

record daemon_env =
  dn_home :: "string option"
  dn_pool_toml :: "string \<Rightarrow> (string, pool_config list) result"
  dn_info_json :: "u32 \<Rightarrow> 16 word \<Rightarrow> (string, string) result"
  dn_pid :: u32
  dn_profile :: string

definition load_pool_toml :: "daemon_env \<Rightarrow> fs \<Rightarrow> pool_config list \<times> fs" where
  "load_pool_toml env s =
     (case dn_home env of
        None \<Rightarrow> ([], s)
      | Some h \<Rightarrow>
          (case read_to_string (path_join (path_join h ''.roche'') ''pool.toml'') s of
             (Inl _, s1) \<Rightarrow> ([], s1)
           | (Inr content, s1) \<Rightarrow>
               (case dn_pool_toml env content of Inr pools \<Rightarrow> (pools, s1) | Inl _ \<Rightarrow> ([], s1))))"

fun parse_pool_args :: "string list \<Rightarrow> (string, pool_config list) result" where
  "parse_pool_args [] = Inr []"
| "parse_pool_args (a # as) =
     (case parse_pool_arg a of
        Inl e \<Rightarrow> Inl e
      | Inr cfg \<Rightarrow> (case parse_pool_args as of Inl e \<Rightarrow> Inl e | Inr cfgs \<Rightarrow> Inr (cfg # cfgs)))"

text \<open>The pools of the command line; those of \<open>pool.toml\<close> only when it names none.\<close>

definition daemon_pools :: "daemon_env \<Rightarrow> daemon_args \<Rightarrow> fs \<Rightarrow> (string, pool_config list) result \<times> fs" where
  "daemon_pools env args s =
     (if da_pools args \<noteq> [] then (parse_pool_args (da_pools args), s)
      else case load_pool_toml env s of (pools, s1) \<Rightarrow> (Inr pools, s1))"

text \<open>The directory, the system call filter if it is not there, and \<open>daemon.json\<close>.\<close>

definition write_daemon_files :: "daemon_env \<Rightarrow> string \<Rightarrow> 16 word \<Rightarrow> unit fs_io" where
  "write_daemon_files env home port s =
     (case create_dir_all (path_join home ''.roche'') s of
        (Inl e, s1) \<Rightarrow> (Inl e, s1)
      | (Inr _, s1) \<Rightarrow>
     (let seccomp_path = path_join (path_join home ''.roche'') ''seccomp-trace.json''
      in case (if fs_exists seccomp_path s1 then (Inr (), s1) else write_file seccomp_path (dn_profile env) s1) of
        (Inl e, s2) \<Rightarrow> (Inl e, s2)
      | (Inr _, s2) \<Rightarrow>
          (case dn_info_json env (dn_pid env) port of
             Inl e \<Rightarrow> (Inl e, s2)
           | Inr json \<Rightarrow> write_file (daemon_json_path home) json s2)))"

datatype boot = Boot_Exit i32 | Boot_Panic | Boot_Err string | Booted server

definition daemon_boot :: "daemon_env \<Rightarrow> daemon_args \<Rightarrow> u64 \<Rightarrow> fs \<Rightarrow> boot \<times> fs" where
  "daemon_boot env args now_ms s =
     (case daemon_pools env args s of
        (Inl _, s1) \<Rightarrow> (Boot_Exit 1, s1)
      | (Inr configs, s1) \<Rightarrow>
          (let pm = initial_warmup (pool_manager_new configs); sv = server_new pm now_ms
           in case dn_home env of
                None \<Rightarrow> (Boot_Panic, s1)
              | Some home \<Rightarrow>
                  (case write_daemon_files env home (da_port args) s1 of
                     (Inl e, s2) \<Rightarrow> (Boot_Err e, s2)
                   | (Inr _, s2) \<Rightarrow> (Booted sv, s2))))"

subsection \<open>While it runs\<close>

text \<open>The test of the idle monitor, in the arithmetic of 64 bits.\<close>

definition idle_exceeded :: "u64 \<Rightarrow> u64 \<Rightarrow> u64 \<Rightarrow> bool" where
  "idle_exceeded idle_timeout now_ms last_ms \<longleftrightarrow> 0 < last_ms \<and> idle_timeout * 1000 < now_ms - last_ms"

text \<open>A round of the monitor: \<open>Some 0\<close> is the exit of the process, the pools not drained.\<close>

definition idle_round :: "daemon_args \<Rightarrow> string \<Rightarrow> u64 \<Rightarrow> server \<Rightarrow> fs \<Rightarrow> i32 option \<times> fs" where
  "idle_round args home now_ms sv s =
     (if 0 < da_idle_timeout args \<and> idle_exceeded (da_idle_timeout args) now_ms (sv_last_rpc_ms sv)
      then (Some 0, snd (remove_file (daemon_json_path home) s))
      else (None, s))"

text \<open>A round of the collector; its results go to the log.\<close>

definition gc_round :: "'w docker_cli \<Rightarrow> 'w provider option \<Rightarrow> 'w \<Rightarrow> 'w" where
  "gc_round docker firecracker w =
     (let w1 = snd (docker_gc docker w)
      in case firecracker of None \<Rightarrow> w1 | Some fc \<Rightarrow> snd (pv_gc fc w1))"

text \<open>After serving, whose error ends the process at once.\<close>

definition daemon_finish ::
    "'w backends \<Rightarrow> string \<Rightarrow> (string, unit) result \<Rightarrow> server \<Rightarrow> 'w \<Rightarrow> fs \<Rightarrow> string option \<times> server \<times> 'w \<times> fs" where
  "daemon_finish be home served sv w s =
     (case served of
        Inl e \<Rightarrow> (Some e, sv, w, s)
      | Inr _ \<Rightarrow>
          (case pool_shutdown be (sv_pool sv) w of
             (pm, w1) \<Rightarrow> (None, sv\<lparr>sv_pool := pm\<rparr>, w1, snd (remove_file (daemon_json_path home) s))))"

subsection \<open>What the client sees of it\<close>

lemma write_file_there:
  "write_file p t s = (Inr (), s') \<Longrightarrow> hm_get (fs_files s') p = Some t"
  by (auto simp: write_file_def fs_call_def split: option.splits if_splits)

lemma fs_fault_after:
  "create_dir_all p s = (r, s') \<Longrightarrow> fs_fault s' = fs_fault s"
  "write_file p t s = (r, s') \<Longrightarrow> fs_fault s' = fs_fault s"
  "read_to_string p s = (r', s') \<Longrightarrow> fs_fault s' = fs_fault s"
  using fs_fault_kept(1)[of p s] fs_fault_kept(2)[of p s] fs_fault_kept(3)[of p t s] by auto

lemma daemon_pools_fault: "daemon_pools env args s = (r, s') \<Longrightarrow> fs_fault s' = fs_fault s"
  by (auto simp: daemon_pools_def load_pool_toml_def fs_fault_after(3)
      split: if_splits prod.splits option.splits sum.splits)

lemma write_daemon_files_there:
  assumes "write_daemon_files env home port s = (Inr (), s')"
  shows "fs_fault s' = fs_fault s \<and>
    (\<exists>json. dn_info_json env (dn_pid env) port = Inr json \<and> hm_get (fs_files s') (daemon_json_path home) = Some json)"
  using assms
  by (auto simp: write_daemon_files_def Let_def fs_fault_after write_file_there
      split: prod.splits sum.splits if_splits)

lemma daemon_boot_there:
  assumes "daemon_boot env args now s = (Booted sv, s')"
  shows "fs_fault s' = fs_fault s \<and> (\<exists>home json. dn_home env = Some home
    \<and> dn_info_json env (dn_pid env) (da_port args) = Inr json
    \<and> hm_get (fs_files s') (daemon_json_path home) = Some json)"
proof -
  obtain configs s1 where p: "daemon_pools env args s = (Inr configs, s1)"
    using assms by (auto simp: daemon_boot_def split: prod.splits sum.splits)
  then obtain home where h: "dn_home env = Some home" "write_daemon_files env home (da_port args) s1 = (Inr (), s')"
    using assms by (auto simp: daemon_boot_def Let_def split: prod.splits sum.splits option.splits)
  then show ?thesis
    using write_daemon_files_there[OF h(2)] daemon_pools_fault[OF p] by auto
qed

lemma load_daemon_info_file:
  "fs_fault s = (\<lambda>_. None) \<Longrightarrow> fst (load_daemon_info cenv home s) =
    (case hm_get (fs_files s) (daemon_json_path home) of
       None \<Rightarrow> None
     | Some json \<Rightarrow> (case ce_info_json cenv json of Inl _ \<Rightarrow> None | Inr i \<Rightarrow> Some i))"
  by (simp add: load_daemon_info_def read_to_string_def fs_call_ok split: option.split)

text \<open>
  (C28) A client finds a daemon that has started under its process number and port. After an
  orderly shutdown it finds none; but when serving fails, say because the port is in use, the
  process ends and its file stays, in place of that of a daemon that runs.
\<close>

theorem daemon_file_lifetime:
  assumes "daemon_boot env args now s = (Booted sv, s1)" and "fs_fault s = (\<lambda>_. None)"
    and "dn_home env = Some home"
    and "\<forall>pid port json. dn_info_json env pid port = Inr json
      \<longrightarrow> ce_info_json cenv json = Inr \<lparr>di_pid = pid, di_port = port\<rparr>"
    and "daemon_finish be home served sv w s1 = (e, sv', w', s2)"
  shows "fst (load_daemon_info cenv home s1) = Some \<lparr>di_pid = dn_pid env, di_port = da_port args\<rparr>
    \<and> fst (load_daemon_info cenv home s2) =
      (if is_ok served then None else Some \<lparr>di_pid = dn_pid env, di_port = da_port args\<rparr>)"
proof -
  obtain json where json: "dn_info_json env (dn_pid env) (da_port args) = Inr json"
    "hm_get (fs_files s1) (daemon_json_path home) = Some json" "fs_fault s1 = (\<lambda>_. None)"
    using daemon_boot_there[OF assms(1)] assms(2,3) by auto
  have s2: "s2 = (if is_ok served then snd (remove_file (daemon_json_path home) s1) else s1)"
    using assms(5) by (auto simp: daemon_finish_def is_ok_def split: sum.splits prod.splits)
  have gone: "hm_get (fs_files (snd (remove_file (daemon_json_path home) s1))) (daemon_json_path home) = None"
    using json(2,3) by (simp add: remove_file_def fs_call_ok)
  have me: "fst (load_daemon_info cenv home s1) = Some \<lparr>di_pid = dn_pid env, di_port = da_port args\<rparr>"
    using assms(4) json by (simp add: load_daemon_info_file)
  then show ?thesis
    using gone json(3) unfolding s2 by (simp add: load_daemon_info_file)
qed

definition demo_info_json :: "u32 \<Rightarrow> 16 word \<Rightarrow> (string, string) result" where
  "demo_info_json pid port = Inr (mark (show_u64 (ucast pid)) @ mark (show_u64 (ucast port)))"

definition demo_info_read :: "string \<Rightarrow> (string, daemon_info) result" where
  "demo_info_read t =
     (case unmark [] t of
        [pid, port] \<Rightarrow>
          (case (parse_u64 pid, parse_u64 port) of
             (Some a, Some b) \<Rightarrow> Inr \<lparr>di_pid = ucast a, di_port = ucast b\<rparr>
           | _ \<Rightarrow> Inl ''expected value'')
      | _ \<Rightarrow> Inl ''expected value'')"

lemma demo_info_roundtrip:
  "\<forall>pid port json. demo_info_json pid port = Inr json \<longrightarrow> demo_info_read json = Inr \<lparr>di_pid = pid, di_port = port\<rparr>"
  by (auto simp: demo_info_json_def demo_info_read_def unmark_mark unmark_mark_end ucast_up_ucast_id is_up)

definition demo_daemon_env :: daemon_env where
  "demo_daemon_env =
     \<lparr>dn_home = Some ''/home'', dn_pool_toml = (\<lambda>_. Inl ''no pools''), dn_info_json = demo_info_json, dn_pid = 42,
      dn_profile = ''{}''\<rparr>"

definition demo_daemon_args :: daemon_args where
  "demo_daemon_args = \<lparr>da_port = 50051, da_pools = [], da_idle_timeout = 0\<rparr>"

definition empty_fs :: fs where
  "empty_fs = \<lparr>fs_files = [], fs_dirs = [], fs_fault = (\<lambda>_. None), fs_calls = 0\<rparr>"

definition demo_finder :: "unit cli_env" where
  "demo_finder = (demo_client_env idle_cli)\<lparr>ce_info_json := demo_info_read\<rparr>"

lemma demo_boot: "\<exists>sv s1. daemon_boot demo_daemon_env demo_daemon_args 0 empty_fs = (Booted sv, s1)"
  by (simp add: daemon_boot_def daemon_pools_def demo_daemon_args_def demo_daemon_env_def load_pool_toml_def
      read_to_string_def fs_call_def empty_fs_def write_daemon_files_def create_dir_all_def write_file_def
      demo_info_json_def Let_def path_join_def starts_with_def daemon_json_path_def fs_exists_def path_chain_def)

theorem daemon_file_lifetime_witness:
  "\<exists>sv s1 s2. daemon_boot demo_daemon_env demo_daemon_args 0 empty_fs = (Booted sv, s1)
     \<and> snd (snd (snd (daemon_finish counting_backends ''/home'' (Inl ''address in use'') sv 0 s1))) = s2
     \<and> fst (load_daemon_info demo_finder ''/home'' s2)
         = Some \<lparr>di_pid = 42, di_port = 50051\<rparr>"
proof -
  obtain sv s1 where boot: "daemon_boot demo_daemon_env demo_daemon_args 0 empty_fs = (Booted sv, s1)"
    using demo_boot by blast
  obtain e sv' w' s2 where fin: "daemon_finish counting_backends ''/home'' (Inl ''address in use'') sv 0 s1 = (e, sv', w', s2)"
    by (metis prod_cases4)
  have "fs_fault empty_fs = (\<lambda>_. None)" "dn_home demo_daemon_env = Some ''/home''"
    "\<forall>pid port json. dn_info_json demo_daemon_env pid port = Inr json
      \<longrightarrow> ce_info_json demo_finder json
        = Inr \<lparr>di_pid = pid, di_port = port\<rparr>"
    using demo_info_roundtrip by (simp_all add: empty_fs_def demo_daemon_env_def demo_finder_def)
  from daemon_file_lifetime[OF boot this fin] boot fin show ?thesis
    by (simp add: demo_daemon_env_def demo_daemon_args_def)
qed

subsection \<open>The idle monitor\<close>

text \<open>
  The monitor ends the daemon after an idle time longer than the timeout when the clock has
  not fallen behind the last request; when it has, by however little (a request recorded between
  the two readings, a clock set back), the difference wraps and the daemon ends at once.
\<close>

theorem idle_exceeded_spec:
  assumes "0 < last_ms" and "unat idle_timeout * 1000 < 2 ^ 63"
  shows "(last_ms \<le> now_ms \<longrightarrow> (idle_exceeded idle_timeout now_ms last_ms
        \<longleftrightarrow> unat idle_timeout * 1000 < unat now_ms - unat last_ms))
    \<and> (now_ms < last_ms \<and> unat last_ms - unat now_ms \<le> 2 ^ 63 \<longrightarrow> idle_exceeded idle_timeout now_ms last_ms)"
proof (intro conjI impI)
  have timeout: "unat (idle_timeout * 1000) = unat idle_timeout * 1000"
    using assms(2) by (simp add: unat_word_ariths)
  show "idle_exceeded idle_timeout now_ms last_ms
      \<longleftrightarrow> unat idle_timeout * 1000 < unat now_ms - unat last_ms" if "last_ms \<le> now_ms"
    using that assms(1) by (simp add: idle_exceeded_def word_less_nat_alt timeout unat_sub)
  assume behind: "now_ms < last_ms \<and> unat last_ms - unat now_ms \<le> 2 ^ 63"
  then have "unat (now_ms - last_ms) = 2 ^ 64 - (unat last_ms - unat now_ms)"
    by (simp add: unat_sub_if_size word_size word_less_nat_alt word_le_nat_alt)
  moreover have "2 ^ 63 + 2 ^ 63 = (2 ^ 64 :: nat)"
    by simp
  ultimately have "unat idle_timeout * 1000 < unat (now_ms - last_ms)"
    using behind assms(2) by linarith
  then show "idle_exceeded idle_timeout now_ms last_ms"
    using assms(1) by (simp add: idle_exceeded_def word_less_nat_alt timeout)
qed

theorem idle_exceeded_spec_witness:
  "idle_exceeded 3600 999 1000 \<and> \<not> idle_exceeded 3600 1000 1000"
  using idle_exceeded_spec[of 1000 3600 999] idle_exceeded_spec[of 1000 3600 1000] by simp

subsection \<open>The daemon from its start on\<close>

lemma pools_within_warmup: "pools_within (initial_warmup pm) = pools_within pm"
  by (rule pools_within_same) (simp add: initial_warmup_def Let_def)

lemma server_inv_boot:
  assumes "daemon_boot env args now s = (Booted sv, s')"
  shows "server_inv sv"
proof -
  have "server_inv (server_new (initial_warmup (pool_manager_new configs)) now)" for configs
    using server_inv_pool[OF server_inv_new[of configs now], of "initial_warmup (pool_manager_new configs)"]
    by (simp add: server_new_def pools_within_warmup pools_within_new)
  then show ?thesis
    using assms by (auto simp: daemon_boot_def Let_def split: prod.splits sum.splits option.splits)
qed

text \<open>
  (C10) The invariant of the daemon: from any start, whatever the configuration, and after any
  sequence of requests, reaper passes and replenisher passes, session identifiers are distinct and
  no session has counted more executions than its limit, no pool exceeds its maximum, the cache is
  well formed and what the history keeps of an output is truncated.
\<close>

theorem daemon_inv_reachable:
  "case daemon_boot env args now s of
     (Booted sv, s') \<Rightarrow> server_inv (fst (fold (server_step ua ps) ops (sv, w)))
   | _ \<Rightarrow> True"
proof -
  have "server_inv (fst (fold (server_step ua ps) ops (sv, w)))" if "server_inv sv" for sv
    using server_runs.run_inv[of "(sv, w)" ua ps ops] that by simp
  then show ?thesis
    by (auto split: prod.split boot.split dest: server_inv_boot)
qed

end
