(* ===== verification/Pool_Owner.thy ===== *)
theory Pool_Owner
  imports Pool_Race
begin

text \<open>
  Who holds a sandbox of the pools while requests, destructions, drains, the reaper and the
  replenisher interleave (the step relation of \<open>Pool\<close>). The abstract specification is the life of
  one sandbox: made by the replenisher, idle, lent to a request, picked for destruction by the
  reaper, or elsewhere (not made yet, given back, destroyed). The lemmas show that the pools
  implement it: a sandbox is at one stage at a time and moves along the arrows only.
\<close>

subsection \<open>The multisets of identifiers\<close>

definition idle_of :: "(pool_key, sandbox_pool) hash_map \<Rightarrow> sandbox_id multiset" where
  "idle_of ps = mset (concat (map (\<lambda>kp. map is_id (sp_idle (snd kp))) ps))"

definition lent_of :: "(pool_key, sandbox_pool) hash_map \<Rightarrow> sandbox_id multiset" where
  "lent_of ps = mset (concat (map (\<lambda>kp. sp_active (snd kp)) ps))"

lemma idle_of_simps [simp]:
  "idle_of [] = {#}" "idle_of ((k, p) # ps) = mset (map is_id (sp_idle p)) + idle_of ps"
  by (simp_all add: idle_of_def)

lemma lent_of_simps [simp]:
  "lent_of [] = {#}" "lent_of ((k, p) # ps) = mset (sp_active p) + lent_of ps"
  by (simp_all add: lent_of_def)

lemma idle_of_insert:
  "hm_get ps key = Some p \<Longrightarrow>
    idle_of (hm_insert key p' ps) + mset (map is_id (sp_idle p)) = idle_of ps + mset (map is_id (sp_idle p'))"
  unfolding hm_get_def hm_insert_def by (induction ps) (auto split: if_splits)

lemma lent_of_insert:
  "hm_get ps key = Some p \<Longrightarrow>
    lent_of (hm_insert key p' ps) + mset (sp_active p) = lent_of ps + mset (sp_active p')"
  unfolding hm_get_def hm_insert_def by (induction ps) (auto split: if_splits)

lemma mset_hs_insert: "mset (hs_insert i xs) = (if i \<in> set xs then mset xs else add_mset i (mset xs))"
  by (simp add: hs_insert_def)

lemma lent_of_member: "hm_get ps key = Some p \<Longrightarrow> i \<in> set (sp_active p) \<Longrightarrow> i \<in># lent_of ps"
  unfolding hm_get_def by (induction ps) (auto split: if_splits)

lemma lent_of_lend:
  assumes "hm_get ps key = Some p" "sp_active p' = hs_insert i (sp_active p)"
  shows "lent_of (hm_insert key p' ps) = add_mset i (lent_of ps) \<or> i \<in># lent_of ps"
  using lent_of_insert[OF assms(1), of p'] lent_of_member[OF assms(1), of i] assms(2)
  by (auto simp: mset_hs_insert split: if_splits)

lemma idle_of_same:
  "hm_get ps key = Some p \<Longrightarrow> sp_idle p' = sp_idle p \<Longrightarrow> idle_of (hm_insert key p' ps) = idle_of ps"
  using idle_of_insert[of ps key p p'] by simp

lemma idle_of_take:
  "hm_get ps key = Some p \<Longrightarrow> sp_idle p = sb # sp_idle p' \<Longrightarrow>
    idle_of ps = add_mset (is_id sb) (idle_of (hm_insert key p' ps))"
  using idle_of_insert[of ps key p p'] by simp

subsection \<open>What the operations do to them\<close>

text \<open>The outcomes of a request at the pools, with the sandbox it is given.\<close>

inductive acquired ::
    "'w backends \<Rightarrow> sandbox_id option \<Rightarrow> (pool_key, sandbox_pool) hash_map \<times> 'w
     \<Rightarrow> (pool_key, sandbox_pool) hash_map \<times> 'w \<Rightarrow> bool"
  for be where
  acquired_none: "acquired be None s s"
| acquired_failed: "backend_create be pv cfg = Some create \<Longrightarrow> create w = (Inl e, w') \<Longrightarrow>
    acquired be None (ps, w) (ps, w')"
| acquired_hit: "idle_of ps = add_mset i (idle_of ps') \<Longrightarrow>
    lent_of ps' = add_mset i (lent_of ps) \<or> i \<in># lent_of ps \<Longrightarrow> acquired be (Some i) (ps, w) (ps', w)"
| acquired_made: "backend_create be pv cfg = Some create \<Longrightarrow> create w = (Inr i, w') \<Longrightarrow>
    idle_of ps' = idle_of ps \<Longrightarrow> lent_of ps' = add_mset i (lent_of ps) \<or> i \<in># lent_of ps \<Longrightarrow>
    acquired be (Some i) (ps, w) (ps', w')"

inductive_cases acquiredE [consumes 1, case_names none failed hit made]: "acquired be r (ps, w) (ps', w')"

lemma try_acquire_acquired:
  fixes w :: 'w
  assumes "try_acquire be c pm w = (r, pm', w')"
  shows "acquired be r (pm_pools pm, w) (pm_pools pm', w')"
proof -
  let ?k = "acquire_key c" and ?pv = "acquire_provider c"
  have hit: "acquired be (Some (is_id sb)) (ps, w) (hm_insert ?k (p\<lparr>sp_idle := rest, sp_active := hs_insert (is_id sb) (sp_active p)\<rparr>) ps, w)"
    if "hm_get ps ?k = Some p" "sp_idle p = sb # rest" for p sb rest ps and w :: 'w
    by (rule acquired_hit[OF idle_of_take[OF that(1)] lent_of_lend[OF that(1)]]) (simp_all add: that(2))
  have made: "acquired be (Some i) (ps, w) (hm_insert ?k (p\<lparr>sp_active := hs_insert i (sp_active p)\<rparr>) ps, w1)"
    if "hm_get ps ?k = Some p" "backend_create be pv cfg = Some create" "create w = (Inr i, w1)"
    for p i ps pv cfg create w1 and w :: 'w
    by (rule acquired_made[OF that(2,3) idle_of_same[OF that(1)] lent_of_lend[OF that(1)]]) simp_all
  show ?thesis
    using assms
    by (auto simp: try_acquire_unfold hit made
        split: if_splits option.splits list.splits prod.splits sum.splits
        intro: acquired_none acquired_failed)
qed

lemma count_filter_neq: "count (mset (filter (\<lambda>y. y \<noteq> i) xs)) j = (if j = i then 0 else count (mset xs) j)"
  by (induction xs) auto

lemma remove_active_moves:
  "idle_of (snd (remove_active i ps)) = idle_of ps
   \<and> (count (lent_of ps) i \<le> 1 \<longrightarrow> lent_of (snd (remove_active i ps)) = lent_of ps - {#i#})"
proof (induction i ps rule: remove_active.induct)
  case (2 i key pool ps)
  show ?case
  proof (cases "i \<in> set (sp_active pool)")
    case True
    have "mset (hs_remove i (sp_active pool)) + lent_of ps = mset (sp_active pool) + lent_of ps - {#i#}"
      if "count (mset (sp_active pool) + lent_of ps) i \<le> 1"
    proof -
      have "0 < count (mset (sp_active pool)) i"
        using True by (simp add: count_greater_zero_iff del: count_mset)
      moreover have "count (mset (sp_active pool)) i + count (lent_of ps) i \<le> 1"
        using that by simp
      ultimately have "count (lent_of ps) i = 0" "count (mset (sp_active pool)) i = 1"
        by linarith+
      then show ?thesis
        by (auto simp: multiset_eq_iff hs_remove_def count_filter_neq simp del: count_mset)
    qed
    then show ?thesis using True by simp
  next
    case False
    then have "mset (sp_active pool) + (lent_of ps - {#i#}) = mset (sp_active pool) + lent_of ps - {#i#}"
      by (cases "i \<in># lent_of ps") (auto simp: diff_single_trivial)
    moreover have "count (mset (sp_active pool)) i = 0"
      using False by (simp add: count_eq_zero_iff del: count_mset)
    ultimately show ?thesis using 2 False by (auto split: prod.splits)
  qed
qed simp

lemma on_destroy_moves:
  "idle_of (pm_pools (on_destroy i pm)) = idle_of (pm_pools pm)"
  "count (lent_of (pm_pools pm)) i \<le> 1 \<Longrightarrow>
    lent_of (pm_pools (on_destroy i pm)) = lent_of (pm_pools pm) - {#i#}"
proof -
  have none: "remove_active i ps = (None, ps') \<Longrightarrow> ps' = ps" for ps ps'
    by (induction i ps arbitrary: ps' rule: remove_active.induct) (auto split: if_splits prod.splits)
  show "idle_of (pm_pools (on_destroy i pm)) = idle_of (pm_pools pm)"
    "count (lent_of (pm_pools pm)) i \<le> 1 \<Longrightarrow>
      lent_of (pm_pools (on_destroy i pm)) = lent_of (pm_pools pm) - {#i#}"
    using remove_active_moves[of i "pm_pools pm"] none[of "pm_pools pm"]
    by (auto simp: on_destroy_def split: prod.splits option.splits)
qed

lemma map_values_moves:
  "lent_of (map (\<lambda>(k, p). (k, p\<lparr>sp_idle := g k p\<rparr>)) ps) = lent_of ps"
  by (induction ps) auto

lemma pool_drain_moves:
  assumes "pool_drain be pm w = (n, pm', w')"
  shows "idle_of (pm_pools pm') = {#}" "lent_of (pm_pools pm') = lent_of (pm_pools pm)"
    "w' = destroy_keyed be (all_idle pm) w"
proof -
  have "idle_of (map (\<lambda>(k, p). (k, p\<lparr>sp_idle := []\<rparr>)) ps) = {#}" for ps
    by (induction ps) auto
  then show "idle_of (pm_pools pm') = {#}" "lent_of (pm_pools pm') = lent_of (pm_pools pm)"
    "w' = destroy_keyed be (all_idle pm) w"
    using assms by (auto simp: pool_drain_def Let_def map_pools_def map_values_moves)
qed

lemma reap_pool_moves:
  "mset (map is_id (fst (reap_pool now p))) + mset (map is_id (sp_idle (snd (reap_pool now p)))) = mset (map is_id (sp_idle p))
   \<and> sp_active (snd (reap_pool now p)) = sp_active p"
proof -
  have "mset (take n xs) + mset (drop n xs) = mset xs" for n and xs :: "idle_sandbox list"
    by (simp flip: mset_append)
  moreover have "mset (filter (idle_expired now (sp_config p)) (sp_idle p)) + mset (unexpired now p) = mset (sp_idle p)"
    by (simp add: unexpired_def mset_filter)
  ultimately have "mset (fst (reap_pool now p)) + mset (sp_idle (snd (reap_pool now p))) = mset (sp_idle p)"
    by (simp add: reap_pool_eq Let_def add.assoc)
  from arg_cong[OF this, of "image_mset is_id"] show ?thesis
    by (simp add: reap_pool_eq Let_def)
qed

lemma reap_collect_moves:
  assumes "reap_collect now pm = (ds, pm')"
  shows "idle_of (pm_pools pm) = mset (map snd ds) + idle_of (pm_pools pm')"
    "lent_of (pm_pools pm') = lent_of (pm_pools pm)"
proof -
  let ?out = "\<lambda>ps. concat (map (\<lambda>(k, p). map (\<lambda>sb. (pk_provider k, is_id sb)) (fst (reap_pool now p))) ps)"
  let ?left = "map (\<lambda>(k, p). (k, snd (reap_pool now p)))"
  have split: "C = A + B \<Longrightarrow> I = X + Y \<Longrightarrow> C + I = (A + X) + (B + Y)" for A B C I X Y :: "sandbox_id multiset"
    by (simp add: add_ac)
  have moves: "idle_of ps = mset (map snd (?out ps)) + idle_of (?left ps) \<and> lent_of (?left ps) = lent_of ps" for ps
  proof (induction ps)
    case (Cons kp ps)
    obtain k p where kp: "kp = (k, p)" by (cases kp)
    have "mset (map snd (?out (kp # ps))) = mset (map is_id (fst (reap_pool now p))) + mset (map snd (?out ps))"
      "idle_of (?left (kp # ps)) = mset (map is_id (sp_idle (snd (reap_pool now p)))) + idle_of (?left ps)"
      "lent_of (?left (kp # ps)) = mset (sp_active (snd (reap_pool now p))) + lent_of (?left ps)"
      by (simp_all add: kp comp_def)
    then show ?case
      using Cons reap_pool_moves[of now p]
        split[OF reap_pool_moves[of now p, THEN conjunct1, symmetric] Cons[THEN conjunct1]]
      by (simp only: kp idle_of_simps lent_of_simps)
  qed simp
  show "idle_of (pm_pools pm) = mset (map snd ds) + idle_of (pm_pools pm')"
    "lent_of (pm_pools pm') = lent_of (pm_pools pm)"
    using assms moves[of "pm_pools pm"] by (auto simp: reap_collect_def map_pools_def)
qed

lemma push_idle_moves:
  assumes "pool_of pm key = Some p"
  shows "idle_of (pm_pools (push_idle key i now pm)) = add_mset i (idle_of (pm_pools pm))"
    "lent_of (pm_pools (push_idle key i now pm)) = lent_of (pm_pools pm)"
  using assms idle_of_insert[OF assms, of "p\<lparr>sp_idle := sp_idle p @ [\<lparr>is_id = i, is_created_at = now\<rparr>]\<rparr>"]
    lent_of_insert[OF assms, of "p\<lparr>sp_idle := sp_idle p @ [\<lparr>is_id = i, is_created_at = now\<rparr>]\<rparr>"]
  by (auto simp: push_idle_def)

lemma push_idle_missing: "pool_of pm key = None \<Longrightarrow> push_idle key i now pm = pm"
  by (simp add: push_idle_def)

subsection \<open>The specification: the life of a sandbox\<close>

record owners =
  ow_made :: "sandbox_id set"
  ow_idle :: "sandbox_id set"
  ow_lent :: "sandbox_id set"
  ow_doomed :: "sandbox_id set"
  ow_used :: "sandbox_id set"

text \<open>\<open>ow_used\<close> holds the identifiers that exist or have existed.\<close>

inductive life_step :: "owners \<Rightarrow> owners \<Rightarrow> bool" where
  life_quiet: "ow_used r \<subseteq> u \<Longrightarrow> life_step r (r\<lparr>ow_used := u\<rparr>)"
| life_make: "i \<notin> ow_used r \<Longrightarrow> insert i (ow_used r) \<subseteq> u \<Longrightarrow>
    life_step r (r\<lparr>ow_made := insert i (ow_made r), ow_used := u\<rparr>)"
| life_store: "i \<in> ow_made r \<Longrightarrow>
    life_step r (r\<lparr>ow_made := ow_made r - {i}, ow_idle := insert i (ow_idle r)\<rparr>)"
| life_lend: "i \<in> ow_idle r \<Longrightarrow>
    life_step r (r\<lparr>ow_idle := ow_idle r - {i}, ow_lent := insert i (ow_lent r)\<rparr>)"
| life_lend_new: "i \<notin> ow_used r \<Longrightarrow> insert i (ow_used r) \<subseteq> u \<Longrightarrow>
    life_step r (r\<lparr>ow_lent := insert i (ow_lent r), ow_used := u\<rparr>)"
| life_return: "life_step r (r\<lparr>ow_lent := ow_lent r - {i}\<rparr>)"
| life_drain: "ow_used r \<subseteq> u \<Longrightarrow> life_step r (r\<lparr>ow_idle := {}, ow_used := u\<rparr>)"
| life_reap: "ow_doomed r = {} \<Longrightarrow> ds \<subseteq> ow_idle r \<Longrightarrow>
    life_step r (r\<lparr>ow_idle := ow_idle r - ds, ow_doomed := ds\<rparr>)"
| life_doom: "ow_used r \<subseteq> u \<Longrightarrow> life_step r (r\<lparr>ow_doomed := {}, ow_used := u\<rparr>)"

definition life_start :: "sandbox_id set \<Rightarrow> owners" where
  "life_start u = \<lparr>ow_made = {}, ow_idle = {}, ow_lent = {}, ow_doomed = {}, ow_used = u\<rparr>"

definition disjoint_owners :: "owners \<Rightarrow> bool" where
  "disjoint_owners r \<longleftrightarrow>
     ow_made r \<inter> (ow_idle r \<union> ow_lent r \<union> ow_doomed r) = {} \<and> ow_idle r \<inter> (ow_lent r \<union> ow_doomed r) = {}
     \<and> ow_lent r \<inter> ow_doomed r = {} \<and> ow_made r \<union> ow_idle r \<union> ow_lent r \<union> ow_doomed r \<subseteq> ow_used r"

lemma life_start_disjoint: "disjoint_owners (life_start u)"
  by (simp add: disjoint_owners_def life_start_def)

lemma life_step_disjoint: "life_step r r' \<Longrightarrow> disjoint_owners r \<Longrightarrow> disjoint_owners r'"
  by (induction rule: life_step.induct) (auto simp: disjoint_owners_def)

text \<open>A sandbox that is lent stays lent until it leaves for good.\<close>

definition lent_or_gone :: "owners \<Rightarrow> sandbox_id \<Rightarrow> bool" where
  "lent_or_gone r i \<longleftrightarrow> i \<in> ow_used r \<and> i \<notin> ow_made r \<union> ow_idle r \<union> ow_doomed r"

lemma life_step_lent_or_gone: "life_step r r' \<Longrightarrow> lent_or_gone r i \<Longrightarrow> lent_or_gone r' i"
  by (induction rule: life_step.induct) (auto simp: lent_or_gone_def)

lemma life_step_gone:
  "life_step r r' \<Longrightarrow> lent_or_gone r i \<Longrightarrow> i \<notin> ow_lent r \<Longrightarrow> i \<notin> ow_lent r'"
  by (induction rule: life_step.induct) (auto simp: lent_or_gone_def)

subsection \<open>The pools implement it\<close>

text \<open>
  What is asked of the providers: a creation returns an identifier that did not exist before,
  and identifiers are never used again. \<open>used w\<close> are those that exist or have existed.
\<close>

definition fresh_ids :: "('w \<Rightarrow> sandbox_id set) \<Rightarrow> 'w backends \<Rightarrow> bool" where
  "fresh_ids used be \<longleftrightarrow>
     (\<forall>pv c create w. backend_create be pv c = Some create \<longrightarrow>
        used w \<subseteq> used (snd (create w))
        \<and> (\<forall>i. fst (create w) = Inr i \<longrightarrow> i \<notin> used w \<and> i \<in> used (snd (create w))))
     \<and> (\<forall>pv i w. used w \<subseteq> used (snd (backend_destroy be pv i w)))"

lemma fresh_ids_create:
  "fresh_ids used be \<Longrightarrow> backend_create be pv c = Some create \<Longrightarrow> create w = (Inr i, w') \<Longrightarrow>
    i \<notin> used w \<and> insert i (used w) \<subseteq> used w'"
  unfolding fresh_ids_def by (metis fst_conv insert_subset snd_conv)

lemma fresh_ids_failed:
  "fresh_ids used be \<Longrightarrow> backend_create be pv c = Some create \<Longrightarrow> create w = (r, w') \<Longrightarrow> used w \<subseteq> used w'"
  unfolding fresh_ids_def by (metis snd_conv)

lemma fresh_ids_destroy: "fresh_ids used be \<Longrightarrow> used w \<subseteq> used (destroy_keyed be ds w)"
proof (induction ds arbitrary: w)
  case (Cons d ds)
  have "used w \<subseteq> used (snd (backend_destroy be (fst d) (snd d) w))"
    using Cons.prems by (simp add: fresh_ids_def)
  also have "\<dots> \<subseteq> used (destroy_keyed be ds (snd (backend_destroy be (fst d) (snd d) w)))"
    by (rule Cons.IH[OF Cons.prems])
  finally show ?case by (cases d) simp
qed simp

definition owned :: "'w race \<Rightarrow> sandbox_id multiset" where
  "owned s = mset (map snd (ra_created s)) + idle_of (pm_pools (ra_pm s)) + lent_of (pm_pools (ra_pm s))
     + mset (map snd (ra_doomed s))"

definition owners_of :: "('w \<Rightarrow> sandbox_id set) \<Rightarrow> 'w race \<Rightarrow> owners" where
  "owners_of used s =
     \<lparr>ow_made = snd ` set (ra_created s), ow_idle = set_mset (idle_of (pm_pools (ra_pm s))),
      ow_lent = set_mset (lent_of (pm_pools (ra_pm s))), ow_doomed = snd ` set (ra_doomed s),
      ow_used = used (ra_world s)\<rparr>"

text \<open>No identifier is held twice, all are known, and the keys of the replenisher name pools.\<close>

definition once :: "'a multiset \<Rightarrow> bool" where
  "once m \<longleftrightarrow> (\<forall>x. count m x \<le> 1)"

definition keys_known :: "'w race \<Rightarrow> bool" where
  "keys_known s \<longleftrightarrow> (\<forall>key \<in> set (ra_waiting s) \<union> fst ` set (ra_created s). pool_of (ra_pm s) key \<noteq> None)"

definition owner_inv :: "('w \<Rightarrow> sandbox_id set) \<Rightarrow> 'w race \<Rightarrow> bool" where
  "owner_inv used s \<longleftrightarrow> once (owned s) \<and> set_mset (owned s) \<subseteq> used (ra_world s) \<and> keys_known s"

lemma once_empty [simp]: "once {#}"
  by (simp add: once_def)

lemma once_add [simp]: "once (add_mset x m) \<longleftrightarrow> x \<notin># m \<and> once m"
proof
  assume a: "once (add_mset x m)"
  have "count m y \<le> 1" for y
    using a[unfolded once_def, rule_format, of y] by (simp split: if_splits)
  moreover have "count m x = 0"
    using a[unfolded once_def, rule_format, of x] by simp
  ultimately show "x \<notin># m \<and> once m"
    by (simp add: once_def not_in_iff)
qed (simp add: once_def not_in_iff)

lemma once_sub: "once m \<Longrightarrow> m' \<subseteq># m \<Longrightarrow> once m'"
  unfolding once_def by (meson le_trans mset_subset_eq_count)

lemma once_disjoint: "once (a + b) \<Longrightarrow> set_mset a \<inter> set_mset b = {}"
proof (rule equals0I)
  fix x assume o: "once (a + b)" and x: "x \<in> set_mset a \<inter> set_mset b"
  have "count a x + count b x \<le> 1"
    using o[unfolded once_def, rule_format, of x] by simp
  moreover have "0 < count a x" "0 < count b x"
    using x by simp_all
  ultimately show False by linarith
qed

lemma once_remove:
  assumes "once m" shows "set_mset (m - {#x#}) = set_mset m - {x}"
proof (cases "x \<in># m")
  case True
  then obtain m' where "m = add_mset x m'" by (metis insert_DiffM)
  then show ?thesis using assms by auto
qed (simp add: diff_single_trivial)

definition same_keys :: "pool_manager \<Rightarrow> pool_manager \<Rightarrow> bool" where
  "same_keys pm pm' \<longleftrightarrow> (\<forall>key. pool_of pm' key = None \<longleftrightarrow> pool_of pm key = None)"

lemma same_keys_known:
  "same_keys (ra_pm s) (ra_pm s') \<Longrightarrow> set (ra_waiting s') \<subseteq> set (ra_waiting s) \<Longrightarrow>
    fst ` set (ra_created s') \<subseteq> fst ` set (ra_created s) \<Longrightarrow> keys_known s \<Longrightarrow> keys_known s'"
  unfolding keys_known_def same_keys_def by blast

lemma remove_active_keys: "hm_get (snd (remove_active i ps)) key = None \<longleftrightarrow> hm_get ps key = None"
  by (induction i ps rule: remove_active.induct) (auto split: prod.splits)

lemma same_keys_steps:
  "try_acquire be c pm w = (r, pm', w') \<Longrightarrow> same_keys pm pm'"
  "same_keys pm (on_destroy i pm)"
  "same_keys pm (map_pools f pm)"
  "same_keys pm (push_idle key i now pm)"
  "pm_pools pm'' = pm_pools pm \<Longrightarrow> same_keys pm pm''"
proof -
  show "try_acquire be c pm w = (r, pm', w') \<Longrightarrow> same_keys pm pm'"
    by (auto simp: same_keys_def try_acquire_unfold
        split: if_splits option.splits list.splits prod.splits sum.splits)
  have "hm_get ps' key = None \<longleftrightarrow> pool_of pm key = None" if "remove_active i (pm_pools pm) = (found, ps')" for found ps' key
    using remove_active_keys[of i "pm_pools pm" key] that by simp
  then show "same_keys pm (on_destroy i pm)"
    by (simp add: same_keys_def on_destroy_def split: prod.split option.split)
qed (auto simp: same_keys_def push_idle_get)

text \<open>One step of the pools is one step of the specification.\<close>

definition refines_step :: "('w \<Rightarrow> sandbox_id set) \<Rightarrow> 'w race \<Rightarrow> 'w race \<Rightarrow> bool" where
  "refines_step used s s' \<longleftrightarrow> owner_inv used s' \<and> life_step (owners_of used s) (owners_of used s')"

lemma refines_stepI:
  "once (owned s') \<Longrightarrow> set_mset (owned s') \<subseteq> used (ra_world s') \<Longrightarrow> keys_known s' \<Longrightarrow>
    life_step (owners_of used s) r \<Longrightarrow> owners_of used s' = r \<Longrightarrow> refines_step used s s'"
  by (simp add: refines_step_def owner_inv_def)

lemma refines_quiet:
  assumes "owner_inv used s" "owned s' = owned s" "keys_known s'" "used (ra_world s) \<subseteq> used (ra_world s')"
    and "owners_of used s' = (owners_of used s)\<lparr>ow_used := used (ra_world s')\<rparr>"
  shows "refines_step used s s'"
  by (rule refines_stepI[OF _ _ assms(3) life_quiet assms(5)])
    (use assms(1,2,4) in \<open>auto simp: owner_inv_def owners_of_def\<close>)

text \<open>What a request does to the owners: it is given an idle sandbox or a new one, or nothing moves.\<close>

definition lends :: "('w \<Rightarrow> sandbox_id set) \<Rightarrow> sandbox_id option \<Rightarrow> 'w race \<Rightarrow> 'w race \<Rightarrow> bool" where
  "lends used r s s' \<longleftrightarrow>
     (case r of
        None \<Rightarrow> owners_of used s' = (owners_of used s)\<lparr>ow_used := used (ra_world s')\<rparr>
      | Some i \<Rightarrow> i \<notin> ow_lent (owners_of used s)
          \<and> (i \<in> ow_idle (owners_of used s) \<or> i \<notin> ow_used (owners_of used s))
          \<and> owners_of used s' = (owners_of used s)
              \<lparr>ow_idle := ow_idle (owners_of used s) - {i}, ow_lent := insert i (ow_lent (owners_of used s)),
               ow_used := used (ra_world s')\<rparr>)"

lemma acquire_lends:
  assumes inv: "owner_inv used s" and fresh: "fresh_ids used be"
    and acq: "try_acquire be c (ra_pm s) (ra_world s) = (r, pm', w')"
  shows "refines_step used s (s\<lparr>ra_pm := pm', ra_world := w'\<rparr>) \<and> lends used r s (s\<lparr>ra_pm := pm', ra_world := w'\<rparr>)"
proof -
  let ?s = "s\<lparr>ra_pm := pm', ra_world := w'\<rparr>"
  note inv' = inv[unfolded owner_inv_def]
  have keys: "keys_known ?s"
    by (rule same_keys_known[OF _ _ _ inv'[THEN conjunct2, THEN conjunct2]])
      (simp_all add: same_keys_steps(1)[OF acq])
  from try_acquire_acquired[OF acq] show ?thesis
  proof (cases rule: acquiredE)
    case none
    then show ?thesis
      by (intro conjI refines_quiet[OF inv _ keys]) (simp_all add: owned_def owners_of_def lends_def)
  next
    case (failed pv cfg create e)
    then show ?thesis
      by (intro conjI refines_quiet[OF inv _ keys])
        (simp_all add: fresh_ids_failed[OF fresh failed(3,4)] owned_def owners_of_def lends_def)
  next
    case (hit i)
    have "i \<notin># lent_of (pm_pools (ra_pm s))" "i \<notin># idle_of (pm_pools pm')"
      using inv' hit(3) by (auto simp: owned_def)
    with hit have lent: "lent_of (pm_pools pm') = add_mset i (lent_of (pm_pools (ra_pm s)))"
      and owns: "owned ?s = owned s"
      by (simp_all add: owned_def)
    have "refines_step used s ?s"
      by (rule refines_stepI[OF _ _ keys life_lend[of i]])
        (use inv' hit(2,3) owns lent \<open>i \<notin># idle_of (pm_pools pm')\<close> in \<open>auto simp: owners_of_def\<close>)
    moreover have "lends used r s ?s"
      using hit(1-3) lent \<open>i \<notin># idle_of (pm_pools pm')\<close> \<open>i \<notin># lent_of (pm_pools (ra_pm s))\<close>
      by (simp add: lends_def owners_of_def)
    ultimately show ?thesis ..
  next
    case (made pv cfg create i)
    note new = fresh_ids_create[OF fresh made(2,3)]
    then have "i \<notin># owned s"
      using inv' by auto
    with made have lent: "lent_of (pm_pools pm') = add_mset i (lent_of (pm_pools (ra_pm s)))"
      and owns: "owned ?s = add_mset i (owned s)"
      by (auto simp: owned_def)
    have "refines_step used s ?s"
      by (rule refines_stepI[OF _ _ keys life_lend_new[of i _ "used w'"]])
        (use inv' made(4) new owns lent \<open>i \<notin># owned s\<close> in \<open>auto simp: owners_of_def\<close>)
    moreover have "lends used r s ?s"
      using made(1,4) lent \<open>i \<notin># owned s\<close> new by (auto simp: lends_def owners_of_def owned_def)
    ultimately show ?thesis ..
  qed
qed

lemma owned_sub:
  "once (owned s) \<Longrightarrow> owned s' \<subseteq># owned s \<Longrightarrow> once (owned s')"
  by (rule once_sub)

text \<open>A step that only drops identifiers keeps the invariant.\<close>

lemma refines_drop:
  assumes "owner_inv used s" "owned s' \<subseteq># owned s" "keys_known s'" "used (ra_world s) \<subseteq> used (ra_world s')"
    and "life_step (owners_of used s) r" "owners_of used s' = r"
  shows "refines_step used s s'"
  by (rule refines_stepI[OF once_sub[OF _ assms(2)] _ assms(3,5,6)])
    (use assms(1,4) set_mset_mono[OF assms(2)] in \<open>auto simp: owner_inv_def\<close>)

lemma owner_invD:
  assumes "owner_inv used s"
  shows "once (owned s)" "set_mset (owned s) \<subseteq> used (ra_world s)" "keys_known s"
  using assms by (simp_all add: owner_inv_def)

lemma destroyed_owners:
  assumes inv: "owner_inv used s"
  shows "refines_step used s (s\<lparr>ra_pm := on_destroy i (ra_pm s)\<rparr>)
    \<and> owners_of used (s\<lparr>ra_pm := on_destroy i (ra_pm s)\<rparr>) = (owners_of used s)\<lparr>ow_lent := ow_lent (owners_of used s) - {i}\<rparr>"
proof -
  let ?l = "lent_of (pm_pools (ra_pm s))"
  have once: "once ?l"
    by (rule once_sub[OF owner_invD(1)[OF inv]]) (simp add: owned_def)
  then have "count ?l i \<le> 1" by (simp add: once_def)
  note moves = on_destroy_moves(1)[of i "ra_pm s"] on_destroy_moves(2)[OF this]
  have keys: "keys_known (s\<lparr>ra_pm := on_destroy i (ra_pm s)\<rparr>)"
    by (rule same_keys_known[OF _ _ _ owner_invD(3)[OF inv]]) (simp_all add: same_keys_steps)
  have owners: "owners_of used (s\<lparr>ra_pm := on_destroy i (ra_pm s)\<rparr>)
      = (owners_of used s)\<lparr>ow_lent := ow_lent (owners_of used s) - {i}\<rparr>"
    by (simp add: owners_of_def moves once_remove[OF once])
  show ?thesis
    by (intro conjI refines_drop[OF inv _ keys _ life_return[of _ i] owners] owners)
      (simp_all add: moves owned_def)
qed

lemma drain_owners:
  "pool_drain be (ra_pm s) (ra_world s) = (n, pm', w') \<Longrightarrow> owners_of used (s\<lparr>ra_pm := pm', ra_world := w'\<rparr>)
    = (owners_of used s)\<lparr>ow_idle := {}, ow_used := used w'\<rparr>"
  by (simp add: pool_drain_moves(1,2) owners_of_def)

lemma refines_drain:
  assumes inv: "owner_inv used s" and fresh: "fresh_ids used be"
    and drain: "pool_drain be (ra_pm s) (ra_world s) = (n, pm', w')"
  shows "refines_step used s (s\<lparr>ra_pm := pm', ra_world := w'\<rparr>)"
proof -
  have "same_keys (ra_pm s) pm'"
    using drain by (auto simp: pool_drain_def Let_def same_keys_steps)
  then have keys: "keys_known (s\<lparr>ra_pm := pm', ra_world := w'\<rparr>)"
    by (intro same_keys_known[OF _ _ _ owner_invD(3)[OF inv]]) simp_all
  have "used (ra_world s) \<subseteq> used w'"
    using pool_drain_moves(3)[OF drain] fresh_ids_destroy[OF fresh] by simp
  then show ?thesis
    by (intro refines_drop[OF inv _ keys _ life_drain[of _ "used w'"]])
      (simp_all add: pool_drain_moves(1,2)[OF drain] owned_def owners_of_def)
qed

lemma reap_owners:
  assumes inv: "owner_inv used s" and "ra_doomed s = []" and reap: "reap_collect now (ra_pm s) = (ds, pm')"
  shows "refines_step used s (s\<lparr>ra_pm := pm', ra_doomed := ds\<rparr>)
    \<and> snd ` set ds \<subseteq> ow_idle (owners_of used s)
    \<and> owners_of used (s\<lparr>ra_pm := pm', ra_doomed := ds\<rparr>) = (owners_of used s)
        \<lparr>ow_idle := ow_idle (owners_of used s) - snd ` set ds, ow_doomed := snd ` set ds\<rparr>"
proof -
  let ?s = "s\<lparr>ra_pm := pm', ra_doomed := ds\<rparr>"
  note moves = reap_collect_moves[OF reap]
  have owns: "owned ?s = owned s"
    using moves assms(2) by (simp add: owned_def add_ac)
  have apart: "snd ` set ds \<inter> set_mset (idle_of (pm_pools pm')) = {}"
    using once_disjoint[OF once_sub[OF owner_invD(1)[OF inv], of "mset (map snd ds) + idle_of (pm_pools pm')"]]
      moves(1) assms(2) by (simp add: owned_def)
  have "same_keys (ra_pm s) pm'"
    using reap by (auto simp: reap_collect_def same_keys_steps)
  then have keys: "keys_known ?s"
    by (intro same_keys_known[OF _ _ _ owner_invD(3)[OF inv]]) simp_all
  have sub: "snd ` set ds \<subseteq> ow_idle (owners_of used s)"
    and owners: "owners_of used ?s = (owners_of used s)
      \<lparr>ow_idle := ow_idle (owners_of used s) - snd ` set ds, ow_doomed := snd ` set ds\<rparr>"
    using moves apart by (auto simp: owners_of_def)
  show ?thesis
    by (intro conjI refines_drop[OF inv _ keys _ life_reap[of _ "snd ` set ds"] owners] sub owners)
      (use owns assms(2) in \<open>simp_all add: owners_of_def\<close>)
qed

lemma refines_doom:
  assumes inv: "owner_inv used s" and fresh: "fresh_ids used be"
  shows "refines_step used s (s\<lparr>ra_world := destroy_keyed be (ra_doomed s) (ra_world s), ra_doomed := []\<rparr>)"
  by (rule refines_drop[OF inv _ _ _ life_doom[of _ "used (destroy_keyed be (ra_doomed s) (ra_world s))"]])
    (use owner_invD(3)[OF inv] fresh_ids_destroy[OF fresh] in \<open>auto simp: owned_def owners_of_def keys_known_def\<close>)

lemma refines_create:
  assumes inv: "owner_inv used s" and fresh: "fresh_ids used be"
    and "ra_waiting s = key # keys" "backend_create be pv c = Some create" "create (ra_world s) = (Inr i, w')"
  shows "refines_step used s (s\<lparr>ra_world := w', ra_waiting := keys, ra_created := (key, i) # ra_created s\<rparr>)"
proof -
  note new = fresh_ids_create[OF fresh assms(4,5)]
  note inv' = owner_invD[OF inv]
  show ?thesis
    by (rule refines_stepI[OF _ _ _ life_make[of i _ "used w'"]])
      (use new inv' assms(3) in \<open>auto simp: owned_def owners_of_def keys_known_def\<close>)
qed

lemma store_owners:
  assumes inv: "owner_inv used s" and created: "ra_created s = cs @ (key, i) # ds"
  shows "refines_step used s (s\<lparr>ra_pm := push_idle key i now (ra_pm s), ra_created := cs @ ds\<rparr>)
    \<and> owners_of used (s\<lparr>ra_pm := push_idle key i now (ra_pm s), ra_created := cs @ ds\<rparr>) = (owners_of used s)
        \<lparr>ow_made := ow_made (owners_of used s) - {i}, ow_idle := insert i (ow_idle (owners_of used s))\<rparr>"
proof -
  let ?s = "s\<lparr>ra_pm := push_idle key i now (ra_pm s), ra_created := cs @ ds\<rparr>"
  note inv' = owner_invD[OF inv]
  obtain p where p: "pool_of (ra_pm s) key = Some p"
    using inv'(3) created by (auto simp: keys_known_def)
  note moves = push_idle_moves[OF p, of i now]
  have owns: "owned ?s = owned s"
    by (simp add: owned_def moves created)
  have "i \<notin> snd ` set (cs @ ds)"
    using inv'(1) created by (auto simp: owned_def)
  moreover have "keys_known ?s"
    by (rule same_keys_known[OF _ _ _ inv'(3)]) (auto simp: same_keys_steps created)
  moreover from calculation have owners: "owners_of used ?s = (owners_of used s)
      \<lparr>ow_made := ow_made (owners_of used s) - {i}, ow_idle := insert i (ow_idle (owners_of used s))\<rparr>"
    by (auto simp: owners_of_def moves created)
  ultimately show ?thesis
    by (intro conjI refines_drop[OF inv _ _ _ life_store[of i] owners] owners)
      (simp_all add: owns, auto simp: owners_of_def created)
qed

lemma race_step_refines:
  assumes "race_step be s s'" "owner_inv used s" "fresh_ids used be"
  shows "refines_step used s s'"
  using assms
proof (induction rule: race_step.induct)
  case (race_acquire c s r pm' w')
  then show ?case by (simp add: acquire_lends)
next
  case (race_destroyed s i)
  then show ?case by (simp add: destroyed_owners)
next
  case (race_drain s n pm' w')
  then show ?case by (simp add: refines_drain)
next
  case (race_warmup s)
  then show ?case
    by (intro refines_quiet) (auto simp: owned_def owners_of_def pool_warmup_def keys_known_def owner_inv_def)
next
  case (race_reap s now ds pm')
  then show ?case by (simp add: reap_owners)
next
  case (race_doom s)
  then show ?case by (simp add: refines_doom)
next
  case (race_wake s keys pm')
  then show ?case
    by (intro refines_quiet) (auto simp: owned_def owners_of_def drain_pending_def keys_known_def owner_inv_def)
next
  case (race_batch s key keys)
  then show ?case
    by (intro refines_quiet)
      (auto simp: owned_def owners_of_def keys_known_def owner_inv_def key_deficit_def split: option.splits)
next
  case (race_create s key keys create i w')
  then show ?case by (auto intro: refines_create)
next
  case (race_create_failed s key keys create e w')
  then show ?case
    by (intro refines_quiet)
      (auto simp: owned_def owners_of_def keys_known_def owner_inv_def dest: fresh_ids_failed)
next
  case (race_no_backend s key keys)
  then show ?case
    by (intro refines_quiet) (auto simp: owned_def owners_of_def keys_known_def owner_inv_def)
next
  case (race_store s cs key i ds now)
  then show ?case by (simp add: store_owners)
qed

subsection \<open>Exclusive leases\<close>

definition life_reach :: "sandbox_id set \<Rightarrow> owners \<Rightarrow> bool" where
  "life_reach u r \<longleftrightarrow> life_step\<^sup>*\<^sup>* (life_start u) r"

lemma life_reach_disjoint: "life_reach u r \<Longrightarrow> disjoint_owners r"
proof -
  assume "life_reach u r"
  then have "life_step\<^sup>*\<^sup>* (life_start u) r" by (simp add: life_reach_def)
  then show ?thesis
    by (induction rule: rtranclp_induct) (simp_all add: life_start_disjoint life_step_disjoint)
qed

lemma race_start_empty:
  "idle_of (pm_pools (pool_manager_new configs)) = {#} \<and> lent_of (pm_pools (pool_manager_new configs)) = {#}"
proof -
  have "idle_of (fold add_pool configs ps) = {#} \<and> lent_of (fold add_pool configs ps) = {#}"
    if "list_all (\<lambda>kp. sp_idle (snd kp) = [] \<and> sp_active (snd kp) = []) ps" for ps
    using that
  proof (induction configs arbitrary: ps)
    case Nil
    then show ?case by (induction ps) auto
  next
    case (Cons cfg configs)
    have "list_all (\<lambda>kp. sp_idle (snd kp) = [] \<and> sp_active (snd kp) = []) (add_pool cfg ps)"
      using Cons.prems by (auto simp: add_pool_def list_all_iff dest!: hm_insert_entries)
    then show ?case using Cons.IH by simp
  qed
  then show ?thesis by (simp add: pool_manager_new_def)
qed

lemma race_reach_refines:
  assumes "race_reach be configs w s" "fresh_ids used be"
  shows "owner_inv used s \<and> life_reach (used w) (owners_of used s)"
  using assms
proof (induction rule: race_reach.induct)
  case race_start
  then show ?case
    using race_start_empty[of configs]
    by (simp add: race_init_def owner_inv_def owned_def keys_known_def owners_of_def life_reach_def life_start_def)
next
  case (race_next s s')
  then have "refines_step used s s'"
    using race_step_refines by blast
  then show ?case
    using race_next by (auto simp: refines_step_def life_reach_def)
qed

text \<open>
  (C14) The pools implement the life of a sandbox under every interleaving. Every step of the pools from a
  state they can be in is a step of the specification: from no queue to the active sets but by a
  loan, from there only away. And the operations are the steps they should be: a request is
  given an idle sandbox, which leaves the queues, or a new one, and nobody else has it; a
  destruction takes exactly that sandbox off the loans; draining empties the queues and leaves the
  loans; the reaper picks idle ones only and takes them off the queues; storing moves a created one
  to the queues. No identifier is in two places or twice in one of them.
\<close>

theorem pool_owners_refine:
  assumes "fresh_ids used be" "race_reach be configs w s"
  shows "life_reach (used w) (owners_of used s) \<and> disjoint_owners (owners_of used s)
    \<and> (\<forall>i. count (owned s) i \<le> 1)
    \<and> (\<forall>s'. race_step be s s' \<longrightarrow> life_step (owners_of used s) (owners_of used s'))
    \<and> (\<forall>c r pm' w'. try_acquire be c (ra_pm s) (ra_world s) = (r, pm', w') \<longrightarrow>
         lends used r s (s\<lparr>ra_pm := pm', ra_world := w'\<rparr>))
    \<and> (\<forall>i. owners_of used (s\<lparr>ra_pm := on_destroy i (ra_pm s)\<rparr>)
         = (owners_of used s)\<lparr>ow_lent := ow_lent (owners_of used s) - {i}\<rparr>)
    \<and> (\<forall>n pm' w'. pool_drain be (ra_pm s) (ra_world s) = (n, pm', w') \<longrightarrow>
         owners_of used (s\<lparr>ra_pm := pm', ra_world := w'\<rparr>) = (owners_of used s)\<lparr>ow_idle := {}, ow_used := used w'\<rparr>)
    \<and> (\<forall>now ds pm'. ra_doomed s = [] \<and> reap_collect now (ra_pm s) = (ds, pm') \<longrightarrow>
         snd ` set ds \<subseteq> ow_idle (owners_of used s)
         \<and> owners_of used (s\<lparr>ra_pm := pm', ra_doomed := ds\<rparr>) = (owners_of used s)
             \<lparr>ow_idle := ow_idle (owners_of used s) - snd ` set ds, ow_doomed := snd ` set ds\<rparr>)
    \<and> (\<forall>cs key i ds now. ra_created s = cs @ (key, i) # ds \<longrightarrow>
         owners_of used (s\<lparr>ra_pm := push_idle key i now (ra_pm s), ra_created := cs @ ds\<rparr>) = (owners_of used s)
             \<lparr>ow_made := ow_made (owners_of used s) - {i}, ow_idle := insert i (ow_idle (owners_of used s))\<rparr>)"
proof -
  have inv: "owner_inv used s" and reach: "life_reach (used w) (owners_of used s)"
    using race_reach_refines[OF assms(2,1)] by simp_all
  have step: "life_step (owners_of used s) (owners_of used s')" if "race_step be s s'" for s'
    using race_step_refines[OF that inv assms(1)] by (simp add: refines_step_def)
  show ?thesis
  proof (intro conjI allI impI)
    show "count (owned s) i \<le> 1" for i
      using inv by (simp add: owner_inv_def once_def)
  next
    fix now ds pm'
    assume "ra_doomed s = [] \<and> reap_collect now (ra_pm s) = (ds, pm')"
    then show "snd ` set ds \<subseteq> ow_idle (owners_of used s)"
      "owners_of used (s\<lparr>ra_pm := pm', ra_doomed := ds\<rparr>) = (owners_of used s)
        \<lparr>ow_idle := ow_idle (owners_of used s) - snd ` set ds, ow_doomed := snd ` set ds\<rparr>"
      using reap_owners[OF inv, of now ds pm'] by blast+
  qed (use reach life_reach_disjoint[OF reach] step acquire_lends[OF inv assms(1)] destroyed_owners[OF inv, THEN conjunct2]
      drain_owners store_owners[OF inv, THEN conjunct2] in simp_all)
qed

text \<open>
  (C5) Exclusive leases: once a sandbox is lent to a request, it is never idle again, never picked by
  the reaper, never drained and never stored by the replenisher, whatever runs in between; and
  once it has been given back, it is never lent again.
\<close>

theorem lease_is_exclusive:
  assumes "fresh_ids used be" "race_reach be configs w s" "(race_step be)\<^sup>*\<^sup>* s s'"
    and "i \<in># lent_of (pm_pools (ra_pm s))"
  shows "i \<notin># idle_of (pm_pools (ra_pm s')) \<and> i \<notin> snd ` set (ra_doomed s') \<and> i \<notin> snd ` set (ra_created s')
    \<and> (\<forall>s''. (race_step be)\<^sup>*\<^sup>* s' s'' \<and> i \<notin># lent_of (pm_pools (ra_pm s')) \<longrightarrow> i \<notin># lent_of (pm_pools (ra_pm s'')))"
proof -
  have inv: "owner_inv used s"
    using race_reach_refines[OF assms(2,1)] by simp
  have steps: "owner_inv used t' \<and> life_step\<^sup>*\<^sup>* (owners_of used t) (owners_of used t')"
    if "(race_step be)\<^sup>*\<^sup>* t t'" "owner_inv used t" for t t'
    using that
  proof (induction rule: rtranclp_induct)
    case (step t1 t2)
    then show ?case
      using race_step_refines[OF step(2) _ assms(1)] by (auto simp: refines_step_def)
  qed simp
  have leased: "lent_or_gone r' i" if "life_step\<^sup>*\<^sup>* r r'" "lent_or_gone r i" for r r'
    using that by (induction rule: rtranclp_induct) (simp_all add: life_step_lent_or_gone)
  have gone: "lent_or_gone r' i \<and> i \<notin> ow_lent r'"
    if "life_step\<^sup>*\<^sup>* r r'" "lent_or_gone r i" "i \<notin> ow_lent r" for r r'
    using that by (induction rule: rtranclp_induct) (auto simp: life_step_lent_or_gone dest: life_step_gone)
  have "disjoint_owners (owners_of used s)"
    using race_reach_refines[OF assms(2,1)] life_reach_disjoint by blast
  then have "lent_or_gone (owners_of used s) i"
    using assms(4) by (auto simp: lent_or_gone_def disjoint_owners_def owners_of_def)
  then have after: "lent_or_gone (owners_of used s') i"
    using leased steps[OF assms(3) inv] by blast
  have "i \<notin># lent_of (pm_pools (ra_pm s''))"
    if "(race_step be)\<^sup>*\<^sup>* s' s''" "i \<notin># lent_of (pm_pools (ra_pm s'))" for s''
    using gone[OF _ after, of "owners_of used s''"] steps[OF that(1)] steps[OF assms(3) inv] that(2)
    by (auto simp: owners_of_def)
  then show ?thesis
    using after by (auto simp: lent_or_gone_def owners_of_def)
qed

subsection \<open>A concrete run\<close>

definition counted :: "nat \<Rightarrow> sandbox_id set" where
  "counted n = show_nat ` {..<n}"

lemma counting_fresh: "fresh_ids counted counting_backends"
  by (auto simp: fresh_ids_def backend_create_def backend_destroy_def counting_backends_def counting_provider_def
      counted_def)

theorem pool_owners_refine_witness:
  "\<exists>s p. race_reach counting_backends [demo_config] 0 s \<and> pool_of (ra_pm s) demo_key = Some p
     \<and> pool_total p = 2 \<and> (\<forall>i. count (owned s) i \<le> 1)"
  using demo_race_overrun pool_owners_refine[OF counting_fresh, THEN conjunct2, THEN conjunct2, THEN conjunct1] by metis

theorem lease_is_exclusive_witness:
  "\<exists>s. (race_step counting_backends)\<^sup>*\<^sup>* lent_demo_race s
     \<and> (\<forall>s'. (race_step counting_backends)\<^sup>*\<^sup>* s s' \<longrightarrow> show_nat 0 \<notin># lent_of (pm_pools (ra_pm s')))"
proof -
  let ?s = "lent_demo_race\<lparr>ra_pm := on_destroy (show_nat 0) (ra_pm lent_demo_race)\<rparr>"
  have lent: "show_nat 0 \<in># lent_of (pm_pools (ra_pm lent_demo_race))"
    and returned: "show_nat 0 \<notin># lent_of (pm_pools (ra_pm ?s))"
    by (simp_all add: lent_demo_race_def lent_demo_pool_def on_destroy_def hs_remove_def)
  have step: "(race_step counting_backends)\<^sup>*\<^sup>* lent_demo_race ?s"
    using race_destroyed by blast
  show ?thesis
    using lease_is_exclusive[OF counting_fresh demo_race_lent step lent] step returned by blast
qed

end
