(* ===== verification/Exec_Once.thy ===== *)
theory Exec_Once
  imports Service
begin

text \<open>
  Idempotent execution over whole runs of the daemon: between a request and its repetition any
  handlers, reaper passes and replenisher passes may run. The argument is that of the contract
  \<open>replay_cache\<close>; what is added is that every step of the daemon visits the cache at most once.
\<close>

text \<open>The clock readings of a step are not later than \<open>t\<close>.\<close>

definition by_time :: "nat \<Rightarrow> rpc_clock \<times> server_op \<Rightarrow> bool" where
  "by_time t op \<longleftrightarrow> ck_get (fst op) \<le> t \<and> ck_evict (fst op) \<le> t"

lemma exec_uncached_not_ok:
  assumes "exec_uncached ua ps ck q sv w = (res, sv1, w1)" and no: "\<nexists>r. res = Some (Inr r)"
  shows "sv_cache sv1 = sv_cache sv"
  using assms(1) run_exec_not_ok[OF _ no[simplified, rule_format]]
  by (fastforce simp: exec_uncached_def Let_def split: sum.splits)

lemma exec_uncached_cache:
  "exec_uncached ua ps ck q sv w = (res, sv1, w1) \<Longrightarrow> xq_idempotency_key q = Some key \<Longrightarrow>
    sv_cache sv1 = sv_cache sv \<or> (\<exists>x. sv_cache sv1 = idem_put (ck_evict ck) (ck_put ck) key x (sv_cache sv))"
proof -
  assume run: "exec_uncached ua ps ck q sv w = (res, sv1, w1)" and key: "xq_idempotency_key q = Some key"
  show ?thesis
  proof (cases "\<exists>r. res = Some (Inr r)")
    case True
    then obtain r where "res = Some (Inr r)" by blast
    with exec_uncached_caches[OF run[unfolded this] key] show ?thesis by blast
  next
    case False
    from exec_uncached_not_ok[OF run this] show ?thesis by simp
  qed
qed

lemma exec_uncached_no_key:
  "exec_uncached ua ps ck q sv w = (res, sv1, w1) \<Longrightarrow> xq_idempotency_key q = None \<Longrightarrow> sv_cache sv1 = sv_cache sv"
proof -
  assume run: "exec_uncached ua ps ck q sv w = (res, sv1, w1)" and key: "xq_idempotency_key q = None"
  show ?thesis
  proof (cases "\<exists>r. res = Some (Inr r)")
    case True
    then obtain r where "res = Some (Inr r)" by blast
    with exec_uncached_ok[OF run[unfolded this]] key show ?thesis
      by (auto dest!: run_exec_ok simp: cache_response_def charge_session_def split: option.splits)
  qed (rule exec_uncached_not_ok[OF run])
qed

lemma rpc_exec_cache:
  assumes "rpc_exec ua ps ck q sv w = (res, sv1, w1)"
  shows "sv_cache sv1 = sv_cache sv
    \<or> (\<exists>key out. sv_cache sv1 = idem.visit (ck_get ck) (ck_evict ck) (ck_put ck) key out (sv_cache sv))"
proof (cases "xq_idempotency_key q")
  case None
  then show ?thesis
    using assms exec_uncached_no_key[of ua ps ck q "touch_last_rpc ck sv" w res sv1 w1]
    by (simp add: rpc_exec_def Let_def)
next
  case (Some key)
  obtain hit c where get: "idem_get (ck_get ck) key (sv_cache sv) = (hit, c)"
    by (cases "idem_get (ck_get ck) key (sv_cache sv)")
  show ?thesis
  proof (cases hit)
    case None
    then have "exec_uncached ua ps ck q ((touch_last_rpc ck sv)\<lparr>sv_cache := c\<rparr>) w = (res, sv1, w1)"
      using assms Some get by (simp add: rpc_exec_def Let_def)
    from exec_uncached_cache[OF this Some]
    consider "sv_cache sv1 = c" | x where "sv_cache sv1 = idem_put (ck_evict ck) (ck_put ck) key x c"
      by auto
    then show ?thesis
    proof cases
      case 1
      then have "sv_cache sv1 = idem.visit (ck_get ck) (ck_evict ck) (ck_put ck) key None (sv_cache sv)"
        using get None by (simp add: idem.visit_def)
      then show ?thesis by blast
    next
      case (2 x)
      then have "sv_cache sv1 = idem.visit (ck_get ck) (ck_evict ck) (ck_put ck) key (Some x) (sv_cache sv)"
        using get None by (simp add: idem.visit_def)
      then show ?thesis by blast
    qed
  next
    case (Some r)
    then have "sv_cache sv1 = c"
      using assms \<open>xq_idempotency_key q = Some key\<close> get by (auto simp: rpc_exec_def Let_def)
    then have "sv_cache sv1 = idem.visit (ck_get ck) (ck_evict ck) (ck_put ck) key None (sv_cache sv)"
      using get Some by (simp add: idem.visit_def)
    then show ?thesis by blast
  qed
qed

lemma destroy_targets_cache: "destroy_targets p is sv w = (ds, sv1, w1) \<Longrightarrow> sv_cache sv1 = sv_cache sv"
  by (auto simp: destroy_targets_forget split: prod.splits)

lemma server_step_cache:
  "sv_cache (fst (server_step ua ps op s)) = sv_cache (fst s)
   \<or> (\<exists>key out. sv_cache (fst (server_step ua ps op s))
        = idem.visit (ck_get (fst op)) (ck_evict (fst op)) (ck_put (fst op)) key out (sv_cache (fst s)))"
proof -
  obtain ck k sv w where s: "op = (ck, k)" "s = (sv, w)" by (cases op, cases s) auto
  show ?thesis
  proof (cases k)
    case (Do_Exec q)
    then show ?thesis
      using rpc_exec_cache[of ua ps ck q sv w] s by (cases "rpc_exec ua ps ck q sv w") auto
  next
    case (Do_Destroy pv ids every)
    then show ?thesis
      using s by (auto simp: rpc_destroy_def Let_def split: sum.split prod.split dest: destroy_targets_cache)
  qed (use s in \<open>auto simp: rpc_create_def rpc_list_def rpc_pause_def rpc_unpause_def
      rpc_gc_def rpc_copy_to_def rpc_copy_from_def rpc_pool_status_def rpc_pool_warmup_def rpc_pool_drain_def
      rpc_history_def rpc_create_session_def rpc_destroy_session_def rpc_list_sessions_def
      rpc_update_permissions_def rpc_analyze_intent_def Let_def split: prod.split sum.split option.split\<close>)
qed

lemma server_inv_cache_ok: "server_inv sv \<Longrightarrow> cache_ok (sv_cache sv)"
  by (simp add: server_inv_def)

lemma server_step_keeps_answer:
  assumes "server_inv (fst s)" "idem_holds (sv_cache (fst s)) k r t" "by_time t op"
  shows "idem_holds (sv_cache (fst (server_step ua ps op s))) k r t"
proof -
  have "idem_holds (idem.visit (ck_get (fst op)) (ck_evict (fst op)) (ck_put (fst op)) key out (sv_cache (fst s))) k r t"
    for key out
    by (rule idem.visit_keeps[OF server_inv_cache_ok[OF assms(1)] assms(2)])
      (use assms(3) in \<open>simp_all add: by_time_def\<close>)
  then show ?thesis
    using server_step_cache[of ua ps op s] assms(2) by auto
qed

text \<open>
  (C7) At most one execution per key: after the first execution under an idempotency key succeeded,
  and whatever the daemon does next until the time \<open>t\<close> within the time to live, a request with
  that key gets the first response and runs nothing: the world behind the providers, the
  sessions, the pools, the history and the cache are untouched.
\<close>

theorem exec_at_most_once:
  assumes "server_inv sv" and first: "rpc_exec ua ps ck q sv w = (Some (Inr r), sv1, w1)"
    and "xq_idempotency_key q = Some k" "hm_get (ic_entries (sv_cache sv)) k = None"
    and "t - ck_put ck < ic_ttl (sv_cache sv)"
    and run: "fold (server_step ua ps) ops (sv1, w1) = (sv2, w2)" "list_all (by_time t) ops"
    and "xq_idempotency_key q' = Some k" "ck_get ck' \<le> t"
  shows "\<exists>sv3. rpc_exec ua ps ck' q' sv2 w2 = (Some (Inr r), sv3, w2)
    \<and> sv_sessions sv3 = sv_sessions sv2 \<and> sv_pool sv3 = sv_pool sv2 \<and> sv_log sv3 = sv_log sv2
    \<and> sv_cache sv3 = sv_cache sv2"
proof -
  have inv: "server_inv sv1"
    using server_inv_exec[OF assms(1) first] .
  have "idem_get (ck_get ck) k (sv_cache sv) = (None, sv_cache sv)"
    using assms(4) by (simp add: idem_get_def)
  then have "exec_uncached ua ps ck q ((touch_last_rpc ck sv)\<lparr>sv_cache := sv_cache sv\<rparr>) w = (Some (Inr r), sv1, w1)"
    using first assms(3) by (simp add: rpc_exec_def Let_def touch_last_rpc_def)
  from exec_uncached_caches[OF this assms(3)]
  have "idem_holds (sv_cache sv1) k r t"
    using assms(5) by (simp add: idem_put_holds)
  then have "idem_holds (sv_cache (fst (fold (server_step ua ps) ops (sv1, w1)))) k r t"
    using inv server_step_keeps_answer
    by (intro server_runs.run_keeps[where holds = "\<lambda>s. idem_holds (sv_cache (fst s)) k r t", OF _ _ run(2)]) auto
  moreover have "server_inv sv2"
    using server_runs.run_inv[of "(sv1, w1)" ua ps ops] inv run(1) by simp
  ultimately have "idem_get (ck_get ck') k (sv_cache sv2) = (Some r, sv_cache sv2)"
    using idem.get_answers[OF server_inv_cache_ok] run(1) assms(9) by simp
  then show ?thesis
    using assms(8) by (simp add: rpc_exec_def Let_def touch_last_rpc_def)
qed

text \<open>
  A run in between: the same key for another sandbox and session, another key, a drain of the pools
  and a pass of the reaper.
\<close>

definition demo_between :: "(rpc_clock \<times> server_op) list" where
  "demo_between =
     [(demo_clock, Do_Exec ((demo_exec (Some ''k'') (Some ''ses_0''))\<lparr>xq_sandbox_id := ''sb2''\<rparr>)),
      (demo_clock, Do_Exec (demo_exec (Some ''k2'') None)), (demo_clock, Do_Pool_Drain), (demo_clock, Do_Reap 7)]"

theorem exec_at_most_once_witness:
  "\<exists>sv1 sv2 w2 sv3. rpc_exec (\<lambda>_. False) demo_providers demo_clock (demo_exec (Some ''k'') None)
        (server_new (pool_manager_new []) 0) 0 = (Some (Inr demo_response), sv1, 1)
    \<and> fold (server_step (\<lambda>_. False) demo_providers) demo_between (sv1, 1) = (sv2, w2)
    \<and> rpc_exec (\<lambda>_. False) demo_providers (demo_clock\<lparr>ck_get := 5\<rparr>) (demo_exec (Some ''k'') None) sv2 w2
      = (Some (Inr demo_response), sv3, w2)"
proof -
  let ?sv = "server_new (pool_manager_new []) 0"
  have key: "xq_idempotency_key (demo_exec (Some ''k'') None) = Some ''k''"
    by (simp add: demo_exec_def)
  have empty: "hm_get (ic_entries (sv_cache ?sv)) ''k'' = None"
    by (simp add: server_new_def idempotency_cache_new_def)
  obtain sv1 where 1: "rpc_exec (\<lambda>_. False) demo_providers demo_clock (demo_exec (Some ''k'') None) ?sv 0
      = (Some (Inr demo_response), sv1, 1)"
    using demo_uncached[of None "touch_last_rpc demo_clock ?sv\<lparr>sv_cache := sv_cache ?sv\<rparr>" "\<lambda>_. False" "Some ''k''" 0]
      empty key
    by (auto simp: rpc_exec_def Let_def idem_get_def touch_last_rpc_def)
  obtain sv2 w2 where 2: "fold (server_step (\<lambda>_. False) demo_providers) demo_between (sv1, 1) = (sv2, w2)"
    by (cases "fold (server_step (\<lambda>_. False) demo_providers) demo_between (sv1, 1)")
  have "5 - ck_put demo_clock < ic_ttl (sv_cache ?sv)" "list_all (by_time 5) demo_between"
    "ck_get (demo_clock\<lparr>ck_get := 5\<rparr>) \<le> 5"
    by (simp_all add: demo_clock_def server_new_def idempotency_cache_new_def default_ttl_def demo_between_def by_time_def)
  from exec_at_most_once[OF server_inv_new 1 key empty this(1) 2 this(2) key this(3)] 1 2
  show ?thesis by blast
qed

end
