(* ===== verification/Metering.thy ===== *)
theory Metering
  imports Service
begin

text \<open>
  The account of a session over a run of the daemon: what its usage says is the sum of the
  executions that ran under it, each with the duration of its trace and the bytes of its output.
\<close>

subsection \<open>What a step charges\<close>

definition from_cache :: "rpc_clock \<Rightarrow> exec_rpc_request \<Rightarrow> server \<Rightarrow> bool" where
  "from_cache ck q sv \<longleftrightarrow>
     (case xq_idempotency_key q of
        None \<Rightarrow> False
      | Some key \<Rightarrow> fst (idem_get (ck_get ck) key (sv_cache sv)) \<noteq> None)"

text \<open>An execution is charged when it is bound to a session, succeeds and is not a replay.\<close>

definition exec_charge ::
    "(string \<Rightarrow> bool) \<Rightarrow> 'w providers \<Rightarrow> rpc_clock \<Rightarrow> exec_rpc_request \<Rightarrow> server \<times> 'w \<Rightarrow> (string \<times> f64 \<times> u64) option" where
  "exec_charge ua ps ck q s =
     (case (xq_session_id q, fst (rpc_exec ua ps ck q (fst s) (snd s))) of
        (Some sid, Some (Inr r)) \<Rightarrow>
          (if from_cache ck q (fst s) then None
           else Some (sid, trace_duration r, word_of_nat (length (xr_stdout r) + length (xr_stderr r))))
      | _ \<Rightarrow> None)"

fun step_charge ::
    "(string \<Rightarrow> bool) \<Rightarrow> 'w providers \<Rightarrow> rpc_clock \<times> server_op \<Rightarrow> server \<times> 'w \<Rightarrow> (string \<times> f64 \<times> u64) option" where
  "step_charge ua ps (ck, Do_Exec q) s = exec_charge ua ps ck q s"
| "step_charge ua ps _ s = None"

text \<open>The charges of a run to one session, in order.\<close>

fun run_charges ::
    "(string \<Rightarrow> bool) \<Rightarrow> 'w providers \<Rightarrow> string \<Rightarrow> (rpc_clock \<times> server_op) list \<Rightarrow> server \<times> 'w \<Rightarrow> (f64 \<times> u64) list" where
  "run_charges ua ps sid [] s = []"
| "run_charges ua ps sid (op # ops) s =
     (case step_charge ua ps op s of
        Some (sid', d, n) \<Rightarrow> (if sid' = sid then [(d, n)] else [])
      | None \<Rightarrow> []) @ run_charges ua ps sid ops (server_step ua ps op s)"

text \<open>Steps that neither destroy the session nor create one under its identifier.\<close>

fun spares :: "string \<Rightarrow> rpc_clock \<times> server_op \<Rightarrow> bool" where
  "spares sid (ck, Do_Destroy_Session sid') \<longleftrightarrow> sid' \<noteq> sid"
| "spares sid (ck, Do_Create_Session i pv p b) \<longleftrightarrow> ''ses_'' @ show_hex (ck_wall_ns ck) \<noteq> sid"
| "spares sid _ \<longleftrightarrow> True"

definition add_charges :: "(f64 \<times> u64) list \<Rightarrow> budget_usage \<Rightarrow> budget_usage" where
  "add_charges cs u = fold (\<lambda>(d, n). add_usage d n) cs u"

lemma add_charges_simps [simp]:
  "add_charges [] u = u" "add_charges (c # cs) u = add_charges cs (add_usage (fst c) (snd c) u)"
  "add_charges (cs @ ds) u = add_charges ds (add_charges cs u)"
  by (simp_all add: add_charges_def case_prod_beta)

lemma add_charges_count: "us_exec_count (add_charges cs u) = us_exec_count u + word_of_nat (length cs)"
  by (induction cs arbitrary: u) (simp_all add: add_usage_def algebra_simps)

subsection \<open>The sessions after a step\<close>

lemma exec_uncached_sessions:
  assumes "exec_uncached ua ps ck q sv w = (res, sv1, w1)"
  shows "sv_sessions sv1 = (case res of Some (Inr r) \<Rightarrow> sv_sessions (charge_session (xq_session_id q) r sv) | _ \<Rightarrow> sv_sessions sv)"
proof (cases "\<exists>r. res = Some (Inr r)")
  case True
  then show ?thesis
    using assms by (auto dest!: exec_uncached_ok run_exec_ok)
next
  case False
  then have no: "\<And>r. res \<noteq> Some (Inr r)" by blast
  have "sv_sessions sv1 = sv_sessions sv"
    using assms by (auto simp: exec_uncached_def Let_def split: sum.splits dest!: run_exec_not_ok[OF _ no])
  then show ?thesis
    using no by (auto split: option.split sum.split)
qed

lemma charge_session_sessions:
  "sv_sessions (charge_session session r sv) =
     (case session of None \<Rightarrow> sv_sessions sv
      | Some sid \<Rightarrow> snd (record_usage sid (trace_duration r) (word_of_nat (length (xr_stdout r) + length (xr_stderr r))) (sv_sessions sv)))"
  by (simp add: charge_session_def split: option.split)

definition charged_to :: "(string \<times> f64 \<times> u64) option \<Rightarrow> session_manager \<Rightarrow> session_manager" where
  "charged_to c sm = (case c of None \<Rightarrow> sm | Some (sid, d, n) \<Rightarrow> snd (record_usage sid d n sm))"

lemma rpc_exec_sessions:
  assumes "rpc_exec ua ps ck q sv w = (res, sv1, w1)"
  shows "sv_sessions sv1 = charged_to (exec_charge ua ps ck q (sv, w)) (sv_sessions sv)"
proof -
  have uncached: "sv_sessions sv1 = charged_to (exec_charge ua ps ck q (sv, w)) (sv_sessions sv)"
    if "exec_uncached ua ps ck q sv0 w = (res, sv1, w1)" "sv_sessions sv0 = sv_sessions sv" "\<not> from_cache ck q sv" for sv0
    using exec_uncached_sessions[OF that(1)] that(2,3) assms
    by (auto simp: charged_to_def exec_charge_def charge_session_sessions split: option.split sum.split)
  show ?thesis
  proof (cases "xq_idempotency_key q")
    case None
    then show ?thesis
      using assms by (intro uncached[of "touch_last_rpc ck sv"]) (simp_all add: rpc_exec_def Let_def from_cache_def)
  next
    case (Some key)
    obtain hit c where get: "idem_get (ck_get ck) key (sv_cache sv) = (hit, c)"
      by (cases "idem_get (ck_get ck) key (sv_cache sv)")
    show ?thesis
    proof (cases hit)
      case None
      then show ?thesis
        using assms Some get
        by (intro uncached[of "(touch_last_rpc ck sv)\<lparr>sv_cache := c\<rparr>"]) (simp_all add: rpc_exec_def Let_def from_cache_def)
    next
      case (Some r)
      then have "from_cache ck q sv" "sv_sessions sv1 = sv_sessions sv"
        using assms \<open>xq_idempotency_key q = Some key\<close> get by (auto simp: rpc_exec_def Let_def from_cache_def)
      then show ?thesis
        by (simp add: charged_to_def exec_charge_def split: option.split sum.split)
    qed
  qed
qed

lemma record_usage_get:
  "hm_get sm sid = Some s \<Longrightarrow>
    hm_get (charged_to c sm) sid = Some (s\<lparr>ss_usage :=
      add_charges (case c of Some (sid', d, n) \<Rightarrow> (if sid' = sid then [(d, n)] else []) | None \<Rightarrow> []) (ss_usage s)\<rparr>)"
  by (auto simp: charged_to_def record_usage_def split: option.split)

lemma destroy_targets_sessions: "destroy_targets p is sv w = (ds, sv1, w1) \<Longrightarrow> sv_sessions sv1 = sv_sessions sv"
  by (auto simp: destroy_targets_forget split: prod.splits)

lemma server_step_session:
  assumes "hm_get (sv_sessions (fst s)) sid = Some x" "spares sid op"
  shows "\<exists>y. hm_get (sv_sessions (fst (server_step ua ps op s))) sid = Some y \<and> ss_budget y = ss_budget x
    \<and> ss_usage y = add_charges (case step_charge ua ps op s of
        Some (sid', d, n) \<Rightarrow> (if sid' = sid then [(d, n)] else []) | None \<Rightarrow> []) (ss_usage x)"
proof -
  obtain ck k sv w where s: "op = (ck, k)" "s = (sv, w)" by (cases op, cases s) auto
  have get: "hm_get (sv_sessions sv) sid = Some x" using assms(1) s by simp
  show ?thesis
  proof (cases k)
    case (Do_Exec q)
    obtain res sv1 w1 where run: "rpc_exec ua ps ck q sv w = (res, sv1, w1)" by (cases "rpc_exec ua ps ck q sv w")
    show ?thesis
      using record_usage_get[OF get, of "exec_charge ua ps ck q (sv, w)"] rpc_exec_sessions[OF run] s Do_Exec run
      by simp
  next
    case (Do_Destroy pv ids every)
    then show ?thesis
      using s get by (auto simp: rpc_destroy_def Let_def split: sum.split prod.split dest: destroy_targets_sessions)
  next
    case (Do_Create_Session i pv p b)
    then show ?thesis
      using s get assms(2)
      by (auto simp: rpc_create_session_def session_create_def uuid_v4_short_def Let_def)
  next
    case (Do_Destroy_Session sid')
    then show ?thesis
      using s get assms(2) by (auto simp: rpc_destroy_session_def session_destroy_def split: option.split)
  next
    case (Do_Update_Permissions sid' c)
    then show ?thesis
      using s get by (auto simp: rpc_update_permissions_def change_permissions_def Let_def split: option.split)
  qed (use s get in \<open>auto simp: rpc_create_def rpc_list_def rpc_pause_def rpc_unpause_def
      rpc_gc_def rpc_copy_to_def rpc_copy_from_def rpc_pool_status_def rpc_pool_warmup_def rpc_pool_drain_def
      rpc_history_def rpc_list_sessions_def rpc_analyze_intent_def Let_def split: prod.split sum.split option.split\<close>)
qed

subsection \<open>The account over a run\<close>

text \<open>
  (C8) The meter is exact: over any run of the daemon in which a session is neither destroyed nor
  replaced, its limits stay and its usage grows by exactly the executions charged to it, in their
  order, the counter by their number.
\<close>

theorem usage_accounts:
  assumes "hm_get (sv_sessions (fst s)) sid = Some x" "list_all (spares sid) ops"
  shows "\<exists>y. hm_get (sv_sessions (fst (fold (server_step ua ps) ops s))) sid = Some y
    \<and> ss_budget y = ss_budget x \<and> ss_usage y = add_charges (run_charges ua ps sid ops s) (ss_usage x)
    \<and> us_exec_count (ss_usage y) = us_exec_count (ss_usage x) + word_of_nat (length (run_charges ua ps sid ops s))"
proof -
  have "\<exists>y. hm_get (sv_sessions (fst (fold (server_step ua ps) ops s))) sid = Some y
    \<and> ss_budget y = ss_budget x \<and> ss_usage y = add_charges (run_charges ua ps sid ops s) (ss_usage x)"
    using assms
  proof (induction ops arbitrary: s x)
    case (Cons op ops)
    then obtain z where z: "hm_get (sv_sessions (fst (server_step ua ps op s))) sid = Some z" "ss_budget z = ss_budget x"
      "ss_usage z = add_charges (case step_charge ua ps op s of
        Some (sid', d, n) \<Rightarrow> (if sid' = sid then [(d, n)] else []) | None \<Rightarrow> []) (ss_usage x)"
      using server_step_session[OF Cons.prems(1), of op ua ps] by auto
    then show ?case
      using Cons.IH[OF z(1)] Cons.prems(2) by simp
  qed simp
  then show ?thesis
    by (auto simp: add_charges_count)
qed

theorem usage_accounts_witness:
  "\<exists>y. hm_get (sv_sessions (fst (fold (server_step (\<lambda>_. False) demo_providers)
        [(demo_clock, Do_Exec (demo_exec None (Some ''ses_0''))), (demo_clock, Do_List_Sessions)] (demo_server, 0)))) ''ses_0'' = Some y
     \<and> us_exec_count (ss_usage y) = 1"
proof -
  let ?ops = "[(demo_clock, Do_Exec (demo_exec None (Some ''ses_0''))), (demo_clock, Do_List_Sessions)]"
  have sess: "sv_sessions (touch_last_rpc demo_clock demo_server) = one_exec_session" "sv_sessions demo_server = one_exec_session"
    by (simp_all add: demo_server_def touch_last_rpc_def)
  have q: "xq_session_id (demo_exec None (Some ''ses_0'')) = Some ''ses_0''"
    "xq_idempotency_key (demo_exec None (Some ''ses_0'')) = None"
    by (simp_all add: demo_exec_def)
  obtain s where s: "hm_get one_exec_session ''ses_0'' = Some s" "ss_usage s = budget_usage_default"
    using one_exec_session_get by blast
  obtain sv1 where "rpc_exec (\<lambda>_. False) demo_providers demo_clock (demo_exec None (Some ''ses_0'')) demo_server 0
      = (Some (Inr demo_response), sv1, 1)"
    using demo_uncached[of "Some ''ses_0''" "touch_last_rpc demo_clock demo_server" "\<lambda>_. False" None 0]
      one_exec_session_check q sess
    by (auto simp: rpc_exec_def Let_def)
  then have "length (run_charges (\<lambda>_. False) demo_providers ''ses_0'' ?ops (demo_server, 0)) = 1"
    using q by (simp add: exec_charge_def from_cache_def)
  then show ?thesis
    using usage_accounts[of "(demo_server, 0)" "''ses_0''" s ?ops "\<lambda>_. False" demo_providers] s sess
    by (auto simp: budget_usage_default_def)
qed

end
