(* ===== verification/Create.thy ===== *)
theory Create
  imports Service
begin

text \<open>
  What a creation over the protocol comes to: a sandbox of a pool or one made for the request, and
  what it changes of the daemon's state.
\<close>

text \<open>
  \<open>lent_from p i p'\<close>: the sandbox \<open>i\<close> is given out of the pool \<open>p\<close>, which becomes \<open>p'\<close> - the first
  idle one, or a new one when none is idle.
\<close>

definition lent_from :: "sandbox_pool \<Rightarrow> sandbox_id \<Rightarrow> sandbox_pool \<Rightarrow> bool" where
  "lent_from p i p' \<longleftrightarrow>
     sp_config p' = sp_config p \<and> set (sp_active p') = insert i (set (sp_active p))
     \<and> sp_idle p' = tl (sp_idle p) \<and> pool_total p' \<le> unat (pc_max_total (sp_config p))
     \<and> (\<forall>sb rest. sp_idle p = sb # rest \<longrightarrow> i = is_id sb)"

lemma lent_from_idle:
  assumes "sp_idle p = sb # rest" "pool_total p < unat (pc_max_total (sp_config p))"
  shows "lent_from p (is_id sb) (p\<lparr>sp_idle := rest, sp_active := hs_insert (is_id sb) (sp_active p)\<rparr>)"
  using assms length_hs_insert_le[of "is_id sb" "sp_active p"]
  by (auto simp: lent_from_def pool_total_def)

lemma lent_from_new:
  assumes "sp_idle p = []" "pool_total p < unat (pc_max_total (sp_config p))"
  shows "lent_from p i (p\<lparr>sp_active := hs_insert i (sp_active p)\<rparr>)"
  using assms length_hs_insert_le[of i "sp_active p"]
  by (auto simp: lent_from_def pool_total_def)

text \<open>
  The pool of a request serves it: the request sets nothing a pooled sandbox would not have, no
  other pool changes, the replenisher is told, and the provider is called only when none was idle,
  with the configuration of the pool, not that of the request.
\<close>

definition served_by_pool ::
    "'w backends \<Rightarrow> sandbox_config \<Rightarrow> pool_manager \<Rightarrow> 'w \<Rightarrow> sandbox_id \<Rightarrow> pool_manager \<Rightarrow> 'w \<Rightarrow> bool" where
  "served_by_pool be c pm w i pm' w' \<longleftrightarrow>
     \<not> non_default_config c \<and> acquire_provider c \<noteq> ''wasm''
     \<and> acquire_key c \<in> set (pm_pending pm') \<and> pm_notified pm'
     \<and> (\<exists>p p'. pool_of pm (acquire_key c) = Some p \<and> pool_of pm' = (pool_of pm)(acquire_key c \<mapsto> p')
        \<and> lent_from p i p'
        \<and> (if sp_idle p \<noteq> [] then w' = w
           else \<exists>create. backend_create be (acquire_provider c)
                  (pool_sandbox_config (acquire_provider c) (sc_image c) (sc_timeout_secs c)) = Some create
                \<and> create w = (Inr i, w')))"

lemma try_acquire_Some:
  assumes "try_acquire be c pm w = (Some i, pm', w')"
  shows "served_by_pool be c pm w i pm' w'"
proof -
  have c: "\<not> non_default_config c" "acquire_provider c \<noteq> ''wasm''"
    using assms by (auto simp: try_acquire_unfold split: if_splits)
  then obtain p where p: "pool_of pm (acquire_key c) = Some p" "pool_total p < unat (pc_max_total (sp_config p))"
    using assms by (auto simp: try_acquire_unfold split: option.splits if_splits)
  show ?thesis
  proof (cases "sp_idle p")
    case (Cons sb rest)
    then show ?thesis
      using assms c p lent_from_idle[OF Cons p(2)]
      by (auto simp: try_acquire_unfold request_replenish_def served_by_pool_def fun_eq_iff)
  next
    case Nil
    then show ?thesis
      using assms c p lent_from_new[OF Nil p(2), of i]
      by (auto simp: try_acquire_unfold request_replenish_def served_by_pool_def fun_eq_iff
          split: option.splits prod.splits sum.splits)
  qed
qed

lemma try_acquire_None: "try_acquire be c pm w = (None, pm', w') \<Longrightarrow> pm' = pm"
  by (auto simp: try_acquire_unfold split: if_splits option.splits list.splits prod.splits sum.splits)


definition demo_create :: create_request where
  "demo_create =
     \<lparr>cq_provider = [], cq_image = ''img'', cq_memory = None, cq_cpus = None, cq_timeout_secs = 0,
      cq_network = False, cq_writable = False, cq_env = [], cq_mounts = [], cq_kernel = None, cq_rootfs = None,
      cq_network_allowlist = [], cq_fs_paths = []\<rparr>"


end
