(* ===== verification/Destroy.thy ===== *)
theory Destroy
  imports Service
begin

text \<open>
  What a destruction leaves behind: the sandboxes the provider destroyed, in the order of the
  request, are gone from the pools and the history, and nothing else is.
\<close>

subsection \<open>Leases in the pools\<close>

text \<open>In how many pools a sandbox is active.\<close>

definition leases :: "sandbox_id \<Rightarrow> pool_manager \<Rightarrow> nat" where
  "leases i pm = length (filter (\<lambda>(_, pool). i \<in> set (sp_active pool)) (pm_pools pm))"

lemma remove_active_leases:
  "length (filter (\<lambda>(_, pool). j \<in> set (sp_active pool)) (snd (remove_active i ps)))
    = length (filter (\<lambda>(_, pool). j \<in> set (sp_active pool)) ps) - (if i = j then 1 else 0)"
  by (induction i ps rule: remove_active.induct) (auto split: prod.splits)

lemma remove_active_None: "fst (remove_active i ps) = None \<Longrightarrow> snd (remove_active i ps) = ps"
  by (induction i ps rule: remove_active.induct) (auto split: prod.splits if_splits)

lemma leases_on_destroy: "leases j (on_destroy i pm) = leases j pm - (if i = j then 1 else 0)"
proof -
  obtain found ps where r: "remove_active i (pm_pools pm) = (found, ps)"
    by (cases "remove_active i (pm_pools pm)")
  then have "leases j (on_destroy i pm) = length (filter (\<lambda>(_, pool). j \<in> set (sp_active pool)) ps)"
    using remove_active_None[of i "pm_pools pm"]
    by (cases found) (simp_all add: leases_def on_destroy_def request_replenish_def)
  then show ?thesis
    using remove_active_leases[of j i "pm_pools pm"] r by (simp add: leases_def)
qed

lemma leases_destroyed: "leases i (fold on_destroy ds pm) = leases i pm - count_list ds i"
  by (induction ds arbitrary: pm) (simp_all add: leases_on_destroy)

subsection \<open>The handler\<close>

text \<open>The sandboxes a request is about, and the world after finding them.\<close>

definition targets_of :: "'w provider \<Rightarrow> sandbox_id list \<Rightarrow> bool \<Rightarrow> ('w, sandbox_id list) io" where
  "targets_of p ids every w =
     (if every then case pv_list p w of (r, w1) \<Rightarrow> (map_sum id (map si_id) r, w1) else (Inr ids, w))"

text \<open>
  (C24) The destruction of sandboxes, completely: it fails exactly when there is no such provider or, for
  all of them, when the provider cannot list them, and then only the time of the last request
  changes. Otherwise the answer has, in order, the targets the provider destroyed; a failure for one
  of them does not stop the rest. Those destroyed have no history, and each has one lease less in
  the pools; the history of the others, the sessions and the cache stay, so a session whose sandbox
  was destroyed is still there.
\<close>

theorem rpc_destroy_spec:
  assumes run: "rpc_destroy ps ck pv ids every sv w = (res, sv1, w1)"
  shows "case with_provider ps (default_provider pv) of
      Inl st \<Rightarrow> res = Inl st \<and> sv1 = touch_last_rpc ck sv \<and> w1 = w
    | Inr p \<Rightarrow> (case targets_of p ids every w of
        (Inl e, w0) \<Rightarrow> res = Inl (provider_error_to_status e) \<and> sv1 = touch_last_rpc ck sv \<and> w1 = w0
      | (Inr targets, w0) \<Rightarrow> (\<exists>ds. res = Inr ds \<and> destroy_ok_ids (pv_destroy p) targets w0 = (ds, w1)
          \<and> sv_sessions sv1 = sv_sessions sv \<and> sv_cache sv1 = sv_cache sv
          \<and> (\<forall>i. history sv1 i = (if i \<in> set ds then [] else history sv i))
          \<and> (\<forall>i. leases i (sv_pool sv1) = leases i (sv_pool sv) - count_list ds i)))"
proof -
  have same: "history (touch_last_rpc ck sv) = history sv"
    by (rule history_same) simp
  have "leases i (sv_pool (forget ds (touch_last_rpc ck sv))) = leases i (sv_pool sv) - count_list ds i" for i ds
    by (simp add: forget_def leases_destroyed)
  then show ?thesis
    using run by (auto simp: rpc_destroy_def targets_of_def destroy_targets_forget history_forget same Let_def
        split: sum.splits prod.splits if_splits)
qed

text \<open>A sandbox that has run a command, and one the provider does not have to know.\<close>

definition used_server :: server where
  "used_server = log_push ''sb'' \<lparr>xl_command = [''ls''], xl_exit_code = Some 0, xl_stdout = [], xl_stderr = [],
     xl_timestamp_ms = 0, xl_duration_ms = None\<rparr> (server_new (pool_manager_new []) 0)"

theorem rpc_destroy_spec_witness:
  "history used_server ''sb'' \<noteq> []
   \<and> (\<exists>sv1 w1. rpc_destroy demo_providers demo_clock ''docker'' [''sb'', ''other''] False used_server 0
        = (Inr [''sb'', ''other''], sv1, w1) \<and> history sv1 ''sb'' = [])"
proof -
  obtain res sv1 w1 where run: "rpc_destroy demo_providers demo_clock ''docker'' [''sb'', ''other''] False used_server 0 = (res, sv1, w1)"
    by (cases "rpc_destroy demo_providers demo_clock ''docker'' [''sb'', ''other''] False used_server 0")
  have "destroy_ok_ids (pv_destroy (docker_provider echo_cli)) [''sb'', ''other''] 0 = ([''sb'', ''other''], 4)"
    by (simp add: docker_provider_def docker_destroy_def run_or_missing_def echo_cli_def ok_output_def)
  then have "res = Inr [''sb'', ''other''] \<and> history sv1 ''sb'' = []"
    using rpc_destroy_spec[OF run] by (simp add: targets_of_def demo_providers_def with_provider_def default_provider_def)
  then show ?thesis
    using run by (simp add: used_server_def history_log_push)
qed

end
