(* ===== verification/Idle.thy ===== *)
theory Idle
  imports Daemon
begin

text \<open>
  The idle monitor of \<open>roche-daemon/src/main.rs\<close> beside the requests it watches: a run of the daemon
  is a sequence of steps of the service and of rounds of the monitor, each at its time, and the
  first round that finds the daemon idle ends it.
\<close>

datatype idle_event = Step "rpc_clock \<times> server_op" | Monitor u64

fun idle_watch ::
    "(string \<Rightarrow> bool) \<Rightarrow> 'w providers \<Rightarrow> daemon_args \<Rightarrow> string \<Rightarrow> idle_event list \<Rightarrow> server \<times> 'w \<Rightarrow> fs
     \<Rightarrow> i32 option \<times> (server \<times> 'w) \<times> fs" where
  "idle_watch ua ps args home [] q s = (None, q, s)"
| "idle_watch ua ps args home (Step op # es) q s = idle_watch ua ps args home es (server_step ua ps op q) s"
| "idle_watch ua ps args home (Monitor now # es) q s =
     (case idle_round args home now (fst q) s of
        (Some code, s') \<Rightarrow> (Some code, q, s')
      | (None, s') \<Rightarrow> idle_watch ua ps args home es q s')"

subsection \<open>The time of the last request\<close>

text \<open>Every handler notes its time; the passes over the pools do not.\<close>

fun is_request :: "server_op \<Rightarrow> bool" where
  "is_request (Do_Reap now) = False"
| "is_request (Do_Replenish clock) = False"
| "is_request _ = True"

lemma touch_last_rpc_ms [simp]: "sv_last_rpc_ms (touch_last_rpc ck sv) = ck_ms ck"
  by (simp add: touch_last_rpc_def)

lemma last_rpc_kept [simp]:
  "sv_last_rpc_ms (forget ds sv) = sv_last_rpc_ms sv"
  "sv_last_rpc_ms (log_push i r sv) = sv_last_rpc_ms sv"
  "sv_last_rpc_ms (cache_response ck key resp sv) = sv_last_rpc_ms sv"
  "sv_last_rpc_ms (charge_session sid resp sv) = sv_last_rpc_ms sv"
  by (simp_all add: forget_def log_push_def cache_response_def charge_session_def split: option.split)

lemma exec_uncached_last_rpc:
  "sv_last_rpc_ms (fst (snd (exec_uncached ua ps ck x sv w))) = sv_last_rpc_ms sv"
  by (simp add: exec_uncached_def run_exec_def Let_def split: option.split sum.split prod.split)

lemma rpc_exec_last_rpc: "sv_last_rpc_ms (fst (snd (rpc_exec ua ps ck x sv w))) = ck_ms ck"
  by (simp add: rpc_exec_def Let_def exec_uncached_last_rpc split: option.split prod.split)

lemma server_step_last_rpc:
  "sv_last_rpc_ms (fst (server_step ua ps op q))
     = (if is_request (snd op) then ck_ms (fst op) else sv_last_rpc_ms (fst q))"
proof -
  obtain ck k sv w where s: "op = (ck, k)" "q = (sv, w)" by (cases op, cases q) auto
  show ?thesis
  proof (cases k)
    case (Do_Destroy pv ids every)
    then show ?thesis
      using s by (auto simp: rpc_destroy_def Let_def destroy_targets_forget split: sum.split prod.split)
  qed (use s in \<open>auto simp: rpc_exec_last_rpc rpc_create_def rpc_list_def rpc_pause_def rpc_unpause_def
      rpc_gc_def rpc_copy_to_def rpc_copy_from_def rpc_pool_status_def rpc_pool_warmup_def rpc_pool_drain_def
      rpc_history_def rpc_create_session_def rpc_destroy_session_def rpc_list_sessions_def
      rpc_update_permissions_def rpc_analyze_intent_def Let_def split: prod.split sum.split option.split\<close>)
qed

text \<open>The state after the steps of a run, and the time of its last request.\<close>

fun steps_of :: "idle_event list \<Rightarrow> (rpc_clock \<times> server_op) list" where
  "steps_of [] = []"
| "steps_of (Step op # es) = op # steps_of es"
| "steps_of (Monitor now # es) = steps_of es"

abbreviation after_steps ::
    "(string \<Rightarrow> bool) \<Rightarrow> 'w providers \<Rightarrow> idle_event list \<Rightarrow> server \<times> 'w \<Rightarrow> server \<times> 'w" where
  "after_steps ua ps es q \<equiv> fold (server_step ua ps) (steps_of es) q"

fun last_request :: "u64 \<Rightarrow> idle_event list \<Rightarrow> u64" where
  "last_request t [] = t"
| "last_request t (Step (ck, op) # es) = last_request (if is_request op then ck_ms ck else t) es"
| "last_request t (Monitor now # es) = last_request t es"

lemma last_request_state:
  "sv_last_rpc_ms (fst (after_steps ua ps es q)) = last_request (sv_last_rpc_ms (fst q)) es"
proof (induction es arbitrary: q)
  case (Cons e es)
  then show ?case
    by (cases e) (auto simp: server_step_last_rpc)
qed simp

text \<open>
  When a round at \<open>now\<close> ends the daemon: the monitor is on and a request was noted at \<open>last_ms\<close>, and
  either more than the timeout has passed since or, the difference of the two readings wrapping
  around, the clock is behind the request (by less than 2^64 ms minus the timeout). The timeout in
  milliseconds wraps around too.
\<close>

definition due :: "u64 \<Rightarrow> u64 \<Rightarrow> u64 \<Rightarrow> bool" where
  "due timeout_secs last_ms now \<longleftrightarrow>
     0 < timeout_secs \<and> 0 < last_ms
     \<and> (let timeout = unat timeout_secs * 1000 mod 2 ^ 64
        in if last_ms \<le> now then unat last_ms + timeout < unat now
           else unat last_ms + timeout < unat now + 2 ^ 64)"

lemma idle_round_due:
  "idle_round args home now sv s =
    (if due (da_idle_timeout args) (sv_last_rpc_ms sv) now
     then (Some 0, snd (remove_file (daemon_json_path home) s)) else (None, s))"
proof -
  have timeout: "unat (t * 1000) = unat t * 1000 mod 2 ^ 64" for t :: u64
    by (simp add: unat_word_ariths)
  have ahead: "unat (now - last_ms) = unat now - unat last_ms" if "last_ms \<le> now" for last_ms
    using that by (simp add: unat_sub)
  have behind: "unat (now - last_ms) = unat now + 2 ^ 64 - unat last_ms" if "\<not> last_ms \<le> now" for last_ms
    using that by (simp add: unat_sub_if_size word_size word_le_nat_alt)
  have "idle_exceeded t now last_ms \<longleftrightarrow> 0 < last_ms \<and>
      (if last_ms \<le> now then unat last_ms + unat t * 1000 mod 2 ^ 64 < unat now
       else unat last_ms + unat t * 1000 mod 2 ^ 64 < unat now + 2 ^ 64)" for t last_ms
  proof (cases "last_ms \<le> now")
    case True
    then show ?thesis
      unfolding idle_exceeded_def word_less_nat_alt[of "t * 1000"] timeout ahead[OF True] less_diff_conv
      by (simp add: add.commute)
  next
    case False
    then show ?thesis
      unfolding idle_exceeded_def word_less_nat_alt[of "t * 1000"] timeout behind[OF False] less_diff_conv
      by (simp add: add.commute)
  qed
  then show ?thesis
    by (simp only: idle_round_def due_def Let_def conj_assoc)
qed

lemma first_round_Cons:
  "(\<exists>vs t ws. e # us = vs @ Monitor t # ws \<and> P vs t)
    \<longleftrightarrow> (\<exists>t. e = Monitor t \<and> P [] t) \<or> (\<exists>vs t ws. us = vs @ Monitor t # ws \<and> P (e # vs) t)"
  by (auto simp: Cons_eq_append_conv)

text \<open>
  (C16) The idle monitor over any run of the daemon, whatever the clock does: the daemon ends at the
  first round of the monitor that is due, with exit code 0, its file removed and its pools as they are,
  not drained; without such a round it keeps running. A round is due when more than the timeout has
  passed since the start of the last request - or when the clock is behind that start, be it set
  back or read before the request came in: then the daemon ends at once, however busy it is.
\<close>

theorem idle_watch_spec:
  "case idle_watch ua ps args home es q s of
      (None, q', s') \<Rightarrow> q' = after_steps ua ps es q \<and> s' = s
        \<and> \<not> (\<exists>us t vs. es = us @ Monitor t # vs
              \<and> due (da_idle_timeout args) (last_request (sv_last_rpc_ms (fst q)) us) t)
    | (Some code, q', s') \<Rightarrow> code = 0 \<and> s' = snd (remove_file (daemon_json_path home) s)
        \<and> (\<exists>us t vs. es = us @ Monitor t # vs \<and> q' = after_steps ua ps us q
             \<and> due (da_idle_timeout args) (last_request (sv_last_rpc_ms (fst q)) us) t
             \<and> \<not> (\<exists>vs t' ws. us = vs @ Monitor t' # ws
                   \<and> due (da_idle_timeout args) (last_request (sv_last_rpc_ms (fst q)) vs) t'))"
proof (induction es arbitrary: q)
  case Nil
  then show ?case by simp
next
  case (Cons e es)
  let ?due = "\<lambda>q us t. due (da_idle_timeout args) (last_request (sv_last_rpc_ms (fst q)) us) t"
  let ?early = "\<lambda>q us. \<exists>vs t' ws. us = vs @ Monitor t' # ws \<and> ?due q vs t'"
  define q1 where "q1 = (case e of Step op \<Rightarrow> server_step ua ps op q | Monitor now \<Rightarrow> q)"
  have last: "last_request (sv_last_rpc_ms (fst q)) (e # us) = last_request (sv_last_rpc_ms (fst q1)) us" for us
    by (cases e; cases "case e of Step op \<Rightarrow> op | Monitor now \<Rightarrow> undefined") (auto simp: q1_def server_step_last_rpc)
  have steps: "after_steps ua ps (e # us) q = after_steps ua ps us q1" for us
    by (cases e) (simp_all add: q1_def)
  show ?case
  proof (cases "\<exists>now. e = Monitor now \<and> ?due q [] now")
    case True
    then show ?thesis
      by (auto simp: idle_round_due intro!: exI[of _ "[]"])
  next
    case False
    then have early: "?early q (e # us) \<longleftrightarrow> ?early q1 us" for us
      unfolding first_round_Cons last by blast
    have run: "idle_watch ua ps args home (e # es) q s = idle_watch ua ps args home es q1 s"
      using False by (cases e) (auto simp: q1_def idle_round_due)
    obtain r q' s' where res: "idle_watch ua ps args home es q1 s = (r, q', s')"
      by (cases "idle_watch ua ps args home es q1 s")
    show ?thesis
    proof (cases r)
      case None
      then show ?thesis
        using Cons.IH[of q1] early[of es] by (simp add: run res steps)
    next
      case (Some code)
      then obtain us t vs where "es = us @ Monitor t # vs" "q' = after_steps ua ps us q1" "code = 0"
        "s' = snd (remove_file (daemon_json_path home) s)" "?due q1 us t" "\<not> ?early q1 us"
        using Cons.IH[of q1] by (auto simp: res)
      then have "\<exists>us t vs. e # es = us @ Monitor t # vs \<and> q' = after_steps ua ps us q \<and> ?due q us t \<and> \<not> ?early q us"
        using early[of us] last[of us] steps[of us] by (intro exI[of _ "e # us"] exI[of _ t] exI[of _ vs]) simp
      then show ?thesis
        using \<open>code = 0\<close> \<open>s' = _\<close> by (simp only: run res Some prod.case option.case simp_thms)
    qed
  qed
qed

theorem idle_watch_spec_witness:
  "fst (idle_watch (\<lambda>_. False) demo_providers (demo_daemon_args\<lparr>da_idle_timeout := 60\<rparr>) ''/home''
     [Monitor 61000, Step (demo_clock\<lparr>ck_ms := 62000\<rparr>, Do_List_Sessions), Monitor 63000, Monitor 122001]
     (demo_server\<lparr>sv_last_rpc_ms := 1000\<rparr>, 0) empty_fs) = Some 0
   \<and> fst (idle_watch (\<lambda>_. False) demo_providers (demo_daemon_args\<lparr>da_idle_timeout := 60\<rparr>) ''/home''
     [Step (demo_clock\<lparr>ck_ms := 62000\<rparr>, Do_List_Sessions), Monitor 61999]
     (demo_server\<lparr>sv_last_rpc_ms := 1000\<rparr>, 0) empty_fs) = Some 0"
proof -
  let ?args = "demo_daemon_args\<lparr>da_idle_timeout := 60\<rparr>" and ?q = "(demo_server\<lparr>sv_last_rpc_ms := 1000\<rparr>, 0 :: nat)"
  have ends: "fst (idle_watch (\<lambda>_. False) demo_providers ?args ''/home'' (us @ [Monitor t]) ?q empty_fs) = Some 0"
    if "due 60 (last_request 1000 us) t" for us t
    using idle_watch_spec[where ua = "\<lambda>_. False" and ps = demo_providers and args = ?args and home = "''/home''"
        and es = "us @ [Monitor t]" and q = ?q and s = empty_fs] that
    by (cases "idle_watch (\<lambda>_. False) demo_providers ?args ''/home'' (us @ [Monitor t]) ?q empty_fs")
      (auto split: option.splits)
  show ?thesis
    using ends[of "[Monitor 61000, Step (demo_clock\<lparr>ck_ms := 62000\<rparr>, Do_List_Sessions), Monitor 63000]" 122001]
      ends[of "[Step (demo_clock\<lparr>ck_ms := 62000\<rparr>, Do_List_Sessions)]" 61999]
    by (simp add: due_def)
qed

end
