(* ===== verification/Grant_Docker.thy ===== *)
theory Grant_Docker
  imports Wallet Docker
begin

text \<open>
  From the wallet of an agent to the container it runs in: the configuration made from a grant,
  passed to the Docker provider, and the command line of \<open>docker create\<close> read back.
\<close>

lemma grant_env_wf: "hm_wf (grant_env env_var keys)"
proof -
  have "hm_wf (fold (\<lambda>key m. case env_var key of Some v \<Rightarrow> hm_insert key v m | None \<Rightarrow> m) keys m)" if "hm_wf m" for m
    using that by (induction keys arbitrary: m) (auto split: option.split)
  from this[of "[]"] show ?thesis by (simp add: grant_env_def hm_wf_def)
qed

lemma grant_env_entries: "(k, v) \<in> set (grant_env env_var keys) \<longleftrightarrow> k \<in> set keys \<and> env_var k = Some v"
proof -
  have "(k, v) \<in> set (grant_env env_var keys) \<longleftrightarrow> hm_get (grant_env env_var keys) k = Some v"
    using grant_env_wf[of env_var keys] by (simp add: hm_get_def hm_wf_def)
  then show ?thesis by (auto simp: grant_env_get)
qed

definition grant_image :: "sandbox_grant \<Rightarrow> string" where
  "grant_image g = (if sg_image g = [] then ''python:3.12-slim'' else sg_image g)"

definition tmpfs_value :: "string \<Rightarrow> string" where
  "tmpfs_value path = trim_end_matches (CHR ''/'') (trim_end_matches (CHR ''*'') path) @ '':rw''"

lemma tmpfs_values:
  "map (\<lambda>path. path @ '':rw'') (filter (\<lambda>path. path \<noteq> [])
      (map (\<lambda>path. trim_end_matches (CHR ''/'') (trim_end_matches (CHR ''*'') path)) paths))
    = map tmpfs_value (filter (\<lambda>path. tmpfs_value path \<noteq> '':rw'') paths)"
  by (simp add: filter_map o_def tmpfs_value_def)


definition demo_grant :: sandbox_grant where
  "demo_grant = sandbox_grant_default\<lparr>sg_secrets := \<lparr>sec_allowed_env_keys = [''KEY'']\<rparr>,
     sg_filesystem := \<lparr>fc_writable = False, fc_writable_paths = [''/out/*'', ''/''], fc_max_write_bytes = 0\<rparr>\<rparr>"


end
