(* ===== verification/Bench.thy ===== *)
theory Bench
  imports Wasm Cli
begin

text \<open>
  The benchmark of the core crate, \<open>roche-core/examples/bench_wasm.rs\<close>: what it does to the two
  providers it measures, and the statistics it prints. \<open>None\<close> is a panic, here that of an
  \<open>unwrap\<close> or of the assertion on an exit code; a parameter gives the nanoseconds each round took.
\<close>

subsection \<open>The rounds\<close>

type_synonym ('w, 'a) bench = "'w \<Rightarrow> 'a option \<times> 'w"

definition unwrap_io :: "('w, 'a) io \<Rightarrow> ('a \<Rightarrow> ('w, 'b) bench) \<Rightarrow> ('w, 'b) bench" where
  "unwrap_io f k w = (case f w of (Inl _, w1) \<Rightarrow> (None, w1) | (Inr a, w1) \<Rightarrow> k a w1)"

definition push_time :: "nat \<Rightarrow> ('w, f64 list) bench \<Rightarrow> ('w, f64 list) bench" where
  "push_time ns f w = apfst (map_option ((#) (f64_mul (secs_f64 ns) (F_fin 1000)))) (f w)"

text \<open>\<open>ns k\<close>: how long the round took before \<open>k\<close> more.\<close>

fun create_destroy_times ::
    "(nat \<Rightarrow> nat) \<Rightarrow> 'w provider \<Rightarrow> sandbox_config \<Rightarrow> nat \<Rightarrow> ('w, f64 list) bench" where
  "create_destroy_times ns p config 0 w = (Some [], w)"
| "create_destroy_times ns p config (Suc n) w =
     unwrap_io (pv_create p config)
       (\<lambda>i. unwrap_io (pv_destroy p i) (\<lambda>_. push_time (ns n) (create_destroy_times ns p config n))) w"

fun exec_times ::
    "(nat \<Rightarrow> nat) \<Rightarrow> 'w provider \<Rightarrow> sandbox_id \<Rightarrow> exec_request \<Rightarrow> nat \<Rightarrow> ('w, f64 list) bench" where
  "exec_times ns p i req 0 w = (Some [], w)"
| "exec_times ns p i req (Suc n) w =
     unwrap_io (pv_exec p i req)
       (\<lambda>out w1. if eo_exit_code out \<noteq> 0 then (None, w1)
         else push_time (ns n) (exec_times ns p i req n) w1) w"

definition bench_exec ::
    "(nat \<Rightarrow> nat) \<Rightarrow> 'w provider \<Rightarrow> sandbox_config \<Rightarrow> exec_request \<Rightarrow> nat \<Rightarrow> ('w, f64 list) bench" where
  "bench_exec ns p config req n =
     unwrap_io (pv_create p config)
       (\<lambda>i w1. case exec_times ns p i req n w1 of
          (None, w2) \<Rightarrow> (None, w2)
        | (Some ms, w2) \<Rightarrow> unwrap_io (pv_destroy p i) (\<lambda>_ w3. (Some ms, w3)) w2)"

definition wasm_provider :: "('m, 'h) wasmtime \<Rightarrow> ('m, 'h) wasm_world provider" where
  "wasm_provider rt =
     \<lparr>pv_capabilities = wasm_capabilities, pv_create = wasm_create rt, pv_exec = wasm_exec rt,
      pv_destroy = wasm_destroy, pv_list = wasm_list,
      pv_copy_to = (\<lambda>_ _ _ w. (Inl (Unsupported ''wasm''), w)),
      pv_copy_from = (\<lambda>_ _ _ w. (Inl (Unsupported ''wasm''), w)),
      pv_pause = wasm_pause, pv_unpause = wasm_unpause, pv_gc = wasm_gc\<rparr>"

definition bench_config :: "string \<Rightarrow> string \<Rightarrow> sandbox_config" where
  "bench_config name img = sandbox_config_default\<lparr>sc_provider := name, sc_image := img\<rparr>"

definition bench_request :: "string list \<Rightarrow> exec_request" where
  "bench_request command = \<lparr>er_command = command, er_timeout_secs = None, er_idempotency_key = None\<rparr>"

definition bench_wasm_create_destroy ::
    "(nat \<Rightarrow> nat) \<Rightarrow> ('m, 'h) wasmtime \<Rightarrow> string \<Rightarrow> nat \<Rightarrow> (('m, 'h) wasm_world, f64 list) bench" where
  "bench_wasm_create_destroy ns rt wasm_path =
     create_destroy_times ns (wasm_provider rt) (bench_config ''wasm'' wasm_path)"

definition bench_wasm_exec ::
    "(nat \<Rightarrow> nat) \<Rightarrow> ('m, 'h) wasmtime \<Rightarrow> string \<Rightarrow> nat \<Rightarrow> (('m, 'h) wasm_world, f64 list) bench" where
  "bench_wasm_exec ns rt wasm_path =
     bench_exec ns (wasm_provider rt) (bench_config ''wasm'' wasm_path) (bench_request [''test''])"

definition bench_docker_create_destroy :: "(nat \<Rightarrow> nat) \<Rightarrow> 'w docker_cli \<Rightarrow> nat \<Rightarrow> ('w, f64 list) bench" where
  "bench_docker_create_destroy ns cli =
     create_destroy_times ns (docker_provider cli) (bench_config ''docker'' ''python:3.12-slim'')"

definition bench_docker_exec :: "(nat \<Rightarrow> nat) \<Rightarrow> 'w docker_cli \<Rightarrow> nat \<Rightarrow> ('w, f64 list) bench" where
  "bench_docker_exec ns cli =
     bench_exec ns (docker_provider cli) (bench_config ''docker'' ''python:3.12-slim'')
       (bench_request [''python3'', ''-c'', ''print('' @ CHR 0x27 # ''hello'' @ CHR 0x27 # '')''])"

subsection \<open>The statistics\<close>

definition f64_sum :: "f64 list \<Rightarrow> f64" where
  "f64_sum xs = foldl f64_add (F_fin 0) xs"

definition f64_mean :: "f64 list \<Rightarrow> f64" where
  "f64_mean xs = f64_div (f64_sum xs) (f64_of_u64 (word_of_nat (length xs)))"

text \<open>
  \<open>sort_by\<close> with \<open>partial_cmp(..).unwrap()\<close>: the comparison panics on a number that is not one,
  and with two elements or more each is compared.
\<close>

fun insort_f64 :: "f64 \<Rightarrow> f64 list \<Rightarrow> f64 list" where
  "insort_f64 x [] = [x]"
| "insort_f64 x (y # ys) = (if f64_ge y x then x # y # ys else y # insort_f64 x ys)"

definition sort_f64 :: "f64 list \<Rightarrow> f64 list option" where
  "sort_f64 xs = (if 2 \<le> length xs \<and> F_nan \<in> set xs then None else Some (foldr insort_f64 xs []))"

text \<open>Indexing, which panics out of range.\<close>

definition at_index :: "'a list \<Rightarrow> nat \<Rightarrow> 'a option" where
  "at_index xs i = (if i < length xs then Some (xs ! i) else None)"

definition p95_index :: "nat \<Rightarrow> nat" where
  "p95_index n = f64_to_unsigned 64 (f64_mul (f64_of_u64 (word_of_nat n)) (f64_round (95 / 100)))"

record bench_stats =
  bs_mean :: f64
  bs_median :: f64
  bs_min :: f64
  bs_max :: f64
  bs_p95 :: f64

definition stats_of :: "f64 list \<Rightarrow> bench_stats option" where
  "stats_of ms =
     (case sort_f64 ms of None \<Rightarrow> None | Some ord \<Rightarrow>
     (case at_index ord (length ord div 2) of None \<Rightarrow> None | Some median \<Rightarrow>
     (case at_index ord 0 of None \<Rightarrow> None | Some lo \<Rightarrow>
     (case at_index ord (length ord - 1) of None \<Rightarrow> None | Some hi \<Rightarrow>
     (case at_index ord (p95_index (length ord)) of None \<Rightarrow> None | Some p95 \<Rightarrow>
        Some \<lparr>bs_mean = f64_mean ms, bs_median = median, bs_min = lo, bs_max = hi, bs_p95 = p95\<rparr>)))))"

text \<open>\<open>{:>8.2}\<close>: two decimals, set to the right in eight columns.\<close>

fun fmt_2 :: "f64 \<Rightarrow> string" where
  "fmt_2 F_nan = ''NaN''"
| "fmt_2 (F_inf s) = (if s then ''-inf'' else ''inf'')"
| "fmt_2 (F_fin q) =
     (let n = nat (round_even (\<bar>q\<bar> * 100))
      in fmt_sign q @ show_nat (n div 100) @ ''.'' @ zero_pad2 (show_nat (n mod 100)))"

definition pad_left :: "nat \<Rightarrow> string \<Rightarrow> string" where
  "pad_left n s = replicate (n - length (utf8_chars s)) (CHR '' '') @ s"

definition ms_column :: "string \<Rightarrow> f64 \<Rightarrow> string" where
  "ms_column label x = label @ pad_left 8 (fmt_2 x) @ ''ms''"

definition print_stats :: "string \<Rightarrow> f64 list \<Rightarrow> ('w cli_world, unit) bench" where
  "print_stats name ms w =
     (if ms = [] then (Some (), println (''  '' @ name @ '': SKIP'') w)
      else case stats_of ms of
        None \<Rightarrow> (None, w)
      | Some s \<Rightarrow> (Some (), println (''  '' @ pad 45 name @ '' n='' @ pad 4 (show_nat (length ms))
          @ ms_column '' mean='' (bs_mean s) @ ms_column ''  median='' (bs_median s) @ ms_column ''  min='' (bs_min s)
          @ ms_column ''  max='' (bs_max s) @ ms_column ''  p95='' (bs_p95 s)) w))"

subsection \<open>The whole benchmark\<close>

text \<open>
  The providers, the directory for temporary files and how long each round took: the number of the
  measurement, then the rounds left.
\<close>

record ('m, 'h, 'd) bench_env =
  be_wasmtime :: "('m, 'h) wasmtime"
  be_docker :: "'d docker_cli"
  be_temp_dir :: string
  be_ns :: "nat \<Rightarrow> nat \<Rightarrow> nat"

definition bench_dir :: "('m, 'h, 'd) bench_env \<Rightarrow> string" where
  "bench_dir env = path_join (be_temp_dir env) ''roche-bench''"

definition write_wat_to_file :: "('m, 'h, 'd) bench_env \<Rightarrow> string \<Rightarrow> string \<Rightarrow> (fs, string) bench" where
  "write_wat_to_file env wat name s =
     (case create_dir_all (bench_dir env) s of
        (Inl _, s1) \<Rightarrow> (None, s1)
      | (Inr _, s1) \<Rightarrow>
     (let path = path_join (bench_dir env) (name @ ''.wat'')
      in case write_file path wat s1 of (Inl _, s2) \<Rightarrow> (None, s2) | (Inr _, s2) \<Rightarrow> (Some path, s2)))"

definition then_bench :: "('w, 'a) bench \<Rightarrow> ('a \<Rightarrow> ('w, 'b) bench) \<Rightarrow> ('w, 'b) bench" where
  "then_bench f k w = (case f w of (None, w1) \<Rightarrow> (None, w1) | (Some a, w1) \<Rightarrow> k a w1)"

definition on_files :: "(fs, 'a) bench \<Rightarrow> ('w cli_world, 'a) bench" where
  "on_files f w = (case f (cw_fs w) of (r, s) \<Rightarrow> (r, w\<lparr>cw_fs := s\<rparr>))"

definition on_wasm :: "(('m, 'h) wasm_world, 'a) bench \<Rightarrow> ((('m, 'h) wasm_world \<times> 'd) cli_world, 'a) bench" where
  "on_wasm f w = (case f (fst (cw_rest w)) of (r, x) \<Rightarrow> (r, w\<lparr>cw_rest := (x, snd (cw_rest w))\<rparr>))"

definition on_docker :: "('d, 'a) bench \<Rightarrow> ((('m, 'h) wasm_world \<times> 'd) cli_world, 'a) bench" where
  "on_docker f w = (case f (snd (cw_rest w)) of (r, x) \<Rightarrow> (r, w\<lparr>cw_rest := (fst (cw_rest w), x)\<rparr>))"

definition say :: "string \<Rightarrow> ('w cli_world, unit) bench" where
  "say s w = (Some (), println s w)"

definition measure_and_print ::
    "string \<Rightarrow> ('w cli_world, f64 list) bench \<Rightarrow> ('w cli_world, unit) bench" where
  "measure_and_print name f = then_bench f (print_stats name)"

text \<open>The two programs in the text format of WebAssembly, line by line.\<close>

definition WAT_HELLO :: string where
  \<open>WAT_HELLO = join newline
     [[],
      ''(module'',
      ''  (import "wasi_snapshot_preview1" "fd_write"'',
      ''    (func $fd_write (param i32 i32 i32 i32) (result i32)))'',
      ''  (import "wasi_snapshot_preview1" "proc_exit"'',
      ''    (func $proc_exit (param i32)))'',
      ''  (memory (export "memory") 1)'',
      [],
      ''  ;; "hello'' @ CHR 0x5C # ''n" at offset 100'',
      ''  (data (i32.const 100) "hello'' @ CHR 0x5C # ''n")'',
      [],
      ''  ;; iov: ptr=100, len=6'',
      ''  (data (i32.const 0) "''
        @ concat (map (\<lambda>d. CHR 0x5C # d) [''64'', ''00'', ''00'', ''00'', ''06'', ''00'', ''00'', ''00'']) @ ''")'',
      [],
      ''  (func (export "_start")'',
      ''    ;; fd_write(stdout=1, iovs=0, iovs_len=1, nwritten=200)'',
      ''    (drop (call $fd_write (i32.const 1) (i32.const 0) (i32.const 1) (i32.const 200)))'',
      ''    (call $proc_exit (i32.const 0))'',
      ''  )'',
      '')'',
      []]\<close>

definition WAT_NOOP :: string where
  \<open>WAT_NOOP = join newline
     [[],
      ''(module'',
      ''  (import "wasi_snapshot_preview1" "proc_exit"'',
      ''    (func $proc_exit (param i32)))'',
      ''  (memory (export "memory") 1)'',
      ''  (func (export "_start")'',
      ''    (call $proc_exit (i32.const 0))'',
      ''  )'',
      '')'',
      []]\<close>

definition section_line :: "string \<Rightarrow> ('w cli_world, unit) bench" where
  "section_line s = say (newline @ s @ newline)"

text \<open>The three parts of \<open>main\<close>; a measurement runs on its provider's side of the world.\<close>

definition time_wasm_exec ::
    "('m, 'h, 'd) bench_env \<Rightarrow> nat \<Rightarrow> string \<Rightarrow> nat \<Rightarrow> ((('m, 'h) wasm_world \<times> 'd) cli_world, f64 list) bench" where
  "time_wasm_exec env k path n = on_wasm (bench_wasm_exec (be_ns env k) (be_wasmtime env) path n)"

definition time_docker_exec ::
    "('m, 'h, 'd) bench_env \<Rightarrow> nat \<Rightarrow> nat \<Rightarrow> ((('m, 'h) wasm_world \<times> 'd) cli_world, f64 list) bench" where
  "time_docker_exec env k n = on_docker (bench_docker_exec (be_ns env k) (be_docker env) n)"

definition bench_wasm_part ::
    "('m, 'h, 'd) bench_env \<Rightarrow> string \<Rightarrow> string \<Rightarrow> ((('m, 'h) wasm_world \<times> 'd) cli_world, unit) bench" where
  "bench_wasm_part env noop_path hello_path =
     then_bench (say (''--- WASM Provider ---'' @ newline)) (\<lambda>_.
     then_bench (measure_and_print ''wasm create+destroy (noop.wat)''
       (on_wasm (bench_wasm_create_destroy (be_ns env 0) (be_wasmtime env) noop_path 50))) (\<lambda>_.
     then_bench (measure_and_print ''wasm exec (noop)'' (time_wasm_exec env 1 noop_path 50)) (\<lambda>_.
     measure_and_print (''wasm exec (hello '' @ [CHR 0xE2, CHR 0x86, CHR 0x92] @ '' stdout)'')
       (time_wasm_exec env 2 hello_path 50))))"

definition bench_docker_part :: "('m, 'h, 'd) bench_env \<Rightarrow> ((('m, 'h) wasm_world \<times> 'd) cli_world, unit) bench" where
  "bench_docker_part env =
     then_bench (section_line ''--- Docker Provider ---'') (\<lambda>_.
     then_bench (measure_and_print ''docker create+destroy (python:3.12-slim)''
       (on_docker (bench_docker_create_destroy (be_ns env 3) (be_docker env) 5))) (\<lambda>_.
     measure_and_print (''docker exec (python print('' @ CHR 0x27 # ''hello'' @ CHR 0x27 # ''))'')
       (time_docker_exec env 4 10)))"

definition print_means :: "f64 list \<Rightarrow> f64 list \<Rightarrow> 'w cli_world \<Rightarrow> 'w cli_world" where
  "print_means wasm_ts docker_ts w =
     print_lines
       [''  WASM exec mean:   '' @ pad_left 8 (fmt_2 (f64_mean wasm_ts)) @ ''ms'',
        ''  Docker exec mean: '' @ pad_left 8 (fmt_2 (f64_mean docker_ts)) @ ''ms'',
        ''  Speedup:          '' @ pad_left 8 (fmt_1 (f64_div (f64_mean docker_ts) (f64_mean wasm_ts))) @ ''x''] w"

definition bench_speedup_part ::
    "('m, 'h, 'd) bench_env \<Rightarrow> string \<Rightarrow> ((('m, 'h) wasm_world \<times> 'd) cli_world, unit) bench" where
  "bench_speedup_part env hello_path =
     then_bench (section_line ''--- Speedup ---'') (\<lambda>_.
     then_bench (time_wasm_exec env 5 hello_path 100) (\<lambda>wasm_ts.
     then_bench (time_docker_exec env 6 10) (\<lambda>docker_ts.
     (\<lambda>w. (Some (), print_means wasm_ts docker_ts w)))))"

definition bench_main ::
    "('m, 'h, 'd) bench_env \<Rightarrow> ((('m, 'h) wasm_world \<times> 'd) cli_world, unit) bench" where
  "bench_main env =
     then_bench (section_line ''=== Roche WASM vs Docker Benchmark ==='') (\<lambda>_.
     then_bench (on_wasm (\<lambda>w. (Some (), wasm_provider_new w))) (\<lambda>_.
     then_bench (on_files (write_wat_to_file env WAT_NOOP ''noop'')) (\<lambda>noop_path.
     then_bench (on_files (write_wat_to_file env WAT_HELLO ''hello'')) (\<lambda>hello_path.
     then_bench (bench_wasm_part env noop_path hello_path) (\<lambda>_.
     then_bench (bench_docker_part env) (\<lambda>_.
     then_bench (bench_speedup_part env hello_path) (\<lambda>_.
     on_files (\<lambda>s. (Some (), snd (remove_dir_all (bench_dir env) s))))))))))"

subsection \<open>The rounds leave nothing behind\<close>

text \<open>
  What the benchmark relies on of a provider: a new identifier is one that was not live, and an
  execution leaves the sandboxes as they are.
\<close>

locale bench_provider = sandbox_provider create destroy live ok
  for create :: "sandbox_config \<Rightarrow> ('w, sandbox_id) io" and destroy and live and ok +
  fixes exec :: "sandbox_id \<Rightarrow> exec_request \<Rightarrow> ('w, exec_output) io"
  assumes create_new: "ok w \<Longrightarrow> create c w = (Inr i, w') \<Longrightarrow> i \<notin> live w"
    and exec_ok: "ok w \<Longrightarrow> ok (snd (exec i q w))"
    and exec_live: "ok w \<Longrightarrow> live (snd (exec i q w)) = live w"
begin

lemma rounds_clean:
  assumes "pv_create p = create" "pv_destroy p = destroy" "ok w"
  shows "case create_destroy_times ns p c n w of (r, w') \<Rightarrow>
    ok w' \<and> live w' = live w \<and> (\<forall>ts. r = Some ts \<longrightarrow> length ts = n)"
  using assms(3)
proof (induction n arbitrary: w)
  case (Suc n)
  obtain r w1 where c: "create c w = (r, w1)" by (cases "create c w")
  have w1: "ok w1" using create_ok[OF Suc.prems, of c] c by simp
  show ?case
  proof (cases r)
    case (Inl e)
    then show ?thesis using c w1 create_err[OF Suc.prems] assms(1) by (simp add: unwrap_io_def)
  next
    case (Inr i)
    have live1: "live w1 = insert i (live w)" "i \<notin> live w"
      using create_live[OF Suc.prems] create_new[OF Suc.prems] c Inr by blast+
    then obtain w2 where d: "destroy i w1 = (Inr (), w2)"
      using destroy_hit[OF w1, of i] by (cases "destroy i w1") (auto simp: is_ok_iff)
    have w2: "ok w2" "live w2 = live w"
      using destroy_ok[OF w1, of i] destroy_live[OF w1 d] d live1 by auto
    then show ?thesis
      using c Inr d assms Suc.IH[OF w2(1)] by (auto simp: unwrap_io_def push_time_def split: prod.splits)
  qed
qed simp

lemma exec_rounds:
  assumes "pv_exec p = exec" "ok w"
  shows "case exec_times ns p i q n w of (r, w') \<Rightarrow>
    ok w' \<and> live w' = live w \<and> (\<forall>ts. r = Some ts \<longrightarrow> length ts = n)"
  using assms(2)
proof (induction n arbitrary: w)
  case (Suc n)
  obtain r w1 where x: "exec i q w = (r, w1)" by (cases "exec i q w")
  have w1: "ok w1" "live w1 = live w"
    using exec_ok[OF Suc.prems, of i q] exec_live[OF Suc.prems, of i q] x by simp_all
  then show ?case
    using x assms(1) Suc.IH[OF w1(1)] by (cases r) (auto simp: unwrap_io_def push_time_def split: prod.splits)
qed simp

lemma exec_clean:
  assumes "pv_create p = create" "pv_destroy p = destroy" "pv_exec p = exec" "ok w"
  shows "case bench_exec ns p c q n w of (r, w') \<Rightarrow>
    ok w' \<and> (case r of Some ts \<Rightarrow> length ts = n \<and> live w' = live w
      | None \<Rightarrow> live w' = (case fst (create c w) of Inr i \<Rightarrow> insert i (live w) | Inl _ \<Rightarrow> live w))"
proof -
  obtain r w1 where c: "create c w = (r, w1)" by (cases "create c w")
  have w1: "ok w1" using create_ok[OF assms(4), of c] c by simp
  show ?thesis
  proof (cases r)
    case (Inl e)
    then show ?thesis using c w1 create_err[OF assms(4)] assms(1) by (simp add: bench_exec_def unwrap_io_def)
  next
    case (Inr i)
    have live1: "live w1 = insert i (live w)" "i \<notin> live w"
      using create_live[OF assms(4)] create_new[OF assms(4)] c Inr by blast+
    obtain t w2 where x: "exec_times ns p i q n w1 = (t, w2)" by (cases "exec_times ns p i q n w1")
    have w2: "ok w2" "live w2 = insert i (live w)" "\<forall>ts. t = Some ts \<longrightarrow> length ts = n"
      using exec_rounds[OF assms(3) w1, where ns = ns and i = i and q = q and n = n] x live1 by auto
    obtain w3 where d: "destroy i w2 = (Inr (), w3)"
      using destroy_hit[OF w2(1), of i] w2(2) by (cases "destroy i w2") (auto simp: is_ok_iff)
    have w3: "ok w3" "live w3 = live w"
      using destroy_ok[OF w2(1), of i] destroy_live[OF w2(1) d] d w2(2) live1(2) by auto
    show ?thesis
      using c Inr x d w2 w3 assms(1,2) by (cases t) (auto simp: bench_exec_def unwrap_io_def)
  qed
qed

end

interpretation wasm_bench: bench_provider "wasm_create rt" wasm_destroy wasm_live wasm_fresh "wasm_exec rt"
proof
  fix w w' :: "('a, 'b) wasm_world" and c i e q
  show "wasm_fresh w \<Longrightarrow> wasm_fresh (snd (wasm_create rt c w))"
    by (rule wasm_create_keeps_fresh)
  show "wasm_fresh w \<Longrightarrow> wasm_create rt c w = (Inr i, w') \<Longrightarrow> wasm_live w' = insert i (wasm_live w)"
    by (rule wasm_create_live)
  show "wasm_fresh w \<Longrightarrow> wasm_create rt c w = (Inl e, w') \<Longrightarrow> wasm_live w' = wasm_live w"
    using wasm_create_err by blast
  show "wasm_fresh w \<Longrightarrow> wasm_fresh (snd (wasm_destroy i w))"
    by (rule wasm_destroy_fresh)
  show "wasm_fresh w \<Longrightarrow> wasm_destroy i w = (Inr (), w') \<Longrightarrow> wasm_live w' = wasm_live w - {i}"
    using wasm_destroy_live[of i w] by simp
  show "wasm_fresh w \<Longrightarrow> wasm_destroy i w = (Inl e, w') \<Longrightarrow> wasm_live w' = wasm_live w"
    using wasm_destroy_live[of i w] wasm_destroy_is_ok[of i w] by auto
  show "wasm_fresh w \<Longrightarrow> i \<in> wasm_live w \<Longrightarrow> is_ok (fst (wasm_destroy i w))"
    by (simp add: wasm_destroy_is_ok)
  show "wasm_fresh w \<Longrightarrow> wasm_create rt c w = (Inr i, w') \<Longrightarrow> i \<notin> wasm_live w"
    by (rule wasm_create_fresh(1))
  show "wasm_fresh w \<Longrightarrow> wasm_fresh (snd (wasm_exec rt i q w))"
    by (simp add: wasm_exec_fresh)
  show "wasm_fresh w \<Longrightarrow> wasm_live (snd (wasm_exec rt i q w)) = wasm_live w"
    by (simp add: wasm_exec_live)
qed

text \<open>
  The measurements on WASM leave the sandboxes as they were, with one time for each round; only an
  execution benchmark that fails half-way leaves its own sandbox behind.
\<close>

theorem bench_wasm_clean:
  assumes "wasm_fresh w"
  shows "(case bench_wasm_create_destroy ns rt path n w of (r, w') \<Rightarrow>
      wasm_live w' = wasm_live w \<and> (\<forall>ts. r = Some ts \<longrightarrow> length ts = n))
    \<and> (case bench_wasm_exec ns rt path n w of
        (Some ts, w') \<Rightarrow> length ts = n \<and> wasm_live w' = wasm_live w
      | (None, w') \<Rightarrow> wasm_live w' =
          (case fst (wasm_create rt (bench_config ''wasm'' path) w) of
             Inr i \<Rightarrow> insert i (wasm_live w) | Inl _ \<Rightarrow> wasm_live w))"
proof -
  have p: "pv_create (wasm_provider rt) = wasm_create rt" "pv_destroy (wasm_provider rt) = wasm_destroy"
    "pv_exec (wasm_provider rt) = wasm_exec rt"
    by (simp_all add: wasm_provider_def)
  show ?thesis
    unfolding bench_wasm_create_destroy_def bench_wasm_exec_def
    using wasm_bench.rounds_clean[OF p(1,2) assms, where ns = ns and n = n and c = "bench_config ''wasm'' path"]
      wasm_bench.exec_clean[OF p assms, where ns = ns and n = n and c = "bench_config ''wasm'' path"
        and q = "bench_request [''test'']"]
    by (auto split: prod.splits option.splits)
qed

subsection \<open>The statistics of a measurement\<close>

lemma f64_ge_refl: "x \<noteq> F_nan \<Longrightarrow> f64_ge x x"
  by (cases x) simp_all

lemma f64_ge_total: "x \<noteq> F_nan \<Longrightarrow> y \<noteq> F_nan \<Longrightarrow> f64_ge x y \<or> f64_ge y x"
  by (cases x; cases y) auto

lemma f64_ge_trans: "f64_ge x y \<Longrightarrow> f64_ge y z \<Longrightarrow> f64_ge x z"
  by (cases x; cases y; cases z) auto

lemma mset_insort_f64 [simp]: "mset (insort_f64 x ys) = add_mset x (mset ys)"
  by (induction ys) auto

lemma set_insort_f64 [simp]: "set (insort_f64 x ys) = insert x (set ys)"
  by (induction ys) auto

lemma sorted_insort_f64:
  assumes "x \<noteq> F_nan" "F_nan \<notin> set ys" "sorted_wrt (\<lambda>a b. f64_ge b a) ys"
  shows "sorted_wrt (\<lambda>a b. f64_ge b a) (insort_f64 x ys)"
  using assms
proof (induction ys)
  case (Cons y ys)
  then show ?case
    using f64_ge_trans[of _ y x] f64_ge_total[of x y] by auto
qed simp

lemma sort_f64_sorted:
  assumes "F_nan \<notin> set xs"
  shows "\<exists>ys. sort_f64 xs = Some ys \<and> mset ys = mset xs \<and> sorted_wrt (\<lambda>a b. f64_ge b a) ys"
proof -
  have "F_nan \<notin> set (foldr insort_f64 xs []) \<and> mset (foldr insort_f64 xs []) = mset xs
      \<and> sorted_wrt (\<lambda>a b. f64_ge b a) (foldr insort_f64 xs [])"
    using assms by (induction xs) (auto simp: sorted_insort_f64)
  then show ?thesis using assms by (simp add: sort_f64_def)
qed

lemma near_bounds:
  fixes q :: rat
  assumes "\<bar>x - q\<bar> \<le> q / 2 ^ 53" "0 \<le> q"
  shows "q * (999 / 1000) \<le> x" "x \<le> q * (1001 / 1000)"
proof -
  have "q / 2 ^ 53 \<le> q / 1000"
    using assms(2) by (intro divide_left_mono) simp_all
  then have "\<bar>x - q\<bar> \<le> q / 1000" using assms(1) by (rule order_trans [rotated])
  then show "q * (999 / 1000) \<le> x" "x \<le> q * (1001 / 1000)"
    unfolding abs_le_iff by linarith+
qed

text \<open>The index of the 95th percentile, computed in floating point, is in range and past the median's.\<close>

lemma p95_index_range:
  assumes "0 < n" "n < 2 ^ 64"
  shows "p95_index n < n" "n div 2 \<le> p95_index n"
proof -
  have big: "(of_nat n :: rat) \<le> 2 ^ 64"
    using assms(2) of_nat_less_iff[of n "2 ^ 64", where 'a = rat] by simp
  have one: "1 \<le> (of_nat n :: rat)"
    using assms(1) by (simp add: Suc_le_eq)
  have u: "f64_of_u64 (word_of_nat n) = f64_round (of_nat n)"
    using assms(2) by (simp add: f64_of_u64_def unat_of_nat_small)
  obtain a where a: "f64_round (of_nat n) = F_fin a" "\<bar>a - of_nat n\<bar> \<le> of_nat n / 2 ^ 53"
    using f64_round_rel[of "of_nat n"] one big by (auto simp: order_trans[OF big])
  obtain z where z: "f64_round (95 / 100) = F_fin z" "\<bar>z - 95 / 100\<bar> \<le> 95 / 100 / 2 ^ 53"
    using f64_round_rel[of "95 / 100"] by auto
  have a': "of_nat n * (999 / 1000) \<le> a" "a \<le> of_nat n * (1001 / 1000)"
    using near_bounds[OF a(2)] one by simp_all
  have z': "949 / 1000 \<le> z" "z \<le> 951 / 1000"
    using near_bounds[OF z(2)] by simp_all
  have q: "of_nat n * (999 / 1000) * (949 / 1000) \<le> a * z" "a * z \<le> of_nat n * (1001 / 1000) * (951 / 1000)"
    using mult_mono[OF a'(1) z'(1)] mult_mono[OF a'(2) z'(2)] a' z' one by simp_all
  obtain r where r: "f64_round (a * z) = F_fin r" "\<bar>r - a * z\<bar> \<le> a * z / 2 ^ 53"
    using f64_round_rel[of "a * z"] q one big by (auto simp: field_simps)
  have r': "of_nat n * (9 / 10) \<le> r" "r < of_nat n"
    using near_bounds[OF r(2)] q one by linarith+
  have p: "p95_index n = nat (min (2 ^ 64 - 1) \<lfloor>r\<rfloor>)"
    using a z r r'(1) one by (simp add: p95_index_def u trunc_rat_def)
  have "\<lfloor>r\<rfloor> < int n"
    using r'(2) by (simp add: floor_less_iff)
  then show "p95_index n < n"
    unfolding p using assms(1) by (simp add: nat_less_iff min_def) linarith
  have "of_nat (n div 2) \<le> r"
  proof -
    have "2 * of_nat (n div 2) \<le> (of_nat n :: rat)"
      by (metis of_nat_le_iff of_nat_mult of_nat_numeral mult.commute div_times_less_eq_dividend)
    then show ?thesis using r'(1) one by (simp add: field_simps)
  qed
  then have "int (n div 2) \<le> \<lfloor>r\<rfloor>"
    by (simp add: le_floor_iff)
  moreover have "int (n div 2) \<le> 2 ^ 64 - 1"
    using assms(2) by simp
  ultimately show "n div 2 \<le> p95_index n"
    unfolding p by (simp add: le_nat_iff)
qed



subsection \<open>A measurement that ends is printed\<close>

text \<open>Every time of a measurement is a number, whatever the clock showed.\<close>

lemma f64_round_cases: "0 \<le> q \<Longrightarrow> f64_round q = F_inf False \<or> (\<exists>r. f64_round q = F_fin r)"
  by (auto simp: f64_round_def Let_def)

lemma round_time_number: "f64_mul (secs_f64 ns) (F_fin 1000) \<noteq> F_nan"
proof -
  let ?a = "f64_round (of_nat (unat (word_of_nat (ns div 1000000000) :: u64)))"
  let ?b = "f64_round (of_nat (ns mod 1000000000) / 1000000000)"
  have round: "f64_round x \<noteq> F_nan" for x
    by (simp add: f64_round_def Let_def)
  have "?a = F_inf False \<or> (\<exists>r. ?a = F_fin r)" "?b = F_inf False \<or> (\<exists>r. ?b = F_fin r)"
    using f64_round_cases[OF of_nat_0_le_iff] f64_round_cases[OF divide_nonneg_pos[OF of_nat_0_le_iff]]
    by (blast, simp)
  then have "secs_f64 ns \<noteq> F_nan"
    unfolding secs_f64_def f64_of_u64_def by (auto simp: round)
  then show ?thesis by (cases "secs_f64 ns") (simp_all add: round)
qed

lemma create_destroy_times_numbers: "create_destroy_times ns p c n w = (Some ts, w') \<Longrightarrow> F_nan \<notin> set ts"
  by (induction n arbitrary: w ts)
    (auto simp: unwrap_io_def push_time_def apfst_def map_prod_def round_time_number[symmetric] split: prod.splits sum.splits)

lemma exec_times_numbers: "exec_times ns p i q n w = (Some ts, w') \<Longrightarrow> F_nan \<notin> set ts"
  by (induction n arbitrary: w ts)
    (auto simp: unwrap_io_def push_time_def apfst_def map_prod_def round_time_number[symmetric] split: prod.splits sum.splits if_splits)

lemma bench_exec_numbers: "bench_exec ns p c q n w = (Some ts, w') \<Longrightarrow> F_nan \<notin> set ts"
  by (auto simp: bench_exec_def unwrap_io_def dest: exec_times_numbers split: prod.splits sum.splits option.splits)

lemma print_stats_returns:
  assumes "F_nan \<notin> set ts" "length ts < 2 ^ 64"
  shows "fst (print_stats name ts w) = Some ()"
proof (cases "ts = []")
  case False
  obtain ys where ys: "sort_f64 ts = Some ys" "length ys = length ts"
    using sort_f64_sorted[OF assms(1)] mset_eq_length by blast
  show ?thesis
    using False ys p95_index_range(1)[of "length ts"] assms(2) by (simp add: print_stats_def stats_of_def at_index_def)
qed (simp add: print_stats_def)

theorem bench_wasm_clean_witness:
  "wasm_live (snd (bench_wasm_create_destroy (\<lambda>_. 0) demo_wasmtime ''m.wat'' 2 demo_wasm_world)) = {}"
proof -
  have "wasm_live demo_wasm_world = {}"
    by (simp add: demo_wasm_world_def wasm_live_def fun_eq_iff)
  moreover note demo_wasm_fresh
  ultimately show ?thesis
    using bench_wasm_clean[where w = demo_wasm_world and ns = "\<lambda>_. 0" and rt = demo_wasmtime and path = "''m.wat''" and n = 2] by (auto split: prod.splits)
qed

end
