(* ===== verification/Unit_Core.thy ===== *)
theory Unit_Core
  imports Grant_Docker Intent Session Sensor
begin

text \<open>
  The unit tests of the crate \<open>roche-core\<close> on its data, policies, intent analysis, sessions and
  sensors, read as statements on the model: every \<open>assert!\<close> is a conjunct, an \<open>unwrap\<close> of a
  missing value makes the test fail. What the test takes from the clock is an argument, so the
  statement covers every reading. Tests of serde are left out.
\<close>

subsection \<open>Configurations and capabilities\<close>

definition test_sandbox_config_default_has_no_kernel_rootfs :: bool where
  "test_sandbox_config_default_has_no_kernel_rootfs \<longleftrightarrow>
     sc_kernel sandbox_config_default = None \<and> sc_rootfs sandbox_config_default = None"

definition test_sandbox_config_with_kernel_rootfs :: bool where
  "test_sandbox_config_with_kernel_rootfs \<longleftrightarrow>
     (let config = sandbox_config_default\<lparr>sc_kernel := Some ''/path/to/vmlinux'', sc_rootfs := Some ''/path/to/rootfs.ext4''\<rparr>
      in sc_kernel config = Some ''/path/to/vmlinux'' \<and> sc_rootfs config = Some ''/path/to/rootfs.ext4'')"

definition docker_caps :: provider_capabilities where
  "docker_caps =
     \<lparr>pc_name = ''docker'', pc_writable_true = Supported, pc_writable_false = Supported,
      pc_network = Supported, pc_mounts = Supported, pc_memory = Supported, pc_cpus = Supported,
      pc_kernel = NotApplicable, pc_rootfs = NotApplicable, pc_network_allowlist = Supported,
      pc_fs_paths = Supported, pc_pause = True, pc_unpause = True, pc_copy_to = True, pc_copy_from = True\<rparr>"

definition e2b_caps :: provider_capabilities where
  "e2b_caps =
     \<lparr>pc_name = ''e2b'', pc_writable_true = Supported, pc_writable_false = UnsupportedField,
      pc_network = Supported, pc_mounts = UnsupportedField, pc_memory = UnsupportedField,
      pc_cpus = UnsupportedField, pc_kernel = NotApplicable, pc_rootfs = NotApplicable,
      pc_network_allowlist = UnsupportedField, pc_fs_paths = UnsupportedField, pc_pause = True,
      pc_unpause = True, pc_copy_to = True, pc_copy_from = True\<rparr>"

definition firecracker_caps :: provider_capabilities where
  "firecracker_caps =
     \<lparr>pc_name = ''firecracker'', pc_writable_true = Supported, pc_writable_false = Supported,
      pc_network = Supported, pc_mounts = NotApplicable, pc_memory = Supported, pc_cpus = Supported,
      pc_kernel = Required, pc_rootfs = Required, pc_network_allowlist = NotApplicable,
      pc_fs_paths = NotApplicable, pc_pause = True, pc_unpause = True, pc_copy_to = False, pc_copy_from = False\<rparr>"

definition k8s_caps :: provider_capabilities where
  "k8s_caps =
     \<lparr>pc_name = ''k8s'', pc_writable_true = Supported, pc_writable_false = Supported,
      pc_network = Supported, pc_mounts = UnsupportedField, pc_memory = Supported, pc_cpus = Supported,
      pc_kernel = NotApplicable, pc_rootfs = NotApplicable, pc_network_allowlist = NotApplicable,
      pc_fs_paths = NotApplicable, pc_pause = False, pc_unpause = False, pc_copy_to = True, pc_copy_from = True\<rparr>"

definition wasm_caps :: provider_capabilities where
  "wasm_caps =
     \<lparr>pc_name = ''wasm'', pc_writable_true = Supported, pc_writable_false = Supported,
      pc_network = NotApplicable, pc_mounts = Supported, pc_memory = NotApplicable,
      pc_cpus = NotApplicable, pc_kernel = NotApplicable, pc_rootfs = NotApplicable,
      pc_network_allowlist = NotApplicable, pc_fs_paths = NotApplicable, pc_pause = False,
      pc_unpause = False, pc_copy_to = False, pc_copy_from = False\<rparr>"

text \<open>
  The tables of the tests are those of the providers, but for Docker's: the provider denies that it
  can pause, which the tests (and the code of \<open>pause\<close>) have.
\<close>

lemma test_tables:
  "docker_caps = docker_capabilities\<lparr>pc_pause := True, pc_unpause := True\<rparr>"
  "e2b_caps = e2b_capabilities" "firecracker_caps = firecracker_capabilities"
  "k8s_caps = k8s_capabilities" "wasm_caps = wasm_capabilities"
  by (simp_all add: docker_caps_def docker_capabilities_def e2b_caps_def e2b_capabilities_def firecracker_caps_def
      firecracker_capabilities_def k8s_caps_def k8s_capabilities_def wasm_caps_def wasm_capabilities_def)

definition tmp_mount :: mount_config where
  "tmp_mount = \<lparr>mc_host_path = ''/tmp'', mc_container_path = ''/data'', mc_readonly = True\<rparr>"

definition test_docker_accepts_defaults :: bool where
  "test_docker_accepts_defaults \<longleftrightarrow> is_ok (validate_config sandbox_config_default docker_caps)"

definition test_docker_accepts_all_fields :: bool where
  "test_docker_accepts_all_fields \<longleftrightarrow>
     is_ok (validate_config (sandbox_config_default\<lparr>sc_writable := True, sc_network := True,
       sc_memory := Some ''512m'', sc_cpus := Some (F_fin 2), sc_mounts := [tmp_mount]\<rparr>) docker_caps)"

definition test_e2b_rejects_default_config :: bool where
  "test_e2b_rejects_default_config \<longleftrightarrow>
     unwraps_err (validate_config sandbox_config_default e2b_caps)
       (\<lambda>err. str_contains (provider_error_display err) ''read-only'')"

definition test_e2b_rejects_multiple_violations :: bool where
  "test_e2b_rejects_multiple_violations \<longleftrightarrow>
     unwraps_err (validate_config (sandbox_config_default\<lparr>sc_writable := False,
         sc_memory := Some ''512m'', sc_mounts := [tmp_mount]\<rparr>) e2b_caps)
       (\<lambda>err. str_contains (provider_error_display err) ''read-only''
         \<and> str_contains (provider_error_display err) ''volume mounts''
         \<and> str_contains (provider_error_display err) ''memory'')"

definition test_e2b_accepts_writable_true :: bool where
  "test_e2b_accepts_writable_true \<longleftrightarrow>
     is_ok (validate_config (sandbox_config_default\<lparr>sc_writable := True\<rparr>) e2b_caps)"

definition test_firecracker_rejects_missing_kernel_rootfs :: bool where
  "test_firecracker_rejects_missing_kernel_rootfs \<longleftrightarrow>
     unwraps_err (validate_config sandbox_config_default firecracker_caps)
       (\<lambda>err. str_contains (provider_error_display err) ''--kernel''
         \<and> str_contains (provider_error_display err) ''--rootfs'')"

definition test_firecracker_accepts_with_kernel_rootfs :: bool where
  "test_firecracker_accepts_with_kernel_rootfs \<longleftrightarrow>
     is_ok (validate_config (sandbox_config_default\<lparr>sc_kernel := Some ''/boot/vmlinux'',
       sc_rootfs := Some ''/images/rootfs.ext4''\<rparr>) firecracker_caps)"

definition test_k8s_rejects_mounts :: bool where
  "test_k8s_rejects_mounts \<longleftrightarrow>
     unwraps_err (validate_config (sandbox_config_default\<lparr>sc_mounts := [tmp_mount]\<rparr>) k8s_caps)
       (\<lambda>err. str_contains (provider_error_display err) ''volume mounts'')"

definition test_k8s_accepts_defaults :: bool where
  "test_k8s_accepts_defaults \<longleftrightarrow> is_ok (validate_config sandbox_config_default k8s_caps)"

definition test_wasm_accepts_with_irrelevant_fields :: bool where
  "test_wasm_accepts_with_irrelevant_fields \<longleftrightarrow>
     is_ok (validate_config (sandbox_config_default\<lparr>sc_network := True\<rparr>) wasm_caps)"

definition test_wasm_accepts_defaults :: bool where
  "test_wasm_accepts_defaults \<longleftrightarrow> is_ok (validate_config sandbox_config_default wasm_caps)"

lemma config_tests:
  "test_sandbox_config_default_has_no_kernel_rootfs" "test_sandbox_config_with_kernel_rootfs"
  "test_docker_accepts_defaults" "test_docker_accepts_all_fields" "test_e2b_rejects_default_config"
  "test_e2b_rejects_multiple_violations" "test_e2b_accepts_writable_true"
  "test_firecracker_rejects_missing_kernel_rootfs" "test_firecracker_accepts_with_kernel_rootfs"
  "test_k8s_rejects_mounts" "test_k8s_accepts_defaults" "test_wasm_accepts_with_irrelevant_fields"
  "test_wasm_accepts_defaults"
  by code_simp+

subsection \<open>Intent analysis\<close>

definition test_pure_compute_selects_wasm :: "(string \<Rightarrow> bool) \<Rightarrow> bool" where
  "test_pure_compute_selects_wasm ua \<longleftrightarrow>
     (let intent = analyze ua ''print(2 + 2)'' ''python''
      in ci_provider intent = Hint_Wasm \<and> \<not> ci_needs_network intent \<and> \<not> ci_needs_writable intent)"

definition test_requests_detects_network :: "(string \<Rightarrow> bool) \<Rightarrow> bool" where
  "test_requests_detects_network ua \<longleftrightarrow>
     (let intent = analyze ua (''import requests'' @ [CHR 0x0A]
         @ ''responses = requests.get('' @ quote ''https://api.openai.com/v1/chat'' @ '')'') ''python''
      in ci_provider intent = Hint_Docker \<and> ci_needs_network intent
         \<and> ''api.openai.com'' \<in> set (ci_network_hosts intent))"

definition test_pip_install_detects_packages :: "(string \<Rightarrow> bool) \<Rightarrow> bool" where
  "test_pip_install_detects_packages ua \<longleftrightarrow>
     (let intent = analyze ua (''import subprocess'' @ [CHR 0x0A] @ ''subprocess.run(['' @ quote ''pip''
         @ '', '' @ quote ''install'' @ '', '' @ quote ''pandas'' @ ''])'') ''python''
      in (ci_needs_packages intent \<or> ci_needs_network intent) \<and> ci_provider intent = Hint_Docker)"

definition test_pandas_import_detects_memory :: "(string \<Rightarrow> bool) \<Rightarrow> bool" where
  "test_pandas_import_detects_memory ua \<longleftrightarrow>
     (let intent = analyze ua (''import pandas as pd'' @ [CHR 0x0A]
         @ ''df = pd.read_csv('' @ quote ''data.csv'' @ '')'') ''python''
      in ci_memory_hint intent = Some ''512m'' \<and> ci_provider intent = Hint_Docker)"

definition test_file_write_detects_writable :: "(string \<Rightarrow> bool) \<Rightarrow> bool" where
  "test_file_write_detects_writable ua \<longleftrightarrow>
     (let intent = analyze ua (''with open('' @ quote ''/tmp/output.txt'' @ '', '' @ quote ''w'' @ '') as f:''
         @ [CHR 0x0A] @ ''    f.write('' @ quote ''hello'' @ '')'') ''python''
      in ci_needs_writable intent \<and> ''/tmp'' \<in> set (ci_writable_paths intent))"

definition test_curl_bash :: "(string \<Rightarrow> bool) \<Rightarrow> bool" where
  "test_curl_bash ua \<longleftrightarrow>
     (let intent = analyze ua (''curl https://api.github.com/repos/foo/bar | jq '' @ quote ''.name'') ''bash''
      in ci_needs_network intent \<and> ''api.github.com'' \<in> set (ci_network_hosts intent)
         \<and> ci_provider intent = Hint_Docker)"

definition test_node_fetch :: "(string \<Rightarrow> bool) \<Rightarrow> bool" where
  "test_node_fetch ua \<longleftrightarrow>
     (let intent = analyze ua (''import fetch from '' @ quote ''node-fetch'' @ '';'' @ [CHR 0x0A]
         @ ''const res = await fetch('' @ quote ''https://jsonplaceholder.typicode.com/todos/1'' @ '');'') ''node''
      in ci_needs_network intent \<and> ''jsonplaceholder.typicode.com'' \<in> set (ci_network_hosts intent))"

definition test_host_extraction :: "(string \<Rightarrow> bool) \<Rightarrow> bool" where
  "test_host_extraction ua \<longleftrightarrow>
     extract_host_from_url ua ''https://api.openai.com/v1/chat'' = Some ''api.openai.com''"

definition test_host_extraction_with_port :: "(string \<Rightarrow> bool) \<Rightarrow> bool" where
  "test_host_extraction_with_port ua \<longleftrightarrow>
     extract_host_from_url ua ''http://localhost:8080/api'' = None
     \<and> extract_host_from_url ua ''http://api.example.com:8080/api'' = Some ''api.example.com''"

text \<open>
  The sources of the tests are ASCII, so which other characters are letters does not matter. No test
  looks at the confidence, so its rounding need not be evaluated.
\<close>

declare f64_round_def [code del]

lemma intent_tests:
  "test_pure_compute_selects_wasm ua" "test_requests_detects_network ua" "test_pip_install_detects_packages ua"
  "test_pandas_import_detects_memory ua" "test_file_write_detects_writable ua" "test_curl_bash ua"
  "test_node_fetch ua" "test_host_extraction ua" "test_host_extraction_with_port ua"
  by code_simp+

declare f64_round_def [code]

subsection \<open>The wallet\<close>

definition test_default_wallet_is_fully_locked :: bool where
  "test_default_wallet_is_fully_locked \<longleftrightarrow>
     (let w = sandbox_grant_default
      in \<not> nc_enabled (sg_network w) \<and> \<not> fc_writable (sg_filesystem w)
         \<and> cc_max_exec_count (sg_compute w) = 0 \<and> sec_allowed_env_keys (sg_secrets w) = [])"

definition test_wallet_to_sandbox_config :: "(string \<Rightarrow> string option) \<Rightarrow> bool" where
  "test_wallet_to_sandbox_config env_var \<longleftrightarrow>
     (let d = sandbox_grant_default;
          w = d\<lparr>sg_network := (sg_network d)\<lparr>nc_enabled := True, nc_allowed_hosts := [''api.openai.com'']\<rparr>,
                sg_filesystem := (sg_filesystem d)\<lparr>fc_writable := True, fc_writable_paths := [''/tmp'']\<rparr>,
                sg_compute := (sg_compute d)\<lparr>cc_max_memory_bytes := 512 * 1024 * 1024, cc_max_duration_secs := 60\<rparr>\<rparr>;
          config = to_sandbox_config env_var w
      in sc_network config \<and> sc_network_allowlist config = [''api.openai.com''] \<and> sc_writable config
         \<and> sc_fs_paths config = [''/tmp''] \<and> sc_memory config = Some ''512m'' \<and> sc_timeout_secs config = 60)"

lemma wallet_tests: "test_default_wallet_is_fully_locked" "test_wallet_to_sandbox_config env_var"
  by code_simp+

subsection \<open>Sessions\<close>

definition test_create_and_get :: "nat \<Rightarrow> nat \<Rightarrow> bool" where
  "test_create_and_get now_ns now_ms \<longleftrightarrow>
     (let (sid, mgr) = session_create now_ns now_ms ''sb-1'' ''docker'' dynamic_permissions_default budget_default
            session_manager_new
      in unwraps (session_get sid mgr) (\<lambda>state. ss_sandbox_id state = ''sb-1''))"

definition test_budget_enforcement :: "nat \<Rightarrow> nat \<Rightarrow> bool" where
  "test_budget_enforcement now_ns now_ms \<longleftrightarrow>
     (let (sid, mgr) = session_create now_ns now_ms ''sb-1'' ''docker'' dynamic_permissions_default
            (budget_default\<lparr>bu_max_execs := 2\<rparr>) session_manager_new;
          (r1, mgr1) = record_usage sid (F_fin 1) 100 mgr;
          (r2, mgr2) = record_usage sid (F_fin 1) 100 mgr1
      in is_ok (check_budget sid mgr) \<and> is_ok r1 \<and> is_ok (check_budget sid mgr1) \<and> is_ok r2
         \<and> \<not> is_ok (check_budget sid mgr2))"

definition test_permission_changes :: "nat \<Rightarrow> nat \<Rightarrow> bool" where
  "test_permission_changes now_ns now_ms \<longleftrightarrow>
     (let (sid, mgr) = session_create now_ns now_ms ''sb-1'' ''docker'' dynamic_permissions_default budget_default
            session_manager_new;
          (r1, mgr1) = change_permissions sid (AllowHost ''api.openai.com'') mgr;
          (r2, mgr2) = change_permissions sid (DenyHost ''api.openai.com'') mgr1
      in unwraps r1 (\<lambda>perms. dp_network perms \<and> ''api.openai.com'' \<in> set (dp_network_allowlist perms))
         \<and> unwraps r2 (\<lambda>perms. ''api.openai.com'' \<notin> set (dp_network_allowlist perms)))"

definition test_destroy :: "nat \<Rightarrow> nat \<Rightarrow> bool" where
  "test_destroy now_ns now_ms \<longleftrightarrow>
     (let (sid, mgr) = session_create now_ns now_ms ''sb-1'' ''docker'' dynamic_permissions_default budget_default
            session_manager_new;
          (r, mgr1) = session_destroy sid mgr
      in is_ok r \<and> \<not> is_ok (session_get sid mgr1))"

definition test_output_budget :: "nat \<Rightarrow> nat \<Rightarrow> bool" where
  "test_output_budget now_ns now_ms \<longleftrightarrow>
     (let (sid, mgr) = session_create now_ns now_ms ''sb-1'' ''docker'' dynamic_permissions_default
            (budget_default\<lparr>bu_max_output_bytes := 1000\<rparr>) session_manager_new;
          (r1, mgr1) = record_usage sid (f64_round (1 / 2)) 500 mgr;
          (r2, mgr2) = record_usage sid (f64_round (1 / 2)) 600 mgr1
      in is_ok r1 \<and> is_ok (check_budget sid mgr1) \<and> is_ok r2 \<and> \<not> is_ok (check_budget sid mgr2))"

lemma session_tests:
  "test_create_and_get now_ns now_ms" "test_budget_enforcement now_ns now_ms"
  "test_permission_changes now_ns now_ms" "test_destroy now_ns now_ms" "test_output_budget now_ns now_ms"
  by (simp_all add: test_create_and_get_def test_budget_enforcement_def test_permission_changes_def
      test_destroy_def test_output_budget_def session_create_def session_get_def session_destroy_def record_usage_def
      add_usage_def check_budget_def change_permissions_def session_manager_new_def budget_default_def
      budget_usage_default_def dynamic_permissions_default_def Let_def case_prod_beta word_le_nat_alt word_less_nat_alt)

subsection \<open>The sensor\<close>

definition test_parse_memory_bytes :: bool where
  "test_parse_memory_bytes \<longleftrightarrow>
     parse_memory_bytes ''123.4MiB'' = 129394278 \<and> parse_memory_bytes ''1.5GiB'' = 1610612736
     \<and> parse_memory_bytes ''512KiB'' = 524288 \<and> parse_memory_bytes ''100B'' = 100
     \<and> parse_memory_bytes [] = 0 \<and> parse_memory_bytes ''1.5GB'' = 1500000000
     \<and> parse_memory_bytes ''100MB'' = 100000000"

definition test_parse_size_bytes :: bool where
  "test_parse_size_bytes \<longleftrightarrow>
     parse_size_bytes ''1.23kB'' = 1230 \<and> parse_size_bytes ''4.56MB'' = 4560000
     \<and> parse_size_bytes ''0B'' = 0 \<and> parse_size_bytes [] = 0 \<and> parse_size_bytes ''1GB'' = 1000000000"

definition test_parse_net_rx_tx :: bool where
  "test_parse_net_rx_tx \<longleftrightarrow> parse_net_rx ''1.23kB'' = 1230 \<and> parse_net_tx ''4.56kB'' = 4560"

definition test_parse_docker_diff :: bool where
  "test_parse_docker_diff \<longleftrightarrow>
     unwraps_some (parse_docker_diff (''A /tmp/newfile'' @ [CHR 0x0A] @ ''C /etc/hosts'' @ [CHR 0x0A]
         @ ''D /var/log/old.log'' @ [CHR 0x0A]))
       (\<lambda>accesses. length accesses = 3
         \<and> fa_path (accesses ! 0) = ''/tmp/newfile'' \<and> fa_op (accesses ! 0) = Create
         \<and> fa_path (accesses ! 1) = ''/etc/hosts'' \<and> fa_op (accesses ! 1) = Write
         \<and> fa_path (accesses ! 2) = ''/var/log/old.log'' \<and> fa_op (accesses ! 2) = Delete)"

definition test_parse_docker_diff_empty :: bool where
  "test_parse_docker_diff_empty \<longleftrightarrow> unwraps_some (parse_docker_diff []) (\<lambda>accesses. accesses = [])"

lemma sensor_diff_tests: "test_parse_docker_diff" "test_parse_docker_diff_empty"
  by code_simp+

text \<open>The roundings in the tests: of the decimal numbers, and of their products with the units.\<close>

lemma test_roundings:
  "f64_round (617 / 5) = F_fin (4341751515761869 / 35184372088832)"
  "f64_round (4341751515761869 / 33554432) = F_fin (4341751515761869 / 33554432)"
  "f64_round (3 / 2) = F_fin (3 / 2)"
  "f64_round (123 / 100) = F_fin (2769713770832855 / 2251799813685248)"
  "f64_round (346214221354106875 / 281474976710656) = F_fin (1230)"
  "f64_round (114 / 25) = F_fin (5134103575202365 / 1125899906842624)"
  "f64_round (80220368362536953125 / 17592186044416) = F_fin (4560000)"
  "f64_round (641762946900295625 / 140737488355328) = F_fin (4560)"
  subgoal by (rule f64_roundI[where e = "-46" and m = 8683503031523738]; simp add: pow2_def)
  subgoal by (rule f64_roundI[where e = "-26" and m = 8683503031523738]; simp add: pow2_def)
  subgoal by (rule f64_roundI[where e = "-52" and m = 6755399441055744]; simp add: pow2_def)
  subgoal by (rule f64_roundI[where e = "-52" and m = 5539427541665710]; simp add: pow2_def)
  subgoal by (rule f64_roundI[where e = "-42" and m = 5409597208657920]; simp add: pow2_def)
  subgoal by (rule f64_roundI[where e = "-50" and m = 5134103575202365]; simp add: pow2_def)
  subgoal by (rule f64_roundI[where e = "-30" and m = 4896262717440000]; simp add: pow2_def)
  subgoal by (rule f64_roundI[where e = "-40" and m = 5013773022658560]; simp add: pow2_def)
  done

lemmas decimal_defs = parse_f64_def parse_f64_unsigned_def parse_decimal_def pow10_def strip_char_def
  ascii_digit_def to_ascii_lower_def ascii_lower_def

lemma test_decimals:
  "parse_f64 ''123.4'' = Some (F_fin (4341751515761869 / 35184372088832))"
  "parse_f64 ''1.5'' = Some (F_fin (3 / 2))"
  "parse_f64 ''512'' = Some (F_fin (512))"
  "parse_f64 ''100'' = Some (F_fin (100))"
  "parse_f64 ''1.23'' = Some (F_fin (2769713770832855 / 2251799813685248))"
  "parse_f64 ''4.56'' = Some (F_fin (5134103575202365 / 1125899906842624))"
  "parse_f64 ''0'' = Some (F_fin (0))"
  "parse_f64 ''1'' = Some (F_fin (1))"
  by (simp_all add: decimal_defs test_roundings f64_round_numeral)

lemma test_products:
  "f64_round (4341751515761869 / 35184372088832 * of_nat 1048576) = F_fin (4341751515761869 / 33554432)"
  "f64_round (3 / 2 * of_nat 1073741824) = F_fin (1610612736)"
  "f64_round (512 * of_nat 1024) = F_fin (524288)"
  "f64_round (100 * of_nat (Suc 0)) = F_fin (100)"
  "f64_round (3 / 2 * of_nat 1000000000) = F_fin (1500000000)"
  "f64_round (100 * of_nat 1000000) = F_fin (100000000)"
  "f64_round (2769713770832855 / 2251799813685248 * of_nat 1000) = F_fin (1230)"
  "f64_round (5134103575202365 / 1125899906842624 * of_nat 1000000) = F_fin (4560000)"
  "f64_round (0 * of_nat (Suc 0)) = F_fin (0)"
  "f64_round (1 * of_nat 1000000000) = F_fin (1000000000)"
  "f64_round (5134103575202365 / 1125899906842624 * of_nat 1000) = F_fin (4560)"
  by (simp_all add: test_roundings f64_round_numeral)

text \<open>One reading of a size: the unit, the number, its rounding, and the rounded product.\<close>

lemma size_read:
  assumes "trim s = s" "s \<noteq> []" "split_unit units s = (n, m)" "trim n = n" "m < 2 ^ 53"
    and "parse_f64 n = Some (F_fin v)" "f64_round (v * of_nat m) = F_fin w"
    and "of_nat u \<le> w" "w < of_nat u + 1" "u < 2 ^ 64"
  shows "parse_units units s = word_of_nat u"
  using assms by (simp add: parse_units_def f64_of_u64_exact f64_to_u64_floor)

lemmas unit_defs = memory_units_def size_units_def strip_suffix_def

lemma test_trims:
  "trim ''123.4MiB'' = ''123.4MiB''" "trim ''1.5GiB'' = ''1.5GiB''" "trim ''512KiB'' = ''512KiB''"
  "trim ''100B'' = ''100B''" "trim ''1.5GB'' = ''1.5GB''" "trim ''100MB'' = ''100MB''" "trim ''1.23kB'' = ''1.23kB''"
  "trim ''4.56MB'' = ''4.56MB''" "trim ''0B'' = ''0B''" "trim ''1GB'' = ''1GB''" "trim ''4.56kB'' = ''4.56kB''"
  "trim ''123.4'' = ''123.4''" "trim ''1.5'' = ''1.5''" "trim ''512'' = ''512''" "trim ''100'' = ''100''"
  "trim ''1.23'' = ''1.23''" "trim ''4.56'' = ''4.56''" "trim ''0'' = ''0''" "trim ''1'' = ''1''"
  by code_simp+

lemma test_memory_sizes:
  "parse_units memory_units ''123.4MiB'' = word_of_nat 129394278"
  "parse_units memory_units ''1.5GiB'' = word_of_nat 1610612736"
  "parse_units memory_units ''512KiB'' = word_of_nat 524288"
  "parse_units memory_units ''100B'' = word_of_nat 100"
  "parse_units memory_units ''1.5GB'' = word_of_nat 1500000000"
  "parse_units memory_units ''100MB'' = word_of_nat 100000000"
  by - ((rule size_read, simp add: test_trims, simp, simp add: unit_defs, simp add: test_trims, simp,
      rule test_decimals, rule test_products, simp, simp, simp)[1])+

lemma test_sizes:
  "parse_units size_units ''1.23kB'' = word_of_nat 1230"
  "parse_units size_units ''4.56MB'' = word_of_nat 4560000"
  "parse_units size_units ''0B'' = word_of_nat 0"
  "parse_units size_units ''1GB'' = word_of_nat 1000000000"
  "parse_units size_units ''4.56kB'' = word_of_nat 4560"
  by - ((rule size_read, simp add: test_trims, simp, simp add: unit_defs, simp add: test_trims, simp,
      rule test_decimals, rule test_products, simp, simp, simp)[1])+

lemma parse_units_empty: "parse_units units [] = 0"
  by (simp add: parse_units_def trim_def trim_start_def trim_end_def)

lemma sensor_size_tests: "test_parse_memory_bytes" "test_parse_size_bytes" "test_parse_net_rx_tx"
  using test_memory_sizes test_sizes parse_units_empty
  by (simp_all add: test_parse_memory_bytes_def test_parse_size_bytes_def test_parse_net_rx_tx_def
      parse_memory_bytes_def parse_size_bytes_def parse_net_rx_def parse_net_tx_def)

end
