(* ===== verification/Unit_Daemon.thy ===== *)
theory Unit_Daemon
  imports Service Retry Pool_Config
begin

text \<open>
  The unit tests of the crate \<open>roche-daemon\<close>, read as statements on the model: every \<open>assert!\<close> is a
  conjunct. The clock and the backends are arguments, so a statement covers every reading and every
  provider, also where the test runs with real ones. The tests that only call serde or TOML, the one
  for other systems than Linux and the one with no assertion are left out.
\<close>

subsection \<open>Retries\<close>

definition test_no_retry_default :: bool where
  "test_no_retry_default \<longleftrightarrow> rc_max_attempts (retry_from_proto None) = 1"

definition test_exponential_backoff :: bool where
  "test_exponential_backoff \<longleftrightarrow>
     (let config = \<lparr>rc_max_attempts = 3, rc_backoff = Backoff_Exponential, rc_initial_delay_ms = 100, rc_retry_on = []\<rparr>
      in delay_ms config 0 = 100 \<and> delay_ms config 1 = 200 \<and> delay_ms config 2 = 400)"

definition test_linear_backoff :: bool where
  "test_linear_backoff \<longleftrightarrow>
     (let config = \<lparr>rc_max_attempts = 3, rc_backoff = Backoff_Linear, rc_initial_delay_ms = 100, rc_retry_on = []\<rparr>
      in delay_ms config 0 = 100 \<and> delay_ms config 1 = 200 \<and> delay_ms config 2 = 300)"

definition test_should_retry_error_empty_retries_all :: bool where
  "test_should_retry_error_empty_retries_all \<longleftrightarrow>
     (let config = \<lparr>rc_max_attempts = 3, rc_backoff = Backoff_None, rc_initial_delay_ms = 100, rc_retry_on = []\<rparr>
      in should_retry_error config (Timeout 30) \<and> should_retry_error config (ExecFailed ''oom''))"

definition test_should_retry_error_specific :: bool where
  "test_should_retry_error_specific \<longleftrightarrow>
     (let config = \<lparr>rc_max_attempts = 3, rc_backoff = Backoff_None, rc_initial_delay_ms = 100,
                    rc_retry_on = [On_Timeout]\<rparr>
      in should_retry_error config (Timeout 30) \<and> \<not> should_retry_error config (ExecFailed ''other''))"

definition test_should_retry_exit :: bool where
  "test_should_retry_exit \<longleftrightarrow>
     (let config = \<lparr>rc_max_attempts = 3, rc_backoff = Backoff_None, rc_initial_delay_ms = 100,
                    rc_retry_on = [On_NonzeroExit]\<rparr>
      in \<not> should_retry_exit config 0 \<and> should_retry_exit config 1)"

lemma retry_tests:
  "test_no_retry_default" "test_exponential_backoff" "test_linear_backoff"
  "test_should_retry_error_empty_retries_all" "test_should_retry_error_specific" "test_should_retry_exit"
  by code_simp+

subsection \<open>The idempotency cache\<close>

definition make_response :: "string \<Rightarrow> exec_response" where
  "make_response stdout = \<lparr>xr_exit_code = 0, xr_stdout = stdout, xr_stderr = [], xr_trace = None\<rparr>"

definition test_cache_hit :: "nat \<Rightarrow> nat \<Rightarrow> nat \<Rightarrow> bool" where
  "test_cache_hit t0 t1 t2 \<longleftrightarrow>
     (let cache = idem_put t0 t1 ''key1'' (make_response ''hello'') idempotency_cache_new
      in unwraps_some (fst (idem_get t2 ''key1'' cache)) (\<lambda>cached. xr_stdout cached = ''hello''))"

definition test_cache_miss :: "nat \<Rightarrow> bool" where
  "test_cache_miss t \<longleftrightarrow>
     fst (idem_get t ''nonexistent'' (idempotency_cache_new :: exec_response idempotency_cache)) = None"

definition test_cache_expiry :: "nat \<Rightarrow> nat \<Rightarrow> nat \<Rightarrow> bool" where
  "test_cache_expiry t0 t1 t2 \<longleftrightarrow>
     (let cache = idem_put t0 t1 ''key1'' (make_response ''hello'') \<lparr>ic_entries = [], ic_ttl = 1000000\<rparr>
      in fst (idem_get t2 ''key1'' cache) = None)"

definition test_cache_overwrite :: "nat \<Rightarrow> nat \<Rightarrow> nat \<Rightarrow> nat \<Rightarrow> nat \<Rightarrow> bool" where
  "test_cache_overwrite t0 t1 t2 t3 t4 \<longleftrightarrow>
     (let cache = idem_put t0 t1 ''key1'' (make_response ''first'') idempotency_cache_new;
          cache = idem_put t2 t3 ''key1'' (make_response ''second'') cache
      in unwraps_some (fst (idem_get t4 ''key1'' cache)) (\<lambda>cached. xr_stdout cached = ''second''))"

definition old_entries :: "nat \<Rightarrow> nat \<Rightarrow> (string, exec_response cache_entry) hash_map" where
  "old_entries n t = fold (\<lambda>i. hm_insert (''old_'' @ show_nat i)
     \<lparr>ce_response = make_response ''old'', ce_inserted_at = t - 3600 * 1000000000\<rparr>) [0..<n] []"

definition test_eviction_at_capacity :: "nat \<Rightarrow> nat \<Rightarrow> nat \<Rightarrow> bool" where
  "test_eviction_at_capacity t0 t1 t2 \<longleftrightarrow>
     (let cache = idem_put t1 t2 ''new_key'' (make_response ''new'')
            \<lparr>ic_entries = old_entries max_entries t0, ic_ttl = 1000000\<rparr>
      in length (ic_entries cache) = 1 \<and> hm_get (ic_entries cache) ''new_key'' \<noteq> None)"

lemma old_entries_simps [simp]:
  "old_entries 0 t = []"
  "old_entries (Suc n) t = hm_insert (''old_'' @ show_nat n)
     \<lparr>ce_response = make_response ''old'', ce_inserted_at = t - 3600 * 1000000000\<rparr> (old_entries n t)"
  by (simp_all add: old_entries_def)

lemma old_entries_keys: "hm_get (old_entries n t) k = None \<longleftrightarrow> (\<forall>i<n. k \<noteq> ''old_'' @ show_nat i)"
  by (induction n) (auto simp: less_Suc_eq)

lemma length_old_entries: "length (old_entries n t) = n"
proof (induction n)
  case (Suc n)
  have "hm_get (old_entries n t) (''old_'' @ show_nat n) = None"
    by (simp add: old_entries_keys)
  with Suc show ?case by (simp add: length_hm_insert)
qed simp

lemma old_entries_age: "(k, e) \<in> set (old_entries n t) \<Longrightarrow> ce_inserted_at e = t - 3600 * 1000000000"
  by (induction n) (auto dest: hm_insert_entries)

text \<open>
  The readings of the clock that a test relies on: the answer comes within the time to live, the
  pause of five milliseconds is over, and the clock started an hour before the test.
\<close>

lemma cache_tests:
  "t2 - t1 < default_ttl \<Longrightarrow> test_cache_hit t0 t1 t2"
  "test_cache_miss t"
  "t1 + 5000000 \<le> t2 \<Longrightarrow> test_cache_expiry t0 t1 t2"
  "t4 - t3 < default_ttl \<Longrightarrow> test_cache_overwrite t0 t1 t2 t3 t4"
  "3600 * 1000000000 \<le> t0 \<Longrightarrow> t0 \<le> t1 \<Longrightarrow> test_eviction_at_capacity t0 t1 t2"
proof -
  assume "3600 * 1000000000 \<le> t0" "t0 \<le> t1"
  then have "hm_retain (\<lambda>_ e. t1 - ce_inserted_at e < 1000000) (old_entries max_entries t0) = []"
    by (auto simp: hm_retain_def filter_empty_conv dest!: old_entries_age)
  then show "test_eviction_at_capacity t0 t1 t2"
    by (simp add: test_eviction_at_capacity_def idem_put_def length_old_entries)
qed (auto simp: test_cache_hit_def test_cache_miss_def test_cache_expiry_def test_cache_overwrite_def idem_get_def
    idem_put_def idempotency_cache_new_def make_response_def Let_def max_entries_def)

subsection \<open>Pool arguments\<close>

definition test_parse_pool_arg_full :: bool where
  "test_parse_pool_arg_full \<longleftrightarrow>
     unwraps (parse_pool_arg ''docker/python:3.12-slim?min=3&max=10&total=20&idle_timeout=300'') (\<lambda>cfg.
       pc_provider cfg = ''docker'' \<and> pc_image cfg = ''python:3.12-slim'' \<and> pc_min_idle cfg = 3
       \<and> pc_max_idle cfg = 10 \<and> pc_max_total cfg = 20 \<and> pc_idle_timeout_secs cfg = 300)"

definition test_parse_pool_arg_minimal :: bool where
  "test_parse_pool_arg_minimal \<longleftrightarrow>
     unwraps (parse_pool_arg ''docker/node:20-slim'') (\<lambda>cfg.
       pc_provider cfg = ''docker'' \<and> pc_image cfg = ''node:20-slim'' \<and> pc_min_idle cfg = 0
       \<and> pc_max_idle cfg = 5 \<and> pc_max_total cfg = 20 \<and> pc_idle_timeout_secs cfg = 600)"

definition test_parse_pool_arg_partial_params :: bool where
  "test_parse_pool_arg_partial_params \<longleftrightarrow>
     unwraps (parse_pool_arg ''docker/python:3.12-slim?min=2'') (\<lambda>cfg. pc_min_idle cfg = 2 \<and> pc_max_idle cfg = 5)"

definition test_parse_pool_arg_no_slash :: bool where
  "test_parse_pool_arg_no_slash \<longleftrightarrow> \<not> is_ok (parse_pool_arg ''docker-python'')"

definition test_parse_pool_arg_unknown_param :: bool where
  "test_parse_pool_arg_unknown_param \<longleftrightarrow> \<not> is_ok (parse_pool_arg ''docker/img?foo=1'')"

lemma pool_arg_tests:
  "test_parse_pool_arg_full" "test_parse_pool_arg_minimal" "test_parse_pool_arg_partial_params"
  "test_parse_pool_arg_no_slash" "test_parse_pool_arg_unknown_param"
  by (simp_all add: test_parse_pool_arg_full_def test_parse_pool_arg_minimal_def test_parse_pool_arg_partial_params_def
      test_parse_pool_arg_no_slash_def test_parse_pool_arg_unknown_param_def parse_pool_arg_def pool_param_def
      pool_config_new_def default_max_idle_def default_max_total_def default_idle_timeout_secs_def parse_or_def
      parse_u64_def parse_unsigned_def parse_digits_def ascii_digit_def strip_char_def)

subsection \<open>The pools\<close>

definition make_config :: "string \<Rightarrow> string \<Rightarrow> usize \<Rightarrow> usize \<Rightarrow> usize \<Rightarrow> pool_config" where
  "make_config pv img min_idle max_idle max_total =
     \<lparr>pc_provider = pv, pc_image = img, pc_min_idle = min_idle, pc_max_idle = max_idle, pc_max_total = max_total,
      pc_idle_timeout_secs = 600\<rparr>"

definition python_key :: pool_key where
  "python_key = \<lparr>pk_provider = ''docker'', pk_image = ''python:3.12-slim''\<rparr>"

definition python_pool :: pool_manager where
  "python_pool = pool_manager_new [make_config ''docker'' ''python:3.12-slim'' 0 5 10]"

definition python_sandbox :: sandbox_config where
  "python_sandbox = sandbox_config_default\<lparr>sc_provider := ''docker'', sc_image := ''python:3.12-slim''\<rparr>"

text \<open>\<open>get_mut(&key).unwrap()\<close> and a change of the pool behind the manager's back.\<close>

definition inject :: "pool_key \<Rightarrow> (sandbox_pool \<Rightarrow> sandbox_pool) \<Rightarrow> pool_manager \<Rightarrow> pool_manager option" where
  "inject key f pm = map_option (\<lambda>pool. pm\<lparr>pm_pools := hm_insert key (f pool) (pm_pools pm)\<rparr>) (hm_get (pm_pools pm) key)"

definition test_pool_manager_new_skips_wasm :: bool where
  "test_pool_manager_new_skips_wasm \<longleftrightarrow>
     pm_pools (pool_manager_new [make_config ''wasm'' ''test.wasm'' 1 5 10]) = []"

definition test_pool_manager_new_skips_unknown_provider :: bool where
  "test_pool_manager_new_skips_unknown_provider \<longleftrightarrow>
     pm_pools (pool_manager_new [make_config ''kubernetes'' ''img'' 1 5 10]) = []"

definition test_pool_manager_new_creates_docker_pool :: bool where
  "test_pool_manager_new_creates_docker_pool \<longleftrightarrow>
     (let pm = pool_manager_new [make_config ''docker'' ''python:3.12-slim'' 2 5 10]
      in length (pm_pools pm) = 1 \<and> hm_get (pm_pools pm) python_key \<noteq> None)"

definition test_try_acquire_bypass_wasm :: "'w backends \<Rightarrow> 'w \<Rightarrow> bool" where
  "test_try_acquire_bypass_wasm be w \<longleftrightarrow>
     fst (try_acquire be (sandbox_config_default\<lparr>sc_provider := ''wasm'', sc_image := ''test.wasm''\<rparr>)
            (pool_manager_new []) w) = None"

definition test_try_acquire_bypass_non_default_network :: "'w backends \<Rightarrow> 'w \<Rightarrow> bool" where
  "test_try_acquire_bypass_non_default_network be w \<longleftrightarrow>
     fst (try_acquire be (python_sandbox\<lparr>sc_network := True\<rparr>) python_pool w) = None"

definition test_try_acquire_bypass_non_default_writable :: "'w backends \<Rightarrow> 'w \<Rightarrow> bool" where
  "test_try_acquire_bypass_non_default_writable be w \<longleftrightarrow>
     fst (try_acquire be (python_sandbox\<lparr>sc_writable := True\<rparr>) python_pool w) = None"

definition test_try_acquire_bypass_with_memory :: "'w backends \<Rightarrow> 'w \<Rightarrow> bool" where
  "test_try_acquire_bypass_with_memory be w \<longleftrightarrow>
     fst (try_acquire be (python_sandbox\<lparr>sc_memory := Some ''512m''\<rparr>) python_pool w) = None"

definition test_try_acquire_no_pool_configured :: "'w backends \<Rightarrow> 'w \<Rightarrow> bool" where
  "test_try_acquire_no_pool_configured be w \<longleftrightarrow> fst (try_acquire be python_sandbox (pool_manager_new []) w) = None"

definition test_try_acquire_pool_hit :: "'w backends \<Rightarrow> nat \<Rightarrow> 'w \<Rightarrow> bool" where
  "test_try_acquire_pool_hit be now w \<longleftrightarrow>
     unwraps_some (inject python_key
         (\<lambda>pool. pool\<lparr>sp_idle := sp_idle pool @ [\<lparr>is_id = ''test-sandbox-id'', is_created_at = now\<rparr>]\<rparr>) python_pool)
       (\<lambda>pm. case try_acquire be python_sandbox pm w of
          (result, pm', _) \<Rightarrow> result = Some ''test-sandbox-id''
            \<and> unwraps_some (hm_get (pm_pools pm') python_key)
                (\<lambda>pool. sp_idle pool = [] \<and> ''test-sandbox-id'' \<in> set (sp_active pool)))"

definition test_try_acquire_bypass_at_capacity :: "'w backends \<Rightarrow> 'w \<Rightarrow> bool" where
  "test_try_acquire_bypass_at_capacity be w \<longleftrightarrow>
     unwraps_some (inject python_key
         (\<lambda>pool. pool\<lparr>sp_active := hs_insert ''sb-2'' (hs_insert ''sb-1'' (sp_active pool))\<rparr>)
         (pool_manager_new [make_config ''docker'' ''python:3.12-slim'' 0 5 2]))
       (\<lambda>pm. fst (try_acquire be python_sandbox pm w) = None)"

definition test_on_destroy_removes_from_active :: bool where
  "test_on_destroy_removes_from_active \<longleftrightarrow>
     unwraps_some (inject python_key (\<lambda>pool. pool\<lparr>sp_active := hs_insert ''sb-1'' (sp_active pool)\<rparr>) python_pool)
       (\<lambda>pm. unwraps_some (hm_get (pm_pools (on_destroy ''sb-1'' pm)) python_key)
          (\<lambda>pool. ''sb-1'' \<notin> set (sp_active pool)))"

definition test_pool_status :: "nat \<Rightarrow> bool" where
  "test_pool_status now \<longleftrightarrow>
     unwraps_some (inject python_key (\<lambda>pool. pool\<lparr>sp_active := hs_insert ''sb-1'' (sp_active pool),
         sp_idle := sp_idle pool @ [\<lparr>is_id = ''sb-2'', is_created_at = now\<rparr>]\<rparr>) python_pool)
       (\<lambda>pm. let statuses = pool_statuses pm
             in length statuses = 1 \<and> ps_idle_count (statuses ! 0) = 1 \<and> ps_active_count (statuses ! 0) = 1
                \<and> ps_max_idle (statuses ! 0) = 5 \<and> ps_max_total (statuses ! 0) = 10)"

lemma pool_tests:
  "test_pool_manager_new_skips_wasm" "test_pool_manager_new_skips_unknown_provider"
  "test_pool_manager_new_creates_docker_pool" "test_try_acquire_bypass_wasm be w"
  "test_try_acquire_bypass_non_default_network be w" "test_try_acquire_bypass_non_default_writable be w"
  "test_try_acquire_bypass_with_memory be w" "test_try_acquire_no_pool_configured be w"
  "test_try_acquire_pool_hit be now w" "test_try_acquire_bypass_at_capacity be w"
  "test_on_destroy_removes_from_active" "test_pool_status now"
  by code_simp+

subsection \<open>The service\<close>

definition test_provider_error_to_status_mapping :: bool where
  "test_provider_error_to_status_mapping \<longleftrightarrow>
     list_all (\<lambda>(err, expected_code). fst (provider_error_to_status err) = expected_code)
       [(NotFound ''x'', Code_NotFound), (CreateFailed ''x'', Code_Internal), (ExecFailed ''x'', Code_Internal),
        (Unavailable ''x'', Code_Unavailable), (Timeout 30, Code_DeadlineExceeded), (Unsupported ''x'', Code_Unimplemented),
        (FileFailed ''x'', Code_Internal), (PausedErr ''x'', Code_FailedPrecondition)]"

definition test_sandbox_status_to_proto :: bool where
  "test_sandbox_status_to_proto \<longleftrightarrow>
     sandbox_status_to_proto Running = 1 \<and> sandbox_status_to_proto Paused = 2
     \<and> sandbox_status_to_proto Stopped = 3 \<and> sandbox_status_to_proto Failed = 4"

definition test_default_timeout :: bool where
  "test_default_timeout \<longleftrightarrow> server_default_timeout 0 = 300 \<and> server_default_timeout 60 = 60"

definition test_default_provider :: bool where
  "test_default_provider \<longleftrightarrow>
     default_provider [] = ''docker'' \<and> default_provider ''firecracker'' = ''firecracker''
     \<and> default_provider ''docker'' = ''docker''"

definition test_session_error_to_status :: bool where
  "test_session_error_to_status \<longleftrightarrow>
     list_all (\<lambda>(err, expected_code). fst (session_error_to_status err) = expected_code)
       [(SessionNotFound ''x'', Code_NotFound), (BudgetExceeded ''x'', Code_ResourceExhausted),
        (PermissionDenied ''x'', Code_PermissionDenied)]"

definition test_resolve_provider_explicit :: "(string \<Rightarrow> bool) \<Rightarrow> bool" where
  "test_resolve_provider_explicit ua \<longleftrightarrow> resolve_provider ua ''wasm'' [''python'', ''-c'', ''print(1)''] = ''wasm''"

definition test_resolve_provider_intent_pure_compute :: "(string \<Rightarrow> bool) \<Rightarrow> bool" where
  "test_resolve_provider_intent_pure_compute ua \<longleftrightarrow>
     resolve_provider ua [] [''python'', ''-c'', ''print(2+2)''] = ''wasm''"

definition test_resolve_provider_intent_network :: "(string \<Rightarrow> bool) \<Rightarrow> bool" where
  "test_resolve_provider_intent_network ua \<longleftrightarrow>
     resolve_provider ua [] [''python'', ''-c'',
       ''import requests; requests.get('' @ quote ''https://api.openai.com'' @ '')''] = ''docker''"

definition test_resolve_provider_fallback :: "(string \<Rightarrow> bool) \<Rightarrow> bool" where
  "test_resolve_provider_fallback ua \<longleftrightarrow> resolve_provider ua [] [''ls'', ''-la''] = ''docker''"

declare f64_round_def [code del]

lemma server_tests:
  "test_provider_error_to_status_mapping" "test_sandbox_status_to_proto" "test_default_timeout" "test_default_provider"
  "test_session_error_to_status" "test_resolve_provider_explicit ua" "test_resolve_provider_intent_pure_compute ua"
  "test_resolve_provider_intent_network ua" "test_resolve_provider_fallback ua"
  by code_simp+

declare f64_round_def [code]

end
