(* ===== verification/Unit_Providers.thy ===== *)
theory Unit_Providers
  imports Docker K8s
begin

text \<open>
  The unit tests of \<open>provider/docker.rs\<close> and \<open>provider/k8s.rs\<close>, read as statements on the model: every
  \<open>assert!\<close> is a conjunct. The clock is an argument.
\<close>

subsection \<open>Docker\<close>

text \<open>The arguments that follow the occurrences of a flag, in order.\<close>

fun args_after :: "string \<Rightarrow> string list \<Rightarrow> string list" where
  "args_after flag (a # b # args) = (if a = flag then [b] else []) @ args_after flag (b # args)"
| "args_after flag args = []"

definition first_arg_after :: "string \<Rightarrow> string list \<Rightarrow> string option" where
  "first_arg_after flag args = (case args_after flag args of [] \<Rightarrow> None | a # _ \<Rightarrow> Some a)"

definition test_build_create_args_defaults :: "u64 \<Rightarrow> string option \<Rightarrow> bool" where
  "test_build_create_args_defaults now seccomp \<longleftrightarrow>
     (let args = build_create_args now seccomp sandbox_config_default
      in ''--network'' \<in> set args \<and> ''none'' \<in> set args \<and> ''--read-only'' \<in> set args \<and> ''--pids-limit'' \<in> set args
         \<and> first_arg_after ''--label'' args = Some ''roche.managed=true''
         \<and> ''python:3.12-slim'' \<in> set args \<and> ''--memory'' \<notin> set args \<and> ''--cpus'' \<notin> set args)"

definition test_build_create_args_with_network_and_writable :: "u64 \<Rightarrow> string option \<Rightarrow> bool" where
  "test_build_create_args_with_network_and_writable now seccomp \<longleftrightarrow>
     (let args = build_create_args now seccomp (sandbox_config_default\<lparr>sc_network := True, sc_writable := True,
            sc_memory := Some ''512m'', sc_cpus := Some (F_fin (3 / 2))\<rparr>)
      in ''none'' \<notin> set (args_after ''--network'' args) \<and> ''--read-only'' \<notin> set args \<and> ''--memory'' \<in> set args
         \<and> ''512m'' \<in> set args \<and> ''--cpus'' \<in> set args \<and> ''1.5'' \<in> set args)"

definition test_parse_status :: bool where
  "test_parse_status \<longleftrightarrow>
     parse_status ''running'' = Running \<and> parse_status ''exited'' = Stopped \<and> parse_status ''created'' = Stopped
     \<and> parse_status ''dead'' = Failed \<and> parse_status ''anything_else'' = Failed"

definition test_parse_status_paused :: bool where
  "test_parse_status_paused \<longleftrightarrow> parse_status ''paused'' = Paused"

definition test_build_exec_args :: bool where
  "test_build_exec_args \<longleftrightarrow>
     (let args = build_exec_args ''abc123def456''
            \<lparr>er_command = [''python3'', ''-c'', ''print('' @ [CHR 0x27] @ ''hi'' @ [CHR 0x27] @ '')''],
             er_timeout_secs = None, er_idempotency_key = None\<rparr>
      in args ! 0 = ''exec'' \<and> args ! 1 = ''abc123def456'' \<and> args ! 2 = ''python3'' \<and> args ! 3 = ''-c''
         \<and> args ! 4 = ''print('' @ [CHR 0x27] @ ''hi'' @ [CHR 0x27] @ '')'')"

definition test_build_create_args_with_mounts :: "u64 \<Rightarrow> string option \<Rightarrow> bool" where
  "test_build_create_args_with_mounts now seccomp \<longleftrightarrow>
     args_after ''-v'' (build_create_args now seccomp (sandbox_config_default\<lparr>sc_mounts :=
         [\<lparr>mc_host_path = ''/host/data'', mc_container_path = ''/sandbox/data'', mc_readonly = True\<rparr>,
          \<lparr>mc_host_path = ''/host/out'', mc_container_path = ''/sandbox/out'', mc_readonly = False\<rparr>]\<rparr>))
     = [''/host/data:/sandbox/data:ro'', ''/host/out:/sandbox/out:rw'']"

definition test_build_create_args_has_expires_label :: "u64 \<Rightarrow> string option \<Rightarrow> u64 \<Rightarrow> bool" where
  "test_build_create_args_has_expires_label t seccomp now \<longleftrightarrow>
     (let args = build_create_args t seccomp sandbox_config_default
      in unwraps_some (find (starts_with ''roche.expires='') (args_after ''--label'' args)) (\<lambda>expires_label.
         unwraps_some (strip_prefix ''roche.expires='' expires_label) (\<lambda>text.
         unwraps_some (parse_u64 text) (\<lambda>value. now + 295 \<le> value \<and> value \<le> now + 305))))"

definition test_build_create_args_no_expiry_when_timeout_zero :: "u64 \<Rightarrow> string option \<Rightarrow> bool" where
  "test_build_create_args_no_expiry_when_timeout_zero now seccomp \<longleftrightarrow>
     (let args = build_create_args now seccomp (sandbox_config_default\<lparr>sc_timeout_secs := 0\<rparr>)
      in ''roche.managed=true'' \<in> set args \<and> \<not> list_ex (starts_with ''roche.expires='') args)"

definition test_build_create_args_has_expiry_when_timeout_nonzero :: "u64 \<Rightarrow> string option \<Rightarrow> bool" where
  "test_build_create_args_has_expiry_when_timeout_nonzero now seccomp \<longleftrightarrow>
     list_ex (starts_with ''roche.expires='')
       (build_create_args now seccomp (sandbox_config_default\<lparr>sc_timeout_secs := 300\<rparr>))"

definition test_build_create_args_with_env :: "u64 \<Rightarrow> string option \<Rightarrow> bool" where
  "test_build_create_args_with_env now seccomp \<longleftrightarrow>
     (let config = sandbox_config_default\<lparr>sc_env := hm_insert ''FOO'' ''bar'' (sc_env sandbox_config_default)\<rparr>
      in first_arg_after ''-e'' (build_create_args now seccomp config) = Some ''FOO=bar'')"

lemmas build_args_defs = build_create_args_def sandbox_config_default_def default_timeout_def default_image_def default_true_def
  first_arg_after_def env_args_def mount_args_def mount_value_def starts_with_def strip_prefix_def Let_def

lemma display_1_5: "shortest_decimal (3 / 2) = Some (15, -1)" "show_decimal (15, -1) = ''1.5''"
proof -
  have round: "f64_round (3 / 2) = F_fin (3 / 2)"
    by (rule f64_roundI[where e = "-52" and m = 6755399441055744]; simp add: pow2_def)
  have floor: "\<lfloor>3 / 2 :: rat\<rfloor> = 1"
    by (rule floor_unique) simp_all
  have "[1..<18] = 1 # 2 # [3..<18]"
    by (simp add: upt_rec)
  moreover have "decimal_candidates (3 / 2) 1 = [(2, 0), (1, 0), (3, 0)]"
    "decimal_candidates (3 / 2) 2 = [(15, -1), (14, -1), (16, -1)]"
    using round_even_of_int[of 15] by (simp_all add: decimal_candidates_def decimal_exp_def floor round_even_def pow10_def show_nat_def show_radix.simps Let_def)
  ultimately show "shortest_decimal (3 / 2) = Some (15, -1)"
    by (simp add: shortest_decimal_def pow10_def f64_round_numeral round)
  show "show_decimal (15, -1) = ''1.5''"
    by (simp add: show_decimal_def show_nat_def show_radix.simps digit_char_def char_of_def bit_0)
qed

lemma docker_tests:
  "test_build_create_args_defaults now seccomp" "test_build_create_args_with_network_and_writable now seccomp"
  "test_parse_status" "test_parse_status_paused" "test_build_exec_args"
  "test_build_create_args_with_mounts now seccomp"
  "test_build_create_args_no_expiry_when_timeout_zero now seccomp"
  "test_build_create_args_has_expiry_when_timeout_nonzero now seccomp" "test_build_create_args_with_env now seccomp"
  by (simp_all add: test_build_create_args_defaults_def test_build_create_args_with_network_and_writable_def
      test_parse_status_def test_parse_status_paused_def test_build_exec_args_def test_build_create_args_with_mounts_def
      test_build_create_args_no_expiry_when_timeout_zero_def test_build_create_args_has_expiry_when_timeout_nonzero_def
      test_build_create_args_with_env_def build_args_defs display_1_5 parse_status_def build_exec_args_def
      split: option.split)

text \<open>The label is checked against a clock read up to five seconds later.\<close>

lemma docker_expiry_test:
  assumes "t \<le> now" "now \<le> t + 5" "unat now + 305 < 2 ^ 64"
  shows "test_build_create_args_has_expires_label t seccomp now"
proof -
  have t: "unat (t + 5) = unat t + 5" "unat (t + 300) = unat t + 300"
    using assms(1,3) by (simp_all add: word_le_nat_alt unat_word_ariths)
  have n: "unat (now + 295) = unat now + 295" "unat (now + 305) = unat now + 305"
    using assms(3) by (simp_all add: unat_word_ariths)
  have "now + 295 \<le> t + 300" "t + 300 \<le> now + 305"
    using assms(1,2) t n by (simp_all add: word_le_nat_alt)
  then show ?thesis
    by (simp add: test_build_create_args_has_expires_label_def build_args_defs split: option.split)
qed

subsection \<open>Kubernetes\<close>

text \<open>No namespace in the environment, and no service account file.\<close>

definition test_resolve_namespace_default :: bool where
  "test_resolve_namespace_default \<longleftrightarrow> resolve_namespace None None = default_namespace"

definition test_resolve_namespace_from_env :: "string option \<Rightarrow> bool" where
  "test_resolve_namespace_from_env file \<longleftrightarrow> resolve_namespace (Some ''custom-ns'') file = ''custom-ns''"

definition test_build_pod_default_config :: "u64 \<Rightarrow> bool" where
  "test_build_pod_default_config now \<longleftrightarrow>
     (let p = build_pod now ''test-pod'' ''roche-sandboxes'' sandbox_config_default
      in hm_get (pod_labels p) ''roche.managed'' = Some ''true''
         \<and> hm_get (pod_labels p) ''roche.image'' = Some (sc_image sandbox_config_default)
         \<and> hm_get (pod_labels p) ''roche.sandbox'' = Some ''test-pod''
         \<and> pod_read_only_root p = Some True \<and> pod_privilege_escalation p = Some False
         \<and> pod_non_root p = Some True \<and> pod_user p = Some 1000
         \<and> length (pod_volumes p) = 1 \<and> fst (pod_volumes p ! 0) = ''tmp'' \<and> snd (pod_mounts p ! 0) = ''/tmp''
         \<and> pod_command p = [''sleep'', ''infinity''])"

definition test_build_pod_with_resources_and_env :: "u64 \<Rightarrow> bool" where
  "test_build_pod_with_resources_and_env now \<longleftrightarrow>
     (let p = build_pod now ''res-pod'' ''roche-sandboxes'' (sandbox_config_default\<lparr>sc_memory := Some ''256Mi'',
            sc_cpus := Some (F_fin (3 / 2)), sc_writable := True, sc_env := [(''FOO'', ''bar'')]\<rparr>)
      in hm_get (pod_limits p) ''memory'' = Some ''256Mi'' \<and> hm_get (pod_limits p) ''cpu'' = Some ''1500m''
         \<and> list_ex (\<lambda>e. fst e = ''FOO'' \<and> snd e = ''bar'') (pod_env p)
         \<and> pod_read_only_root p = None \<and> pod_volumes p = [])"

definition test_build_pod_with_timeout :: "u64 \<Rightarrow> bool" where
  "test_build_pod_with_timeout now \<longleftrightarrow>
     (let p = build_pod now ''timeout-pod'' ''roche-sandboxes'' (sandbox_config_default\<lparr>sc_timeout_secs := 600\<rparr>)
      in pod_deadline p = Some 600 \<and> hm_get (pod_annotations p) ''roche.expires'' \<noteq> None)"

definition test_build_pod_no_timeout :: "u64 \<Rightarrow> bool" where
  "test_build_pod_no_timeout now \<longleftrightarrow>
     (let p = build_pod now ''no-timeout-pod'' ''roche-sandboxes'' (sandbox_config_default\<lparr>sc_timeout_secs := 0\<rparr>)
      in pod_deadline p = None \<and> pod_annotations p = [])"

definition test_build_network_policy :: bool where
  "test_build_network_policy \<longleftrightarrow>
     (let np = build_deny_all_network_policy ''my-pod'' ''roche-sandboxes''
      in np_name np = ''roche-deny-my-pod'' \<and> np_namespace np = ''roche-sandboxes''
         \<and> hm_get (np_match_labels np) ''roche.sandbox'' = Some ''my-pod''
         \<and> np_types np = [''Ingress'', ''Egress''] \<and> np_ingress np = None \<and> np_egress np = None)"

definition test_pod_phase_to_status :: bool where
  "test_pod_phase_to_status \<longleftrightarrow>
     pod_phase_to_status (Some ''Running'') = Running \<and> pod_phase_to_status (Some ''Pending'') = Running
     \<and> pod_phase_to_status (Some ''Succeeded'') = Stopped \<and> pod_phase_to_status (Some ''Failed'') = Failed
     \<and> pod_phase_to_status None = Stopped"

definition test_parse_exit_code :: bool where
  "test_parse_exit_code \<longleftrightarrow>
     parse_exit_sentinel (''hello'' @ [CHR 0x0A] @ ''ROCHE_EXIT:0'' @ [CHR 0x0A]) = (0, ''hello'' @ [CHR 0x0A])"

definition test_parse_exit_code_nonzero :: bool where
  "test_parse_exit_code_nonzero \<longleftrightarrow>
     parse_exit_sentinel (''error'' @ [CHR 0x0A] @ ''ROCHE_EXIT:127'' @ [CHR 0x0A]) = (127, ''error'' @ [CHR 0x0A])"

definition test_parse_exit_code_missing :: bool where
  "test_parse_exit_code_missing \<longleftrightarrow>
     parse_exit_sentinel (''no sentinel'' @ [CHR 0x0A]) = (-1, ''no sentinel'' @ [CHR 0x0A])"

definition test_shell_escape :: "(string \<Rightarrow> bool) \<Rightarrow> bool" where
  "test_shell_escape ua \<longleftrightarrow>
     shell_escape ua ''hello'' = ''hello''
     \<and> shell_escape ua ''hello world'' = [CHR 0x27] @ ''hello world'' @ [CHR 0x27]
     \<and> shell_escape ua (''it'' @ [CHR 0x27] @ ''s'')
       = [CHR 0x27] @ ''it'' @ [CHR 0x27, CHR 0x5C, CHR 0x27, CHR 0x27] @ ''s'' @ [CHR 0x27]
     \<and> shell_escape ua ''/usr/bin/python3'' = ''/usr/bin/python3''"

lemma trim_exit_codes: "trim (''0'' @ [CHR 0x0A]) = ''0''" "trim (''127'' @ [CHR 0x0A]) = ''127''"
  by code_simp+

lemma millicores_1_5: "millicores (F_fin (3 / 2)) = ''1500m''"
  by (simp add: millicores_def f64_round_numeral f64_to_u32_def trunc_rat_def show_u32_def show_nat_def
      show_radix.simps digit_char_def char_of_def bit_0)

lemma exit_code_tests: "test_parse_exit_code" "test_parse_exit_code_nonzero" "test_parse_exit_code_missing"
  using trim_exit_codes
  by (simp_all add: test_parse_exit_code_def test_parse_exit_code_nonzero_def test_parse_exit_code_missing_def
      parse_exit_sentinel_def exit_sentinel_def starts_with_def parse_i32_def parse_unsigned_def parse_digits_def ascii_digit_def strip_char_def)

lemma k8s_tests:
  "test_resolve_namespace_default" "test_resolve_namespace_from_env file" "test_build_pod_default_config now"
  "test_build_pod_with_timeout now" "test_build_pod_no_timeout now" "test_build_network_policy"
  "test_pod_phase_to_status" "test_build_pod_with_resources_and_env now"
  by (simp_all add: test_resolve_namespace_default_def test_resolve_namespace_from_env_def resolve_namespace_def
      test_build_pod_default_config_def test_build_pod_with_timeout_def test_build_pod_no_timeout_def
      test_build_pod_with_resources_and_env_def build_pod_def sandbox_config_default_def default_timeout_def
      test_build_network_policy_def build_deny_all_network_policy_def deny_policy_name_def
      test_pod_phase_to_status_def pod_phase_to_status_def millicores_1_5)

lemma shell_escape_tests: "test_shell_escape ua"
  by code_simp

end
