(* ===== verification/Unit_State.thy ===== *)
theory Unit_State
  imports Wasm Firecracker
begin

text \<open>
  The unit tests of the providers that keep their own state: \<open>provider/wasm\<close> and
  \<open>provider/firecracker\<close>. The module of a sandbox, the clock and the environment are arguments; a test
  on a fresh temporary directory starts from a file system that holds only that directory. The order
  of a listing that a test sorts is left open. The test that runs a module in wasmtime, the one of
  the platform and the one of the socket path alone are left out.
\<close>

subsection \<open>The registry of WASM sandboxes\<close>

definition make_sandbox :: "'m \<Rightarrow> string \<Rightarrow> u64 option \<Rightarrow> 'm wasm_sandbox" where
  "make_sandbox m i expires =
     \<lparr>ws_id = i, ws_module = m,
      ws_config = sandbox_config_default\<lparr>sc_provider := ''wasm'', sc_image := i @ ''.wasm''\<rparr>,
      ws_created_at = 1000000, ws_expires_at = expires\<rparr>"

definition test_insert_and_get_module_and_config :: "'m \<Rightarrow> bool" where
  "test_insert_and_get_module_and_config m \<longleftrightarrow>
     unwraps_some (get_module_and_config ''sb-1'' (registry_insert (make_sandbox m ''sb-1'' None) []))
       (\<lambda>(_, config). sc_provider config = ''wasm'' \<and> sc_image config = ''sb-1.wasm'')"

definition test_get_nonexistent_returns_none :: "'m itself \<Rightarrow> bool" where
  "test_get_nonexistent_returns_none t \<longleftrightarrow>
     get_module_and_config ''no-such-id'' ([] :: 'm sandbox_registry) = None"

definition test_remove_existing :: "'m \<Rightarrow> bool" where
  "test_remove_existing m \<longleftrightarrow>
     (case registry_remove ''sb-rm'' (registry_insert (make_sandbox m ''sb-rm'' None) []) of
        (removed, reg) \<Rightarrow> removed \<and> \<not> registry_contains ''sb-rm'' reg)"

definition test_remove_nonexistent_returns_false :: "'m itself \<Rightarrow> bool" where
  "test_remove_nonexistent_returns_false t \<longleftrightarrow> \<not> fst (registry_remove ''ghost'' ([] :: 'm sandbox_registry))"

definition test_registry_list_empty :: "'m itself \<Rightarrow> bool" where
  "test_registry_list_empty t \<longleftrightarrow> registry_list ([] :: 'm sandbox_registry) = []"

definition test_list_populated :: "'m \<Rightarrow> bool" where
  "test_list_populated m \<longleftrightarrow>
     (let reg = registry_insert (make_sandbox m ''b'' (Some 9999999999)) (registry_insert (make_sandbox m ''a'' None) []);
          infos = registry_list reg
      in length infos = 2
         \<and> unwraps_some (find (\<lambda>x. si_id x = ''a'') infos) (\<lambda>x. si_status x = Running \<and> si_provider x = ''wasm''
             \<and> si_image x = ''a.wasm'' \<and> si_expires_at x = None)
         \<and> unwraps_some (find (\<lambda>x. si_id x = ''b'') infos) (\<lambda>x. si_expires_at x = Some 9999999999))"

definition test_gc_removes_expired :: "u64 \<Rightarrow> 'm \<Rightarrow> bool" where
  "test_gc_removes_expired now m \<longleftrightarrow>
     (let reg = fold registry_insert [make_sandbox m ''old-1'' (Some 0), make_sandbox m ''old-2'' (Some 1),
            make_sandbox m ''fresh'' (Some 9999999999), make_sandbox m ''forever'' None] [];
          (removed, reg) = registry_gc now reg
      in length removed = 2 \<and> set removed = {''old-1'', ''old-2''}
         \<and> \<not> registry_contains ''old-1'' reg \<and> \<not> registry_contains ''old-2'' reg
         \<and> registry_contains ''fresh'' reg \<and> registry_contains ''forever'' reg)"

definition test_gc_empty_registry :: "u64 \<Rightarrow> 'm itself \<Rightarrow> bool" where
  "test_gc_empty_registry now t \<longleftrightarrow> fst (registry_gc now ([] :: 'm sandbox_registry)) = []"

definition test_gc_nothing_expired :: "u64 \<Rightarrow> 'm \<Rightarrow> bool" where
  "test_gc_nothing_expired now m \<longleftrightarrow>
     (let reg = registry_insert (make_sandbox m ''eternal'' None)
            (registry_insert (make_sandbox m ''alive'' (Some 9999999999)) [])
      in fst (registry_gc now reg) = [] \<and> length (registry_list (snd (registry_gc now reg))) = 2)"

definition test_contains_present :: "'m \<Rightarrow> bool" where
  "test_contains_present m \<longleftrightarrow>
     registry_contains ''exists'' (registry_insert (make_sandbox m ''exists'' None) [])"

definition test_contains_absent :: "'m itself \<Rightarrow> bool" where
  "test_contains_absent t \<longleftrightarrow> \<not> registry_contains ''nope'' ([] :: 'm sandbox_registry)"

definition test_insert_overwrites_existing :: "'m \<Rightarrow> bool" where
  "test_insert_overwrites_existing m \<longleftrightarrow>
     (let infos = registry_list (registry_insert (make_sandbox m ''dup'' (Some 200))
            (registry_insert (make_sandbox m ''dup'' (Some 100)) []))
      in length infos = 1 \<and> si_expires_at (infos ! 0) = Some 200)"

lemmas registry_defs = registry_insert_def get_module_and_config_def registry_remove_def registry_list_def
  registry_contains_def registry_gc_def make_sandbox_def sandbox_config_default_def wasm_expired_def

text \<open>The clock of the tests is between 1970 and 2286.\<close>

lemma registry_tests:
  "test_insert_and_get_module_and_config m" "test_get_nonexistent_returns_none t" "test_remove_existing m"
  "test_remove_nonexistent_returns_false t" "test_registry_list_empty t" "test_list_populated m"
  "1 \<le> now \<Longrightarrow> now < 9999999999 \<Longrightarrow> test_gc_removes_expired now m" "test_gc_empty_registry now t"
  "now < 9999999999 \<Longrightarrow> test_gc_nothing_expired now m" "test_contains_present m" "test_contains_absent t"
  "test_insert_overwrites_existing m"
  by (simp_all add: test_insert_and_get_module_and_config_def test_get_nonexistent_returns_none_def
      test_remove_existing_def test_remove_nonexistent_returns_false_def test_registry_list_empty_def
      test_list_populated_def test_gc_removes_expired_def test_gc_empty_registry_def test_gc_nothing_expired_def
      test_contains_present_def test_contains_absent_def test_insert_overwrites_existing_def registry_defs
      Let_def not_le del: set_filter)

subsection \<open>The WASM provider\<close>

definition request_for :: "string list \<Rightarrow> exec_request" where
  "request_for command = \<lparr>er_command = command, er_timeout_secs = None, er_idempotency_key = None\<rparr>"

definition test_compile_invalid_path_returns_create_failed :: "('m, 'h) wasmtime \<Rightarrow> engine \<Rightarrow> 'h \<Rightarrow> bool" where
  "test_compile_invalid_path_returns_create_failed rt e host \<longleftrightarrow>
     unwraps_err (wasm_compile rt e host ''/nonexistent/path/to/module.wasm'') (\<lambda>err.
       case err of CreateFailed msg \<Rightarrow> str_contains msg ''/nonexistent/path/to/module.wasm'' | _ \<Rightarrow> False)"

definition test_create_invalid_module_path :: "('m, 'h) wasmtime \<Rightarrow> ('m, 'h) wasm_world \<Rightarrow> bool" where
  "test_create_invalid_module_path rt w \<longleftrightarrow>
     unwraps_err (fst (wasm_create rt (sandbox_config_default\<lparr>sc_provider := ''wasm'', sc_image := ''/nonexistent/module.wasm''\<rparr>)
         (wasm_provider_new w)))
       (\<lambda>err. case err of CreateFailed _ \<Rightarrow> True | _ \<Rightarrow> False)"

definition test_exec_not_found :: "('m, 'h) wasmtime \<Rightarrow> ('m, 'h) wasm_world \<Rightarrow> bool" where
  "test_exec_not_found rt w \<longleftrightarrow>
     unwraps_err (fst (wasm_exec rt ''no-such-id'' (request_for [''test'']) (wasm_provider_new w)))
       (\<lambda>err. case err of NotFound _ \<Rightarrow> True | _ \<Rightarrow> False)"

definition test_wasm_destroy_not_found :: "('m, 'h) wasm_world \<Rightarrow> bool" where
  "test_wasm_destroy_not_found w \<longleftrightarrow>
     unwraps_err (fst (wasm_destroy ''ghost'' (wasm_provider_new w)))
       (\<lambda>err. case err of NotFound _ \<Rightarrow> True | _ \<Rightarrow> False)"

definition test_wasm_list_empty :: "('m, 'h) wasm_world \<Rightarrow> bool" where
  "test_wasm_list_empty w \<longleftrightarrow> unwraps (fst (wasm_list (wasm_provider_new w))) (\<lambda>list. list = [])"

definition test_pause_unsupported :: "('m, 'h) wasm_world \<Rightarrow> bool" where
  "test_pause_unsupported w \<longleftrightarrow>
     unwraps_err (fst (wasm_pause ''any'' w)) (\<lambda>err. case err of Unsupported _ \<Rightarrow> True | _ \<Rightarrow> False)"

definition test_unpause_unsupported :: "('m, 'h) wasm_world \<Rightarrow> bool" where
  "test_unpause_unsupported w \<longleftrightarrow>
     unwraps_err (fst (wasm_unpause ''any'' w)) (\<lambda>err. case err of Unsupported _ \<Rightarrow> True | _ \<Rightarrow> False)"

lemma compile_message:
  "str_contains (''failed to compile WASM module '' @ CHR 0x27 # ''/nonexistent/path/to/module.wasm'' @ rest)
     ''/nonexistent/path/to/module.wasm''"
  by code_simp

text \<open>The runtime is assumed to refuse a path that names no file.\<close>

lemma wasm_provider_tests:
  "wt_compile rt k host ''/nonexistent/path/to/module.wasm'' = Inl e \<Longrightarrow>
    test_compile_invalid_path_returns_create_failed rt k host"
  "wt_compile rt (ww_engines w) (ww_host w) ''/nonexistent/module.wasm'' = Inl e \<Longrightarrow> test_create_invalid_module_path rt w"
  "test_exec_not_found rt w" "test_wasm_destroy_not_found w" "test_wasm_list_empty w" "test_pause_unsupported w"
  "test_unpause_unsupported w"
proof -
  assume "wt_compile rt k host ''/nonexistent/path/to/module.wasm'' = Inl e"
  then show "test_compile_invalid_path_returns_create_failed rt k host"
    using compile_message[of "CHR 0x27 # '': '' @ e"]
    by (simp add: test_compile_invalid_path_returns_create_failed_def wasm_compile_def)
qed (simp_all add: test_create_invalid_module_path_def test_exec_not_found_def test_wasm_destroy_not_found_def
    test_wasm_list_empty_def test_pause_unsupported_def test_unpause_unsupported_def wasm_create_def wasm_compile_def
    validate_config_def config_violations_def wasm_capabilities_def sandbox_config_default_def wasm_exec_def
    get_module_and_config_def wasm_provider_new_def wasm_destroy_def registry_remove_def wasm_list_def registry_list_def wasm_pause_def
    wasm_unpause_def)

subsection \<open>The state directory of Firecracker\<close>

definition temp_world :: "unit fc_world" where
  "temp_world = \<lparr>fw_fs = \<lparr>fs_files = [], fs_dirs = [''/tmp'', ''/tmp/t''], fs_fault = (\<lambda>_. None), fs_calls = 0\<rparr>,
     fw_procs = [], fw_rest = ()\<rparr>"

abbreviation temp_dir :: string where
  "temp_dir \<equiv> ''/tmp/t''"

definition test_create_and_remove_vm_dir :: bool where
  "test_create_and_remove_vm_dir \<longleftrightarrow>
     (let (r1, w1) = create_vm_dir temp_dir ''test-vm-1'' temp_world;
          (r2, w2) = remove_vm_dir temp_dir ''test-vm-1'' w1
      in is_ok r1 \<and> fs_exists (vm_dir temp_dir ''test-vm-1'') (fw_fs w1)
         \<and> is_ok r2 \<and> \<not> fs_exists (vm_dir temp_dir ''test-vm-1'') (fw_fs w2))"

definition test_remove_nonexistent_vm_dir_is_ok :: bool where
  "test_remove_nonexistent_vm_dir_is_ok \<longleftrightarrow> is_ok (fst (remove_vm_dir temp_dir ''does-not-exist'' temp_world))"

definition sample_metadata :: vm_metadata where
  "sample_metadata =
     \<lparr>vm_id = ''vm-meta'', vm_provider = ''firecracker'', vm_image = ''custom'', vm_pid = 12345, vm_cid = 3,
      vm_kernel = ''/boot/vmlinux'', vm_expires_at = Some 9999999999, vm_created_at = 1000000000\<rparr>"

definition test_write_and_read_metadata :: "unit fc_env \<Rightarrow> bool" where
  "test_write_and_read_metadata env \<longleftrightarrow>
     (let (r1, w1) = create_vm_dir temp_dir ''vm-meta'' temp_world;
          (r2, w2) = write_metadata env temp_dir sample_metadata w1;
          (r3, w3) = read_metadata env temp_dir ''vm-meta'' w2
      in is_ok r1 \<and> is_ok r2
         \<and> unwraps r3 (\<lambda>read_back. vm_id read_back = ''vm-meta'' \<and> vm_pid read_back = 12345 \<and> vm_cid read_back = 3))"

definition test_read_metadata_not_found :: "unit fc_env \<Rightarrow> bool" where
  "test_read_metadata_not_found env \<longleftrightarrow> \<not> is_ok (fst (read_metadata env temp_dir ''no-such-vm'' temp_world))"

definition test_copy_rootfs :: bool where
  "test_copy_rootfs \<longleftrightarrow>
     (let (r1, w1) = create_vm_dir temp_dir ''vm-rootfs'' temp_world;
          src_dir = path_join temp_dir ''source'';
          (r2, s2) = create_dir_all src_dir (fw_fs w1);
          src_file = path_join src_dir ''rootfs.ext4'';
          (r3, s3) = write_file src_file ''fake rootfs content'' s2;
          (r4, w4) = copy_rootfs temp_dir ''vm-rootfs'' src_file (w1\<lparr>fw_fs := s3\<rparr>);
          dest = rootfs_path temp_dir ''vm-rootfs''
      in is_ok r1 \<and> is_ok r2 \<and> is_ok r3 \<and> is_ok r4 \<and> fs_exists dest (fw_fs w4)
         \<and> fst (read_to_string dest (fw_fs w4)) = Inr ''fake rootfs content'')"

definition test_list_vm_ids_empty :: bool where
  "test_list_vm_ids_empty \<longleftrightarrow> unwraps (fst (list_vm_ids temp_dir temp_world)) (\<lambda>ids. ids = [])"

definition test_list_vm_ids :: bool where
  "test_list_vm_ids \<longleftrightarrow>
     (let (r1, w1) = create_vm_dir temp_dir ''vm-a'' temp_world;
          (r2, w2) = create_vm_dir temp_dir ''vm-b'' w1
      in is_ok r1 \<and> is_ok r2
         \<and> unwraps (fst (list_vm_ids temp_dir w2)) (\<lambda>ids. length ids = 2 \<and> set ids = {''vm-a'', ''vm-b''}))"

definition test_path_helpers :: bool where
  "test_path_helpers \<longleftrightarrow>
     socket_path temp_dir ''vm1'' = path_join (path_join temp_dir ''vm1'') ''firecracker.sock''
     \<and> rootfs_path temp_dir ''vm1'' = path_join (path_join temp_dir ''vm1'') ''rootfs.ext4''
     \<and> metadata_path temp_dir ''vm1'' = path_join (path_join temp_dir ''vm1'') ''metadata.json''"

lemma state_dir_tests:
  "test_create_and_remove_vm_dir" "test_remove_nonexistent_vm_dir_is_ok" "test_read_metadata_not_found env"
  "test_copy_rootfs" "test_list_vm_ids_empty" "test_list_vm_ids" "test_path_helpers"
  by code_simp+

lemma metadata_test:
  assumes "metadata_json_ok env"
  shows "test_write_and_read_metadata env"
proof -
  obtain t where "fe_meta_write env sample_metadata = Inr t" "fe_meta_read env t = Inr sample_metadata"
    using assms by (auto simp: metadata_json_ok_def)
  moreover have "path_chain ''/tmp/t/vm-meta'' = [''/tmp'', ''/tmp/t'', ''/tmp/t/vm-meta'']"
    by code_simp
  ultimately show ?thesis
    by (simp add: test_write_and_read_metadata_def write_metadata_def read_metadata_def create_vm_dir_def lift_fs_def
        create_dir_all_def write_file_def read_to_string_def fs_call_def temp_world_def sample_metadata_def
        metadata_path_def vm_dir_def path_join_def starts_with_def)
qed

subsection \<open>The Firecracker provider\<close>

definition test_parse_memory_mib :: bool where
  "test_parse_memory_mib \<longleftrightarrow>
     parse_memory_mib None = 128 \<and> parse_memory_mib (Some ''512m'') = 512 \<and> parse_memory_mib (Some ''2g'') = 2048
     \<and> parse_memory_mib (Some ''256'') = 256 \<and> parse_memory_mib (Some ''invalid'') = 128"

definition test_allocate_cid :: "nat \<Rightarrow> bool" where
  "test_allocate_cid ts \<longleftrightarrow> 3 \<le> allocate_cid ts"

definition test_validate_config_missing_kernel :: "fs \<Rightarrow> bool" where
  "test_validate_config_missing_kernel s \<longleftrightarrow>
     unwraps_err (fc_validate_config s (sandbox_config_default\<lparr>sc_provider := ''firecracker'', sc_rootfs := Some ''/tmp/rootfs.ext4''\<rparr>))
       (\<lambda>err. str_contains (provider_error_display err) ''--kernel'')"

definition test_validate_config_missing_rootfs :: "fs \<Rightarrow> bool" where
  "test_validate_config_missing_rootfs s \<longleftrightarrow>
     unwraps_err (fc_validate_config s (sandbox_config_default\<lparr>sc_provider := ''firecracker'', sc_kernel := Some ''/tmp/vmlinux''\<rparr>))
       (\<lambda>err. str_contains (provider_error_display err) ''--rootfs'')"

definition test_validate_config_nonexistent_kernel :: "fs \<Rightarrow> bool" where
  "test_validate_config_nonexistent_kernel s \<longleftrightarrow>
     unwraps_err (fc_validate_config s (sandbox_config_default\<lparr>sc_provider := ''firecracker'',
         sc_kernel := Some ''/nonexistent/vmlinux'', sc_rootfs := Some ''/nonexistent/rootfs.ext4''\<rparr>))
       (\<lambda>err. str_contains (provider_error_display err) ''kernel not found'')"

definition test_fc_list_empty :: "unit fc_env \<Rightarrow> bool" where
  "test_fc_list_empty env \<longleftrightarrow> unwraps (fst (fc_list env temp_dir temp_world)) (\<lambda>infos. infos = [])"

definition test_fc_destroy_not_found :: "unit fc_env \<Rightarrow> bool" where
  "test_fc_destroy_not_found env \<longleftrightarrow> \<not> is_ok (fst (fc_destroy env temp_dir ''nonexistent'' temp_world))"

lemma fc_provider_tests:
  "test_validate_config_missing_kernel s" "test_validate_config_missing_rootfs s" "test_fc_list_empty env"
  "test_fc_destroy_not_found env"
  by code_simp+

lemma missing_kernel_test:
  assumes "\<not> fs_exists ''/nonexistent/vmlinux'' s"
  shows "test_validate_config_nonexistent_kernel s"
  using assms by (simp add: test_validate_config_nonexistent_kernel_def fc_validate_config_def sandbox_config_default_def
      str_contains_def starts_with_def)

lemma memory_trims:
  "trim ''512m'' = ''512m''" "trim ''2g'' = ''2g''" "trim ''256'' = ''256''" "trim ''invalid'' = ''invalid''"
  by code_simp+

lemma memory_test: "test_parse_memory_mib"
  by (simp add: test_parse_memory_mib_def parse_memory_mib_def memory_trims to_ascii_lower_def ascii_lower_def
      strip_suffix_def parse_u64_def parse_unsigned_def parse_digits_def ascii_digit_def strip_char_def)

lemma cid_test: "test_allocate_cid ts"
  using allocate_cid_range[of ts] by (simp add: test_allocate_cid_def word_le_nat_alt)

end
