(* ===== verification/Unit_Clients.thy ===== *)
theory Unit_Clients
  imports Unit_Core E2b Cli
begin

text \<open>
  The unit tests of \<open>provider/e2b.rs\<close> and of the command line client. JSON and base64 are parameters of
  the model; what a test relies on of them are the hypotheses of its lemma. The test of the
  serialisation of a request is left out.
\<close>

subsection \<open>E2B\<close>

text \<open>Every test writes out the capabilities again; they are those of the tests of the configuration.\<close>

definition is_unsupported :: "provider_error \<Rightarrow> bool" where
  "is_unsupported err = (case err of Unsupported _ \<Rightarrow> True | _ \<Rightarrow> False)"

definition test_validate_config_defaults_rejected :: bool where
  "test_validate_config_defaults_rejected \<longleftrightarrow>
     unwraps_err (validate_config sandbox_config_default e2b_caps) is_unsupported"

definition test_validate_config_writable_ok :: bool where
  "test_validate_config_writable_ok \<longleftrightarrow>
     is_ok (validate_config (sandbox_config_default\<lparr>sc_writable := True\<rparr>) e2b_caps)"

definition test_validate_config_memory_rejected :: bool where
  "test_validate_config_memory_rejected \<longleftrightarrow>
     unwraps_err (validate_config (sandbox_config_default\<lparr>sc_writable := True, sc_memory := Some ''512m''\<rparr>) e2b_caps)
       is_unsupported"

definition test_validate_config_cpus_rejected :: bool where
  "test_validate_config_cpus_rejected \<longleftrightarrow>
     \<not> is_ok (validate_config (sandbox_config_default\<lparr>sc_writable := True, sc_cpus := Some (F_fin 2)\<rparr>) e2b_caps)"

definition test_validate_config_mounts_rejected :: bool where
  "test_validate_config_mounts_rejected \<longleftrightarrow>
     \<not> is_ok (validate_config (sandbox_config_default\<lparr>sc_writable := True,
       sc_mounts := [\<lparr>mc_host_path = ''/tmp'', mc_container_path = ''/data'', mc_readonly = True\<rparr>]\<rparr>) e2b_caps)"

definition test_envd_auth_header :: "'w e2b_env \<Rightarrow> bool" where
  "test_envd_auth_header env \<longleftrightarrow> envd_auth env ''test-token'' = ''Basic '' @ ee_b64_encode env ''test-token:''"

definition test_parse_process_stream_empty :: "'w e2b_env \<Rightarrow> bool" where
  "test_parse_process_stream_empty env \<longleftrightarrow>
     unwraps (parse_process_stream env []) (\<lambda>output. eo_exit_code output = -1 \<and> eo_stdout output = [])"

text \<open>The texts of the events, with \<open>q\<close> the double quote and the data in base64.\<close>

definition dq :: "string \<Rightarrow> string" where
  "dq s = CHR 0x22 # s @ [CHR 0x22]"

definition start_json :: string where
  "start_json = ''{'' @ dq ''start'' @ '':{'' @ dq ''pid'' @ '':42}}''"

definition data_json :: "string \<Rightarrow> string \<Rightarrow> string" where
  "data_json channel b64 = ''{'' @ dq ''data'' @ '':{'' @ dq channel @ '':'' @ dq b64 @ ''}}''"

definition end_json :: "string \<Rightarrow> string" where
  "end_json code = ''{'' @ dq ''end'' @ '':{'' @ dq ''exitCode'' @ '':'' @ code @ '','' @ dq ''exited'' @ '':true,''
     @ dq ''status'' @ '':'' @ dq ''exited'' @ ''}}''"

definition error_json :: string where
  "error_json = ''{'' @ dq ''error'' @ '':{'' @ dq ''message'' @ '':'' @ dq ''process killed'' @ ''}}''"

definition test_parse_process_stream_with_events :: "'w e2b_env \<Rightarrow> bool" where
  "test_parse_process_stream_with_events env \<longleftrightarrow>
     (let hello_b64 = ee_b64_encode env (''hello world'' @ [CHR 0x0A]);
          stream = envelope 0 start_json @ envelope 0 (data_json ''stdout'' hello_b64) @ envelope 0 (end_json ''0'')
            @ envelope 2 ''{}''
      in unwraps (parse_process_stream env stream) (\<lambda>output. eo_exit_code output = 0
           \<and> eo_stdout output = ''hello world'' @ [CHR 0x0A] \<and> eo_stderr output = []))"

definition test_parse_process_stream_with_stderr :: "'w e2b_env \<Rightarrow> bool" where
  "test_parse_process_stream_with_stderr env \<longleftrightarrow>
     (let err_b64 = ee_b64_encode env ''error occurred'';
          stream = envelope 0 (data_json ''stderr'' err_b64) @ envelope 0 (end_json ''1'')
      in unwraps (parse_process_stream env stream) (\<lambda>output. eo_exit_code output = 1
           \<and> eo_stdout output = [] \<and> eo_stderr output = ''error occurred''))"

definition test_parse_process_stream_error_trailer :: "'w e2b_env \<Rightarrow> bool" where
  "test_parse_process_stream_error_trailer env \<longleftrightarrow>
     unwraps_err (parse_process_stream env (envelope 2 error_json))
       (\<lambda>err. case err of ExecFailed _ \<Rightarrow> True | _ \<Rightarrow> False)"

lemma e2b_config_tests:
  "test_validate_config_defaults_rejected" "test_validate_config_writable_ok"
  "test_validate_config_memory_rejected" "test_validate_config_cpus_rejected" "test_validate_config_mounts_rejected"
  by code_simp+

lemma e2b_plain_tests: "test_envd_auth_header env" "test_parse_process_stream_empty env"
  by (simp_all add: test_envd_auth_header_def envd_auth_def test_parse_process_stream_empty_def
      parse_process_stream_def stream_start_def stream_loop.simps)

text \<open>What the tests rely on: JSON reads the texts as the events they are, and base64 is undone.\<close>

definition reads_events :: "'w e2b_env \<Rightarrow> bool" where
  "reads_events env \<longleftrightarrow>
     ee_event env start_json = Inr \<lparr>pe_data = None, pe_end = None\<rparr>
     \<and> (\<forall>t. ee_event env (data_json ''stdout'' t) = Inr \<lparr>pe_data = Some \<lparr>de_stdout = Some t, de_stderr = None\<rparr>, pe_end = None\<rparr>)
     \<and> (\<forall>t. ee_event env (data_json ''stderr'' t) = Inr \<lparr>pe_data = Some \<lparr>de_stdout = None, de_stderr = Some t\<rparr>, pe_end = None\<rparr>)
     \<and> ee_event env (end_json ''0'') = Inr \<lparr>pe_data = None, pe_end = Some 0\<rparr>
     \<and> ee_event env (end_json ''1'') = Inr \<lparr>pe_data = None, pe_end = Some 1\<rparr>
     \<and> ee_trailer_error env ''{}'' = None \<and> ee_trailer_error env error_json = Some ''process killed''
     \<and> (\<forall>s. ee_b64_decode env (ee_b64_encode env s) = Some s)
     \<and> (\<forall>s. length (ee_b64_encode env s) \<le> 2 * length s + 4)"

lemma stream_loop_empty [simp]: "stream_loop env [] acc = Inr acc"
  by (simp add: stream_loop.simps)

lemmas last_event = stream_loop_data[where rest = "[]", simplified]
lemmas last_trailer = stream_loop_trailer[where rest = "[]", simplified]

lemma json_lengths:
  "length start_json = 20" "length (end_json ''0'') = 54" "length (end_json ''1'') = 54" "length error_json = 38"
  "length (data_json ''stdout'' b64) = 22 + length b64" "length (data_json ''stderr'' b64) = 22 + length b64"
  by (simp_all add: start_json_def end_json_def error_json_def data_json_def dq_def)

lemma stream_tests:
  assumes "reads_events env"
  shows "test_parse_process_stream_with_events env" "test_parse_process_stream_with_stderr env"
    "test_parse_process_stream_error_trailer env"
proof -
  note reads = assms[unfolded reads_events_def]
  have "length (ee_b64_encode env s) \<le> 2 * length s + 4" for s
    using reads by blast
  from this[of "''hello world'' @ [CHR 0x0A]"] this[of "''error occurred''"]
  have b64: "length (ee_b64_encode env (''hello world'' @ [CHR 0x0A])) \<le> 28" "length (ee_b64_encode env ''error occurred'') \<le> 32"
    by simp_all
  have utf8: "from_utf8_lossy (''hello world'' @ [CHR 0x0A]) = ''hello world'' @ [CHR 0x0A]"
    "from_utf8_lossy ''error occurred'' = ''error occurred''"
    by (rule from_utf8_lossy_ascii; simp add: is_ascii_def)+
  show "test_parse_process_stream_with_events env"
    using reads b64 utf8 by (simp add: test_parse_process_stream_with_events_def parse_process_stream_def Let_def
        stream_loop_data last_trailer json_lengths apply_event_def decoded_text_def stream_start_def)
  show "test_parse_process_stream_with_stderr env"
    using reads b64 utf8 by (simp add: test_parse_process_stream_with_stderr_def parse_process_stream_def Let_def
        stream_loop_data last_event json_lengths apply_event_def decoded_text_def stream_start_def)
  show "test_parse_process_stream_error_trailer env"
    using reads by (simp add: test_parse_process_stream_error_trailer_def parse_process_stream_def
        last_trailer json_lengths)
qed

subsection \<open>The command line\<close>

definition test_parse_env_vars_happy_path :: bool where
  "test_parse_env_vars_happy_path \<longleftrightarrow> unwraps (parse_env_vars [''FOO=bar'']) (\<lambda>r. hm_get r ''FOO'' = Some ''bar'')"

definition test_parse_env_vars_value_with_equals :: bool where
  "test_parse_env_vars_value_with_equals \<longleftrightarrow> unwraps (parse_env_vars [''A=b=c'']) (\<lambda>r. hm_get r ''A'' = Some ''b=c'')"

definition test_parse_env_vars_malformed :: bool where
  "test_parse_env_vars_malformed \<longleftrightarrow> \<not> is_ok (parse_env_vars [''NOEQUALS''])"

definition test_parse_env_vars_multiple :: bool where
  "test_parse_env_vars_multiple \<longleftrightarrow>
     unwraps (parse_env_vars [''FOO=bar'', ''BAZ=qux''])
       (\<lambda>r. length r = 2 \<and> hm_get r ''FOO'' = Some ''bar'' \<and> hm_get r ''BAZ'' = Some ''qux'')"

definition test_parse_mount_with_mode :: bool where
  "test_parse_mount_with_mode \<longleftrightarrow>
     unwraps (parse_mount ''/host:/container:rw'')
       (\<lambda>m. mc_host_path m = ''/host'' \<and> mc_container_path m = ''/container'' \<and> \<not> mc_readonly m)"

definition test_parse_mount_default_readonly :: bool where
  "test_parse_mount_default_readonly \<longleftrightarrow> unwraps (parse_mount ''/host:/container'') mc_readonly"

definition test_parse_mount_invalid :: bool where
  "test_parse_mount_invalid \<longleftrightarrow>
     \<not> is_ok (parse_mount ''nocolon'') \<and> \<not> is_ok (parse_mount ''/host:/container:xx'')"

definition test_parse_cp_path :: bool where
  "test_parse_cp_path \<longleftrightarrow>
     parse_cp_path ''abc123:/app/file'' = Some (''abc123'', ''/app/file'') \<and> parse_cp_path ''./local.txt'' = None"

lemma cli_tests:
  "test_parse_env_vars_happy_path" "test_parse_env_vars_value_with_equals" "test_parse_env_vars_malformed"
  "test_parse_env_vars_multiple" "test_parse_mount_with_mode" "test_parse_mount_default_readonly"
  "test_parse_mount_invalid" "test_parse_cp_path"
  by code_simp+

end
