(* ===== verification/Spec2Isabelle.thy ===== *)
theory Spec2Isabelle
  imports
    Prelude Runs Rust_Str Rust_Num Rust_Map Rust_Text Rust_Path Float64 Types
    Capabilities Intent Session Session_Spec Wallet Retry Idempotency Idem_Race Pool_Config
    Provider Pool Pool_Race Docker Sensor Wasm Wasm_Runs K8s K8s_Files
    E2b Firecracker Pool_Spec Server Service Cli Cli_Agree Daemon Pool_Owner
    Exec_Once Metering Create Destroy Idle Grant_Docker Bench Unit_Core Unit_Daemon
    Unit_Providers Unit_State Unit_Clients
begin

text \<open>
  A model of Roche, a sandbox orchestrator for the code of agents, and the theorems that make it
  correct. The sources are the Rust crates \<open>roche-core\<close> (data, policies, providers),
  \<open>roche-daemon\<close> (the service, its pools and background tasks) and \<open>roche-cli\<close> (the client), under
  \<open>src/crates\<close>.

  \<^bold>\<open>How the program fits together.\<close> A client command or a call of the protocol reaches a handler of
  the daemon. A creation is served from a pool of idle sandboxes, or else by a provider (Docker,
  Firecracker, Kubernetes, E2B, WASM). An execution passes the idempotency cache, the budget of its
  session and the choice of its provider, runs, and is charged to the session, cached and
  recorded. In the background a reaper trims the pools, a replenisher fills them and a collector
  destroys expired sandboxes. Without a daemon the client calls a provider itself.

  \<^bold>\<open>Conventions.\<close> A string is the list of its UTF-8 bytes. Integers have the width of the source and
  wrap as a release build does (\<open>i32\<close> is \<open>int\<close>: it is only parsed, compared and passed on).
  Floating point numbers are the finite doubles with infinities and NaN (\<open>Float64\<close>). A
  fallible function returns a sum, \<open>Inl\<close> the error; a panic is \<open>None\<close> or a constructor of its
  own. An operation that reaches outside takes a world \<open>'w\<close> and returns it changed: the Docker
  command line, an HTTP API, a Kubernetes API, \<open>wasmtime\<close>, the Firecracker process, the generated
  client and the JSON, TOML and tar libraries are records of functions, so every theorem holds
  whatever they do, unless a named hypothesis says otherwise. Readings of the clock are
  arguments or functions of the world. A \<open>HashMap\<close> is a list of entries with distinct keys
  (\<open>Rust_Map\<close>), whose laws are the locale \<open>keyed_store\<close>.

  \<^bold>\<open>The theories.\<close>
  \<^item> \<open>Prelude\<close>, \<open>Rust_Str\<close>, \<open>Rust_Num\<close>, \<open>Rust_Map\<close>, \<open>Rust_Text\<close>, \<open>Rust_Path\<close>, \<open>Float64\<close>: what the
    source uses of the standard library. \<open>Runs\<close>: runs of operations that keep an invariant
    (\<open>preserving\<close>) or follow a specification (\<open>simulating\<close>), as locales that the sessions, the cache,
    the pools and the service interpret.
  \<^item> \<open>Types\<close> (\<open>types.rs\<close>, the errors of \<open>provider/mod.rs\<close>), \<open>Capabilities\<close>
    (\<open>provider/capabilities.rs\<close> and the \<open>capabilities\<close> of each provider).
  \<^item> \<open>Intent\<close> (\<open>intent.rs\<close>), \<open>Session\<close> (\<open>session.rs\<close>), \<open>Wallet\<close> (\<open>capability.rs\<close>), \<open>Retry\<close>
    (\<open>retry.rs\<close>), \<open>Idempotency\<close> (\<open>idempotency.rs\<close>, with the contract \<open>replay_cache\<close>),
    \<open>Pool_Config\<close> (\<open>pool/config.rs\<close>). \<open>Idem_Race\<close>: a step relation in which requests under
    idempotency keys overlap, with the look-up, the command and the storing as separate steps.
  \<^item> \<open>Session_Spec\<close>: what the session manager promises, told by the history of its operations (who joined
    last, what was charged, what the last change says), and the refinement, answers included.
  \<^item> \<open>Provider\<close>: the traits as the record \<open>provider\<close>, and the locale \<open>sandbox_provider\<close>.
  \<^item> \<open>Docker\<close>, \<open>K8s\<close> and \<open>K8s_Files\<close>, \<open>E2b\<close>, \<open>Firecracker\<close>, \<open>Wasm\<close>: the providers under
    \<open>roche-core/src/provider\<close>, one definition per method, with its error paths in order.
    \<open>Wasm_Runs\<close>: what an execution on WASM runs after any sequence of operations, when it can change the
    files of the host, and that it never uses the engine that compiled its module.
  \<^item> \<open>Sensor\<close> (\<open>sensor/\<close>): the trace collector and the parsers of \<open>docker stats\<close> and \<open>docker diff\<close>.
  \<^item> \<open>Pool\<close> (\<open>pool/mod.rs\<close>, \<open>reaper.rs\<close>, \<open>replenish.rs\<close>): the operations, whole passes of the
    background tasks. \<open>Pool_Race\<close>: a step relation in which their critical sections interleave
    with requests. \<open>Pool_Owner\<close>: the life of a sandbox as a specification (made, idle, lent,
    doomed, gone) that the interleaved pools implement. \<open>Pool_Spec\<close>: what the passes achieve.
  \<^item> \<open>Server\<close> (\<open>server.rs\<close>): every handler. \<open>Service\<close>: a run of the daemon as any sequence of
    handlers and passes, with the invariant of its whole state. \<open>Exec_Once\<close> and \<open>Metering\<close>: what
    such a run does to a cached response and to the account of a session. \<open>Create\<close> and \<open>Destroy\<close>:
    where a sandbox comes from, and what its destruction leaves.
  \<^item> \<open>Grant_Docker\<close>: from the wallet of an agent to the command line of its container.
  \<^item> \<open>Cli\<close> (\<open>roche-cli/src/main.rs\<close>), \<open>Cli_Agree\<close> (the daemon and direct access agree), \<open>Daemon\<close>
    (\<open>roche-daemon/src/main.rs\<close>, \<open>gc.rs\<close>), \<open>Idle\<close>: its idle monitor beside the requests.
  \<^item> \<open>Bench\<close> (\<open>roche-core/examples/bench_wasm.rs\<close>): the benchmark of the WASM and Docker providers, with
    the locale \<open>bench_provider\<close> for what it relies on, and its statistics.
  \<^item> \<open>Unit_Core\<close>, \<open>Unit_Daemon\<close>, \<open>Unit_Providers\<close>, \<open>Unit_State\<close>, \<open>Unit_Clients\<close>: the unit tests of
    the three crates, each a definition with the test's assertions over the model, and the proof
    that the model passes them, for every reading of the clock and every backend.

  \<^bold>\<open>What is shown.\<close>
  \<^item> Isolation: the arguments of \<open>docker create\<close>, read back as a command line, isolate the container
    as configured, unless the image starts with a dash; a configuration is accepted exactly when it violates nothing its provider declares, as
    \<open>FieldSupport\<close> documents it, for the five declarations of the source;
    a grant decides the network, the variables and the mounts of the container made from it; WASM
    sandboxes change the host only through mounts that are not read-only; the words of a command pass
    the shell of a pod unchanged, empty ones excepted, and so do the paths of a copy.
  \<^item> Budgets: what the check decides; that an execution is charged once; that over any run the usage
    of a session is the sum of its executions; by how much concurrent executions exceed a limit.
  \<^item> Pools: the capacity, sequentially and under interleaving (where it can be exceeded); that a
    sandbox is lent to one request at a time and never again once it was given back; what the
    reaper leaves; that the replenisher reaches the minimum; that Firecracker pools stay empty.
  \<^item> The daemon: its invariant from the start on; at most one execution per idempotency key while
    its time to live lasts when requests come one after the other, and no more successes than requests
    that overlap; the history as a log; the life of \<open>daemon.json\<close>; when the idle monitor ends the daemon, also when its subtraction wraps around; where a created sandbox comes from.
  \<^item> The client: over the daemon and directly it does the same on Docker, but for creations,
    destructions, \<open>gc --all\<close> and \<open>list --json\<close>; what it does when creations fail; which provider a command reaches.
  \<^item> Parsers: round trips of exit codes, streams of events, mounts, pool arguments, listings and
    sizes. Providers: all or nothing creation of a machine as long as files do not fail, exact garbage collection, life cycles; a
    benchmark that leaves no sandbox, with statistics that never index out of range.

  \<^bold>\<open>Bounds.\<close> Loops are structural recursion or have a measure, but for two that depend on the
  outside. The wait of a pod to run (\<open>K8s.k8s_create\<close>) has fuel; 121 rounds are enough, since a
  pending round lasts half a second and the deadline is a minute (theorem \<open>k8s_create_returns\<close>). The
  wait for the socket of Firecracker has the 50 rounds of the source.

  \<^bold>\<open>Not modelled.\<close> The parsing of the command line by \<open>clap\<close>, log lines, signals, sockets and the
  timers of the loops; the code generated from the protocol; the crate roots and build scripts;
  the client libraries in other languages with their examples and benchmarks; the integration tests, which need
  Docker, and the unit tests of serde, TOML, wasmtime and of other systems. Handlers run one at a time
  except in the step relations of \<open>Session\<close>, \<open>Pool_Race\<close> and \<open>Idem_Race\<close>, which model the locks where the order
  matters. Files are a map without permissions or links (\<open>Rust_Path\<close>), with a failure of any
  call as a parameter; the process table of Firecracker holds live processes only.
\<close>

end
